(* ===== verification/Prelude.thy ===== *)
theory Prelude
  imports Complex_Main "HOL-Library.Sublist"
begin

text \<open>
  Shared vocabulary of the development: the string operations of the JavaScript standard
  library that the server uses, with the list facts every component relies on.

  A JavaScript string is modelled as a \<open>string\<close> (a list of code units, each an 8-bit
  \<open>char\<close>). The few non-ASCII characters of the message texts are written as their UTF-8
  bytes by the constants of the next section.
  The case mapping and the whitespace class are those of the ASCII range.
\<close>

named_theorems js_simps "rewrite rules of the JavaScript string library"
named_theorems prog_simps "rewrite rules of effectful programs"
named_theorems emits_intros "structural rules for the requests a program may make"

section \<open>Literal characters\<close>

abbreviation nl :: string where "nl \<equiv> [CHR 0x0A]"
abbreviation cr :: string where "cr \<equiv> [CHR 0x0D]"
abbreviation tab :: string where "tab \<equiv> [CHR 0x09]"
abbreviation dquote :: string where "dquote \<equiv> [CHR 0x22]"
abbreviation squote :: string where "squote \<equiv> [CHR 0x27]"
abbreviation bslash :: string where "bslash \<equiv> [CHR 0x5C]"
abbreviation backtick :: string where "backtick \<equiv> [CHR 0x60]"

text \<open>The em dash, en dash, rightwards arrow, degree sign and ellipsis of the messages.\<close>

definition mdash :: string where "mdash = [CHR 0xE2, CHR 0x80, CHR 0x94]"
definition ndash :: string where "ndash = [CHR 0xE2, CHR 0x80, CHR 0x93]"
definition rarrow :: string where "rarrow = [CHR 0xE2, CHR 0x86, CHR 0x92]"
definition degree :: string where "degree = [CHR 0xC2, CHR 0xB0]"
definition ellipsis :: string where "ellipsis = [CHR 0xE2, CHR 0x80, CHR 0xA6]"

section \<open>Prefixes, search, splitting and joining\<close>

definition starts_with :: "string \<Rightarrow> string \<Rightarrow> bool" where
  "starts_with s p = prefix p s"

definition ends_with :: "string \<Rightarrow> string \<Rightarrow> bool" where
  "ends_with s p = suffix p s"

text \<open>\<open>s.includes(t)\<close>.\<close>

fun js_includes :: "'a list \<Rightarrow> 'a list \<Rightarrow> bool" where
  "js_includes [] t = (t = [])"
| "js_includes (c # s) t = (prefix t (c # s) \<or> js_includes s t)"

lemma includes_iff_sublist: "js_includes s t \<longleftrightarrow> sublist t s"
  by (induction s) (auto simp: sublist_Cons_right prefix_imp_sublist)

lemma includes_append: "js_includes (u @ t @ v) t"
  by (auto simp: includes_iff_sublist sublist_def)

lemma includes_E:
  assumes "js_includes s t"
  obtains u v where "s = u @ t @ v"
  using assms by (auto simp: includes_iff_sublist sublist_def)

text \<open>\<open>xs.join(sep)\<close>.\<close>

fun join :: "'a list \<Rightarrow> 'a list list \<Rightarrow> 'a list" where
  "join sep [] = []"
| "join sep [x] = x"
| "join sep (x # y # ys) = x @ sep @ join sep (y # ys)"

lemma join_Cons: "xs \<noteq> [] \<Longrightarrow> join sep (x # xs) = x @ sep @ join sep xs"
  by (cases xs) auto

text \<open>
  \<open>s.split(sep)\<close> for a non-empty separator: cut at every non-overlapping occurrence, from
  the left. \<open>acc\<close> is the piece being collected, in reverse.
\<close>

function split_acc :: "'a list \<Rightarrow> 'a list \<Rightarrow> 'a list \<Rightarrow> 'a list list" where
  "split_acc sep acc [] = [rev acc]"
| "split_acc sep acc (c # s) =
     (if sep \<noteq> [] \<and> prefix sep (c # s)
      then rev acc # split_acc sep [] (drop (length sep) (c # s))
      else split_acc sep (c # acc) s)"
  by pat_completeness auto
termination
  by (relation "measure (\<lambda>(sep, acc, s). length s)") (auto simp: neq_Nil_conv)

definition split_on :: "'a list \<Rightarrow> 'a list \<Rightarrow> 'a list list" where
  "split_on sep s = split_acc sep [] s"

lemma split_acc_nonempty [simp]: "split_acc sep acc s \<noteq> []"
  by (induction sep acc s rule: split_acc.induct) auto

lemma split_on_nonempty [simp]: "split_on sep s \<noteq> []"
  by (simp add: split_on_def)

lemma join_split_acc: "join sep (split_acc sep acc s) = rev acc @ s"
proof (induction sep acc s rule: split_acc.induct)
  case (2 sep acc c s)
  show ?case
  proof (cases "sep \<noteq> [] \<and> prefix sep (c # s)")
    case True
    then have "sep @ drop (length sep) (c # s) = c # s"
      by (auto simp: prefix_def)
    with 2(1)[OF True] True show ?thesis by (simp add: join_Cons)
  next
    case False
    with 2(2) show ?thesis by auto
  qed
qed simp

text \<open>Joining the pieces with the separator they were cut at gives the string back.\<close>

lemma join_split [simp]: "join sep (split_on sep s) = s"
  by (simp add: split_on_def join_split_acc)

text \<open>Pieces without the separator character survive joining and splitting.\<close>

lemma split_acc_piece:
  "d \<notin> set p \<Longrightarrow> split_acc [d] acc (p @ d # s) = (rev acc @ p) # split_acc [d] [] s"
  "d \<notin> set p \<Longrightarrow> split_acc [d] acc p = [rev acc @ p]"
  by (induction p arbitrary: acc) auto

lemma split_on_join: "xs \<noteq> [] \<Longrightarrow> \<forall>x \<in> set xs. d \<notin> set x \<Longrightarrow> split_on [d] (join [d] xs) = xs"
proof (induction xs)
  case (Cons x xs)
  show ?case
  proof (cases "xs = []")
    case True
    with Cons.prems show ?thesis by (simp add: split_on_def split_acc_piece)
  next
    case False
    with Cons show ?thesis by (simp add: split_on_def split_acc_piece join_Cons)
  qed
qed simp

section \<open>Whitespace, case and numbers\<close>

definition is_space :: "char \<Rightarrow> bool" where
  "is_space c = (c \<in> {CHR 0x09, CHR 0x0A, CHR 0x0B, CHR 0x0C, CHR 0x0D, CHR '' ''})"

definition trim_start :: "string \<Rightarrow> string" where
  "trim_start s = dropWhile is_space s"

definition trim_end :: "string \<Rightarrow> string" where
  "trim_end s = rev (dropWhile is_space (rev s))"

definition trim :: "string \<Rightarrow> string" where
  "trim s = trim_end (trim_start s)"

definition is_digit :: "char \<Rightarrow> bool" where
  "is_digit c = (c \<in> set ''0123456789'')"

definition is_upper :: "char \<Rightarrow> bool" where
  "is_upper c = (c \<in> set ''ABCDEFGHIJKLMNOPQRSTUVWXYZ'')"

definition is_lower :: "char \<Rightarrow> bool" where
  "is_lower c = (c \<in> set ''abcdefghijklmnopqrstuvwxyz'')"

definition is_alnum :: "char \<Rightarrow> bool" where
  "is_alnum c = (is_digit c \<or> is_upper c \<or> is_lower c)"

text \<open>The regular-expression class \<open>\w\<close>.\<close>

definition is_word :: "char \<Rightarrow> bool" where
  "is_word c = (is_alnum c \<or> c = CHR ''_'')"

definition lower_char :: "char \<Rightarrow> char" where
  "lower_char c = (if is_upper c then char_of (of_char c + 32 :: nat) else c)"

definition to_lower :: "string \<Rightarrow> string" where
  "to_lower s = map lower_char s"

lemma to_lower_append [simp]: "to_lower (s @ t) = to_lower s @ to_lower t"
  by (simp add: to_lower_def)

definition digit_char :: "nat \<Rightarrow> char" where
  "digit_char n = ''0123456789'' ! n"

fun nat_digits :: "nat \<Rightarrow> string" where
  "nat_digits n = (if n < 10 then [digit_char n] else nat_digits (n div 10) @ [digit_char (n mod 10)])"

declare nat_digits.simps [simp del]

definition show_nat :: "nat \<Rightarrow> string" where
  "show_nat n = nat_digits n"

definition show_int :: "int \<Rightarrow> string" where
  "show_int i = (if i < 0 then ''-'' @ show_nat (nat (- i)) else show_nat (nat i))"

lemma nat_digits_nonempty [simp]: "nat_digits n \<noteq> []"
  by (subst nat_digits.simps) simp

lemma show_nat_nonempty [simp]: "show_nat n \<noteq> []"
  by (simp add: show_nat_def)

lemma digit_char_is_digit: "d < 10 \<Longrightarrow> is_digit (digit_char d)"
  unfolding is_digit_def digit_char_def by (rule nth_mem) simp

lemma nat_digits_digits: "\<forall>c \<in> set (nat_digits n). is_digit c"
proof (induction n rule: nat_digits.induct)
  case (1 n)
  show ?case
  proof (cases "n < 10")
    case True
    then show ?thesis by (subst nat_digits.simps) (simp add: digit_char_is_digit)
  next
    case False
    with 1 have "\<forall>c \<in> set (nat_digits (n div 10)). is_digit c" by simp
    with False show ?thesis by (subst nat_digits.simps) (auto simp: digit_char_is_digit)
  qed
qed

section \<open>Generic list facts\<close>

lemma filter_eq_take_drop_mono: "length (filter P xs) \<le> length xs"
  by simp

lemma prefix_drop: "prefix p s \<Longrightarrow> p @ drop (length p) s = s"
  by (auto simp: prefix_def)

lemmas js_unfold = starts_with_def ends_with_def trim_def trim_start_def trim_end_def

end
