(* ===== verification/Json.thy ===== *)
theory Json
  imports Prelude
begin

text \<open>
  JavaScript values as the server handles them, and \<open>JSON.stringify\<close> / \<open>JSON.parse\<close> of
  the standard library. Objects are association lists in insertion order (integer-like
  keys are not reordered); numbers are rationals.

  That parsing a serialization returns the value is proved in \<open>JsonRoundtrip\<close>.
\<close>

section \<open>Values and property access\<close>

datatype jsval =
    JUndef
  | JNull
  | JBool bool
  | JNum rat
  | JStr string
  | JArr "jsval list"
  | JObj "(string \<times> jsval) list"

abbreviation JInt :: "int \<Rightarrow> jsval" where "JInt i \<equiv> JNum (of_int i)"

text \<open>\<open>obj[k]\<close> on an own property; \<open>undefined\<close> when absent or when the value is no object.\<close>

fun getp :: "jsval \<Rightarrow> string \<Rightarrow> jsval" where
  "getp (JObj ms) k = (case map_of ms k of Some v \<Rightarrow> v | None \<Rightarrow> JUndef)"
| "getp _ k = JUndef"

text \<open>\<open>v == null\<close>: null or undefined.\<close>

definition nullish :: "jsval \<Rightarrow> bool" where
  "nullish v = (v = JUndef \<or> v = JNull)"

text \<open>\<open>{ ...obj, [k]: v }\<close>: replace in place, or append.\<close>

fun upsert :: "'k \<Rightarrow> 'v \<Rightarrow> ('k \<times> 'v) list \<Rightarrow> ('k \<times> 'v) list" where
  "upsert k v [] = [(k, v)]"
| "upsert k v ((k', v') # ms) = (if k = k' then (k, v) # ms else (k', v') # upsert k v ms)"

lemma map_of_upsert [simp]: "map_of (upsert k v ms) = (map_of ms)(k \<mapsto> v)"
  by (induction ms) auto

lemma keys_upsert: "fst ` set (upsert k v ms) = insert k (fst ` set ms)"
  by (induction k v ms rule: upsert.induct) (auto split: if_splits)

lemma distinct_upsert: "distinct (map fst ms) \<Longrightarrow> distinct (map fst (upsert k v ms))"
  by (induction k v ms rule: upsert.induct) (auto simp: keys_upsert)

lemma upsert_fresh: "k \<notin> fst ` set ms \<Longrightarrow> upsert k v ms = ms @ [(k, v)]"
  by (induction ms) auto

section \<open>JSON.stringify\<close>

definition hex_char :: "nat \<Rightarrow> char" where
  "hex_char n = ''0123456789abcdef'' ! n"

text \<open>The escape of one code unit inside a JSON string literal.\<close>

definition esc_char :: "char \<Rightarrow> string" where
  "esc_char c =
     (if c = CHR 0x22 then bslash @ dquote
      else if c = CHR 0x5C then bslash @ bslash
      else if c = CHR 0x08 then bslash @ ''b''
      else if c = CHR 0x0C then bslash @ ''f''
      else if c = CHR 0x0A then bslash @ ''n''
      else if c = CHR 0x0D then bslash @ ''r''
      else if c = CHR 0x09 then bslash @ ''t''
      else if (of_char c :: nat) < 32
           then bslash @ ''u00'' @ [hex_char (of_char c div 16), hex_char (of_char c mod 16)]
      else [c])"

definition esc :: "string \<Rightarrow> string" where
  "esc s = concat (map esc_char s)"

definition json_string :: "string \<Rightarrow> string" where
  "json_string s = dquote @ esc s @ dquote"

text \<open>
  \<open>String(n)\<close>: an integer prints as its decimal digits; a fraction prints its decimal
  expansion (at most \<open>20\<close> places, which covers every finite decimal the server receives).
\<close>

fun frac_digits :: "nat \<Rightarrow> rat \<Rightarrow> string" where
  "frac_digits 0 q = []"
| "frac_digits (Suc n) q =
     (if q = 0 then [] else digit_char (nat \<lfloor>q * 10\<rfloor>) # frac_digits n (q * 10 - of_int \<lfloor>q * 10\<rfloor>))"

definition num_text :: "rat \<Rightarrow> string" where
  "num_text q =
     (if of_int \<lfloor>q\<rfloor> = q then show_int \<lfloor>q\<rfloor>
      else (if q < 0 then ''-'' else []) @ show_int \<lfloor>\<bar>q\<bar>\<rfloor> @ ''.'' @ frac_digits 20 (\<bar>q\<bar> - of_int \<lfloor>\<bar>q\<bar>\<rfloor>))"

text \<open>
  Line break and indentation for a gap of \<open>g\<close> spaces per level (\<open>g = 0\<close>: the compact form).
\<close>

definition brk :: "nat \<Rightarrow> nat \<Rightarrow> string" where
  "brk g i = (if g = 0 then [] else nl @ replicate i (CHR '' ''))"

definition colon :: "nat \<Rightarrow> string" where
  "colon g = (if g = 0 then '':'' else '': '')"

fun ser :: "nat \<Rightarrow> nat \<Rightarrow> jsval \<Rightarrow> string"
  and ser_items :: "nat \<Rightarrow> nat \<Rightarrow> jsval list \<Rightarrow> string list"
  and ser_members :: "nat \<Rightarrow> nat \<Rightarrow> (string \<times> jsval) list \<Rightarrow> string list" where
  "ser g i JUndef = ''null''"
| "ser g i JNull = ''null''"
| "ser g i (JBool b) = (if b then ''true'' else ''false'')"
| "ser g i (JNum q) = num_text q"
| "ser g i (JStr s) = json_string s"
| "ser g i (JArr xs) =
     (if xs = [] then ''[]''
      else ''['' @ brk g (i + g) @ join ('','' @ brk g (i + g)) (ser_items g (i + g) xs) @ brk g i @ '']'')"
| "ser g i (JObj ms) =
     (let ps = ser_members g (i + g) ms
      in if ps = [] then ''{}''
         else ''{'' @ brk g (i + g) @ join ('','' @ brk g (i + g)) ps @ brk g i @ ''}'')"
| "ser_items g i [] = []"
| "ser_items g i (x # xs) = ser g i x # ser_items g i xs"
| "ser_members g i [] = []"
| "ser_members g i ((k, v) # ms) =
     (if v = JUndef then ser_members g i ms
      else (json_string k @ colon g @ ser g i v) # ser_members g i ms)"

text \<open>\<open>JSON.stringify(v)\<close> and \<open>JSON.stringify(v, null, 2)\<close>.\<close>

definition stringify :: "jsval \<Rightarrow> string" where
  "stringify v = ser 0 0 v"

definition stringify2 :: "jsval \<Rightarrow> string" where
  "stringify2 v = ser 2 0 v"

section \<open>JSON.parse\<close>

definition skip_ws :: "string \<Rightarrow> string" where
  "skip_ws s = dropWhile (\<lambda>c. c \<in> {CHR 0x20, CHR 0x09, CHR 0x0A, CHR 0x0D}) s"

definition hex_val :: "char \<Rightarrow> nat option" where
  "hex_val c =
     (let k = (of_char c :: nat)
      in if 48 \<le> k \<and> k \<le> 57 then Some (k - 48)
         else if 97 \<le> k \<and> k \<le> 102 then Some (k - 87)
         else if 65 \<le> k \<and> k \<le> 70 then Some (k - 55) else None)"

text \<open>The UTF-8 bytes of a code unit given by \<open>\u\<close>.\<close>

definition utf8 :: "nat \<Rightarrow> string" where
  "utf8 n =
     (if n < 128 then [char_of n]
      else if n < 2048 then [char_of (192 + n div 64), char_of (128 + n mod 64)]
      else [char_of (224 + n div 4096), char_of (128 + n div 64 mod 64), char_of (128 + n mod 64)])"

text \<open>The body of a string literal after its opening quote: contents and rest of the input.\<close>

fun parse_str :: "string \<Rightarrow> (string \<times> string) option" where
  "parse_str [] = None"
| "parse_str (c # s) =
     (if c = CHR 0x22 then Some ([], s)
      else if c = CHR 0x5C then
        (case s of
           [] \<Rightarrow> None
         | e # s' \<Rightarrow>
             (if e = CHR ''u'' then
                (case s' of
                   a # b # d # f # s'' \<Rightarrow>
                     (case (hex_val a, hex_val b, hex_val d, hex_val f) of
                        (Some w, Some x, Some y, Some z) \<Rightarrow>
                          map_option (\<lambda>(t, r). (utf8 (4096 * w + 256 * x + 16 * y + z) @ t, r)) (parse_str s'')
                      | _ \<Rightarrow> None)
                 | _ \<Rightarrow> None)
              else
                (case map_of [(CHR 0x22, CHR 0x22), (CHR 0x5C, CHR 0x5C), (CHR ''/'', CHR ''/''),
                              (CHR ''b'', CHR 0x08), (CHR ''f'', CHR 0x0C), (CHR ''n'', CHR 0x0A),
                              (CHR ''r'', CHR 0x0D), (CHR ''t'', CHR 0x09)] e of
                   None \<Rightarrow> None
                 | Some x \<Rightarrow> map_option (\<lambda>(t, r). (x # t, r)) (parse_str s'))))
      else if (of_char c :: nat) < 32 then None
      else map_option (\<lambda>(t, r). (c # t, r)) (parse_str s))"

definition digit_val :: "char \<Rightarrow> nat" where
  "digit_val c = (of_char c :: nat) - 48"

definition digits_val :: "string \<Rightarrow> nat" where
  "digits_val ds = foldl (\<lambda>n c. 10 * n + digit_val c) 0 ds"

text \<open>A number literal: sign, integer part, optional fraction, optional exponent.\<close>

definition parse_frac :: "string \<Rightarrow> (rat \<times> string) option" where
  "parse_frac s =
     (case s of
        c # s' \<Rightarrow>
          if c = CHR ''.'' then
            (let ds = takeWhile is_digit s'
             in if ds = [] then None
                else Some (of_nat (digits_val ds) / 10 ^ length ds, dropWhile is_digit s'))
          else Some (0, s)
      | [] \<Rightarrow> Some (0, s))"

definition parse_exp :: "string \<Rightarrow> (rat \<times> string) option" where
  "parse_exp s =
     (case s of
        c # s' \<Rightarrow>
          if c = CHR ''e'' \<or> c = CHR ''E'' then
            (let (neg, s'') = (case s' of
                                 d # r \<Rightarrow> if d = CHR ''-'' then (True, r)
                                          else if d = CHR ''+'' then (False, r) else (False, s')
                               | [] \<Rightarrow> (False, s'));
                 ds = takeWhile is_digit s''
             in if ds = [] then None
                else Some (if neg then 1 / 10 ^ digits_val ds else 10 ^ digits_val ds, dropWhile is_digit s''))
          else Some (1, s)
      | [] \<Rightarrow> Some (1, s))"

definition parse_num :: "string \<Rightarrow> (jsval \<times> string) option" where
  "parse_num s =
     (let (neg, s1) = (case s of c # r \<Rightarrow> if c = CHR ''-'' then (True, r) else (False, s) | [] \<Rightarrow> (False, s));
          ds = takeWhile is_digit s1
      in if ds = [] \<or> (hd ds = CHR ''0'' \<and> length ds > 1) then None
         else case parse_frac (dropWhile is_digit s1) of
                None \<Rightarrow> None
              | Some (f, s2) \<Rightarrow>
                  (case parse_exp s2 of
                     None \<Rightarrow> None
                   | Some (e, s3) \<Rightarrow>
                       Some (JNum ((if neg then - 1 else 1) * (of_nat (digits_val ds) + f) * e), s3)))"

text \<open>
  Values, array items and object members after an opening bracket. The fuel bounds the
  nesting and the number of elements; \<open>json_parse\<close> gives one unit per input character.
\<close>

fun parse_val :: "nat \<Rightarrow> string \<Rightarrow> (jsval \<times> string) option"
  and parse_items :: "nat \<Rightarrow> string \<Rightarrow> (jsval list \<times> string) option"
  and parse_members :: "nat \<Rightarrow> (string \<times> jsval) list \<Rightarrow> string \<Rightarrow> ((string \<times> jsval) list \<times> string) option" where
  "parse_val 0 s = None"
| "parse_val (Suc n) s =
     (case skip_ws s of
        [] \<Rightarrow> None
      | c # r \<Rightarrow>
          if c = CHR 0x22 then map_option (\<lambda>(t, r'). (JStr t, r')) (parse_str r)
          else if c = CHR ''['' then
            (case skip_ws r of
               d # r' \<Rightarrow> if d = CHR '']'' then Some (JArr [], r')
                         else map_option (\<lambda>(xs, r''). (JArr xs, r'')) (parse_items n r)
             | [] \<Rightarrow> None)
          else if c = CHR ''{'' then
            (case skip_ws r of
               d # r' \<Rightarrow> if d = CHR ''}'' then Some (JObj [], r')
                         else map_option (\<lambda>(ms, r''). (JObj ms, r'')) (parse_members n [] r)
             | [] \<Rightarrow> None)
          else if prefix ''null'' (c # r) then Some (JNull, drop 4 (c # r))
          else if prefix ''true'' (c # r) then Some (JBool True, drop 4 (c # r))
          else if prefix ''false'' (c # r) then Some (JBool False, drop 5 (c # r))
          else parse_num (c # r))"
| "parse_items 0 s = None"
| "parse_items (Suc n) s =
     (case parse_val n s of
        None \<Rightarrow> None
      | Some (v, r) \<Rightarrow>
          (case skip_ws r of
             [] \<Rightarrow> None
           | c # r' \<Rightarrow>
               if c = CHR '','' then map_option (\<lambda>(vs, r''). (v # vs, r'')) (parse_items n r')
               else if c = CHR '']'' then Some ([v], r') else None))"
| "parse_members 0 acc s = None"
| "parse_members (Suc n) acc s =
     (case skip_ws s of
        [] \<Rightarrow> None
      | q # s1 \<Rightarrow>
          if q \<noteq> CHR 0x22 then None
          else
            (case parse_str s1 of
               None \<Rightarrow> None
             | Some (k, s2) \<Rightarrow>
                 (case skip_ws s2 of
                    [] \<Rightarrow> None
                  | d # s3 \<Rightarrow>
                      if d \<noteq> CHR '':'' then None
                      else
                        (case parse_val n s3 of
                           None \<Rightarrow> None
                         | Some (v, s4) \<Rightarrow>
                             (case skip_ws s4 of
                                [] \<Rightarrow> None
                              | e # s5 \<Rightarrow>
                                  if e = CHR '','' then parse_members n (upsert k v acc) s5
                                  else if e = CHR ''}'' then Some (upsert k v acc, s5) else None)))))"

text \<open>\<open>JSON.parse\<close>: \<open>None\<close> is the SyntaxError.\<close>

definition json_parse :: "string \<Rightarrow> jsval option" where
  "json_parse s =
     (case parse_val (Suc (length s)) s of
        Some (v, r) \<Rightarrow> (if skip_ws r = [] then Some v else None)
      | None \<Rightarrow> None)"

end
