(* ===== verification/HttpTransport.thy ===== *)
theory HttpTransport
  imports Json
begin

text \<open>
  HTTP routing (\<open>src/transport/http.ts\<close>): method and path check, bearer token, body size cap,
  and the mapping of failures to JSON-RPC errors. The MCP handling behind the routing (the SDK
  transport, or the session store) is an argument; so is the SHA-256 digest.
\<close>

section \<open>Requests\<close>

record http_request =
  req_method :: string
  req_url :: "string option"
  req_authorization :: "string option"
  req_session :: "string option"
  req_chunks :: "string list"

definition MAX_BODY_BYTES :: nat where "MAX_BODY_BYTES = 1000000"
definition MCP_PATH :: string where "MCP_PATH = ''/mcp''"
definition BEARER_PREFIX :: string where "BEARER_PREFIX = ''Bearer ''"

definition isSupportedMethod :: "string \<Rightarrow> bool \<Rightarrow> bool" where
  "isSupportedMethod m sessions =
     (if sessions then m \<in> {''POST'', ''GET'', ''DELETE''} else m = ''POST'')"

section \<open>The request path\<close>

text \<open>
  \<open>new URL(url, "http://localhost").pathname\<close>, as the URL standard computes it for the special
  schemes: backslashes are slashes, a leading \<open>//\<close> or \<open>http://\<close> introduces an authority (an
  empty one is an error), and dot segments are removed. Characters that the parser would
  percent-encode are left as they are.
\<close>

definition slashes :: "string \<Rightarrow> string" where
  "slashes s = map (\<lambda>c. if c = CHR 0x5C then CHR ''/'' else c) s"

definition single_dot :: "string \<Rightarrow> bool" where
  "single_dot s = (to_lower s \<in> {''.'', ''%2e''})"

definition double_dot :: "string \<Rightarrow> bool" where
  "double_dot s = (to_lower s \<in> {''..'', ''.%2e'', ''%2e.'', ''%2e%2e''})"

text \<open>Segments of the path so far, in reverse; a trailing dot segment leaves an empty last one.\<close>

fun path_segments :: "string list \<Rightarrow> string list \<Rightarrow> string list" where
  "path_segments acc [] = rev acc"
| "path_segments acc (s # ss) =
     (if double_dot s then path_segments (if ss = [] then [] # tl acc else tl acc) ss
      else if single_dot s then path_segments (if ss = [] then [] # acc else acc) ss
      else path_segments (s # acc) ss)"

definition normalize_path :: "string \<Rightarrow> string" where
  "normalize_path p = ''/'' @ join ''/'' (path_segments [] (split_on ''/'' (dropWhile (\<lambda>c. c = CHR ''/'') (take 1 p) @ drop 1 p)))"

definition after_authority :: "string \<Rightarrow> string option" where
  "after_authority s =
     (let r = dropWhile (\<lambda>c. c = CHR ''/'') s
      in if takeWhile (\<lambda>c. c \<noteq> CHR ''/'') r = [] then None
         else Some (dropWhile (\<lambda>c. c \<noteq> CHR ''/'') r))"

definition url_pathname :: "string \<Rightarrow> string option" where
  "url_pathname url =
     (let s = slashes (takeWhile (\<lambda>c. c \<noteq> CHR ''?'' \<and> c \<noteq> CHR ''#'') url);
          target = (if starts_with (to_lower s) ''http://'' then after_authority (drop 7 s)
                    else if starts_with (to_lower s) ''https://'' then after_authority (drop 8 s)
                    else if starts_with s ''//'' then after_authority s
                    else Some s)
      in map_option normalize_path target)"

text \<open>\<open>None\<close>: the URL constructor throws.\<close>

definition requestPath :: "http_request \<Rightarrow> string option" where
  "requestPath request =
     map_option (\<lambda>p. if length p > 1 \<and> ends_with p ''/'' then butlast p else p)
       (url_pathname (case req_url request of None \<Rightarrow> ''/'' | Some u \<Rightarrow> u))"

section \<open>The body\<close>

datatype body_error = PayloadTooLarge | BadJson

fun read_chunks :: "nat \<Rightarrow> nat \<Rightarrow> string list \<Rightarrow> string list option" where
  "read_chunks maxBytes sofar [] = Some []"
| "read_chunks maxBytes sofar (c # cs) =
     (if sofar + length c > maxBytes then None
      else map_option (\<lambda>r. c # r) (read_chunks maxBytes (sofar + length c) cs))"

definition readJsonBody :: "string list \<Rightarrow> nat \<Rightarrow> body_error + jsval" where
  "readJsonBody chunks maxBytes =
     (case read_chunks maxBytes 0 chunks of
        None \<Rightarrow> Inl PayloadTooLarge
      | Some cs \<Rightarrow>
          (let raw = concat cs
           in if length raw > 0
              then (case json_parse raw of None \<Rightarrow> Inl BadJson | Some v \<Rightarrow> Inr v)
              else Inr JUndef))"

section \<open>Authorization\<close>

definition tokensMatch :: "(string \<Rightarrow> string) \<Rightarrow> string \<Rightarrow> string \<Rightarrow> bool" where
  "tokensMatch digest provided expected = (digest provided = digest expected)"

definition extractBearerToken :: "http_request \<Rightarrow> string option" where
  "extractBearerToken request =
     (case req_authorization request of
        None \<Rightarrow> None
      | Some h \<Rightarrow> if starts_with h BEARER_PREFIX then Some (drop (length BEARER_PREFIX) h) else None)"

definition isAuthorized :: "(string \<Rightarrow> string) \<Rightarrow> http_request \<Rightarrow> string option \<Rightarrow> bool" where
  "isAuthorized digest request expectedToken =
     (case expectedToken of
        None \<Rightarrow> True
      | Some expected \<Rightarrow>
          (case extractBearerToken request of None \<Rightarrow> False | Some provided \<Rightarrow> tokensMatch digest provided expected))"

section \<open>Responses\<close>

record http_response =
  status :: nat
  headers :: "(string \<times> string) list"
  body :: string

definition json_header :: "string \<times> string" where
  "json_header = (''content-type'', ''application/json'')"

definition rpc_error_body :: "int \<Rightarrow> string \<Rightarrow> string" where
  "rpc_error_body code message =
     stringify (JObj [(''jsonrpc'', JStr ''2.0''),
                      (''error'', JObj [(''code'', JInt code), (''message'', JStr message)]),
                      (''id'', JNull)])"

definition rpc_error :: "nat \<Rightarrow> int \<Rightarrow> string \<Rightarrow> http_response" where
  "rpc_error s code message = \<lparr>status = s, headers = [json_header], body = rpc_error_body code message\<rparr>"

definition writeUnauthorized :: http_response where
  "writeUnauthorized =
     \<lparr>status = 401, headers = [json_header, (''www-authenticate'', ''Bearer'')],
      body = rpc_error_body (-32001) ''Unauthorized: missing or invalid bearer token''\<rparr>"

definition writeNotFound :: http_response where
  "writeNotFound =
     \<lparr>status = 404, headers = [json_header],
      body = stringify (JObj [(''error'', JStr ''Not found. POST JSON-RPC to /mcp.'')])\<rparr>"

text \<open>
  \<open>writeJsonRpcError\<close>: with headers already sent, the response is only ended.
\<close>

datatype http_outcome =
    Wrote http_response
  | Ended
  | Handled
  | Fatal  \<comment> \<open>the route itself throws; the server answers a bare 500\<close>

definition writeJsonRpcError :: "bool \<Rightarrow> nat \<Rightarrow> int \<Rightarrow> string \<Rightarrow> http_outcome" where
  "writeJsonRpcError headersSent s code message =
     (if headersSent then Ended else Wrote (rpc_error s code message))"

section \<open>Routing\<close>

text \<open>How handling an authorized request ends: done, or a throw with the headers sent or not.\<close>

datatype handler_end = HandlerDone | HandlerThrew bool bool  \<comment> \<open>is SyntaxError, headers sent\<close>

record http_options =
  bearerToken :: "string option"
  sessionStore :: bool

text \<open>The bytes a request makes the server parse, and the outcome of the read.\<close>

definition request_body :: "http_options \<Rightarrow> http_request \<Rightarrow> body_error + jsval" where
  "request_body options request =
     (if \<not> sessionStore options \<or> req_method request = ''POST''
      then readJsonBody (req_chunks request) MAX_BODY_BYTES else Inr JUndef)"

text \<open>
  \<open>handle\<close> is the MCP side: it is given the request and its parsed body. The second component
  of the result says what was dispatched to it, if anything.
\<close>

definition routeRequest ::
  "(string \<Rightarrow> string) \<Rightarrow> (http_request \<Rightarrow> jsval \<Rightarrow> handler_end) \<Rightarrow> http_options \<Rightarrow> http_request
    \<Rightarrow> http_outcome \<times> jsval option" where
  "routeRequest digest handle options request =
     (if \<not> isSupportedMethod (req_method request) (sessionStore options) then (Wrote writeNotFound, None)
      else (case requestPath request of
              None \<Rightarrow> (Fatal, None)
            | Some p \<Rightarrow>
                if p \<noteq> MCP_PATH then (Wrote writeNotFound, None)
                else if \<not> isAuthorized digest request (bearerToken options) then (Wrote writeUnauthorized, None)
                else (case request_body options request of
                        Inl PayloadTooLarge \<Rightarrow> (writeJsonRpcError False 413 (-32700) ''Request body too large'', None)
                      | Inl BadJson \<Rightarrow> (writeJsonRpcError False 400 (-32700) ''Parse error'', None)
                      | Inr v \<Rightarrow>
                          (case handle request v of
                             HandlerDone \<Rightarrow> (Handled, Some v)
                           | HandlerThrew isSyntax sent \<Rightarrow>
                               (if isSyntax then writeJsonRpcError sent 400 (-32700) ''Parse error''
                                else writeJsonRpcError sent 500 (-32603) ''Internal server error'', Some v)))))"

section \<open>Lemmas\<close>

lemma read_chunks_Some:
  "read_chunks m n cs = (if cs = [] \<or> n + length (concat cs) \<le> m then Some cs else None)"
proof (induction m n cs rule: read_chunks.induct)
  case (2 m n c cs)
  then show ?case by (cases "cs = []") (simp_all add: add.assoc)
qed simp

lemma readJsonBody_spec:
  "readJsonBody chunks m =
     (if length (concat chunks) > m then Inl PayloadTooLarge
      else if concat chunks = [] then Inr JUndef
      else case json_parse (concat chunks) of None \<Rightarrow> Inl BadJson | Some v \<Rightarrow> Inr v)"
  by (auto simp: readJsonBody_def read_chunks_Some Let_def split: option.splits)

lemma route_dispatches:
  assumes "routeRequest digest handle options request = (out, Some v)"
  shows "isSupportedMethod (req_method request) (sessionStore options)" "requestPath request = Some MCP_PATH"
    "isAuthorized digest request (bearerToken options)" "request_body options request = Inr v"
  using assms
  by (auto simp: routeRequest_def split: if_splits option.splits sum.splits body_error.splits handler_end.splits)

lemma isAuthorized_iff:
  assumes "inj digest"
  shows "isAuthorized digest request (Some token) \<longleftrightarrow> req_authorization request = Some (BEARER_PREFIX @ token)"
proof (cases "req_authorization request")
  case None
  then show ?thesis by (simp add: isAuthorized_def extractBearerToken_def)
next
  case (Some h)
  show ?thesis
  proof (cases "starts_with h BEARER_PREFIX")
    case True
    then obtain t where "h = BEARER_PREFIX @ t" by (auto simp: starts_with_def prefix_def)
    with Some True show ?thesis
      by (simp add: isAuthorized_def extractBearerToken_def tokensMatch_def inj_eq [OF assms])
  next
    case False
    then have "h \<noteq> BEARER_PREFIX @ token" by (auto simp: starts_with_def)
    with Some False show ?thesis by (simp add: isAuthorized_def extractBearerToken_def)
  qed
qed

end
