(* ===== verification/HttpSessions.thy ===== *)
theory HttpSessions
  imports HttpTransport
begin

text \<open>
  Stateful HTTP sessions (\<open>src/transport/http-sessions.ts\<close>): one transport per session, routed
  by the \<open>mcp-session-id\<close> header, with idle expiry and teardown. The SDK transport is
  represented by a number; how it answers a request is an argument of the operations.
\<close>

definition SESSION_IDLE_EXPIRY_MS :: int where "SESSION_IDLE_EXPIRY_MS = 300000"
definition SESSION_SWEEP_INTERVAL_MS :: int where "SESSION_SWEEP_INTERVAL_MS = 60000"

record session_record =
  transport :: nat
  lastSeenAt :: int
  streaming :: bool

text \<open>
  \<open>built\<close> counts the transports built so far and \<open>closedPairs\<close> lists those that were closed;
  \<open>streams\<close> lists the GET responses still open, with their transport.
\<close>

record session_store =
  sessions :: "(string \<times> session_record) list"
  built :: nat
  closedPairs :: "nat list"
  streams :: "(nat \<times> nat) list"

definition newSessionStore :: session_store where
  "newSessionStore = \<lparr>sessions = [], built = 0, closedPairs = [], streams = []\<rparr>"

text \<open>What the SDK transport does with one request.\<close>

record transport_reply =
  initialized_as :: "string option"  \<comment> \<open>the session id it reported, if any\<close>
  threw :: bool

definition is_initialize :: "jsval \<Rightarrow> bool" where
  "is_initialize message = (getp message ''method'' = JStr ''initialize'')"

definition isInitializeRequest :: "jsval \<Rightarrow> bool" where
  "isInitializeRequest b = (\<exists>m \<in> set (case b of JArr ms \<Rightarrow> ms | _ \<Rightarrow> [b]). is_initialize m)"

definition readSessionId :: "http_request \<Rightarrow> string option" where
  "readSessionId request =
     (case req_session request of None \<Rightarrow> None | Some h \<Rightarrow> if length h > 0 then Some h else None)"

datatype session_outcome =
    SessionError nat string
  | Transported nat
  | TransportThrew nat

definition session_error_response :: "nat \<Rightarrow> string \<Rightarrow> http_response" where
  "session_error_response s message = \<lparr>status = s, headers = [json_header], body = rpc_error_body (-32600) message\<rparr>"

section \<open>Operations\<close>

definition drop_session :: "string \<Rightarrow> session_store \<Rightarrow> session_store" where
  "drop_session i st =
     (case map_of (sessions st) i of
        None \<Rightarrow> st
      | Some r \<Rightarrow> st\<lparr>sessions := filter (\<lambda>(j, q). j \<noteq> i) (sessions st), closedPairs := closedPairs st @ [transport r]\<rparr>)"

text \<open>A GET marks the session as streaming until its response closes.\<close>

definition trackStream :: "nat \<Rightarrow> string \<Rightarrow> session_record \<Rightarrow> session_store \<Rightarrow> session_store" where
  "trackStream response i r st =
     st\<lparr>sessions := upsert i (r\<lparr>streaming := True\<rparr>) (sessions st), streams := streams st @ [(response, transport r)]\<rparr>"

definition streamClosed :: "int \<Rightarrow> nat \<Rightarrow> session_store \<Rightarrow> session_store" where
  "streamClosed nowMs response st =
     (case map_of (streams st) response of
        None \<Rightarrow> st
      | Some t \<Rightarrow>
          st\<lparr>streams := filter (\<lambda>(q, u). q \<noteq> response) (streams st),
             sessions := map (\<lambda>(i, r). if transport r = t then (i, r\<lparr>streaming := False, lastSeenAt := nowMs\<rparr>) else (i, r))
                             (sessions st)\<rparr>)"

definition handleExisting ::
  "int \<Rightarrow> nat \<Rightarrow> string \<Rightarrow> http_request \<Rightarrow> transport_reply \<Rightarrow> session_store \<Rightarrow> session_outcome \<times> session_store" where
  "handleExisting nowMs response i request reply st =
     (case map_of (sessions st) i of
        None \<Rightarrow> (SessionError 404 ''Session not found or expired'', st)
      | Some r0 \<Rightarrow>
          (let r = r0\<lparr>lastSeenAt := nowMs\<rparr>;
               st1 = st\<lparr>sessions := upsert i r (sessions st)\<rparr>;
               st2 = (if req_method request = ''GET'' then trackStream response i r st1 else st1)
           in if threw reply then (TransportThrew (transport r), st2)
              else (Transported (transport r),
                    if req_method request = ''DELETE'' then drop_session i st2 else st2)))"

definition createSession :: "int \<Rightarrow> transport_reply \<Rightarrow> session_store \<Rightarrow> session_outcome \<times> session_store" where
  "createSession nowMs reply st =
     (let t = built st;
          st1 = st\<lparr>built := t + 1\<rparr>;
          st2 = (case initialized_as reply of
                   None \<Rightarrow> st1
                 | Some i \<Rightarrow> st1\<lparr>sessions := upsert i \<lparr>transport = t, lastSeenAt = nowMs, streaming = False\<rparr> (sessions st1)\<rparr>)
      in if threw reply then (TransportThrew t, st2)
         else (Transported t,
               if initialized_as reply = None then st2\<lparr>closedPairs := closedPairs st2 @ [t]\<rparr> else st2))"

definition session_handle ::
  "int \<Rightarrow> nat \<Rightarrow> http_request \<Rightarrow> jsval \<Rightarrow> transport_reply \<Rightarrow> session_store \<Rightarrow> session_outcome \<times> session_store" where
  "session_handle nowMs response request b reply st =
     (case readSessionId request of
        Some i \<Rightarrow> handleExisting nowMs response i request reply st
      | None \<Rightarrow>
          if \<not> isInitializeRequest b
          then (SessionError 400 ''Missing mcp-session-id header; initialize a session first'', st)
          else createSession nowMs reply st)"

definition expired :: "int \<Rightarrow> session_record \<Rightarrow> bool" where
  "expired nowMs r = (\<not> streaming r \<and> nowMs - lastSeenAt r > SESSION_IDLE_EXPIRY_MS)"

definition session_sweep :: "int \<Rightarrow> session_store \<Rightarrow> session_store" where
  "session_sweep nowMs st =
     foldl (\<lambda>s (i, r). if expired nowMs r then drop_session i s else s) st (sessions st)"

section \<open>Sweeping removes exactly the expired sessions\<close>

definition store_ok :: "session_store \<Rightarrow> bool" where
  "store_ok st \<longleftrightarrow> distinct (map fst (sessions st)) \<and> distinct (map (transport \<circ> snd) (sessions st))
     \<and> distinct (closedPairs st)
     \<and> (\<forall>t \<in> set (map (transport \<circ> snd) (sessions st)). t < built st \<and> t \<notin> set (closedPairs st))
     \<and> (\<forall>t \<in> set (closedPairs st). t < built st)"

lemma newSessionStore_ok: "store_ok newSessionStore"
  by (simp add: store_ok_def newSessionStore_def)

lemma sweep_fold:
  "distinct (map fst rs) \<Longrightarrow> (\<And>i r. (i, r) \<in> set rs \<Longrightarrow> map_of (sessions st) i = Some r) \<Longrightarrow>
   sessions (foldl (\<lambda>s (i, r). if expired now r then drop_session i s else s) st rs)
     = filter (\<lambda>(j, q). \<not> (\<exists>r. (j, r) \<in> set rs \<and> expired now r)) (sessions st)
   \<and> closedPairs (foldl (\<lambda>s (i, r). if expired now r then drop_session i s else s) st rs)
     = closedPairs st @ map (transport \<circ> snd) (filter (\<lambda>(i, r). expired now r) rs)
   \<and> built (foldl (\<lambda>s (i, r). if expired now r then drop_session i s else s) st rs) = built st"
proof (induction rs arbitrary: st)
  case (Cons x rs)
  obtain i r where x: "x = (i, r)" by (cases x)
  have i: "i \<notin> fst ` set rs" and d: "distinct (map fst rs)" using Cons.prems(1) by (auto simp: x)
  have look: "map_of (sessions st) i = Some r" using Cons.prems(2) by (simp add: x)
  show ?case
  proof (cases "expired now r")
    case False
    have *: "\<And>j q. (j, q) \<in> set rs \<Longrightarrow> map_of (sessions st) j = Some q" using Cons.prems(2) by simp
    from False Cons.IH [OF d *] show ?thesis by (auto simp: x intro!: filter_cong)
  next
    case True
    let ?st = "drop_session i st"
    have st': "sessions ?st = filter (\<lambda>(j, q). j \<noteq> i) (sessions st)" "closedPairs ?st = closedPairs st @ [transport r]" "built ?st = built st"
      using look by (auto simp: drop_session_def)
    have *: "map_of (sessions ?st) j = Some q" if "(j, q) \<in> set rs" for j q
    proof -
      have "j \<noteq> i" using that i by force
      moreover have "map_of (sessions st) j = Some q" using that Cons.prems(2) by simp
      moreover have "map_of (filter (\<lambda>(j, q). j \<noteq> i) ms) j = map_of ms j" if "j \<noteq> i" for ms :: "(string \<times> session_record) list"
        using that by (induction ms) auto
      ultimately show ?thesis by (simp add: st')
    qed
    from True Cons.IH [OF d *] show ?thesis
      by (auto simp: x st' intro!: filter_cong)
  qed
qed simp

lemma sweep_spec:
  assumes "distinct (map fst (sessions st))"
  shows "sessions (session_sweep now st) = filter (\<lambda>(i, r). \<not> expired now r) (sessions st)"
    and "closedPairs (session_sweep now st) = closedPairs st @ map (transport \<circ> snd) (filter (\<lambda>(i, r). expired now r) (sessions st))"
    and "built (session_sweep now st) = built st"
proof -
  have look: "\<And>i r. (i, r) \<in> set (sessions st) \<Longrightarrow> map_of (sessions st) i = Some r"
    using assms by simp
  note f = sweep_fold [OF assms look, of now, folded session_sweep_def]
  show "closedPairs (session_sweep now st) = closedPairs st @ map (transport \<circ> snd) (filter (\<lambda>(i, r). expired now r) (sessions st))"
    "built (session_sweep now st) = built st" using f by auto
  have "filter (\<lambda>(j, q). \<not> (\<exists>r. (j, r) \<in> set (sessions st) \<and> expired now r)) (sessions st)
      = filter (\<lambda>(i, r). \<not> expired now r) (sessions st)"
    using assms by (auto intro!: filter_cong dest: eq_key_imp_eq_value)
  with f show "sessions (session_sweep now st) = filter (\<lambda>(i, r). \<not> expired now r) (sessions st)" by simp
qed

section \<open>Transports are never shared and never used after they are closed\<close>

lemma store_ok_update:
  assumes "store_ok st" "map_of (sessions st) i = Some r" "transport r' = transport r"
    "built st' = built st" "closedPairs st' = closedPairs st" "sessions st' = upsert i r' (sessions st)"
  shows "store_ok st'"
proof -
  have *: "map fst (upsert i r' ms) = map fst ms \<and> map (transport \<circ> snd) (upsert i r' ms) = map (transport \<circ> snd) ms"
    if "map_of ms i = Some r" for ms
    using that assms(3) by (induction ms) (auto split: if_splits)
  from * [OF assms(2)] assms(1,4-6) show ?thesis unfolding store_ok_def by (simp only: simp_thms) blast
qed

lemma drop_session_ok:
  assumes "store_ok st"
  shows "store_ok (drop_session i st)"
proof (cases "map_of (sessions st) i")
  case None
  with assms show ?thesis by (simp add: drop_session_def)
next
  case (Some r)
  let ?f = "filter (\<lambda>(j, q). j \<noteq> i) (sessions st)"
  have mem: "(i, r) \<in> set (sessions st)" using Some by (rule map_of_SomeD)
  have other: "transport q \<noteq> transport r" if "(j, q) \<in> set ?f" for j q
  proof
    assume eq: "transport q = transport r"
    have "inj_on (transport \<circ> snd) (set (sessions st))" using assms by (simp add: store_ok_def distinct_map)
    from inj_onD [OF this, of "(j, q)" "(i, r)"] that mem eq show False by auto
  qed
  have "distinct (map (transport \<circ> snd) ?f)" "distinct (map fst ?f)"
    using assms by (auto simp: store_ok_def intro: distinct_map_filter)
  moreover have "t < built st \<and> t \<notin> set (closedPairs st) \<and> t \<noteq> transport r"
    if "t \<in> set (map (transport \<circ> snd) ?f)" for t
  proof -
    from that obtain j q where q: "(j, q) \<in> set ?f" "t = transport q" by auto
    then have "t \<in> set (map (transport \<circ> snd) (sessions st))" by force
    with assms have "t < built st" "t \<notin> set (closedPairs st)" unfolding store_ok_def by blast+
    with other [OF q(1)] q(2) show ?thesis by simp
  qed
  moreover have "transport r < built st" "transport r \<notin> set (closedPairs st)"
  proof -
    have "transport r \<in> set (map (transport \<circ> snd) (sessions st))" using mem by force
    then show "transport r < built st" "transport r \<notin> set (closedPairs st)" using assms unfolding store_ok_def by blast+
  qed
  ultimately show ?thesis using assms Some
     by (simp add: store_ok_def drop_session_def)
qed

lemma trackStream_ok:
  assumes "store_ok st" "map_of (sessions st) i = Some r"
  shows "store_ok (trackStream q i r st)"
  by (rule store_ok_update [OF assms, of "r\<lparr>streaming := True\<rparr>"]) (simp_all add: trackStream_def)

lemma handleExisting_ok: "store_ok st \<Longrightarrow> store_ok (snd (handleExisting now q i request reply st))"
proof (cases "map_of (sessions st) i")
  case (Some r0)
  assume ok: "store_ok st"
  let ?r = "r0\<lparr>lastSeenAt := now\<rparr>"
  let ?st1 = "st\<lparr>sessions := upsert i ?r (sessions st)\<rparr>"
  have 1: "store_ok ?st1" by (rule store_ok_update [OF ok Some, of ?r]) simp_all
  have 2: "store_ok (trackStream q i ?r ?st1)" by (rule trackStream_ok [OF 1]) simp
  from 1 2 Some show ?thesis by (auto simp: handleExisting_def Let_def drop_session_ok)
qed (simp add: handleExisting_def)

lemma streamClosed_ok:
  assumes "store_ok st"
  shows "store_ok (streamClosed now q st)"
proof (cases "map_of (streams st) q")
  case (Some t)
  let ?g = "\<lambda>(i, r). if transport r = t then (i, r\<lparr>streaming := False, lastSeenAt := now\<rparr>) else (i, r)"
  have fst: "fst \<circ> ?g = fst" and tr: "(transport \<circ> snd) \<circ> ?g = transport \<circ> snd"
    by (auto simp: fun_eq_iff)
  have "map fst (map ?g (sessions st)) = map fst (sessions st)"
    "map (transport \<circ> snd) (map ?g (sessions st)) = map (transport \<circ> snd) (sessions st)"
    by (simp_all only: map_map fst tr)
  moreover have "sessions (streamClosed now q st) = map ?g (sessions st)"
    "built (streamClosed now q st) = built st" "closedPairs (streamClosed now q st) = closedPairs st"
    using Some by (simp_all add: streamClosed_def)
  ultimately show ?thesis using assms unfolding store_ok_def by (simp only: simp_thms) blast
qed (use assms in \<open>simp add: streamClosed_def\<close>)

text \<open>Fresh session ids: the SDK generates random UUIDs.\<close>

lemma createSession_ok:
  assumes "store_ok st" "\<forall>i. initialized_as reply = Some i \<longrightarrow> i \<notin> fst ` set (sessions st)"
  shows "store_ok (snd (createSession now reply st))"
proof (cases "initialized_as reply")
  case None
  with assms(1) show ?thesis by (fastforce simp: store_ok_def createSession_def Let_def)
next
  case (Some i)
  with assms have u: "upsert i x (sessions st) = sessions st @ [(i, x)]" for x by (simp add: upsert_fresh)
  from Some assms show ?thesis
    by (fastforce simp: store_ok_def createSession_def Let_def u)
qed

lemma session_handle_ok:
  assumes "store_ok st" "\<forall>i. initialized_as reply = Some i \<longrightarrow> i \<notin> fst ` set (sessions st)"
  shows "store_ok (snd (session_handle now q request b reply st))"
  using handleExisting_ok [OF assms(1)] createSession_ok [OF assms] assms(1)
  by (auto simp: session_handle_def split: option.splits)

lemma session_sweep_ok:
  assumes "store_ok st"
  shows "store_ok (session_sweep now st)"
proof -
  have "store_ok (foldl (\<lambda>s (i, r). if expired now r then drop_session i s else s) s rs)" if "store_ok s" for s rs
    using that by (induction rs arbitrary: s) (auto simp: drop_session_ok)
  with assms show ?thesis by (simp add: session_sweep_def)
qed

section \<open>Runs\<close>

datatype session_op =
    Request int nat http_request jsval transport_reply
  | StreamEnds int nat
  | Sweep int

definition session_step :: "session_store \<Rightarrow> session_op \<Rightarrow> session_store" where
  "session_step st x =
     (case x of
        Request now q request b reply \<Rightarrow> snd (session_handle now q request b reply st)
      | StreamEnds now q \<Rightarrow> streamClosed now q st
      | Sweep now \<Rightarrow> session_sweep now st)"

definition fresh_id :: "session_store \<Rightarrow> session_op \<Rightarrow> bool" where
  "fresh_id st x =
     (case x of
        Request now q request b reply \<Rightarrow>
          (case initialized_as reply of None \<Rightarrow> True | Some i \<Rightarrow> i \<notin> fst ` set (sessions st))
      | _ \<Rightarrow> True)"

inductive session_reach :: "session_store \<Rightarrow> bool" where
  session_init: "session_reach newSessionStore"
| session_next: "session_reach st \<Longrightarrow> fresh_id st x \<Longrightarrow> session_reach (session_step st x)"

lemma session_reach_ok: "session_reach st \<Longrightarrow> store_ok st"
proof (induction rule: session_reach.induct)
  case session_init
  show ?case by (rule newSessionStore_ok)
next
  case (session_next st x)
  then show ?case
    by (cases x) (auto simp: session_step_def fresh_id_def session_handle_ok streamClosed_ok session_sweep_ok
        split: option.splits)
qed

end
