(* ===== verification/JsNumber.thy ===== *)
theory JsNumber
  imports Json
begin

text \<open>
  Numbers as the tools format and read them: the standard library's \<open>Number(s)\<close>,
  \<open>parseInt\<close>, \<open>Math.round\<close> and \<open>toFixed\<close>, and \<open>src/tools/_shared/format-bytes.ts\<close>.
  A JavaScript number is a rational or one of the non-finite values.
\<close>

datatype js_num = Finite rat | NonFinite

section \<open>Standard library\<close>

definition math_round :: "rat \<Rightarrow> int" where
  "math_round q = \<lfloor>q + 1 / 2\<rfloor>"

text \<open>\<open>q.toFixed(d)\<close>: the nearest multiple of \<open>10 ^ -d\<close>, ties to the larger magnitude.\<close>

definition pad_left :: "nat \<Rightarrow> char \<Rightarrow> string \<Rightarrow> string" where
  "pad_left n c s = replicate (n - length s) c @ s"

definition to_fixed :: "nat \<Rightarrow> rat \<Rightarrow> string" where
  "to_fixed d q =
     (let n = nat \<lfloor>\<bar>q\<bar> * 10 ^ d + 1 / 2\<rfloor>;
          body = show_nat (n div 10 ^ d) @
                 (if d = 0 then [] else ''.'' @ pad_left d (CHR ''0'') (show_nat (n mod 10 ^ d)))
      in (if q < 0 then ''-'' else []) @ body)"

text \<open>Value of a digit string in a radix up to 16; \<open>None\<close> on a bad or missing digit.\<close>

definition radix_val :: "nat \<Rightarrow> string \<Rightarrow> nat option" where
  "radix_val r s =
     (if s = [] then None
      else foldl (\<lambda>acc c. case (acc, hex_val c) of
                            (Some a, Some d) \<Rightarrow> if d < r then Some (a * r + d) else None
                          | _ \<Rightarrow> None) (Some 0) s)"

text \<open>An unsigned decimal literal: digits, a fraction, an exponent.\<close>

definition dec_literal :: "string \<Rightarrow> rat option" where
  "dec_literal s =
     (let ds = takeWhile is_digit s; r = dropWhile is_digit s;
          (fs, r') = (case r of c # t \<Rightarrow> if c = CHR ''.'' then (takeWhile is_digit t, dropWhile is_digit t) else ([], r)
                      | [] \<Rightarrow> ([], r))
      in if ds = [] \<and> fs = [] then None
         else case parse_exp r' of
                Some (e, []) \<Rightarrow> Some ((of_nat (digits_val ds) + of_nat (digits_val fs) / 10 ^ length fs) * e)
              | _ \<Rightarrow> None)"

text \<open>\<open>Number(s)\<close> for a string.\<close>

definition js_number :: "string \<Rightarrow> js_num" where
  "js_number s =
     (let t = trim s; fin = (\<lambda>x. case x of None \<Rightarrow> NonFinite | Some q \<Rightarrow> Finite q)
      in if t = [] then Finite 0
         else if starts_with t ''0x'' \<or> starts_with t ''0X'' then fin (map_option of_nat (radix_val 16 (drop 2 t)))
         else if starts_with t ''0o'' \<or> starts_with t ''0O'' then fin (map_option of_nat (radix_val 8 (drop 2 t)))
         else if starts_with t ''0b'' \<or> starts_with t ''0B'' then fin (map_option of_nat (radix_val 2 (drop 2 t)))
         else if starts_with t ''-'' then fin (map_option uminus (dec_literal (drop 1 t)))
         else if starts_with t ''+'' then fin (dec_literal (drop 1 t))
         else fin (dec_literal t))"

text \<open>\<open>Number.parseInt(s, 10)\<close>; \<open>None\<close> is NaN.\<close>

definition parse_int10 :: "string \<Rightarrow> int option" where
  "parse_int10 s =
     (let t = trim_start s;
          neg = starts_with t ''-'';
          u = (if starts_with t ''-'' \<or> starts_with t ''+'' then drop 1 t else t);
          ds = takeWhile is_digit u
      in if ds = [] then None
         else Some ((if neg then - 1 else 1) * int (digits_val ds)))"

section \<open>Byte sizes\<close>

definition BYTE_UNITS :: "string list" where
  "BYTE_UNITS = [''B'', ''KB'', ''MB'', ''GB'', ''TB'', ''PB'']"

definition UNIT_STEP :: rat where "UNIT_STEP = 1024"

text \<open>The loop, on the value and the unit index.\<close>

function scale_bytes :: "rat \<Rightarrow> nat \<Rightarrow> rat \<times> nat" where
  "scale_bytes value unitIndex =
     (if value \<ge> UNIT_STEP \<and> unitIndex < length BYTE_UNITS - 1
      then scale_bytes (value / UNIT_STEP) (unitIndex + 1) else (value, unitIndex))"
  by pat_completeness auto
termination
  by (relation "measure (\<lambda>(v, i). length BYTE_UNITS - i)") auto

declare scale_bytes.simps [simp del]

definition humanizeBytes :: "js_num \<Rightarrow> string" where
  "humanizeBytes bytes =
     (case bytes of
        NonFinite \<Rightarrow> ''0 B''
      | Finite b \<Rightarrow>
          if b \<le> 0 then ''0 B''
          else (let (value, unitIndex) = scale_bytes b 0;
                    formatted = (if unitIndex = 0 then show_int (math_round value) else to_fixed 1 value)
                in formatted @ '' '' @ BYTE_UNITS ! unitIndex))"

definition humanizeKilobytes :: "js_num \<Rightarrow> string" where
  "humanizeKilobytes kilobytes =
     humanizeBytes (case kilobytes of NonFinite \<Rightarrow> NonFinite | Finite k \<Rightarrow> Finite (k * UNIT_STEP))"

definition toNumber :: "string option \<Rightarrow> rat" where
  "toNumber value =
     (case value of
        None \<Rightarrow> 0
      | Some s \<Rightarrow> (case js_number s of Finite q \<Rightarrow> q | NonFinite \<Rightarrow> 0))"

section \<open>The unit chosen\<close>

lemma scale_bytes_exact: "scale_bytes b i = (v, j) \<Longrightarrow> v * UNIT_STEP ^ j = b * UNIT_STEP ^ i \<and> i \<le> j"
proof (induction b i arbitrary: v j rule: scale_bytes.induct)
  case (1 b i)
  show ?case
  proof (cases "b \<ge> UNIT_STEP \<and> i < length BYTE_UNITS - 1")
    case True
    then have "scale_bytes (b / UNIT_STEP) (i + 1) = (v, j)"
      using 1 by (simp add: scale_bytes.simps [of b i])
    from 1(1) [OF True this] show ?thesis by (simp add: UNIT_STEP_def)
  next
    case False
    with 1 have "(v, j) = (b, i)" by (subst (asm) scale_bytes.simps) (auto split: if_splits)
    then show ?thesis by simp
  qed
qed

lemma scale_bytes_top:
  "scale_bytes b i = (v, j) \<Longrightarrow> i \<le> 5 \<Longrightarrow> j \<le> 5 \<and> (v < UNIT_STEP \<or> j = 5)"
proof (induction b i arbitrary: v j rule: scale_bytes.induct)
  case (1 b i)
  show ?case
  proof (cases "b \<ge> UNIT_STEP \<and> i < length BYTE_UNITS - 1")
    case True
    then have "scale_bytes (b / UNIT_STEP) (i + 1) = (v, j)" "i + 1 \<le> 5"
      using 1 by (auto simp: scale_bytes.simps [of b i] BYTE_UNITS_def)
    from 1(1) [OF True this] show ?thesis .
  next
    case False
    with 1(2) have "(v, j) = (b, i)" by (subst (asm) scale_bytes.simps) (auto split: if_splits)
    with False 1(3) show ?thesis by (auto simp: BYTE_UNITS_def)
  qed
qed

lemma scale_bytes_low:
  "scale_bytes b i = (v, j) \<Longrightarrow> i < j \<Longrightarrow> 1 \<le> v"
proof (induction b i arbitrary: v j rule: scale_bytes.induct)
  case (1 b i)
  show ?case
  proof (cases "b \<ge> UNIT_STEP \<and> i < length BYTE_UNITS - 1")
    case True
    then have eq: "scale_bytes (b / UNIT_STEP) (i + 1) = (v, j)"
      using 1 by (simp add: scale_bytes.simps [of b i])
    show ?thesis
    proof (cases "i + 1 < j")
      case True
      with 1(1) [OF \<open>b \<ge> UNIT_STEP \<and> i < length BYTE_UNITS - 1\<close> eq] show ?thesis by simp
    next
      case False
      with eq 1(3) have "j = i + 1" by simp
      with scale_bytes_exact [OF eq] have "v = b / UNIT_STEP" by (simp add: UNIT_STEP_def)
      with True show ?thesis by (simp add: UNIT_STEP_def)
    qed
  next
    case False
    with 1(2,3) show ?thesis by (subst (asm) scale_bytes.simps) (auto split: if_splits)
  qed
qed

end
