(* ===== verification/Regex.thy ===== *)
theory Regex
  imports Prelude
begin

text \<open>
  JavaScript regular expressions, as far as the code uses them: ordered alternatives,
  greedy and lazy repetition with backtracking, capture groups, anchors, word boundaries and
  negative lookahead. \<open>matches r st\<close> lists every way \<open>r\<close> can match at a position, in
  the order the backtracking matcher tries them; the first one is the match it reports.
\<close>

section \<open>Syntax\<close>

datatype regex =
    REmpty
  | RClass "char \<Rightarrow> bool"
  | RSeq regex regex
  | RAlt regex regex
  | RStar regex
  | RLazyStar regex
  | RGroup nat regex
  | RStart
  | RLineStart
  | REnd
  | RWordBoundary
  | RNotAhead regex

text \<open>The character before the position, the rest of the input, and the captured groups.\<close>

type_synonym mstate = "char option \<times> string \<times> (nat \<times> string) list"

abbreviation rest_of :: "mstate \<Rightarrow> string" where "rest_of st \<equiv> fst (snd st)"

text \<open>
  Repetition: an iteration that consumes nothing is rejected, as the standard prescribes
  for a quantifier with minimum 0; so the rest of the input shrinks in every call.
\<close>

function star_results :: "(mstate \<Rightarrow> mstate list) \<Rightarrow> mstate \<Rightarrow> mstate list" where
  "star_results f st =
     concat (map (\<lambda>st'. if length (rest_of st') < length (rest_of st) then star_results f st' else []) (f st)) @ [st]"
  by pat_completeness auto
termination
  by (relation "measure (\<lambda>(f, st). length (rest_of st))") auto

function lazy_results :: "(mstate \<Rightarrow> mstate list) \<Rightarrow> mstate \<Rightarrow> mstate list" where
  "lazy_results f st =
     st # concat (map (\<lambda>st'. if length (rest_of st') < length (rest_of st) then lazy_results f st' else []) (f st))"
  by pat_completeness auto
termination
  by (relation "measure (\<lambda>(f, st). length (rest_of st))") auto

declare star_results.simps [simp del] lazy_results.simps [simp del]

definition at_boundary :: "char option \<Rightarrow> string \<Rightarrow> bool" where
  "at_boundary p s =
     ((case p of None \<Rightarrow> False | Some c \<Rightarrow> is_word c) \<noteq> (case s of [] \<Rightarrow> False | c # _ \<Rightarrow> is_word c))"

primrec matches :: "regex \<Rightarrow> mstate \<Rightarrow> mstate list" where
  "matches REmpty st = [st]"
| "matches (RClass P) st =
     (case st of (p, s, cs) \<Rightarrow> (case s of [] \<Rightarrow> [] | c # s' \<Rightarrow> if P c then [(Some c, s', cs)] else []))"
| "matches (RSeq r1 r2) st = concat (map (matches r2) (matches r1 st))"
| "matches (RAlt r1 r2) st = matches r1 st @ matches r2 st"
| "matches (RStar r) st = star_results (matches r) st"
| "matches (RLazyStar r) st = lazy_results (matches r) st"
| "matches (RGroup n r) st =
     map (\<lambda>(p, s, cs). (p, s, (n, take (length (rest_of st) - length s) (rest_of st)) # cs)) (matches r st)"
| "matches RStart st = (if fst st = None then [st] else [])"
| "matches RLineStart st = (if fst st = None \<or> fst st = Some (CHR 0x0A) then [st] else [])"
| "matches REnd st = (if rest_of st = [] then [st] else [])"
| "matches RWordBoundary st = (if at_boundary (fst st) (rest_of st) then [st] else [])"
| "matches (RNotAhead r) st = (if matches r st = [] then [st] else [])"

section \<open>Derived forms\<close>

definition rchar :: "char \<Rightarrow> regex" where
  "rchar c = RClass (\<lambda>x. x = c)"

text \<open>A character under the \<open>i\<close> flag.\<close>

definition rchar_i :: "char \<Rightarrow> regex" where
  "rchar_i c = RClass (\<lambda>x. lower_char x = lower_char c)"

definition rstr :: "string \<Rightarrow> regex" where
  "rstr s = foldr (\<lambda>c r. RSeq (rchar c) r) s REmpty"

definition rstr_i :: "string \<Rightarrow> regex" where
  "rstr_i s = foldr (\<lambda>c r. RSeq (rchar_i c) r) s REmpty"

definition rseq :: "regex list \<Rightarrow> regex" where
  "rseq rs = foldr RSeq rs REmpty"

definition ralts :: "regex list \<Rightarrow> regex" where
  "ralts rs = (case rs of [] \<Rightarrow> RClass (\<lambda>_. False) | r # rs' \<Rightarrow> foldl RAlt r rs')"

definition rplus :: "regex \<Rightarrow> regex" where
  "rplus r = RSeq r (RStar r)"

definition ropt :: "regex \<Rightarrow> regex" where
  "ropt r = RAlt r REmpty"

text \<open>\<open>r{n}\<close> and \<open>r{n,}\<close>.\<close>

definition rtimes :: "nat \<Rightarrow> regex \<Rightarrow> regex" where
  "rtimes n r = rseq (replicate n r)"

definition ratleast :: "nat \<Rightarrow> regex \<Rightarrow> regex" where
  "ratleast n r = RSeq (rtimes n r) (RStar r)"

definition rone_of :: "string \<Rightarrow> regex" where
  "rone_of s = RClass (\<lambda>c. c \<in> set s)"

definition rnone_of :: "string \<Rightarrow> regex" where
  "rnone_of s = RClass (\<lambda>c. c \<notin> set s)"

definition rdigit :: regex where "rdigit = RClass is_digit"
definition rspace :: regex where "rspace = RClass is_space"

lemmas regex_defs = rchar_def rchar_i_def rstr_def rstr_i_def rseq_def ralts_def rplus_def ropt_def
  rtimes_def ratleast_def rone_of_def rnone_of_def rdigit_def rspace_def

section \<open>Searching, testing and replacing\<close>

text \<open>The match the engine reports at one position: the rest of the input and the groups.\<close>

definition match_here :: "regex \<Rightarrow> char option \<Rightarrow> string \<Rightarrow> mstate option" where
  "match_here r p s = (case matches r (p, s, []) of [] \<Rightarrow> None | st # _ \<Rightarrow> Some st)"

text \<open>\<open>re.test(s)\<close>: some position matches.\<close>

fun test_from :: "regex \<Rightarrow> char option \<Rightarrow> string \<Rightarrow> bool" where
  "test_from r p [] = (match_here r p [] \<noteq> None)"
| "test_from r p (c # s) = (match_here r p (c # s) \<noteq> None \<or> test_from r (Some c) s)"

definition re_test :: "regex \<Rightarrow> string \<Rightarrow> bool" where
  "re_test r s = test_from r None s"

text \<open>\<open>s.match(re)\<close> without the \<open>g\<close> flag: the groups of the first match from the left.\<close>

fun match_from :: "regex \<Rightarrow> char option \<Rightarrow> string \<Rightarrow> (nat \<times> string) list option" where
  "match_from r p [] = map_option (\<lambda>st. snd (snd st)) (match_here r p [])"
| "match_from r p (c # s) =
     (case match_here r p (c # s) of Some st \<Rightarrow> Some (snd (snd st)) | None \<Rightarrow> match_from r (Some c) s)"

definition re_match :: "regex \<Rightarrow> string \<Rightarrow> (nat \<times> string) list option" where
  "re_match r s = match_from r None s"

definition group :: "(nat \<times> string) list \<Rightarrow> nat \<Rightarrow> string" where
  "group cs n = (case map_of cs n of Some t \<Rightarrow> t | None \<Rightarrow> [])"

text \<open>
  \<open>s.replace(re, f)\<close> with the \<open>g\<close> flag: \<open>f\<close> gets the groups and the matched text. After an
  empty match the engine copies one character and moves on.
\<close>

function replace_from :: "regex \<Rightarrow> ((nat \<times> string) list \<Rightarrow> string \<Rightarrow> string) \<Rightarrow> char option \<Rightarrow> string \<Rightarrow> string" where
  "replace_from r f p s =
     (case match_here r p s of
        Some (p', s', cs) \<Rightarrow>
          (if length s' < length s
           then f cs (take (length s - length s') s) @ replace_from r f p' s'
           else f cs [] @ (case s of [] \<Rightarrow> [] | c # t \<Rightarrow> c # replace_from r f (Some c) t))
      | None \<Rightarrow> (case s of [] \<Rightarrow> [] | c # t \<Rightarrow> c # replace_from r f (Some c) t))"
  by pat_completeness auto
termination
  by (relation "measure (\<lambda>(r, f, p, s). length s)") auto

declare replace_from.simps [simp del]

definition re_replace_all :: "regex \<Rightarrow> ((nat \<times> string) list \<Rightarrow> string \<Rightarrow> string) \<Rightarrow> string \<Rightarrow> string" where
  "re_replace_all r f s = replace_from r f None s"

text \<open>\<open>s.matchAll(re)\<close> with the \<open>g\<close> flag: the groups of each successive match.\<close>

function match_all_from :: "regex \<Rightarrow> char option \<Rightarrow> string \<Rightarrow> (nat \<times> string) list list" where
  "match_all_from r p s =
     (case match_here r p s of
        Some (p', s', cs) \<Rightarrow>
          cs # (if length s' < length s then match_all_from r p' s'
                else (case s of [] \<Rightarrow> [] | c # t \<Rightarrow> match_all_from r (Some c) t))
      | None \<Rightarrow> (case s of [] \<Rightarrow> [] | c # t \<Rightarrow> match_all_from r (Some c) t))"
  by pat_completeness auto
termination
  by (relation "measure (\<lambda>(r, p, s). length s)") auto

declare match_all_from.simps [simp del]

definition re_match_all :: "regex \<Rightarrow> string \<Rightarrow> (nat \<times> string) list list" where
  "re_match_all r s = match_all_from r None s"

text \<open>\<open>s.replace(re, f)\<close> without the \<open>g\<close> flag: the first match only.\<close>

fun replace_first_from :: "regex \<Rightarrow> ((nat \<times> string) list \<Rightarrow> string \<Rightarrow> string) \<Rightarrow> char option \<Rightarrow> string \<Rightarrow> string" where
  "replace_first_from r f p s =
     (case match_here r p s of
        Some (p', s', cs) \<Rightarrow> f cs (take (length s - length s') s) @ s'
      | None \<Rightarrow> (case s of [] \<Rightarrow> [] | c # t \<Rightarrow> c # replace_first_from r f (Some c) t))"

declare replace_first_from.simps [simp del]

definition re_replace_first :: "regex \<Rightarrow> ((nat \<times> string) list \<Rightarrow> string \<Rightarrow> string) \<Rightarrow> string \<Rightarrow> string" where
  "re_replace_first r f s = replace_first_from r f None s"

section \<open>A match is a prefix of the input\<close>

lemma star_results_suffix:
  "(\<And>st st'. st' \<in> set (f st) \<Longrightarrow> suffix (rest_of st') (rest_of st)) \<Longrightarrow>
   st' \<in> set (star_results f st) \<Longrightarrow> suffix (rest_of st') (rest_of st)"
proof (induction f st rule: star_results.induct)
  case (1 f st)
  from "1.prems"(2) consider "st' = st"
    | st1 where "st1 \<in> set (f st)" "length (rest_of st1) < length (rest_of st)" "st' \<in> set (star_results f st1)"
    by (subst (asm) star_results.simps) (auto split: if_splits)
  then show ?case
  proof cases
    case 2
    from "1.IH" [OF 2(1) 2(2) "1.prems"(1) 2(3)] "1.prems"(1) [OF 2(1)]
    show ?thesis by (blast intro: suffix_order.trans)
  qed simp
qed

lemma lazy_results_suffix:
  "(\<And>st st'. st' \<in> set (f st) \<Longrightarrow> suffix (rest_of st') (rest_of st)) \<Longrightarrow>
   st' \<in> set (lazy_results f st) \<Longrightarrow> suffix (rest_of st') (rest_of st)"
proof (induction f st rule: lazy_results.induct)
  case (1 f st)
  from "1.prems"(2) consider "st' = st"
    | st1 where "st1 \<in> set (f st)" "length (rest_of st1) < length (rest_of st)" "st' \<in> set (lazy_results f st1)"
    by (subst (asm) lazy_results.simps) (auto split: if_splits)
  then show ?case
  proof cases
    case 2
    from "1.IH" [OF 2(1) 2(2) "1.prems"(1) 2(3)] "1.prems"(1) [OF 2(1)]
    show ?thesis by (blast intro: suffix_order.trans)
  qed simp
qed

lemma matches_suffix: "st' \<in> set (matches r st) \<Longrightarrow> suffix (rest_of st') (rest_of st)"
proof (induction r arbitrary: st st')
  case (RSeq r1 r2)
  then obtain st1 where "st1 \<in> set (matches r1 st)" "st' \<in> set (matches r2 st1)" by auto
  with RSeq.IH show ?case by (blast intro: suffix_order.trans)
next
  case (RStar r)
  from star_results_suffix [of "matches r" st' st, OF RStar.IH] RStar.prems show ?case by simp
next
  case (RLazyStar r)
  from lazy_results_suffix [of "matches r" st' st, OF RLazyStar.IH] RLazyStar.prems show ?case by simp
next
  case (RGroup n r)
  then obtain st1 where "st1 \<in> set (matches r st)" "rest_of st' = rest_of st1"
    by (auto split: prod.splits)
  with RGroup.IH show ?case by metis
qed (auto simp: suffix_ConsI split: if_splits prod.splits list.splits)

lemma match_here_in: "match_here r p s = Some st \<Longrightarrow> st \<in> set (matches r (p, s, []))"
  by (auto simp: match_here_def split: list.splits)

lemma match_here_suffix: "match_here r p s = Some (p', s', cs) \<Longrightarrow> suffix s' s"
  using matches_suffix [OF match_here_in] by fastforce

text \<open>The text consumed by a match, followed by the rest, is the input.\<close>

lemma suffix_take: "suffix s' s \<Longrightarrow> take (length s - length s') s @ s' = s"
  by (auto simp: suffix_def)

section \<open>Captures\<close>

text \<open>Expressions without groups leave the captures alone.\<close>

fun no_groups :: "regex \<Rightarrow> bool" where
  "no_groups (RGroup n r) = False"
| "no_groups (RSeq a b) = (no_groups a \<and> no_groups b)"
| "no_groups (RAlt a b) = (no_groups a \<and> no_groups b)"
| "no_groups (RStar r) = no_groups r"
| "no_groups (RLazyStar r) = no_groups r"
| "no_groups _ = True"

abbreviation caps_of :: "mstate \<Rightarrow> (nat \<times> string) list" where "caps_of st \<equiv> snd (snd st)"

lemma star_results_caps:
  "(\<And>st st'. st' \<in> set (f st) \<Longrightarrow> caps_of st' = caps_of st) \<Longrightarrow>
   st' \<in> set (star_results f st) \<Longrightarrow> caps_of st' = caps_of st"
proof (induction f st rule: star_results.induct)
  case (1 f st)
  from "1.prems"(2) consider "st' = st"
    | st1 where "st1 \<in> set (f st)" "length (rest_of st1) < length (rest_of st)" "st' \<in> set (star_results f st1)"
    by (subst (asm) star_results.simps) (auto split: if_splits)
  then show ?case
  proof cases
    case 2
    from "1.IH" [OF 2(1) 2(2) "1.prems"(1) 2(3)] "1.prems"(1) [OF 2(1)] show ?thesis by simp
  qed simp
qed

lemma lazy_results_caps:
  "(\<And>st st'. st' \<in> set (f st) \<Longrightarrow> caps_of st' = caps_of st) \<Longrightarrow>
   st' \<in> set (lazy_results f st) \<Longrightarrow> caps_of st' = caps_of st"
proof (induction f st rule: lazy_results.induct)
  case (1 f st)
  from "1.prems"(2) consider "st' = st"
    | st1 where "st1 \<in> set (f st)" "length (rest_of st1) < length (rest_of st)" "st' \<in> set (lazy_results f st1)"
    by (subst (asm) lazy_results.simps) (auto split: if_splits)
  then show ?case
  proof cases
    case 2
    from "1.IH" [OF 2(1) 2(2) "1.prems"(1) 2(3)] "1.prems"(1) [OF 2(1)] show ?thesis by simp
  qed simp
qed

lemma matches_caps: "no_groups r \<Longrightarrow> st' \<in> set (matches r st) \<Longrightarrow> caps_of st' = caps_of st"
proof (induction r arbitrary: st st')
  case (RStar r)
  with star_results_caps [of "matches r" st' st] show ?case by simp
next
  case (RLazyStar r)
  with lazy_results_caps [of "matches r" st' st] show ?case by simp
qed (fastforce split: if_splits prod.splits list.splits)+

lemma no_groups_rseq [simp]: "no_groups (rseq rs) = (\<forall>r \<in> set rs. no_groups r)"
  by (induction rs) (auto simp: rseq_def)

lemma no_groups_rstr [simp]: "no_groups (rstr s)" "no_groups (rstr_i s)"
  by (induction s) (auto simp: rstr_def rstr_i_def rchar_def rchar_i_def)

lemma no_groups_foldl: "no_groups (foldl RAlt r rs) = (no_groups r \<and> (\<forall>x \<in> set rs. no_groups x))"
  by (induction rs arbitrary: r) auto

text \<open>
  For an expression \<open>(a)b\<close> whose group spans a prefix, the captured text is a prefix of the
  input, and the reported rest comes after it.
\<close>

lemma match_here_group1:
  assumes "match_here (RSeq (RGroup 1 a) b) p s = Some (p', s', cs)"
    and "no_groups a" "no_groups b"
  obtains u where "s = group cs 1 @ u @ s'"
proof -
  have "(p', s', cs) \<in> set (matches (RSeq (RGroup 1 a) b) (p, s, []))"
    by (rule match_here_in [OF assms(1)])
  then obtain q t c where st1: "(q, t, c) \<in> set (matches a (p, s, []))"
      and st2: "(p', s', cs) \<in> set (matches b (q, t, (1, take (length s - length t) s) # c))"
    by (auto split: prod.splits)
  have "cs = (1, take (length s - length t) s) # c"
    using matches_caps [OF assms(3) st2] by simp
  then have g: "group cs 1 = take (length s - length t) s" by (simp add: group_def)
  have "suffix t s" using matches_suffix [OF st1] by simp
  then have "s = group cs 1 @ t" using g suffix_take by metis
  moreover obtain u where "t = u @ s'"
    using matches_suffix [OF st2] by (auto simp: suffix_def)
  ultimately show thesis using that by metis
qed

end
