(* ===== verification/Redact.thy ===== *)
theory Redact
  imports Regex
begin

text \<open>
  Secret redaction (\<open>src/tools/_shared/redact.ts\<close>): registered secret values are cut out
  of the text, then credential-shaped key-value pairs and JWT-shaped strings are replaced.
  The list of registered values (a module variable) is an argument.
\<close>

definition REDACTED :: string where
  "REDACTED = ''[redacted]''"

text \<open>Group 1 of the pattern: the key, its delimiter and the blanks around it.\<close>

definition KEY_PART :: regex where
  "KEY_PART =
     rseq [ropt (rchar (CHR 0x22)),
           RStar (RClass (\<lambda>c. is_word c \<or> c = CHR ''-'')),
           ralts [rseq [rstr_i ''api'', ropt (rone_of ''_-''), rstr_i ''key''],
                  rstr_i ''password'', rstr_i ''token'', rstr_i ''secret'', rstr_i ''authorization''],
           ropt (rchar (CHR 0x22)),
           RStar rspace,
           rone_of '':='',
           RStar rspace]"

text \<open>Group 2: a double-quoted, single-quoted or bare value.\<close>

definition VALUE_PART :: regex where
  "VALUE_PART =
     ralts [rseq [rchar (CHR 0x22), RStar (rnone_of (dquote @ nl)), rchar (CHR 0x22)],
            rseq [rchar (CHR 0x27), RStar (rnone_of (squote @ nl)), rchar (CHR 0x27)],
            rplus (RClass (\<lambda>c. \<not> is_space c \<and> c \<notin> set ('',}'' @ dquote @ squote)))]"

definition KEY_VALUE_PATTERN :: regex where
  "KEY_VALUE_PATTERN = RSeq (RGroup 1 KEY_PART) VALUE_PART"

definition word_or_dash :: regex where
  "word_or_dash = RClass (\<lambda>c. is_word c \<or> c = CHR ''-'')"

definition JWT_PATTERN :: regex where
  "JWT_PATTERN =
     rseq [RWordBoundary, rstr ''eyJ'', ratleast 8 word_or_dash, rchar (CHR ''.''),
           ratleast 8 word_or_dash, rchar (CHR ''.''), ratleast 4 word_or_dash, RWordBoundary]"

text \<open>\<open>registerSecretValues\<close> keeps the values that are present and non-empty.\<close>

definition registerSecretValues :: "string option list \<Rightarrow> string list" where
  "registerSecretValues values = [v. Some v \<leftarrow> values, v \<noteq> []]"

definition clearSecretValues :: "string list" where
  "clearSecretValues = []"

definition redactConfiguredValues :: "string list \<Rightarrow> string \<Rightarrow> string" where
  "redactConfiguredValues secrets text = foldl (\<lambda>result secret. join REDACTED (split_on secret result)) text secrets"

definition redact_pairs :: "string \<Rightarrow> string" where
  "redact_pairs text = re_replace_all KEY_VALUE_PATTERN (\<lambda>cs m. group cs 1 @ dquote @ REDACTED @ dquote) text"

definition redact_jwts :: "string \<Rightarrow> string" where
  "redact_jwts text = re_replace_all JWT_PATTERN (\<lambda>cs m. REDACTED) text"

definition redactSecrets :: "string list \<Rightarrow> string \<Rightarrow> string" where
  "redactSecrets secrets text = redact_jwts (redact_pairs (redactConfiguredValues secrets text))"

section \<open>Registered secrets do not survive\<close>

text \<open>
  A secret is separable when it cannot overlap a replacement marker: it has no quote or
  bracket and is not a part of the word inside the marker.
\<close>

definition separable :: "string \<Rightarrow> bool" where
  "separable s = (s \<noteq> [] \<and> CHR 0x22 \<notin> set s \<and> CHR ''['' \<notin> set s \<and> CHR '']'' \<notin> set s
                  \<and> \<not> sublist s ''redacted'')"

lemma sublist_split:
  assumes "a \<notin> set s" "sublist s (u @ a # v)"
  shows "sublist s u \<or> sublist s v"
proof -
  from assms(2) obtain x y where eq: "u @ a # v = x @ s @ y" by (auto simp: sublist_def)
  then consider z where "u = x @ z" "z @ a # v = s @ y" | z where "u @ z = x" "a # v = z @ s @ y"
    by (auto simp: append_eq_append_conv2)
  then show ?thesis
  proof cases
    case 1
    then consider z' where "z = s @ z'" "z' @ a # v = y" | z' where "z @ z' = s" "a # v = z' @ y"
      by (auto simp: append_eq_append_conv2)
    then show ?thesis
    proof cases
      case 1
      with \<open>u = x @ z\<close> show ?thesis by (auto simp: sublist_def)
    next
      case 2
      with assms(1) have "z' = []" by (cases z') auto
      with 2 \<open>u = x @ z\<close> have "u = x @ s" by simp
      then show ?thesis by simp
    qed
  next
    case 2
    then show ?thesis
    proof (cases z)
      case Nil
      with 2 assms(1) have "s = []" by (cases s) auto
      then show ?thesis by simp
    next
      case (Cons b z')
      with 2 show ?thesis by (auto simp: sublist_def)
    qed
  qed
qed

lemma sublist_across_marker:
  assumes "separable s" "sublist s (u @ REDACTED @ v)"
  shows "sublist s u \<or> sublist s v"
proof -
  have eq: "u @ REDACTED @ v = u @ CHR ''['' # (''redacted'' @ CHR '']'' # v)"
    by (simp add: REDACTED_def)
  from assms have "sublist s u \<or> sublist s (''redacted'' @ CHR '']'' # v)"
    unfolding eq separable_def by (blast dest: sublist_split)
  moreover have "sublist s (''redacted'' @ CHR '']'' # v) \<Longrightarrow> sublist s ''redacted'' \<or> sublist s v"
    using assms(1) unfolding separable_def by (blast dest: sublist_split)
  ultimately show ?thesis using assms(1) unfolding separable_def by blast
qed

lemma sublist_across_quoted:
  assumes "separable s" "sublist s (u @ dquote @ REDACTED @ dquote @ v)"
  shows "sublist s u \<or> sublist s v"
proof -
  have "sublist s ((u @ dquote) @ REDACTED @ (dquote @ v))" using assms(2) by simp
  from sublist_across_marker [OF assms(1) this]
  have "sublist s (u @ CHR 0x22 # []) \<or> sublist s ([] @ CHR 0x22 # v)" by simp
  moreover have "sublist s (u @ CHR 0x22 # []) \<Longrightarrow> sublist s u \<or> sublist s []"
    "sublist s ([] @ CHR 0x22 # v) \<Longrightarrow> sublist s [] \<or> sublist s v"
    using assms(1) unfolding separable_def by (blast dest: sublist_split)+
  ultimately show ?thesis using assms(1) unfolding separable_def by auto
qed

text \<open>No stage of the redaction creates an occurrence of a separable string.\<close>

lemma join_split_sublist:
  assumes "separable s"
  shows "sublist s (join REDACTED (split_acc t acc y)) \<Longrightarrow> sublist s (rev acc @ y)"
proof (induction t acc y rule: split_acc.induct)
  case (2 t acc c y)
  show ?case
  proof (cases "t \<noteq> [] \<and> prefix t (c # y)")
    case True
    with 2 have "sublist s (rev acc @ REDACTED @ join REDACTED (split_acc t [] (drop (length t) (c # y))))"
      by (simp add: join_Cons)
    then consider "sublist s (rev acc)" | "sublist s (join REDACTED (split_acc t [] (drop (length t) (c # y))))"
      using sublist_across_marker [OF assms] by blast
    then show ?thesis
    proof cases
      case 1
      then show ?thesis by (rule sublist_append_rightI [THEN sublist_order.order_trans [rotated]])
    next
      case 2
      with "2.IH"(1) True have "sublist s (drop (length t) (c # y))" by fastforce
      then have "sublist s (c # y)" by (meson sublist_drop sublist_order.order_trans)
      then show ?thesis by (rule sublist_order.order_trans) simp
    qed
  next
    case False
    with 2 show ?thesis by auto
  qed
qed simp

text \<open>Cutting at the secret itself removes every occurrence.\<close>

lemma no_early_occurrence:
  assumes "s \<noteq> []" "\<And>u v. rev acc @ y = u @ s @ v \<Longrightarrow> length acc \<le> length u"
  shows "\<not> sublist s (rev acc)"
proof
  assume "sublist s (rev acc)"
  then obtain u v where eq: "rev acc = u @ s @ v" by (auto simp: sublist_def)
  then have "length acc \<le> length u" using assms(2) [of u "v @ y"] by simp
  moreover have "length acc = length u + length s + length v"
    using arg_cong [OF eq, of length] by simp
  ultimately show False using assms(1) by simp
qed

lemma join_split_removes:
  "separable s \<Longrightarrow> (\<And>u v. rev acc @ y = u @ s @ v \<Longrightarrow> length acc \<le> length u) \<Longrightarrow>
         \<not> sublist s (join REDACTED (split_acc s acc y))"
proof (induction s acc y rule: split_acc.induct)
  case (1 s acc)
  then have "s \<noteq> []" by (simp add: separable_def)
  from no_early_occurrence [OF this, of acc "[]"] 1(2) have "\<not> sublist s (rev acc)" by blast
  then show ?case by simp
next
  case (2 s acc c y)
  show ?case
  proof (cases "s \<noteq> [] \<and> prefix s (c # y)")
    case True
    have "\<not> sublist s (rev acc)"
      by (rule no_early_occurrence [where y = "c # y"]) (use True "2.prems"(2) in simp_all)
    moreover have "\<not> sublist s (join REDACTED (split_acc s [] (drop (length s) (c # y))))"
      using "2.IH"(1) [OF True "2.prems"(1)] by simp
    ultimately show ?thesis
      using True sublist_across_marker [OF "2.prems"(1)] by (auto simp: join_Cons)
  next
    case False
    have "length (c # acc) \<le> length u" if eq: "rev (c # acc) @ y = u @ s @ v" for u v
    proof -
      have "rev acc @ c # y = u @ s @ v" using eq by simp
      then have le: "length acc \<le> length u" by (rule "2.prems"(2))
      have "length acc \<noteq> length u"
      proof
        assume "length acc = length u"
        with \<open>rev acc @ c # y = u @ s @ v\<close> have "c # y = s @ v" by simp
        with False "2.prems"(1) show False by (cases s) (auto simp: separable_def)
      qed
      with le show ?thesis by simp
    qed
    with 2 False show ?thesis by auto
  qed
qed

text \<open>The replacement passes of the two patterns.\<close>

lemma replace_from_sublist:
  assumes sep: "separable s"
    and f: "\<And>p y p' y' cs x v. match_here r p y = Some (p', y', cs) \<Longrightarrow>
             sublist s (x @ f cs (take (length y - length y') y) @ v) \<Longrightarrow>
             sublist s (x @ y) \<or> sublist s v"
    and f0: "\<And>p y p' y' cs x v. match_here r p y = Some (p', y', cs) \<Longrightarrow>
             sublist s (x @ f cs [] @ v) \<Longrightarrow> sublist s (x @ y) \<or> sublist s v"
  shows "sublist s (x @ replace_from r f p y) \<Longrightarrow> sublist s (x @ y)"
proof (induction y arbitrary: p x rule: measure_induct_rule [of length])
  case (less y)
  have mono: "sublist s t' \<Longrightarrow> sublist t' t \<Longrightarrow> sublist s (x' @ t)" for t' t x'
    by (meson sublist_append_leftI sublist_order.order_trans)
  have copy: "sublist s (x' @ c # replace_from r f (Some c) t) \<Longrightarrow> sublist s (x' @ y)" if "y = c # t" for x' c t
    using less.IH [of t "x' @ [c]" "Some c"] that by simp
  show ?case
  proof (cases "match_here r p y")
    case None
    with less.prems copy [of _ _ x] show ?thesis
      by (cases y; subst (asm) replace_from.simps) auto
  next
    case (Some st)
    obtain p' y' cs where st: "st = (p', y', cs)" by (cases st) auto
    have suf: "sublist y' y" using match_here_suffix Some st by (metis suffix_imp_sublist)
    show ?thesis
    proof (cases "length y' < length y")
      case True
      with less.prems Some st
      have "sublist s (x @ f cs (take (length y - length y') y) @ replace_from r f p' y')"
        by (subst (asm) replace_from.simps) simp
      with f Some st consider "sublist s (x @ y)" | "sublist s ([] @ replace_from r f p' y')" by fastforce
      then show ?thesis
      proof cases
        case 2
        with less.IH [OF True] have "sublist s ([] @ y')" by blast
        with suf show ?thesis using mono by simp
      qed
    next
      case False
      show ?thesis
      proof (cases y)
        case Nil
        with less.prems Some st False have "sublist s (x @ f cs [] @ [])"
          by (subst (asm) replace_from.simps) simp
        with f0 Some st show ?thesis by (metis append_Nil2 sublist_Nil_right sublist_Nil_left)
      next
        case (Cons c t)
        with less.prems Some st False have "sublist s (x @ f cs [] @ c # replace_from r f (Some c) t)"
          by (subst (asm) replace_from.simps) simp
        with f0 Some st consider "sublist s (x @ y)" | "sublist s ([] @ c # replace_from r f (Some c) t)"
          by fastforce
        then show ?thesis
        proof cases
          case 2
          with copy [OF Cons, of "[]"] have "sublist s y" by simp
          then show ?thesis using mono by blast
        qed
      qed
    qed
  qed
qed

lemma redact_jwts_sublist:
  assumes "separable s" "sublist s (redact_jwts y)"
  shows "sublist s y"
proof -
  have step: "sublist s (x @ z) \<or> sublist s v" if "sublist s (x @ REDACTED @ v)" for x z v
    using sublist_across_marker [OF assms(1) that]
    by (metis sublist_append_rightI sublist_order.order_trans)
  from assms(2) have "sublist s ([] @ replace_from JWT_PATTERN (\<lambda>cs m. REDACTED) None y)"
    by (simp add: redact_jwts_def re_replace_all_def)
  from replace_from_sublist [OF assms(1) step step this] show ?thesis by simp
qed

lemma no_groups_KEY_VALUE: "no_groups KEY_PART" "no_groups VALUE_PART"
  by (simp_all add: KEY_PART_def VALUE_PART_def ralts_def no_groups_foldl ropt_def rchar_def
      rone_of_def rnone_of_def rspace_def rplus_def)

lemma redact_pairs_sublist:
  assumes "separable s" "sublist s (redact_pairs y)"
  shows "sublist s y"
proof -
  let ?f = "\<lambda>cs m :: string. group cs 1 @ dquote @ REDACTED @ dquote"
  have step: "sublist s (x @ z) \<or> sublist s v"
    if m: "match_here KEY_VALUE_PATTERN p z = Some (p', z', cs)"
      and sub: "sublist s (x @ (group cs 1 @ dquote @ REDACTED @ dquote) @ v)" for p z p' z' cs x v
  proof -
    obtain u where z: "z = group cs 1 @ u @ z'"
      using match_here_group1 [OF m [unfolded KEY_VALUE_PATTERN_def] no_groups_KEY_VALUE] by blast
    from sub have "sublist s ((x @ group cs 1) @ dquote @ REDACTED @ dquote @ v)" by simp
    from sublist_across_quoted [OF assms(1) this]
    show ?thesis unfolding z by (metis append.assoc sublist_append_rightI sublist_order.order_trans)
  qed
  from assms(2) have "sublist s ([] @ replace_from KEY_VALUE_PATTERN ?f None y)"
    by (simp add: redact_pairs_def re_replace_all_def)
  from replace_from_sublist [OF assms(1) step step this] show ?thesis by simp
qed

lemma redactConfigured_sublist:
  "separable s \<Longrightarrow> sublist s (redactConfiguredValues secrets y) \<Longrightarrow> sublist s y"
proof (induction secrets arbitrary: y)
  case (Cons t secrets)
  then have "sublist s (join REDACTED (split_on t y))" by (simp add: redactConfiguredValues_def)
  with join_split_sublist [OF Cons.prems(1), of t "[]" y] show ?case by (simp add: split_on_def)
qed (simp add: redactConfiguredValues_def)

lemma redactConfigured_removes:
  "separable s \<Longrightarrow> s \<in> set secrets \<Longrightarrow> \<not> sublist s (redactConfiguredValues secrets y)"
proof (induction secrets arbitrary: y)
  case (Cons t secrets)
  have eq: "redactConfiguredValues (t # secrets) y = redactConfiguredValues secrets (join REDACTED (split_on t y))"
    by (simp add: redactConfiguredValues_def)
  show ?case
  proof (cases "t = s")
    case True
    have "\<not> sublist s (join REDACTED (split_on s y))"
      using join_split_removes [OF Cons.prems(1), of "[]" y] by (simp add: split_on_def)
    with redactConfigured_sublist [OF Cons.prems(1)] show ?thesis using eq True by metis
  next
    case False
    with Cons show ?thesis unfolding eq by simp
  qed
qed simp

lemma redactSecrets_removes:
  "separable s \<Longrightarrow> s \<in> set secrets \<Longrightarrow> \<not> js_includes (redactSecrets secrets text) s"
  unfolding redactSecrets_def includes_iff_sublist
  using redact_jwts_sublist redact_pairs_sublist redactConfigured_removes by blast

end
