(* ===== verification/SshExecutor.thy ===== *)
theory SshExecutor
  imports Prelude "HOL-Library.Multiset"
begin

text \<open>
  The SSH executor (\<open>src/shell/executor.ts\<close>): one shared connection, at most four commands
  running on it, a queue of waiting calls, and an idle timer. The state holds what the class
  keeps plus the calls that are in flight; \<open>ssh_step\<close> is one event, as the event loop would
  process it. The ssh2 library's side (a handshake that succeeds or fails, a command that
  ends, a connection that drops) are events.
\<close>

section \<open>Settings and results\<close>

definition CONNECT_TIMEOUT_MS :: int where "CONNECT_TIMEOUT_MS = 10000"
definition KEEPALIVE_INTERVAL_MS :: int where "KEEPALIVE_INTERVAL_MS = 15000"
definition KEEPALIVE_COUNT_MAX :: int where "KEEPALIVE_COUNT_MAX = 3"
definition MAX_CONCURRENT_CHANNELS :: nat where "MAX_CONCURRENT_CHANNELS = 4"
definition DEFAULT_IDLE_SECONDS :: int where "DEFAULT_IDLE_SECONDS = 90"
definition EXIT_CODE_UNKNOWN :: int where "EXIT_CODE_UNKNOWN = -1"

record ssh_settings =
  host :: string
  port :: int
  username :: string
  password :: "string option"
  privateKeyPath :: "string option"
  idleSeconds :: "int option"

record connect_config =
  cfg_host :: string
  cfg_port :: int
  cfg_username :: string
  cfg_password :: "string option"
  cfg_privateKey :: "string option"
  readyTimeout :: int
  keepaliveInterval :: int
  keepaliveCountMax :: int

text \<open>
  The constructor; \<open>read_file\<close> is the file system (\<open>None\<close>: the read throws, and so does the
  constructor). The second component is the idle delay in milliseconds.
\<close>

definition newSshShellExecutor :: "(string \<Rightarrow> string option) \<Rightarrow> ssh_settings \<Rightarrow> (connect_config \<times> int) option" where
  "newSshShellExecutor read_file settings =
     (let key = (case privateKeyPath settings of
                   None \<Rightarrow> Some None
                 | Some p \<Rightarrow> if p = [] then Some None else map_option Some (read_file p))
      in map_option (\<lambda>k.
           (\<lparr>cfg_host = host settings, cfg_port = port settings, cfg_username = username settings,
             cfg_password = password settings, cfg_privateKey = k, readyTimeout = CONNECT_TIMEOUT_MS,
             keepaliveInterval = KEEPALIVE_INTERVAL_MS, keepaliveCountMax = KEEPALIVE_COUNT_MAX\<rparr>,
            (case idleSeconds settings of None \<Rightarrow> DEFAULT_IDLE_SECONDS | Some n \<Rightarrow> n) * 1000)) key)"

text \<open>The output of a channel: chunks of both streams, then a close with an exit code or null.\<close>

datatype chunk = Out string | Err string

definition collect :: "chunk list \<Rightarrow> int option \<Rightarrow> string \<times> string \<times> int" where
  "collect chunks code =
     (concat [s. Out s \<leftarrow> chunks], concat [s. Err s \<leftarrow> chunks],
      case code of None \<Rightarrow> EXIT_CODE_UNKNOWN | Some c \<Rightarrow> c)"

lemma collect_success: "snd (snd (collect chunks code)) = 0 \<longleftrightarrow> code = Some 0"
  by (auto simp: collect_def EXIT_CODE_UNKNOWN_def split: option.splits)

text \<open>
  One command on an open connection. The channel opens or fails to; then output arrives until the
  channel closes or the deadline fires, whichever is first. \<open>None\<close>: not settled yet.
\<close>

datatype exec_event =
    ExecFailed string
  | Output chunk
  | ChannelClosed "int option"
  | Deadline

definition run_timeout_message :: "int \<Rightarrow> string" where
  "run_timeout_message timeoutMs =
     ''Timed out after '' @ show_int timeoutMs @ '' ms trying to run the command over SSH. The channel was closed, but the remote process may still be running.''"

fun run_stream :: "int \<Rightarrow> chunk list \<Rightarrow> exec_event list \<Rightarrow> (string + string \<times> string \<times> int) option" where
  "run_stream timeoutMs seen [] = None"
| "run_stream timeoutMs seen (ExecFailed m # es) = run_stream timeoutMs seen es"
| "run_stream timeoutMs seen (Output c # es) = run_stream timeoutMs (seen @ [c]) es"
| "run_stream timeoutMs seen (ChannelClosed code # es) = Some (Inr (collect seen code))"
| "run_stream timeoutMs seen (Deadline # es) = Some (Inl (run_timeout_message timeoutMs))"

definition ssh_run :: "int \<Rightarrow> exec_event list \<Rightarrow> (string + string \<times> string \<times> int) option" where
  "ssh_run timeoutMs es =
     (case es of ExecFailed m # rest \<Rightarrow> Some (Inl m) | _ \<Rightarrow> run_stream timeoutMs [] es)"

text \<open>\<open>withTimeout\<close>: the work settles, or the deadline fires first.\<close>

datatype 'a race_event = Settles "string + 'a" | TimerFires

fun withTimeout :: "int \<Rightarrow> string \<Rightarrow> 'a race_event list \<Rightarrow> (string + 'a) option" where
  "withTimeout timeoutMs action [] = None"
| "withTimeout timeoutMs action (Settles r # es) = Some r"
| "withTimeout timeoutMs action (TimerFires # es) =
     Some (Inl (''Timed out after '' @ show_int timeoutMs @ '' ms trying to '' @ action @ '' over SSH.''))"

text \<open>Success is earned: exit code 0 means that the channel closed with 0 before the deadline.\<close>

lemma run_stream_success:
  "run_stream t seen es = Some (Inr (o1, e1, 0)) \<Longrightarrow>
   \<exists>before rest. es = before @ ChannelClosed (Some 0) # rest \<and> Deadline \<notin> set before"
proof (induction t seen es rule: run_stream.induct)
  case (2 t seen m es)
  then obtain bs rest where "es = bs @ ChannelClosed (Some 0) # rest" "Deadline \<notin> set bs" by auto
  then have "ExecFailed m # es = (ExecFailed m # bs) @ ChannelClosed (Some 0) # rest" "Deadline \<notin> set (ExecFailed m # bs)" by auto
  then show ?case by blast
next
  case (3 t seen c es)
  then obtain bs rest where "es = bs @ ChannelClosed (Some 0) # rest" "Deadline \<notin> set bs" by auto
  then have "Output c # es = (Output c # bs) @ ChannelClosed (Some 0) # rest" "Deadline \<notin> set (Output c # bs)" by auto
  then show ?case by blast
next
  case (4 t seen code es)
  then have "ChannelClosed code # es = [] @ ChannelClosed (Some 0) # es"
    by (auto simp: collect_def EXIT_CODE_UNKNOWN_def split: option.splits)
  then show ?case by fastforce
qed simp_all

lemma ssh_run_success:
  "ssh_run t es = Some (Inr (o1, e1, 0)) \<Longrightarrow>
   \<exists>before rest. es = before @ ChannelClosed (Some 0) # rest \<and> Deadline \<notin> set before"
  by (rule run_stream_success [of t "[]"]) (auto simp: ssh_run_def split: list.splits exec_event.splits)

section \<open>State\<close>

text \<open>
  \<open>awaiting\<close>: calls waiting for a connect attempt (by attempt number); \<open>running\<close>: calls whose
  command runs, with the connection they use; \<open>waiters\<close>: calls queued for a channel. An attempt
  and the connection it opens share their number.
\<close>

record ssh_state =
  connection :: "nat option"
  connecting :: "nat option"
  idle_armed :: bool
  activeChannels :: nat
  waiters :: "(nat \<times> nat) list"
  awaiting :: "(nat \<times> nat) list"
  running :: "(nat \<times> nat) list"
  attempts :: nat

definition ssh_init :: ssh_state where
  "ssh_init = \<lparr>connection = None, connecting = None, idle_armed = False, activeChannels = 0,
               waiters = [], awaiting = [], running = [], attempts = 0\<rparr>"

section \<open>Operations\<close>

text \<open>The idle timer, as whether it is armed.\<close>

definition clearIdleTimer :: "ssh_state \<Rightarrow> ssh_state" where
  [simp]: "clearIdleTimer s = s\<lparr>idle_armed := False\<rparr>"

definition scheduleIdleDisconnect :: "ssh_state \<Rightarrow> ssh_state" where
  [simp]: "scheduleIdleDisconnect s = (clearIdleTimer s)\<lparr>idle_armed := True\<rparr>"

definition acquireChannel :: "nat \<Rightarrow> nat \<Rightarrow> ssh_state \<Rightarrow> ssh_state" where
  "acquireChannel call conn s =
     (let s1 = clearIdleTimer s
      in if activeChannels s1 < MAX_CONCURRENT_CHANNELS
         then s1\<lparr>activeChannels := activeChannels s1 + 1, running := running s1 @ [(call, conn)]\<rparr>
         else s1\<lparr>waiters := waiters s1 @ [(call, conn)]\<rparr>)"

text \<open>The next waiter inherits the slot; otherwise the count drops and the last one arms the timer.\<close>

definition releaseChannel :: "ssh_state \<Rightarrow> ssh_state" where
  "releaseChannel s =
     (case waiters s of
        next # rest \<Rightarrow> s\<lparr>waiters := rest, running := running s @ [next]\<rparr>
      | [] \<Rightarrow> (let s1 = s\<lparr>activeChannels := activeChannels s - 1\<rparr>
               in if activeChannels s1 = 0 then scheduleIdleDisconnect s1 else s1))"

definition beginCall :: "nat \<Rightarrow> ssh_state \<Rightarrow> ssh_state" where
  "beginCall call s =
     (case connection s of
        Some c \<Rightarrow> acquireChannel call c s
      | None \<Rightarrow>
          (case connecting s of
             Some a \<Rightarrow> s\<lparr>awaiting := awaiting s @ [(call, a)]\<rparr>
           | None \<Rightarrow> s\<lparr>connecting := Some (attempts s), attempts := attempts s + 1,
                       awaiting := awaiting s @ [(call, attempts s)]\<rparr>))"

definition acquireAll :: "(nat \<times> nat) list \<Rightarrow> ssh_state \<Rightarrow> ssh_state" where
  "acquireAll calls s = foldl (\<lambda>s (call, conn). acquireChannel call conn s) s calls"

definition connected :: "nat \<Rightarrow> ssh_state \<Rightarrow> ssh_state" where
  "connected a s =
     acquireAll (filter (\<lambda>(c, b). b = a) (awaiting s))
       (s\<lparr>connection := Some a, connecting := None, awaiting := filter (\<lambda>(c, b). b \<noteq> a) (awaiting s)\<rparr>)"

definition connectFailed :: "nat \<Rightarrow> ssh_state \<Rightarrow> ssh_state" where
  "connectFailed a s = s\<lparr>connecting := None, awaiting := filter (\<lambda>(c, b). b \<noteq> a) (awaiting s)\<rparr>"

definition dropConnection :: "nat \<Rightarrow> ssh_state \<Rightarrow> ssh_state" where
  "dropConnection dropped s = (if connection s = Some dropped then s\<lparr>connection := None\<rparr> else s)"

definition disconnectIdle :: "ssh_state \<Rightarrow> ssh_state" where
  "disconnectIdle s = s\<lparr>connection := None, idle_armed := False\<rparr>"

definition finishCall :: "nat \<Rightarrow> ssh_state \<Rightarrow> ssh_state" where
  "finishCall call s = releaseChannel (s\<lparr>running := filter (\<lambda>(c, k). c \<noteq> call) (running s)\<rparr>)"

datatype ssh_event =
    Call nat            \<comment> \<open>\<open>execute\<close> is called\<close>
  | Connected nat       \<comment> \<open>the attempt succeeds\<close>
  | ConnectFailed nat   \<comment> \<open>the attempt fails\<close>
  | ConnectTimeout nat  \<comment> \<open>a call gives up waiting for the connection\<close>
  | Finished nat        \<comment> \<open>a command ends: output, error or timeout\<close>
  | Dropped nat         \<comment> \<open>the connection closes\<close>
  | IdleFires           \<comment> \<open>the idle timer fires\<close>

definition call_ids :: "ssh_state \<Rightarrow> nat set" where
  "call_ids s = fst ` (set (waiters s) \<union> set (awaiting s) \<union> set (running s))"

text \<open>The events that can happen; call numbers are fresh.\<close>

definition enabled :: "ssh_event \<Rightarrow> ssh_state \<Rightarrow> bool" where
  "enabled e s =
     (case e of
        Call c \<Rightarrow> c \<notin> call_ids s
      | Connected a \<Rightarrow> connecting s = Some a
      | ConnectFailed a \<Rightarrow> connecting s = Some a
      | ConnectTimeout c \<Rightarrow> c \<in> fst ` set (awaiting s)
      | Finished c \<Rightarrow> c \<in> fst ` set (running s)
      | Dropped a \<Rightarrow> a < attempts s
      | IdleFires \<Rightarrow> idle_armed s)"

definition ssh_apply :: "ssh_event \<Rightarrow> ssh_state \<Rightarrow> ssh_state" where
  "ssh_apply e s =
     (case e of
        Call c \<Rightarrow> beginCall c s
      | Connected a \<Rightarrow> connected a s
      | ConnectFailed a \<Rightarrow> connectFailed a s
      | ConnectTimeout c \<Rightarrow> s\<lparr>awaiting := filter (\<lambda>(d, a). d \<noteq> c) (awaiting s)\<rparr>
      | Finished c \<Rightarrow> finishCall c s
      | Dropped a \<Rightarrow> dropConnection a s
      | IdleFires \<Rightarrow> disconnectIdle s)"

inductive ssh_step :: "ssh_state \<Rightarrow> ssh_event \<Rightarrow> ssh_state \<Rightarrow> bool" where
  ssh_stepI: "enabled e s \<Longrightarrow> ssh_step s e (ssh_apply e s)"

inductive_cases ssh_stepE: "ssh_step s e s'"
inductive_simps ssh_step_iff: "ssh_step s e s'"

inductive ssh_reach :: "ssh_state \<Rightarrow> bool" where
  reach_init: "ssh_reach ssh_init"
| reach_step: "ssh_reach s \<Longrightarrow> ssh_step s e s' \<Longrightarrow> ssh_reach s'"

section \<open>Invariant\<close>

definition calls_of :: "ssh_state \<Rightarrow> nat list" where
  "calls_of s = map fst (waiters s) @ map fst (awaiting s) @ map fst (running s)"

definition ssh_ok :: "ssh_state \<Rightarrow> bool" where
  "ssh_ok s \<longleftrightarrow>
     activeChannels s = length (running s) \<and> activeChannels s \<le> MAX_CONCURRENT_CHANNELS
     \<and> (waiters s \<noteq> [] \<longrightarrow> activeChannels s = MAX_CONCURRENT_CHANNELS)
     \<and> (idle_armed s \<longrightarrow> activeChannels s = 0)
     \<and> distinct (calls_of s)
     \<and> (\<forall>x \<in> set (awaiting s). connecting s = Some (snd x))
     \<and> (connecting s \<noteq> None \<longrightarrow> connection s = None)"

lemma ssh_ok_init: "ssh_ok ssh_init"
  by (simp add: ssh_ok_def ssh_init_def calls_of_def)

text \<open>The channel part of the invariant, which acquiring and releasing keep.\<close>

definition channels_ok :: "ssh_state \<Rightarrow> bool" where
  "channels_ok s \<longleftrightarrow>
     activeChannels s = length (running s) \<and> activeChannels s \<le> MAX_CONCURRENT_CHANNELS
     \<and> (waiters s \<noteq> [] \<longrightarrow> activeChannels s = MAX_CONCURRENT_CHANNELS)
     \<and> (idle_armed s \<longrightarrow> activeChannels s = 0)"

lemma ssh_ok_alt:
  "ssh_ok s \<longleftrightarrow> channels_ok s \<and> distinct (calls_of s) \<and> (\<forall>x \<in> set (awaiting s). connecting s = Some (snd x))
     \<and> (connecting s \<noteq> None \<longrightarrow> connection s = None)"
  by (auto simp: ssh_ok_def channels_ok_def)

lemma acquire_channels_ok: "channels_ok s \<Longrightarrow> channels_ok (acquireChannel c k s)"
  by (auto simp: channels_ok_def acquireChannel_def Let_def MAX_CONCURRENT_CHANNELS_def)

lemma acquire_simps [simp]:
  "connection (acquireChannel c k s) = connection s" "connecting (acquireChannel c k s) = connecting s"
  "awaiting (acquireChannel c k s) = awaiting s" "attempts (acquireChannel c k s) = attempts s"
  by (simp_all add: acquireChannel_def Let_def)

lemma acquire_calls: "mset (calls_of (acquireChannel c k s)) = add_mset c (mset (calls_of s))"
  by (simp add: calls_of_def acquireChannel_def Let_def)

lemma acquireAll_Cons: "acquireAll ((c, k) # calls) s = acquireAll calls (acquireChannel c k s)"
  by (simp add: acquireAll_def)

lemma acquireAll_spec:
  "channels_ok (acquireAll calls s) = channels_ok (acquireAll calls s) \<and>
   (channels_ok s \<longrightarrow> channels_ok (acquireAll calls s)) \<and>
   connection (acquireAll calls s) = connection s \<and> connecting (acquireAll calls s) = connecting s \<and>
   awaiting (acquireAll calls s) = awaiting s \<and> attempts (acquireAll calls s) = attempts s \<and>
   mset (calls_of (acquireAll calls s)) = mset (map fst calls) + mset (calls_of s)"
proof (induction calls arbitrary: s)
  case Nil
  then show ?case by (simp add: acquireAll_def)
next
  case (Cons x calls)
  then show ?case by (cases x) (simp add: acquireAll_Cons acquire_channels_ok acquire_calls)
qed

lemma distinct_mset_eq: "mset xs = mset ys \<Longrightarrow> distinct xs = distinct ys"
  by (metis mset_eq_setD mset_eq_length card_distinct distinct_card)

lemma connected_ok:
  assumes ok: "ssh_ok s" and a: "connecting s = Some a"
  shows "ssh_ok (connected a s)"
proof -
  define s1 where "s1 = s\<lparr>connection := Some a, connecting := None, awaiting := filter (\<lambda>(c, b). b \<noteq> a) (awaiting s)\<rparr>"
  have all: "filter (\<lambda>(c, b). b = a) (awaiting s) = awaiting s" "filter (\<lambda>(c, b). b \<noteq> a) (awaiting s) = []"
    using ok a by (auto simp: ssh_ok_def filter_id_conv filter_empty_conv)
  have s': "connected a s = acquireAll (awaiting s) s1" by (simp add: connected_def s1_def all)
  have "channels_ok s1" using ok unfolding ssh_ok_alt s1_def channels_ok_def by auto
  moreover have m: "mset (calls_of (connected a s)) = mset (map fst (awaiting s)) + mset (calls_of s1)"
    unfolding s' using acquireAll_spec [of "awaiting s" s1] by blast
  have "mset (calls_of s1) = mset (map fst (waiters s)) + mset (map fst (running s))"
    by (simp add: s1_def calls_of_def all)
  with m have "mset (calls_of (connected a s)) = mset (calls_of s)" by (simp add: calls_of_def)
  then have "distinct (calls_of (connected a s))"
    using ok distinct_mset_eq by (auto simp: ssh_ok_def)
  ultimately show ?thesis
    using acquireAll_spec [of "awaiting s" s1] unfolding ssh_ok_alt s' [symmetric]
    by (simp add: s' s1_def all)
qed

lemma filter_running_length:
  "distinct (map fst xs) \<Longrightarrow> c \<in> fst ` set xs \<Longrightarrow> length (filter (\<lambda>(d, k). d \<noteq> c) xs) = length xs - 1"
proof (induction xs)
  case (Cons x xs)
  show ?case
  proof (cases "fst x = c")
    case True
    have "filter (\<lambda>(d, k). d \<noteq> c) xs = xs"
    proof (rule filter_True, clarify)
      fix k assume "(c, k) \<in> set xs"
      then have "c \<in> fst ` set xs" by force
      with True Cons.prems(1) show False by auto
    qed
    with True show ?thesis by (cases x) simp
  next
    case False
    with Cons have "length (filter (\<lambda>(d, k). d \<noteq> c) xs) = length xs - 1" "xs \<noteq> []" by auto
    with False show ?thesis by (cases x) (cases xs, auto)
  qed
qed simp

lemma distinct_fst_filter: "distinct (map fst xs) \<Longrightarrow> distinct (map fst (filter P xs))"
  by (rule distinct_map_filter)

lemma finish_ok:
  assumes ok: "ssh_ok s" and c: "c \<in> fst ` set (running s)"
  shows "ssh_ok (finishCall c s)"
proof -
  have d: "distinct (map fst (running s))" "distinct (map fst (waiters s))" "distinct (map fst (awaiting s))"
    using ok by (auto simp: ssh_ok_def calls_of_def)
  have pos: "0 < length (running s)" using c by (cases "running s") auto
  note len = filter_running_length [OF d(1) c]
  have dr: "distinct (map fst (filter (\<lambda>(d, k). d \<noteq> c) (running s)))" by (rule distinct_fst_filter [OF d(1)])
  have sub: "fst ` set (filter (\<lambda>(d, k). d \<noteq> c) (running s)) \<subseteq> fst ` set (running s)" by auto
  show ?thesis
  proof (cases "waiters s")
    case Nil
    with ok len pos dr sub show ?thesis
      by (auto simp: ssh_ok_def finishCall_def releaseChannel_def Let_def calls_of_def; fastforce)
  next
    case (Cons x rest)
    with ok len pos dr sub show ?thesis
      by (auto simp: ssh_ok_def finishCall_def releaseChannel_def Let_def calls_of_def; fastforce)
  qed
qed

lemma begin_ok:
  assumes ok: "ssh_ok s" and c: "c \<notin> call_ids s"
  shows "ssh_ok (beginCall c s)"
proof -
  have fresh: "c \<notin> set (calls_of s)" using c by (auto simp: call_ids_def calls_of_def)
  show ?thesis
  proof (cases "connection s")
    case (Some k)
    have "distinct (calls_of (acquireChannel c k s))"
      using ok fresh distinct_mset_eq [of "calls_of (acquireChannel c k s)" "c # calls_of s"]
      by (simp add: acquire_calls ssh_ok_def)
    with Some ok show ?thesis by (auto simp: beginCall_def ssh_ok_alt acquire_channels_ok)
  next
    case None
    with ok fresh show ?thesis
      by (auto simp: beginCall_def ssh_ok_def calls_of_def split: option.splits)
  qed
qed

lemma ssh_step_ok: "ssh_ok s \<Longrightarrow> ssh_step s e s' \<Longrightarrow> ssh_ok s'"
proof (erule ssh_stepE)
  assume ok: "ssh_ok s" and s': "s' = ssh_apply e s" and en: "enabled e s"
  show "ssh_ok s'"
  proof (cases e)
    case (ConnectFailed a)
    with ok en s' show ?thesis
      by (auto simp: ssh_apply_def enabled_def connectFailed_def ssh_ok_def calls_of_def distinct_fst_filter)
  next
    case (ConnectTimeout c)
    with ok s' show ?thesis
      by (auto simp: ssh_apply_def ssh_ok_def calls_of_def distinct_fst_filter)
  next
    case (Dropped a)
    with ok s' show ?thesis by (auto simp: ssh_apply_def dropConnection_def ssh_ok_def calls_of_def)
  next
    case IdleFires
    with ok s' show ?thesis by (auto simp: ssh_apply_def disconnectIdle_def ssh_ok_def calls_of_def)
  qed (use ok en s' in \<open>auto simp: ssh_apply_def enabled_def intro: begin_ok connected_ok finish_ok\<close>)
qed

lemma ssh_reach_ok: "ssh_reach s \<Longrightarrow> ssh_ok s"
  by (induction rule: ssh_reach.induct) (auto intro: ssh_ok_init ssh_step_ok)

section \<open>Waiters are served in order\<close>

lemma finish_serves:
  assumes "waiters s = x # rest"
  shows "waiters (finishCall c s) = rest \<and> x \<in> set (running (finishCall c s))"
  using assms by (simp add: finishCall_def releaseChannel_def)

text \<open>A list of calls that finish, one after the other.\<close>

fun finish_all :: "nat list \<Rightarrow> ssh_state \<Rightarrow> ssh_state" where
  "finish_all [] s = s"
| "finish_all (c # cs) s = finish_all cs (finishCall c s)"

text \<open>Each ends a command that is running at that moment.\<close>

fun finishes :: "nat list \<Rightarrow> ssh_state \<Rightarrow> bool" where
  "finishes [] s = True"
| "finishes (c # cs) s = (c \<in> fst ` set (running s) \<and> finishes cs (finishCall c s))"

lemma finish_all_waiters: "waiters (finish_all cs s) = drop (length cs) (waiters s)"
proof (induction cs arbitrary: s)
  case (Cons c cs)
  have "waiters (finishCall c s) = drop 1 (waiters s)"
    by (cases "waiters s") (auto simp: finishCall_def releaseChannel_def Let_def)
  with Cons show ?case by simp
qed simp

text \<open>The waiter at position \<open>length cs\<close> starts with the next command that ends.\<close>

lemma waiter_served:
  assumes "length cs < length (waiters s)"
  shows "waiters s ! length cs \<in> set (running (finish_all (cs @ [c]) s))"
proof -
  have "finish_all (cs @ [c]) s = finishCall c (finish_all cs s)" for s
    by (induction cs arbitrary: s) auto
  moreover have "waiters (finish_all cs s) = waiters s ! length cs # drop (Suc (length cs)) (waiters s)"
    using assms by (simp add: finish_all_waiters Cons_nth_drop_Suc)
  ultimately show ?thesis using finish_serves by metis
qed

section \<open>One line of calls\<close>

text \<open>
  What the executor promises: one line of calls in order of arrival, the first
  \<open>MAX_CONCURRENT_CHANNELS\<close> of which run; while a connection is being opened, calls wait for it.
\<close>

datatype ssh_link = Down | Opening nat | Open nat

record line_state =
  link :: ssh_link
  pending :: "nat list"
  served :: "(nat \<times> nat) list"
  next_link :: nat

definition line_step :: "ssh_event \<Rightarrow> line_state \<Rightarrow> line_state" where
  "line_step e l =
     (case e of
        Call c \<Rightarrow>
          (case link l of
             Open k \<Rightarrow> l\<lparr>served := served l @ [(c, k)]\<rparr>
           | Opening a \<Rightarrow> l\<lparr>pending := pending l @ [c]\<rparr>
           | Down \<Rightarrow> l\<lparr>link := Opening (next_link l), pending := pending l @ [c], next_link := next_link l + 1\<rparr>)
      | Connected a \<Rightarrow> l\<lparr>link := Open a, served := served l @ map (\<lambda>c. (c, a)) (pending l), pending := []\<rparr>
      | ConnectFailed a \<Rightarrow> l\<lparr>link := Down, pending := []\<rparr>
      | ConnectTimeout c \<Rightarrow> l\<lparr>pending := filter (\<lambda>d. d \<noteq> c) (pending l)\<rparr>
      | Finished c \<Rightarrow> l\<lparr>served := filter (\<lambda>(d, k). d \<noteq> c) (served l)\<rparr>
      | Dropped a \<Rightarrow> if link l = Open a then l\<lparr>link := Down\<rparr> else l
      | IdleFires \<Rightarrow> (case link l of Open k \<Rightarrow> l\<lparr>link := Down\<rparr> | _ \<Rightarrow> l))"

definition link_of :: "nat option \<Rightarrow> nat option \<Rightarrow> ssh_link" where
  "link_of attempt conn = (case attempt of Some a \<Rightarrow> Opening a | None \<Rightarrow> (case conn of Some k \<Rightarrow> Open k | None \<Rightarrow> Down))"

lemma link_of_simps [simp]:
  "link_of (Some a) conn = Opening a" "link_of None (Some k) = Open k" "link_of None None = Down"
  by (simp_all add: link_of_def)

definition line_of :: "ssh_state \<Rightarrow> line_state" where
  "line_of s =
     \<lparr>link = link_of (connecting s) (connection s),
      pending = map fst (awaiting s), served = running s @ waiters s, next_link = attempts s\<rparr>"

lemma line_front:
  assumes "ssh_ok s"
  shows "running s = take MAX_CONCURRENT_CHANNELS (served (line_of s))"
    "waiters s = drop MAX_CONCURRENT_CHANNELS (served (line_of s))"
  using assms by (cases "waiters s = []"; simp add: ssh_ok_def line_of_def)+

lemma acquire_line:
  "channels_ok s \<Longrightarrow> running (acquireChannel c k s) @ waiters (acquireChannel c k s) = (running s @ waiters s) @ [(c, k)]"
  by (auto simp: acquireChannel_def Let_def channels_ok_def)

lemma acquireAll_line:
  "channels_ok s \<Longrightarrow> running (acquireAll calls s) @ waiters (acquireAll calls s) = (running s @ waiters s) @ calls"
proof (induction calls arbitrary: s)
  case Nil
  then show ?case by (simp add: acquireAll_def)
next
  case (Cons x calls)
  then show ?case by (cases x) (simp add: acquireAll_Cons acquire_line acquire_channels_ok)
qed

lemma awaiting_pending:
  assumes "ssh_ok s" "connecting s = Some a"
  shows "awaiting s = map (\<lambda>c. (c, a)) (map fst (awaiting s))"
proof -
  have "map (\<lambda>x. (fst x, a)) (awaiting s) = map id (awaiting s)"
    using assms by (intro map_cong) (auto simp: ssh_ok_def)
  then show ?thesis by (simp add: comp_def)
qed

lemma connected_line:
  assumes "ssh_ok s" "connecting s = Some a"
  shows "line_of (connected a s) = line_step (Connected a) (line_of s)"
proof -
  define s1 where "s1 = s\<lparr>connection := Some a, connecting := None, awaiting := filter (\<lambda>(c, b). b \<noteq> a) (awaiting s)\<rparr>"
  have all: "filter (\<lambda>(c, b). b = a) (awaiting s) = awaiting s" "filter (\<lambda>(c, b). b \<noteq> a) (awaiting s) = []"
    using assms by (auto simp: ssh_ok_def filter_id_conv filter_empty_conv)
  have "channels_ok s1" using assms(1) unfolding ssh_ok_alt s1_def channels_ok_def by auto
  note line = acquireAll_line [OF this, of "awaiting s"]
  have "connected a s = acquireAll (awaiting s) s1" by (simp add: connected_def s1_def all)
  with line acquireAll_spec [of "awaiting s" s1] awaiting_pending [OF assms] show ?thesis
    by (simp add: line_of_def line_step_def s1_def all)
qed

lemma finish_line:
  assumes "ssh_ok s" "c \<in> fst ` set (running s)"
  shows "line_of (finishCall c s) = line_step (Finished c) (line_of s)"
proof -
  have "c \<notin> fst ` set (waiters s)" using assms by (auto simp: ssh_ok_def calls_of_def)
  then have "filter (\<lambda>(d, k). d \<noteq> c) (waiters s) = waiters s" by (intro filter_True) force
  then show ?thesis
    by (cases "waiters s") (auto simp: line_of_def line_step_def finishCall_def releaseChannel_def Let_def)
qed

lemma begin_line: "ssh_ok s \<Longrightarrow> line_of (beginCall c s) = line_step (Call c) (line_of s)"
  using acquire_line [of s c]
  by (cases "connecting s"; cases "connection s") (auto simp: line_of_def line_step_def beginCall_def ssh_ok_alt)

lemma ssh_refines_line:
  assumes "ssh_ok s" "enabled e s"
  shows "line_of (ssh_apply e s) = line_step e (line_of s)"
proof (cases e)
  case (ConnectFailed a)
  with assms have "filter (\<lambda>(c, b). b \<noteq> a) (awaiting s) = []" by (auto simp: ssh_ok_def enabled_def filter_empty_conv)
  with ConnectFailed assms show ?thesis
    by (simp add: ssh_apply_def connectFailed_def line_of_def line_step_def ssh_ok_def enabled_def)
next
  case (ConnectTimeout c)
  have "map fst (filter (\<lambda>(d, a). d \<noteq> c) xs) = filter (\<lambda>d. d \<noteq> c) (map fst xs)" for xs :: "(nat \<times> nat) list"
    by (induction xs) auto
  with ConnectTimeout show ?thesis by (simp add: ssh_apply_def line_of_def line_step_def)
next
  case (Dropped a)
  with assms show ?thesis
    by (cases "connecting s"; cases "connection s") (auto simp: ssh_apply_def dropConnection_def line_of_def line_step_def ssh_ok_def)
next
  case IdleFires
  with assms show ?thesis
    by (cases "connecting s"; cases "connection s") (auto simp: ssh_apply_def disconnectIdle_def line_of_def line_step_def ssh_ok_def)
qed (use assms in \<open>auto simp: ssh_apply_def enabled_def begin_line connected_line finish_line\<close>)

section \<open>Reuse of the connection\<close>

text \<open>A call opens a connection only when there is none and none is being opened.\<close>

lemma attempts_step:
  "ssh_step s e s' \<Longrightarrow>
   attempts s' = attempts s + (if (\<exists>c. e = Call c) \<and> connection s = None \<and> connecting s = None then 1 else 0)"
  using acquireAll_spec
  by (auto elim!: ssh_stepE simp: ssh_apply_def beginCall_def connected_def connectFailed_def dropConnection_def
        disconnectIdle_def finishCall_def releaseChannel_def Let_def
      split: ssh_event.splits option.splits list.splits)

end
