(* ===== verification/EnvConfig.thy ===== *)
theory EnvConfig
  imports JsNumber Redact SshExecutor
begin

text \<open>
  Configuration and wiring: the validation of the environment (\<open>src/config/env.ts\<close>) and what
  \<open>main\<close> builds from it (\<open>src/index.ts\<close>).

  The schema library reports every invalid field; an issue either aborts the object-level
  checks (wrong type, unknown enum value) or lets them run (a string that is too short, a
  number that is not positive). Its message texts and its URL test are arguments.
\<close>

section \<open>Issues\<close>

datatype issue_kind = InvalidType | InvalidValue | InvalidFormat | TooSmall | TooBig | Custom string

record issue =
  issue_path :: string
  issue_kind :: issue_kind

definition aborts :: "issue \<Rightarrow> bool" where
  "aborts i = (issue_kind i = InvalidType \<or> issue_kind i = InvalidValue)"

text \<open>A field's issues and its value (of no meaning when an issue aborts).\<close>

type_synonym 'a checked = "issue list \<times> 'a"

definition bad :: "string \<Rightarrow> issue_kind \<Rightarrow> issue list" where
  "bad field k = [\<lparr>issue_path = field, issue_kind = k\<rparr>]"

section \<open>Field validators\<close>

type_synonym env_source = "string \<Rightarrow> string option"

definition url_field :: "(string \<Rightarrow> bool) \<Rightarrow> env_source \<Rightarrow> string \<Rightarrow> string checked" where
  "url_field valid_url src field =
     (case src field of
        None \<Rightarrow> (bad field InvalidType, [])
      | Some s \<Rightarrow> (if valid_url s then [] else bad field InvalidFormat, s))"

definition min1_field :: "env_source \<Rightarrow> string \<Rightarrow> string checked" where
  "min1_field src field =
     (case src field of
        None \<Rightarrow> (bad field InvalidType, [])
      | Some s \<Rightarrow> (if s = [] then bad field TooSmall else [], s))"

definition min1_default :: "string \<Rightarrow> env_source \<Rightarrow> string \<Rightarrow> string checked" where
  "min1_default d src field =
     (case src field of None \<Rightarrow> ([], d) | Some s \<Rightarrow> (if s = [] then bad field TooSmall else [], s))"

definition min1_optional :: "env_source \<Rightarrow> string \<Rightarrow> string option checked" where
  "min1_optional src field =
     (case src field of None \<Rightarrow> ([], None) | Some s \<Rightarrow> (if s = [] then bad field TooSmall else [], Some s))"

definition enum_default :: "string list \<Rightarrow> string \<Rightarrow> env_source \<Rightarrow> string \<Rightarrow> string checked" where
  "enum_default vals d src field =
     (case src field of
        None \<Rightarrow> ([], d)
      | Some s \<Rightarrow> if s \<in> set vals then ([], s) else (bad field InvalidValue, s))"

definition flag_field :: "env_source \<Rightarrow> string \<Rightarrow> bool checked" where
  "flag_field src field =
     (let (iss, v) = enum_default [''true'', ''false''] ''false'' src field in (iss, v = ''true''))"

definition MAX_SAFE_INTEGER :: rat where "MAX_SAFE_INTEGER = 9007199254740991"

text \<open>\<open>z.coerce.number().int().positive().default(d)\<close>.\<close>

definition positive_int_default :: "int \<Rightarrow> env_source \<Rightarrow> string \<Rightarrow> int checked" where
  "positive_int_default d src field =
     (case src field of
        None \<Rightarrow> ([], d)
      | Some s \<Rightarrow>
          (case js_number s of
             NonFinite \<Rightarrow> (bad field InvalidType, 0)
           | Finite q \<Rightarrow>
               if of_int \<lfloor>q\<rfloor> \<noteq> q then (bad field InvalidType, 0)
               else ((if q > MAX_SAFE_INTEGER then bad field TooBig else []) @
                     (if q < - MAX_SAFE_INTEGER then bad field TooSmall else []) @
                     (if q \<le> 0 then bad field TooSmall else []), \<lfloor>q\<rfloor>)))"

definition parseAllowedHosts :: "string option \<Rightarrow> string list option" where
  "parseAllowedHosts value =
     (case value of
        None \<Rightarrow> None
      | Some v \<Rightarrow>
          if v = [] then None
          else (let hosts = filter (\<lambda>h. length h > 0) (map trim (split_on '','' v))
                in if length hosts > 0 then Some hosts else None))"

section \<open>The schema\<close>

record env =
  UNRAID_API_URL :: string
  UNRAID_API_KEY :: string
  MCP_TRANSPORT :: string
  MCP_HTTP_PORT :: int
  MCP_HTTP_HOST :: string
  MCP_HTTP_ALLOWED_HOSTS :: "string list option"
  MCP_HTTP_BEARER_TOKEN :: "string option"
  MCP_HTTP_ALLOW_UNAUTHENTICATED :: bool
  MCP_HTTP_SESSIONS :: bool
  UNRAID_ALLOW_SELF_SIGNED :: bool
  MCP_READ_ONLY :: bool
  MCP_METRICS_HISTORY :: bool
  LOG_LEVEL :: string
  UNRAID_SSH_HOST :: "string option"
  UNRAID_SSH_PORT :: int
  UNRAID_SSH_USER :: string
  UNRAID_SSH_PASSWORD :: "string option"
  UNRAID_SSH_KEY_PATH :: "string option"
  UNRAID_SSH_IDLE_SECONDS :: int

definition TRANSPORTS :: "string list" where "TRANSPORTS = [''stdio'', ''http'']"

definition LOG_LEVELS :: "string list" where
  "LOG_LEVELS = [''fatal'', ''error'', ''warn'', ''info'', ''debug'', ''trace'', ''silent'']"

definition base_env :: "(string \<Rightarrow> bool) \<Rightarrow> env_source \<Rightarrow> env checked" where
  "base_env valid_url src =
     (let (i1, url) = url_field valid_url src ''UNRAID_API_URL'';
          (i2, key) = min1_field src ''UNRAID_API_KEY'';
          (i3, trans) = enum_default TRANSPORTS ''stdio'' src ''MCP_TRANSPORT'';
          (i4, hport) = positive_int_default 3000 src ''MCP_HTTP_PORT'';
          (i5, hhost) = min1_default ''127.0.0.1'' src ''MCP_HTTP_HOST'';
          hosts = parseAllowedHosts (src ''MCP_HTTP_ALLOWED_HOSTS'');
          (i6, bearer) = min1_optional src ''MCP_HTTP_BEARER_TOKEN'';
          (i7, unauth) = flag_field src ''MCP_HTTP_ALLOW_UNAUTHENTICATED'';
          (i8, sess) = flag_field src ''MCP_HTTP_SESSIONS'';
          (i9, selfs) = flag_field src ''UNRAID_ALLOW_SELF_SIGNED'';
          (i10, ro) = flag_field src ''MCP_READ_ONLY'';
          (i11, hist) = flag_field src ''MCP_METRICS_HISTORY'';
          (i12, lvl) = enum_default LOG_LEVELS ''info'' src ''LOG_LEVEL'';
          (i13, shost) = min1_optional src ''UNRAID_SSH_HOST'';
          (i14, sport) = positive_int_default 22 src ''UNRAID_SSH_PORT'';
          (i15, suser) = min1_default ''root'' src ''UNRAID_SSH_USER'';
          (i16, spass) = min1_optional src ''UNRAID_SSH_PASSWORD'';
          (i17, skey) = min1_optional src ''UNRAID_SSH_KEY_PATH'';
          (i18, sidle) = positive_int_default 90 src ''UNRAID_SSH_IDLE_SECONDS''
      in (i1 @ i2 @ i3 @ i4 @ i5 @ i6 @ i7 @ i8 @ i9 @ i10 @ i11 @ i12 @ i13 @ i14 @ i15 @ i16 @ i17 @ i18,
          \<lparr>UNRAID_API_URL = url, UNRAID_API_KEY = key, MCP_TRANSPORT = trans, MCP_HTTP_PORT = hport,
           MCP_HTTP_HOST = hhost, MCP_HTTP_ALLOWED_HOSTS = hosts, MCP_HTTP_BEARER_TOKEN = bearer,
           MCP_HTTP_ALLOW_UNAUTHENTICATED = unauth, MCP_HTTP_SESSIONS = sess, UNRAID_ALLOW_SELF_SIGNED = selfs,
           MCP_READ_ONLY = ro, MCP_METRICS_HISTORY = hist, LOG_LEVEL = lvl, UNRAID_SSH_HOST = shost,
           UNRAID_SSH_PORT = sport, UNRAID_SSH_USER = suser, UNRAID_SSH_PASSWORD = spass,
           UNRAID_SSH_KEY_PATH = skey, UNRAID_SSH_IDLE_SECONDS = sidle\<rparr>))"

text \<open>An optional string that is absent or empty (\<open>!value\<close>).\<close>

definition falsy :: "string option \<Rightarrow> bool" where
  "falsy s = (s = None \<or> s = Some [])"

definition env_refinements :: "env \<Rightarrow> issue list" where
  "env_refinements e =
     (if \<not> falsy (UNRAID_SSH_HOST e) \<and> falsy (UNRAID_SSH_PASSWORD e) \<and> falsy (UNRAID_SSH_KEY_PATH e)
      then bad ''UNRAID_SSH_HOST'' (Custom ''UNRAID_SSH_HOST requires UNRAID_SSH_PASSWORD or UNRAID_SSH_KEY_PATH'')
      else []) @
     (if MCP_TRANSPORT e = ''http'' \<and> falsy (MCP_HTTP_BEARER_TOKEN e) \<and> \<not> MCP_HTTP_ALLOW_UNAUTHENTICATED e
      then bad ''MCP_HTTP_BEARER_TOKEN'' (Custom ''MCP_TRANSPORT=http requires MCP_HTTP_BEARER_TOKEN, or MCP_HTTP_ALLOW_UNAUTHENTICATED=true to explicitly run an open endpoint on a trusted network'')
      else [])"

definition env_issues :: "(string \<Rightarrow> bool) \<Rightarrow> env_source \<Rightarrow> issue list" where
  "env_issues valid_url src =
     (let (base, e) = base_env valid_url src
      in if \<exists>i \<in> set base. aborts i then base else base @ env_refinements e)"

definition issue_message :: "(string \<Rightarrow> issue_kind \<Rightarrow> string) \<Rightarrow> issue \<Rightarrow> string" where
  "issue_message zod_message i =
     (case issue_kind i of Custom m \<Rightarrow> m | k \<Rightarrow> zod_message (issue_path i) k)"

definition loadEnv :: "(string \<Rightarrow> bool) \<Rightarrow> (string \<Rightarrow> issue_kind \<Rightarrow> string) \<Rightarrow> env_source \<Rightarrow> string + env" where
  "loadEnv valid_url zod_message src =
     (let issues = env_issues valid_url src
      in if issues = [] then Inr (snd (base_env valid_url src))
         else Inl (''Invalid environment configuration: '' @
                   join ''; '' (map (\<lambda>i. issue_path i @ '': '' @ issue_message zod_message i) issues)))"

section \<open>Wiring\<close>

definition buildShellExecutor :: "env \<Rightarrow> ssh_settings option" where
  "buildShellExecutor e =
     (case UNRAID_SSH_HOST e of
        None \<Rightarrow> None
      | Some h \<Rightarrow>
          if h = [] then None
          else Some \<lparr>host = h, port = UNRAID_SSH_PORT e, username = UNRAID_SSH_USER e,
                     password = UNRAID_SSH_PASSWORD e, privateKeyPath = UNRAID_SSH_KEY_PATH e,
                     idleSeconds = Some (UNRAID_SSH_IDLE_SECONDS e)\<rparr>)"

definition registered_secrets :: "env \<Rightarrow> string list" where
  "registered_secrets e =
     registerSecretValues [Some (UNRAID_API_KEY e), UNRAID_SSH_PASSWORD e, MCP_HTTP_BEARER_TOKEN e]"

record http_settings =
  http_port :: int
  http_host :: string
  http_allowedHosts :: "string list option"
  http_bearerToken :: "string option"
  http_sessions :: bool
  http_warns_open :: bool

datatype launch = RunDoctor | ServeHttp http_settings | ServeStdio

definition startHttpTransport :: "env \<Rightarrow> http_settings" where
  "startHttpTransport e =
     \<lparr>http_port = MCP_HTTP_PORT e, http_host = MCP_HTTP_HOST e, http_allowedHosts = MCP_HTTP_ALLOWED_HOSTS e,
      http_bearerToken = MCP_HTTP_BEARER_TOKEN e, http_sessions = MCP_HTTP_SESSIONS e,
      http_warns_open = falsy (MCP_HTTP_BEARER_TOKEN e)\<rparr>"

record server_plan =
  plan_shell :: "ssh_settings option"
  plan_secrets :: "string list"
  plan_readOnly :: bool
  plan_history :: bool
  plan_launch :: launch

definition main_plan :: "env \<Rightarrow> bool \<Rightarrow> server_plan" where
  "main_plan e doctor =
     \<lparr>plan_shell = buildShellExecutor e,
      plan_secrets = registered_secrets e,
      plan_readOnly = MCP_READ_ONLY e,
      plan_history = MCP_METRICS_HISTORY e,
      plan_launch = (if doctor then RunDoctor
                     else if MCP_TRANSPORT e = ''http'' then ServeHttp (startHttpTransport e) else ServeStdio)\<rparr>"

section \<open>What a validated configuration guarantees\<close>

lemma loadEnv_ok_iff:
  "loadEnv vu zm src = Inr e \<longleftrightarrow> env_issues vu src = [] \<and> e = snd (base_env vu src)"
  by (auto simp: loadEnv_def Let_def)

lemma env_issues_empty:
  assumes "env_issues vu src = []" "base_env vu src = (iss, e)"
  shows "iss = [] \<and> env_refinements e = []"
  using assms by (auto simp: env_issues_def split: if_splits)

lemma loadEnv_refined: "loadEnv vu zm src = Inr e \<Longrightarrow> env_refinements e = []"
  unfolding loadEnv_ok_iff using env_issues_empty [of vu src "fst (base_env vu src)" e] by simp

lemma positive_int_default_pos:
  assumes "positive_int_default d src f = ([], n)" "0 < d"
  shows "0 < n"
  using assms
  by (auto simp: positive_int_default_def bad_def split: option.splits js_num.splits if_splits)

lemma base_env_fields:
  assumes "base_env vu src = ([], e)"
  shows "min1_field src ''UNRAID_API_KEY'' = ([], UNRAID_API_KEY e)"
    and "positive_int_default 3000 src ''MCP_HTTP_PORT'' = ([], MCP_HTTP_PORT e)"
    and "positive_int_default 22 src ''UNRAID_SSH_PORT'' = ([], UNRAID_SSH_PORT e)"
    and "positive_int_default 90 src ''UNRAID_SSH_IDLE_SECONDS'' = ([], UNRAID_SSH_IDLE_SECONDS e)"
    and "min1_optional src ''MCP_HTTP_BEARER_TOKEN'' = ([], MCP_HTTP_BEARER_TOKEN e)"
    and "min1_optional src ''UNRAID_SSH_PASSWORD'' = ([], UNRAID_SSH_PASSWORD e)"
    and "enum_default TRANSPORTS ''stdio'' src ''MCP_TRANSPORT'' = ([], MCP_TRANSPORT e)"
  using assms by (auto simp: base_env_def Let_def split: prod.splits)

lemma min1_optional_nonempty: "min1_optional src f = ([], v) \<Longrightarrow> v \<noteq> Some []"
  by (auto simp: min1_optional_def bad_def split: option.splits if_splits)

lemma min1_field_nonempty: "min1_field src f = ([], v) \<Longrightarrow> v \<noteq> []"
  by (auto simp: min1_field_def bad_def split: option.splits if_splits)

lemma loadEnv_base:
  assumes "loadEnv vu zm src = Inr e"
  shows "base_env vu src = ([], e)"
proof -
  obtain iss e' where b: "base_env vu src = (iss, e')" by force
  with assms have "env_issues vu src = []" "e = e'" by (auto simp: loadEnv_ok_iff)
  with env_issues_empty [OF this(1) b] b show ?thesis by simp
qed

lemma validated_env:
  assumes "loadEnv valid_url zod_message src = Inr e"
  shows "0 < MCP_HTTP_PORT e \<and> 0 < UNRAID_SSH_PORT e \<and> 0 < UNRAID_SSH_IDLE_SECONDS e \<and> UNRAID_API_KEY e \<noteq> []
    \<and> MCP_TRANSPORT e \<in> {''stdio'', ''http''}
    \<and> (MCP_TRANSPORT e \<noteq> ''http'' \<or> \<not> falsy (MCP_HTTP_BEARER_TOKEN e) \<or> MCP_HTTP_ALLOW_UNAUTHENTICATED e)
    \<and> (falsy (UNRAID_SSH_HOST e) \<or> \<not> falsy (UNRAID_SSH_PASSWORD e) \<or> \<not> falsy (UNRAID_SSH_KEY_PATH e))"
proof -
  note f = base_env_fields [OF loadEnv_base  [OF assms]]
  have "MCP_TRANSPORT e \<in> set TRANSPORTS"
    using f(7) by (auto simp: enum_default_def bad_def TRANSPORTS_def split: option.splits if_splits)
  moreover have "env_refinements e = []" by (rule loadEnv_refined  [OF assms])
  ultimately show ?thesis
    using positive_int_default_pos [OF f(2)] positive_int_default_pos [OF f(3)] positive_int_default_pos [OF f(4)]
      min1_field_nonempty [OF f(1)]
    by (auto simp: env_refinements_def bad_def TRANSPORTS_def split: if_splits)
qed

end
