(* ===== verification/Effects.thy ===== *)
theory Effects
  imports Json
begin

text \<open>
  Tool handlers are asynchronous functions that talk to four outside parties: the GraphQL
  executor, the SSH executor, the human (through MCP elicitation) and the client (progress
  notifications). A handler is modelled as the tree of its requests: each node is one call,
  with a continuation for every reply. \<open>run\<close> executes a tree against a \<open>world\<close>, whose
  answers may depend on everything that happened before, and records the calls as events.

  \<open>emits P p\<close> states that every request \<open>p\<close> can ever make satisfies \<open>P\<close>; \<open>run_emits\<close>
  turns that into a statement about the recorded events of any run.
\<close>

section \<open>GraphQL documents\<close>

datatype op_type = Query | Mutation | Subscription

datatype selection =
    Field string "selection list"
  | InlineFragment "selection list"
  | FragmentSpread string

datatype gql_definition =
    OperationDefinition op_type "selection list"
  | FragmentDefinition string "selection list"
  | OtherDefinition

text \<open>A typed-document-node: its name (used for identity) and its parsed definitions.\<close>

record gql_document =
  doc_name :: string
  definitions :: "gql_definition list"

definition mk_doc :: "string \<Rightarrow> op_type \<Rightarrow> selection list \<Rightarrow> gql_document" where
  "mk_doc n t sels = \<lparr>doc_name = n, definitions = [OperationDefinition t sels]\<rparr>"

fun is_operation :: "gql_definition \<Rightarrow> bool" where
  "is_operation (OperationDefinition t s) = True"
| "is_operation _ = False"

fun is_mutation_def :: "gql_definition \<Rightarrow> bool" where
  "is_mutation_def (OperationDefinition t s) = (t = Mutation)"
| "is_mutation_def _ = False"

text \<open>Some operation of the document is a mutation.\<close>

definition has_mutation :: "gql_document \<Rightarrow> bool" where
  "has_mutation d = (\<exists>x \<in> set (definitions d). is_mutation_def x)"

lemma has_mutation_mk_doc [simp]: "has_mutation (mk_doc n t s) = (t = Mutation)"
  by (simp add: has_mutation_def mk_doc_def)

section \<open>Requests, replies and programs\<close>

text \<open>Result of one remote command (\<open>ShellResult\<close> of the executor).\<close>

record shell_result =
  stdout :: string
  stderr :: string
  exitCode :: int

text \<open>
  What the SDK answers to an elicitation request: the request failed, or the human acted
  and (on accept) filled in the form.
\<close>

datatype elicit_reply =
    ElicitFailed
  | ElicitAnswered (elicit_action: string) (elicit_content: jsval)

datatype event =
    EGql gql_document jsval
  | EShell string int
  | EElicit string bool
  | ENotify jsval

text \<open>
  Programs. \<open>Throw\<close> is a rejected promise, identified by the message the handlers read off
  it. A GraphQL or shell call is answered by an error message or a payload; \<open>Secrets\<close> reads
  the module-level list of registered secret values.
\<close>

datatype 'a prog =
    Ret 'a
  | Throw string
  | Gql gql_document jsval "string + jsval \<Rightarrow> 'a prog"
  | Shell string int "string + shell_result \<Rightarrow> 'a prog"
  | Elicit string bool "elicit_reply \<Rightarrow> 'a prog"
  | Notify jsval "bool \<Rightarrow> 'a prog"
  | Secrets "string list \<Rightarrow> 'a prog"

primrec bind :: "'a prog \<Rightarrow> ('a \<Rightarrow> 'b prog) \<Rightarrow> 'b prog" where
  "bind (Ret a) f = f a"
| "bind (Throw e) f = Throw e"
| "bind (Gql d v k) f = Gql d v (\<lambda>r. bind (k r) f)"
| "bind (Shell c t k) f = Shell c t (\<lambda>r. bind (k r) f)"
| "bind (Elicit m b k) f = Elicit m b (\<lambda>r. bind (k r) f)"
| "bind (Notify n k) f = Notify n (\<lambda>r. bind (k r) f)"
| "bind (Secrets k) f = Secrets (\<lambda>r. bind (k r) f)"

text \<open>\<open>try { p } catch (error) { h(message) }\<close>.\<close>

primrec catch :: "'a prog \<Rightarrow> (string \<Rightarrow> 'a prog) \<Rightarrow> 'a prog" where
  "catch (Ret a) h = Ret a"
| "catch (Throw e) h = h e"
| "catch (Gql d v k) h = Gql d v (\<lambda>r. catch (k r) h)"
| "catch (Shell c t k) h = Shell c t (\<lambda>r. catch (k r) h)"
| "catch (Elicit m b k) h = Elicit m b (\<lambda>r. catch (k r) h)"
| "catch (Notify n k) h = Notify n (\<lambda>r. catch (k r) h)"
| "catch (Secrets k) h = Secrets (\<lambda>r. catch (k r) h)"

text \<open>Sequencing where the value is not used.\<close>

definition seq :: "unit prog \<Rightarrow> 'b prog \<Rightarrow> 'b prog" where
  "seq p q = bind p (\<lambda>_. q)"

lemma bind_Ret_right [simp]: "bind p Ret = p"
  by (induction p) auto

lemma bind_assoc: "bind (bind p f) g = bind p (\<lambda>x. bind (f x) g)"
  by (induction p) auto

section \<open>Primitive calls\<close>

text \<open>\<open>await client.execute(document, variables)\<close>.\<close>

definition execute_gql :: "gql_document \<Rightarrow> jsval \<Rightarrow> jsval prog" where
  "execute_gql d v = Gql d v (\<lambda>r. case r of Inl e \<Rightarrow> Throw e | Inr x \<Rightarrow> Ret x)"

text \<open>\<open>await shell.execute(command, timeoutMs)\<close>.\<close>

definition execute_shell :: "string \<Rightarrow> int \<Rightarrow> shell_result prog" where
  "execute_shell c t = Shell c t (\<lambda>r. case r of Inl e \<Rightarrow> Throw e | Inr x \<Rightarrow> Ret x)"

text \<open>
  Reading a property off \<open>null\<close> or \<open>undefined\<close> is a TypeError; on any other value it is
  \<open>getp\<close>. \<open>path\<close> is a chain of property reads.
\<close>

definition prop_of :: "jsval \<Rightarrow> string \<Rightarrow> jsval prog" where
  "prop_of v k =
     (if nullish v then Throw (''Cannot read properties of '' @ (if v = JNull then ''null'' else ''undefined'')
                               @ '' (reading '' @ squote @ k @ squote @ '')'')
      else Ret (getp v k))"

fun path :: "jsval \<Rightarrow> string list \<Rightarrow> jsval prog" where
  "path v [] = Ret v"
| "path v (k # ks) = bind (prop_of v k) (\<lambda>x. path x ks)"

text \<open>
  A payload read at the type its document declares: \<open>None\<close> from the decoder means the server
  broke the declared shape, on which the code's accesses fail with a TypeError.
\<close>

definition decode :: "'a option \<Rightarrow> 'a prog" where
  "decode x = (case x of None \<Rightarrow> Throw ''TypeError: unexpected payload shape'' | Some a \<Rightarrow> Ret a)"

section \<open>Running a program\<close>

record world =
  w_gql :: "event list \<Rightarrow> gql_document \<Rightarrow> jsval \<Rightarrow> string + jsval"
  w_shell :: "event list \<Rightarrow> string \<Rightarrow> int \<Rightarrow> string + shell_result"
  w_elicit :: "event list \<Rightarrow> string \<Rightarrow> bool \<Rightarrow> elicit_reply"
  w_notify :: "event list \<Rightarrow> jsval \<Rightarrow> bool"
  w_secrets :: "string list"

primrec run :: "world \<Rightarrow> event list \<Rightarrow> 'a prog \<Rightarrow> (string + 'a) \<times> event list" where
  "run w tr (Ret a) = (Inr a, tr)"
| "run w tr (Throw e) = (Inl e, tr)"
| "run w tr (Gql d v k) = run w (tr @ [EGql d v]) (k (w_gql w tr d v))"
| "run w tr (Shell c t k) = run w (tr @ [EShell c t]) (k (w_shell w tr c t))"
| "run w tr (Elicit m b k) = run w (tr @ [EElicit m b]) (k (w_elicit w tr m b))"
| "run w tr (Notify n k) = run w (tr @ [ENotify n]) (k (w_notify w tr n))"
| "run w tr (Secrets k) = run w tr (k (w_secrets w))"

text \<open>The value a run returns and the events it adds to an empty trace.\<close>

definition result_of :: "world \<Rightarrow> 'a prog \<Rightarrow> string + 'a" where
  "result_of w p = fst (run w [] p)"

definition events_of :: "world \<Rightarrow> 'a prog \<Rightarrow> event list" where
  "events_of w p = snd (run w [] p)"

lemma run_bind [prog_simps]:
  "run w tr (bind p f) =
     (case run w tr p of (Inl e, tr') \<Rightarrow> (Inl e, tr') | (Inr a, tr') \<Rightarrow> run w tr' (f a))"
  by (induction p arbitrary: tr) auto

text \<open>A composition returns a value exactly when both parts do.\<close>

lemma run_bind_returns:
  "run w tr (bind p f) = (Inr b, tr') \<longleftrightarrow> (\<exists>a tr1. run w tr p = (Inr a, tr1) \<and> run w tr1 (f a) = (Inr b, tr'))"
  by (auto simp: run_bind split: prod.splits sum.splits)

lemma run_catch [prog_simps]:
  "run w tr (catch p h) =
     (case run w tr p of (Inl e, tr') \<Rightarrow> run w tr' (h e) | (Inr a, tr') \<Rightarrow> (Inr a, tr'))"
  by (induction p arbitrary: tr) auto

lemma run_seq [prog_simps]:
  "run w tr (seq p q) = (case run w tr p of (Inl e, tr') \<Rightarrow> (Inl e, tr') | (Inr a, tr') \<Rightarrow> run w tr' q)"
  by (simp add: seq_def run_bind)

lemma run_execute_gql [prog_simps]:
  "run w tr (execute_gql d v) = (w_gql w tr d v, tr @ [EGql d v])"
  by (simp add: execute_gql_def split: sum.splits)

lemma run_execute_shell [prog_simps]:
  "run w tr (execute_shell c t) = (w_shell w tr c t, tr @ [EShell c t])"
  by (simp add: execute_shell_def split: sum.splits)

text \<open>Reading a payload makes no request: its outcome is a function of the value.\<close>

definition type_error :: "jsval \<Rightarrow> string \<Rightarrow> string" where
  "type_error v k = ''Cannot read properties of '' @ (if v = JNull then ''null'' else ''undefined'')
                    @ '' (reading '' @ squote @ k @ squote @ '')''"

fun path_result :: "jsval \<Rightarrow> string list \<Rightarrow> string + jsval" where
  "path_result v [] = Inr v"
| "path_result v (k # ks) = (if nullish v then Inl (type_error v k) else path_result (getp v k) ks)"

lemma run_prop_of [prog_simps]:
  "run w tr (prop_of v k) = (if nullish v then Inl (type_error v k) else Inr (getp v k), tr)"
  by (simp add: prop_of_def type_error_def)

lemma run_path [prog_simps]: "run w tr (path v ks) = (path_result v ks, tr)"
  by (induction v ks rule: path_result.induct) (auto simp: run_bind run_prop_of)

lemma run_decode [prog_simps]:
  "run w tr (decode x) =
     (case x of None \<Rightarrow> Inl ''TypeError: unexpected payload shape'' | Some a \<Rightarrow> Inr a, tr)"
  by (simp add: decode_def split: option.splits)

text \<open>A run only appends to the trace.\<close>

lemma run_extends: "\<exists>es. snd (run w tr p) = tr @ es"
proof (induction p arbitrary: tr)
  case (Gql d v k)
  obtain es where "snd (run w (tr @ [EGql d v]) (k (w_gql w tr d v))) = (tr @ [EGql d v]) @ es"
    using Gql by blast
  then show ?case by simp
next
  case (Shell c t k)
  obtain es where "snd (run w (tr @ [EShell c t]) (k (w_shell w tr c t))) = (tr @ [EShell c t]) @ es"
    using Shell by blast
  then show ?case by simp
next
  case (Elicit m b k)
  obtain es where "snd (run w (tr @ [EElicit m b]) (k (w_elicit w tr m b))) = (tr @ [EElicit m b]) @ es"
    using Elicit by blast
  then show ?case by simp
next
  case (Notify n k)
  obtain es where "snd (run w (tr @ [ENotify n]) (k (w_notify w tr n))) = (tr @ [ENotify n]) @ es"
    using Notify by blast
  then show ?case by simp
qed auto

section \<open>What a program may request\<close>

primrec emits :: "(event \<Rightarrow> bool) \<Rightarrow> 'a prog \<Rightarrow> bool" where
  "emits P (Ret a) = True"
| "emits P (Throw e) = True"
| "emits P (Gql d v k) = (P (EGql d v) \<and> (\<forall>r. emits P (k r)))"
| "emits P (Shell c t k) = (P (EShell c t) \<and> (\<forall>r. emits P (k r)))"
| "emits P (Elicit m b k) = (P (EElicit m b) \<and> (\<forall>r. emits P (k r)))"
| "emits P (Notify n k) = (P (ENotify n) \<and> (\<forall>r. emits P (k r)))"
| "emits P (Secrets k) = (\<forall>r. emits P (k r))"

lemma emits_bind [emits_intros]: "emits P p \<Longrightarrow> (\<And>a. emits P (f a)) \<Longrightarrow> emits P (bind p f)"
  by (induction p) auto

lemma emits_catch [emits_intros]: "emits P p \<Longrightarrow> (\<And>e. emits P (h e)) \<Longrightarrow> emits P (catch p h)"
  by (induction p) auto

lemma emits_seq [emits_intros]: "emits P p \<Longrightarrow> emits P q \<Longrightarrow> emits P (seq p q)"
  by (simp add: seq_def emits_bind)

lemma emits_Ret [emits_intros]: "emits P (Ret a)" by simp

lemma emits_Throw [emits_intros]: "emits P (Throw e)" by simp

lemma emits_gql [emits_intros]: "P (EGql d v) \<Longrightarrow> emits P (execute_gql d v)"
  by (auto simp: execute_gql_def split: sum.splits)

lemma emits_shell [emits_intros]: "P (EShell c t) \<Longrightarrow> emits P (execute_shell c t)"
  by (auto simp: execute_shell_def split: sum.splits)

lemma emits_prop_of [emits_intros]: "emits P (prop_of v k)"
  by (simp add: prop_of_def)

lemma emits_path [emits_intros]: "emits P (path v ks)"
  by (induction v ks rule: path.induct) (auto intro: emits_intros)

lemma emits_decode [emits_intros]: "emits P (decode x)"
  by (simp add: decode_def split: option.splits)

lemma emits_if [emits_intros]: "(b \<Longrightarrow> emits P p) \<Longrightarrow> (\<not> b \<Longrightarrow> emits P q) \<Longrightarrow> emits P (if b then p else q)"
  by simp

lemma emits_option [emits_intros]:
  "(x = None \<Longrightarrow> emits P p) \<Longrightarrow> (\<And>a. x = Some a \<Longrightarrow> emits P (f a)) \<Longrightarrow>
   emits P (case x of None \<Rightarrow> p | Some a \<Rightarrow> f a)"
  by (cases x) auto

lemma emits_sum [emits_intros]:
  "(\<And>a. x = Inl a \<Longrightarrow> emits P (f a)) \<Longrightarrow> (\<And>b. x = Inr b \<Longrightarrow> emits P (g b)) \<Longrightarrow> emits P (case x of Inl a \<Rightarrow> f a | Inr b \<Rightarrow> g b)"
  by (cases x) auto

lemma emits_let [emits_intros]: "emits P (f x) \<Longrightarrow> emits P (Let x f)"
  by simp

lemma emits_mono: "emits P p \<Longrightarrow> (\<And>e. P e \<Longrightarrow> Q e) \<Longrightarrow> emits Q p"
  by (induction p) auto

text \<open>Soundness: every event a run adds satisfies the predicate.\<close>

lemma run_emits:
  "emits P p \<Longrightarrow> snd (run w tr p) = tr @ es \<Longrightarrow> e \<in> set es \<Longrightarrow> P e"
proof (induction p arbitrary: tr es)
  case (Gql d v k)
  obtain es' where es': "snd (run w (tr @ [EGql d v]) (k (w_gql w tr d v))) = (tr @ [EGql d v]) @ es'"
    using run_extends by blast
  with Gql.prems have "es = EGql d v # es'" by simp
  with Gql.prems show ?case using Gql.IH [OF _ _ es'] by auto
next
  case (Shell c t k)
  obtain es' where es': "snd (run w (tr @ [EShell c t]) (k (w_shell w tr c t))) = (tr @ [EShell c t]) @ es'"
    using run_extends by blast
  with Shell.prems have "es = EShell c t # es'" by simp
  with Shell.prems show ?case using Shell.IH [OF _ _ es'] by auto
next
  case (Elicit m b k)
  obtain es' where es': "snd (run w (tr @ [EElicit m b]) (k (w_elicit w tr m b))) = (tr @ [EElicit m b]) @ es'"
    using run_extends by blast
  with Elicit.prems have "es = EElicit m b # es'" by simp
  with Elicit.prems show ?case using Elicit.IH [OF _ _ es'] by auto
next
  case (Notify n k)
  obtain es' where es': "snd (run w (tr @ [ENotify n]) (k (w_notify w tr n))) = (tr @ [ENotify n]) @ es'"
    using run_extends by blast
  with Notify.prems have "es = ENotify n # es'" by simp
  with Notify.prems show ?case using Notify.IH [OF _ _ es'] by auto
next
  case (Secrets k)
  then show ?case using Secrets.IH [of "k (w_secrets w)"] by auto
qed auto

lemma events_emits: "emits P p \<Longrightarrow> e \<in> set (events_of w p) \<Longrightarrow> P e"
  using run_emits [of P p w "[]" "events_of w p" e] by (simp add: events_of_def)

text \<open>Programs that make no request at all.\<close>

abbreviation silent :: "'a prog \<Rightarrow> bool" where
  "silent p \<equiv> emits (\<lambda>_. False) p"

lemma silent_emits: "silent p \<Longrightarrow> emits P p"
  by (erule emits_mono) simp

lemma run_silent: "silent p \<Longrightarrow> snd (run w tr p) = tr"
  using run_extends [of w tr p] run_emits [of "\<lambda>_. False" p w tr] by (metis append_Nil2 list.set_intros(1) neq_Nil_conv)

section \<open>Classes of events\<close>

text \<open>Calls that reach the Unraid host at all, and those that may change its state.\<close>

fun touches_host :: "event \<Rightarrow> bool" where
  "touches_host (EGql d v) = True"
| "touches_host (EShell c t) = True"
| "touches_host _ = False"

fun gql_mutates :: "event \<Rightarrow> bool" where
  "gql_mutates (EGql d v) = has_mutation d"
| "gql_mutates _ = False"

text \<open>A program whose GraphQL calls are all queries and that runs no shell command.\<close>

definition queries_only :: "event \<Rightarrow> bool" where
  "queries_only e = (case e of EGql d v \<Rightarrow> \<not> has_mutation d | EShell c t \<Rightarrow> False | _ \<Rightarrow> True)"

end
