(* ===== verification/RateLimit.thy ===== *)
theory RateLimit
  imports Prelude
begin

text \<open>
  The client-side rate limiter (\<open>src/graphql/rate-limit.ts\<close>). The clock is an argument of
  every operation; tokens are exact rationals. A call that has to wait is two steps, because
  other callers may run while it sleeps: \<open>acquire_begin\<close> decides, \<open>acquire_wake\<close> finishes.
\<close>

definition MS_PER_SECOND :: rat where "MS_PER_SECOND = 1000"
definition BUCKET_CAPACITY :: rat where "BUCKET_CAPACITY = 90"
definition REFILL_PER_SECOND :: rat where "REFILL_PER_SECOND = 9"
definition DEFAULT_MAX_WAIT_MS :: int where "DEFAULT_MAX_WAIT_MS = 10000"

record token_bucket =
  tokens :: rat
  lastRefillMs :: int
  capacity :: rat
  refillPerSecond :: rat
  maxWaitMs :: int

record bucket_options =
  opt_capacity :: "rat option"
  opt_refillPerSecond :: "rat option"
  opt_maxWaitMs :: "int option"

definition or_else :: "'a option \<Rightarrow> 'a \<Rightarrow> 'a" where
  "or_else x d = (case x of None \<Rightarrow> d | Some a \<Rightarrow> a)"

definition newTokenBucket :: "bucket_options \<Rightarrow> int \<Rightarrow> token_bucket" where
  "newTokenBucket options nowMs =
     \<lparr>tokens = or_else (opt_capacity options) BUCKET_CAPACITY,
      lastRefillMs = nowMs,
      capacity = or_else (opt_capacity options) BUCKET_CAPACITY,
      refillPerSecond = or_else (opt_refillPerSecond options) REFILL_PER_SECOND,
      maxWaitMs = or_else (opt_maxWaitMs options) DEFAULT_MAX_WAIT_MS\<rparr>"

definition refill :: "int \<Rightarrow> token_bucket \<Rightarrow> token_bucket" where
  "refill nowMs b =
     (let elapsedSeconds = of_int (nowMs - lastRefillMs b) / MS_PER_SECOND
      in b\<lparr>tokens := min (capacity b) (tokens b + elapsedSeconds * refillPerSecond b), lastRefillMs := nowMs\<rparr>)"

definition msUntilNextToken :: "token_bucket \<Rightarrow> int" where
  "msUntilNextToken b = \<lceil>(1 - tokens b) / refillPerSecond b * MS_PER_SECOND\<rceil>"

datatype acquire_outcome = Granted | MustWait int | Refused string

definition acquire_begin :: "int \<Rightarrow> token_bucket \<Rightarrow> acquire_outcome \<times> token_bucket" where
  "acquire_begin nowMs b0 =
     (let b = refill nowMs b0
      in if tokens b \<ge> 1 then (Granted, b\<lparr>tokens := tokens b - 1\<rparr>)
         else (let waitMs = msUntilNextToken b
               in if waitMs > maxWaitMs b
                  then (Refused (''Rate limit: next request slot is '' @ show_int waitMs @ '' ms away, over the max wait of ''
                                 @ show_int (maxWaitMs b) @ '' ms. Slow down and retry.''), b)
                  else (MustWait waitMs, b)))"

definition acquire_wake :: "int \<Rightarrow> token_bucket \<Rightarrow> token_bucket" where
  "acquire_wake nowMs b0 = (let b = refill nowMs b0 in b\<lparr>tokens := max (tokens b - 1) 0\<rparr>)"

text \<open>
  One uncontended \<open>acquire()\<close>: the call starts at \<open>nowMs\<close>; if it sleeps, the timer fires \<open>late\<close>
  milliseconds after the requested delay. The result says whether the request may be sent and
  when.
\<close>

definition acquire :: "int \<Rightarrow> nat \<Rightarrow> token_bucket \<Rightarrow> (string + int) \<times> token_bucket" where
  "acquire nowMs late b =
     (case acquire_begin nowMs b of
        (Granted, b') \<Rightarrow> (Inr nowMs, b')
      | (Refused msg, b') \<Rightarrow> (Inl msg, b')
      | (MustWait ms, b') \<Rightarrow> (Inr (nowMs + ms + int late), acquire_wake (nowMs + ms + int late) b'))"

section \<open>Invariant\<close>

definition bucket_ok :: "token_bucket \<Rightarrow> bool" where
  "bucket_ok b = (0 \<le> tokens b \<and> tokens b \<le> capacity b \<and> 1 \<le> capacity b \<and> 0 < refillPerSecond b)"

lemma new_bucket_ok: "bucket_ok (newTokenBucket \<lparr>opt_capacity = None, opt_refillPerSecond = None, opt_maxWaitMs = mw\<rparr> t)"
  by (simp add: bucket_ok_def newTokenBucket_def or_else_def BUCKET_CAPACITY_def REFILL_PER_SECOND_def)

lemma refill_ok: "bucket_ok b \<Longrightarrow> lastRefillMs b \<le> t \<Longrightarrow> bucket_ok (refill t b)"
  by (auto simp: bucket_ok_def refill_def Let_def MS_PER_SECOND_def min_def)

lemma refill_simps [simp]:
  "capacity (refill t b) = capacity b" "refillPerSecond (refill t b) = refillPerSecond b"
  "maxWaitMs (refill t b) = maxWaitMs b" "lastRefillMs (refill t b) = t"
  by (simp_all add: refill_def Let_def)

lemma acquire_begin_ok:
  assumes "bucket_ok b" "lastRefillMs b \<le> t"
  shows "bucket_ok (snd (acquire_begin t b)) \<and> lastRefillMs (snd (acquire_begin t b)) = t"
  using refill_ok [OF assms] by (auto simp: acquire_begin_def Let_def bucket_ok_def)

lemma acquire_wake_ok:
  assumes "bucket_ok b" "lastRefillMs b \<le> t"
  shows "bucket_ok (acquire_wake t b) \<and> lastRefillMs (acquire_wake t b) = t"
  using refill_ok [OF assms] by (auto simp: acquire_wake_def Let_def bucket_ok_def)

section \<open>The wait is long enough, and never longer than the bound\<close>

text \<open>After the computed wait (and no other caller) a whole token is there.\<close>

lemma wait_enough:
  assumes "bucket_ok b" "tokens b < 1" "lastRefillMs b + msUntilNextToken b \<le> t"
  shows "1 \<le> tokens (refill t b)"
proof -
  let ?r = "refillPerSecond b"
  have r: "0 < ?r" using assms by (simp add: bucket_ok_def)
  have "(1 - tokens b) / ?r * MS_PER_SECOND \<le> of_int (msUntilNextToken b)"
    by (simp add: msUntilNextToken_def)
  also have "of_int (msUntilNextToken b) \<le> (of_int (t - lastRefillMs b) :: rat)"
    unfolding of_int_le_iff using assms(3) by linarith
  finally have "(1 - tokens b) / ?r * MS_PER_SECOND \<le> of_int (t - lastRefillMs b)" .
  then have "1 - tokens b \<le> of_int (t - lastRefillMs b) / MS_PER_SECOND * ?r"
    using r by (simp add: field_simps MS_PER_SECOND_def)
  with assms(1) show ?thesis by (simp add: refill_def Let_def bucket_ok_def)
qed

lemma wait_nonneg: "bucket_ok b \<Longrightarrow> tokens b < 1 \<Longrightarrow> 0 \<le> msUntilNextToken b"
proof -
  assume "bucket_ok b" "tokens b < 1"
  then have "0 \<le> (1 - tokens b) / refillPerSecond b * MS_PER_SECOND"
    by (simp add: bucket_ok_def MS_PER_SECOND_def)
  then have "\<lceil>0 :: rat\<rceil> \<le> msUntilNextToken b" unfolding msUntilNextToken_def by (rule ceiling_mono)
  then show ?thesis by simp
qed

lemma acquire_time:
  assumes "bucket_ok b" "lastRefillMs b \<le> t" "acquire t late b = (Inr s, b')"
  shows "t \<le> s \<and> s \<le> t + maxWaitMs b + int late \<or> s = t"
  using assms refill_ok [OF assms(1,2)] wait_nonneg [OF refill_ok [OF assms(1,2)]]
  by (auto simp: acquire_def acquire_begin_def Let_def split: if_splits)

section \<open>Long-run rate\<close>

text \<open>
  Over any sequence of uncontended calls, the requests granted so far plus the tokens in hand
  never exceed the initial capacity plus what the refill rate allows for the time elapsed.
\<close>

text \<open>A call \<open>(gap, late)\<close> starts \<open>gap\<close> ms after the previous one finished.\<close>

fun acquire_calls :: "token_bucket \<Rightarrow> (nat \<times> nat) list \<Rightarrow> nat \<times> token_bucket" where
  "acquire_calls b [] = (0, b)"
| "acquire_calls b ((gap, late) # calls) =
     (let (r, b') = acquire (lastRefillMs b + int gap) late b;
          (n, b'') = acquire_calls b' calls
      in ((case r of Inr _ \<Rightarrow> n + 1 | Inl _ \<Rightarrow> n), b''))"

lemma refill_tokens_le:
  assumes "bucket_ok b" "lastRefillMs b \<le> t"
  shows "tokens (refill t b) \<le> tokens b + of_int (t - lastRefillMs b) / MS_PER_SECOND * refillPerSecond b"
  by (simp add: refill_def Let_def)

lemma acquire_budget:
  assumes ok: "bucket_ok b" and t: "lastRefillMs b \<le> t" and acq: "acquire t late b = (r, b')"
  shows "bucket_ok b' \<and> lastRefillMs b \<le> lastRefillMs b' \<and> capacity b' = capacity b \<and>
         refillPerSecond b' = refillPerSecond b \<and>
         (case r of Inr _ \<Rightarrow> 1 | Inl _ \<Rightarrow> 0) + tokens b' \<le>
           tokens b + of_int (lastRefillMs b' - lastRefillMs b) / MS_PER_SECOND * refillPerSecond b"
proof -
  let ?b1 = "refill t b"
  have ok1: "bucket_ok ?b1" by (rule refill_ok [OF ok t])
  note le1 = refill_tokens_le [OF ok t]
  consider "tokens ?b1 \<ge> 1" | "tokens ?b1 < 1" "msUntilNextToken ?b1 > maxWaitMs b"
    | "tokens ?b1 < 1" "msUntilNextToken ?b1 \<le> maxWaitMs b" by linarith
  then show ?thesis
  proof cases
    case 1
    with acq have "r = Inr t" "b' = ?b1\<lparr>tokens := tokens ?b1 - 1\<rparr>"
      by (auto simp: acquire_def acquire_begin_def Let_def)
    with 1 ok1 t le1 show ?thesis by (auto simp: bucket_ok_def)
  next
    case 2
    with acq have "\<exists>e. r = Inl e" "b' = ?b1"
      by (auto simp: acquire_def acquire_begin_def Let_def)
    with ok1 t le1 show ?thesis by auto
  next
    case 3
    define s where "s = t + msUntilNextToken ?b1 + int late"
    have st: "t \<le> s" using wait_nonneg [OF ok1 3(1)] by (simp add: s_def)
    from 3 acq have r: "r = Inr s" "b' = acquire_wake s ?b1"
      by (auto simp: acquire_def acquire_begin_def Let_def s_def)
    have enough: "1 \<le> tokens (refill s ?b1)"
      by (rule wait_enough [OF ok1 3(1)]) (simp add: s_def)
    have ok2: "bucket_ok (refill s ?b1)" by (rule refill_ok [OF ok1]) (use st in simp)
    have le2: "tokens (refill s ?b1) \<le> tokens ?b1 + of_int (s - t) / MS_PER_SECOND * refillPerSecond b"
      using refill_tokens_le [OF ok1, of s] st by simp
    have "of_int (t - lastRefillMs b) / MS_PER_SECOND * refillPerSecond b
          + of_int (s - t) / MS_PER_SECOND * refillPerSecond b
          = of_int (s - lastRefillMs b) / MS_PER_SECOND * refillPerSecond b"
      by (simp add: field_simps MS_PER_SECOND_def)
    with le1 le2 have "tokens (refill s ?b1) \<le>
        tokens b + of_int (s - lastRefillMs b) / MS_PER_SECOND * refillPerSecond b"
      by linarith
    with r enough ok2 t st show ?thesis
      by (auto simp: acquire_wake_def Let_def bucket_ok_def max_def)
  qed
qed

lemma acquire_calls_budget:
  "bucket_ok b \<Longrightarrow> acquire_calls b calls = (n, b') \<Longrightarrow>
   bucket_ok b' \<and> of_nat n + tokens b' \<le>
     tokens b + of_int (lastRefillMs b' - lastRefillMs b) / MS_PER_SECOND * refillPerSecond b"
proof (induction b calls arbitrary: n b' rule: acquire_calls.induct)
  case (2 b gap late calls)
  obtain r b1 where acq: "acquire (lastRefillMs b + int gap) late b = (r, b1)" by force
  obtain m b2 where rest: "acquire_calls b1 calls = (m, b2)" by force
  have n: "n = (case r of Inr _ \<Rightarrow> m + 1 | Inl _ \<Rightarrow> m)" "b' = b2"
    using 2(3) acq rest by auto
  note one = acquire_budget [OF 2(2) _ acq]
  then have b1: "bucket_ok b1" "refillPerSecond b1 = refillPerSecond b" by auto
  have IH: "bucket_ok b2 \<and> of_nat m + tokens b2 \<le>
     tokens b1 + of_int (lastRefillMs b2 - lastRefillMs b1) / MS_PER_SECOND * refillPerSecond b"
    using 2(1) [OF acq [symmetric] refl b1(1) rest] b1(2) by simp
  have "of_int (lastRefillMs b1 - lastRefillMs b) / MS_PER_SECOND * refillPerSecond b
        + of_int (lastRefillMs b2 - lastRefillMs b1) / MS_PER_SECOND * refillPerSecond b
        = of_int (lastRefillMs b2 - lastRefillMs b) / MS_PER_SECOND * refillPerSecond b"
    by (simp add: field_simps MS_PER_SECOND_def)
  with one IH n show ?case by (cases r) auto
qed simp

end
