(* ===== verification/GraphqlClient.thy ===== *)
theory GraphqlClient
  imports Effects RateLimit
begin

text \<open>
  The GraphQL client (\<open>src/graphql/execute.ts\<close>, \<open>client.ts\<close>, \<open>errors.ts\<close>): one HTTP
  request, the mapping of its reply to data or an error, and the retry loop.

  What the outside contributes is an argument: \<open>print_doc\<close> (the printer of the graphql
  package), the reply to the \<open>n\<close>-th request, the answer of the rate limiter before it, and the
  jitter. The loop returns its outcome together with the log of what it did.
\<close>

section \<open>One request\<close>

record execute_options =
  endpoint :: string
  apiKey :: string
  allowSelfSigned :: bool
  timeoutMs :: "int option"

definition REQUEST_TIMEOUT_MS :: int where "REQUEST_TIMEOUT_MS = 30000"

text \<open>\<open>HttpStatusError\<close>, \<open>UnraidApiError\<close>, any other Error, or a thrown non-Error value.\<close>

datatype client_error =
    HttpStatusError int string
  | UnraidApiError string
  | OtherError string
  | NonError

text \<open>
  How the fetch ends: a response (status, status text, and its body as JSON or \<open>None\<close> when it
  is no JSON), an abort or timeout, any other thrown Error, or a thrown non-Error.
\<close>

datatype fetch_reply =
    Response int string "jsval option"
  | Aborted
  | FetchError string
  | FetchNonError

record http_request =
  req_url :: string
  req_headers :: "(string \<times> string) list"
  req_body :: string
  req_timeoutMs :: int

definition request_timeout :: "execute_options \<Rightarrow> int" where
  "request_timeout options = or_else (timeoutMs options) REQUEST_TIMEOUT_MS"

text \<open>The pooled dispatcher behind \<open>fetch\<close>; certificates go unchecked only for self-signed servers.\<close>

definition KEEP_ALIVE_TIMEOUT_MS :: int where "KEEP_ALIVE_TIMEOUT_MS = 30000"

record dispatcher =
  keepAliveTimeout :: int
  rejectUnauthorized :: bool

definition getKeepAliveDispatcher :: dispatcher where
  "getKeepAliveDispatcher = \<lparr>keepAliveTimeout = KEEP_ALIVE_TIMEOUT_MS, rejectUnauthorized = True\<rparr>"

definition getSelfSignedDispatcher :: dispatcher where
  "getSelfSignedDispatcher = \<lparr>keepAliveTimeout = KEEP_ALIVE_TIMEOUT_MS, rejectUnauthorized = False\<rparr>"

definition defaultFetch :: "bool \<Rightarrow> dispatcher" where
  "defaultFetch selfSigned = (if selfSigned then getSelfSignedDispatcher else getKeepAliveDispatcher)"

lemma certificates_checked: "rejectUnauthorized (defaultFetch allow) \<longleftrightarrow> \<not> allow"
  by (simp add: defaultFetch_def getKeepAliveDispatcher_def getSelfSignedDispatcher_def)

definition request_for :: "(gql_document \<Rightarrow> string) \<Rightarrow> execute_options \<Rightarrow> gql_document \<Rightarrow> jsval \<Rightarrow> http_request" where
  "request_for print_doc options document variables =
     \<lparr>req_url = endpoint options,
      req_headers = [(''content-type'', ''application/json''), (''x-api-key'', apiKey options)],
      req_body = stringify (JObj [(''query'', JStr (print_doc document)),
                                  (''variables'', if nullish variables then JUndef else variables)]),
      req_timeoutMs = request_timeout options\<rparr>"

definition postWithDeadline :: "execute_options \<Rightarrow> fetch_reply \<Rightarrow> client_error + int \<times> string \<times> jsval option" where
  "postWithDeadline options reply =
     (case reply of
        Response status statusText body \<Rightarrow> Inr (status, statusText, body)
      | Aborted \<Rightarrow> Inl (OtherError (''Unraid API request timed out after '' @ show_int (request_timeout options) @ '' ms''))
      | FetchError msg \<Rightarrow> Inl (OtherError msg)
      | FetchNonError \<Rightarrow> Inl NonError)"

definition executeGraphQL :: "execute_options \<Rightarrow> fetch_reply \<Rightarrow> client_error + jsval" where
  "executeGraphQL options reply =
     (case postWithDeadline options reply of
        Inl e \<Rightarrow> Inl e
      | Inr (status, statusText, body) \<Rightarrow>
          if \<not> (200 \<le> status \<and> status \<le> 299)
          then Inl (HttpStatusError status (''Unraid API HTTP '' @ show_int status @ '' '' @ statusText))
          else (case body of None \<Rightarrow> Inl (OtherError ''SyntaxError: invalid JSON'') | Some v \<Rightarrow> Inr v))"

section \<open>Reading the envelope\<close>

fun error_messages :: "jsval list \<Rightarrow> string list option" where
  "error_messages [] = Some []"
| "error_messages (e # es) =
     (case (nullish e, getp e ''message'', error_messages es) of
        (False, JStr m, Some ms) \<Rightarrow> Some (m # ms)
      | (False, JUndef, Some ms) \<Rightarrow> Some ([] # ms)
      | _ \<Rightarrow> None)"

definition executeOnce :: "execute_options \<Rightarrow> fetch_reply \<Rightarrow> client_error + jsval" where
  "executeOnce options reply =
     (case executeGraphQL options reply of
        Inl e \<Rightarrow> Inl e
      | Inr response \<Rightarrow>
          if nullish response then Inl (OtherError ''TypeError: response is null'')
          else (case getp response ''errors'' of
                  JArr (e # es) \<Rightarrow>
                    (case error_messages (e # es) of
                       None \<Rightarrow> Inl (OtherError ''TypeError: malformed errors'')
                     | Some ms \<Rightarrow> Inl (UnraidApiError (join ''; '' ms)))
                | _ \<Rightarrow>
                    if nullish (getp response ''data'') then Inl (UnraidApiError ''Unraid API returned no data'')
                    else Inr (getp response ''data'')))"

section \<open>The retry policy\<close>

definition HTTP_TOO_MANY_REQUESTS :: int where "HTTP_TOO_MANY_REQUESTS = 429"
definition HTTP_SERVER_ERROR_FLOOR :: int where "HTTP_SERVER_ERROR_FLOOR = 500"
definition RETRY_DELAY_MS :: rat where "RETRY_DELAY_MS = 1000"
definition MAX_QUERY_RETRIES :: nat where "MAX_QUERY_RETRIES = 2"
definition MAX_MUTATION_RETRIES :: nat where "MAX_MUTATION_RETRIES = 1"
definition RETRY_BASE_DELAY_MS :: rat where "RETRY_BASE_DELAY_MS = 250"
definition JITTER_FLOOR :: rat where "JITTER_FLOOR = 1 / 2"

record retry_policy =
  maxRetries :: nat
  retryServerErrors :: bool

definition isTooManyRequests :: "client_error \<Rightarrow> bool" where
  "isTooManyRequests e = (case e of HttpStatusError status m \<Rightarrow> status = HTTP_TOO_MANY_REQUESTS | _ \<Rightarrow> False)"

fun first_operation :: "gql_definition list \<Rightarrow> op_type option" where
  "first_operation [] = None"
| "first_operation (OperationDefinition t s # ds) = Some t"
| "first_operation (_ # ds) = first_operation ds"

definition isQueryOperation :: "gql_document \<Rightarrow> bool" where
  "isQueryOperation document = (first_operation (definitions document) = Some Query)"

definition retryPolicyFor :: "gql_document \<Rightarrow> retry_policy" where
  "retryPolicyFor document =
     (if isQueryOperation document then \<lparr>maxRetries = MAX_QUERY_RETRIES, retryServerErrors = True\<rparr>
      else \<lparr>maxRetries = MAX_MUTATION_RETRIES, retryServerErrors = False\<rparr>)"

definition isRetryable :: "client_error \<Rightarrow> retry_policy \<Rightarrow> bool" where
  "isRetryable e policy =
     (if isTooManyRequests e then True
      else if \<not> retryServerErrors policy then False
      else (case e of
              UnraidApiError m \<Rightarrow> False
            | HttpStatusError status m \<Rightarrow> status \<ge> HTTP_SERVER_ERROR_FLOOR
            | OtherError m \<Rightarrow> True
            | NonError \<Rightarrow> False))"

text \<open>\<open>delayBeforeRetry\<close>: the delay to sleep, or \<open>None\<close> to rethrow.\<close>

definition delayBeforeRetry :: "rat \<Rightarrow> client_error \<Rightarrow> nat \<Rightarrow> retry_policy \<Rightarrow> rat option" where
  "delayBeforeRetry rnd e attempt policy =
     (if attempt \<ge> maxRetries policy \<or> \<not> isRetryable e policy then None
      else if isTooManyRequests e then Some RETRY_DELAY_MS
      else Some (RETRY_BASE_DELAY_MS * 2 ^ attempt * (JITTER_FLOOR + rnd)))"

section \<open>The loop\<close>

datatype client_action = SentRequest http_request | Slept rat

record client_env =
  env_limiter :: "nat \<Rightarrow> string option"
  env_reply :: "nat \<Rightarrow> fetch_reply"
  env_random :: "nat \<Rightarrow> rat"

text \<open>
  \<open>env_limiter n\<close> is the error of the \<open>n\<close>-th \<open>limiter.acquire()\<close>, if it throws; the call stands
  outside the \<open>try\<close>, so its error is never retried.
\<close>

function execute_from :: "(gql_document \<Rightarrow> string) \<Rightarrow> execute_options \<Rightarrow> client_env \<Rightarrow> gql_document \<Rightarrow> jsval \<Rightarrow> nat
    \<Rightarrow> (client_error + jsval) \<times> client_action list" where
  "execute_from print_doc config env document variables attempt =
     (case env_limiter env attempt of
        Some msg \<Rightarrow> (Inl (OtherError msg), [])
      | None \<Rightarrow>
          (let sent = SentRequest (request_for print_doc config document variables)
           in case executeOnce config (env_reply env attempt) of
                Inr data \<Rightarrow> (Inr data, [sent])
              | Inl e \<Rightarrow>
                  (case delayBeforeRetry (env_random env attempt) e attempt (retryPolicyFor document) of
                     None \<Rightarrow> (Inl e, [sent])
                   | Some ms \<Rightarrow>
                       (let (r, acts) = execute_from print_doc config env document variables (attempt + 1)
                        in (r, sent # Slept ms # acts)))))"
  by pat_completeness auto
termination
  by (relation "measure (\<lambda>(p, c, env, d, v, attempt). maxRetries (retryPolicyFor d) - attempt)")
     (auto simp: delayBeforeRetry_def split: if_splits)

declare execute_from.simps [simp del]

definition client_execute :: "(gql_document \<Rightarrow> string) \<Rightarrow> execute_options \<Rightarrow> client_env \<Rightarrow> gql_document \<Rightarrow> jsval
    \<Rightarrow> (client_error + jsval) \<times> client_action list" where
  "client_execute print_doc config env document variables = execute_from print_doc config env document variables 0"

section \<open>Bounds on what is sent\<close>

fun sends :: "client_action list \<Rightarrow> nat" where
  "sends [] = 0"
| "sends (SentRequest r # acts) = Suc (sends acts)"
| "sends (Slept ms # acts) = sends acts"

fun slept :: "client_action list \<Rightarrow> rat" where
  "slept [] = 0"
| "slept (SentRequest r # acts) = slept acts"
| "slept (Slept ms # acts) = ms + slept acts"

lemma sends_bound:
  "attempt \<le> maxRetries (retryPolicyFor d) \<Longrightarrow>
   sends (snd (execute_from p c env d v attempt)) \<le> Suc (maxRetries (retryPolicyFor d) - attempt)"
proof (induction p c env d v attempt rule: execute_from.induct)
  case (1 p c env d v attempt)
  show ?case
    using 1
    by (subst execute_from.simps)
       (force split: option.splits sum.splits prod.splits simp: Let_def delayBeforeRetry_def split: if_splits)
qed

text \<open>
  Whenever a request is sent again, the error before it was retryable; for a mutation that
  means the server answered 429, so the mutation was not admitted.
\<close>

lemma mutation_resend:
  assumes "\<not> isQueryOperation d" "env_limiter env 0 = None"
    "sends (snd (client_execute p c env d v)) \<ge> 2"
  shows "\<exists>m. executeOnce c (env_reply env 0) = Inl (HttpStatusError HTTP_TOO_MANY_REQUESTS m)"
  using assms
  by (auto simp: client_execute_def execute_from.simps [of p c env d v 0] delayBeforeRetry_def retryPolicyFor_def
        isRetryable_def isTooManyRequests_def Let_def split: sum.splits option.splits if_splits client_error.splits prod.splits)

lemma all_requests_same:
  "r \<in> set (snd (execute_from p c env d v attempt)) \<Longrightarrow>
   r = SentRequest (request_for p c d v) \<or> (\<exists>ms. r = Slept ms)"
proof (induction p c env d v attempt rule: execute_from.induct)
  case (1 p c env d v attempt)
  from 1(2) show ?case
    by (subst (asm) execute_from.simps)
       (auto split: option.splits sum.splits prod.splits if_splits simp: Let_def dest!: 1(1))
qed

text \<open>The first reply that is no retryable failure decides the outcome.\<close>

lemma execute_from_result:
  "fst (execute_from p c env d v attempt) = Inr x \<Longrightarrow>
   \<exists>n. attempt \<le> n \<and> n \<le> max attempt (maxRetries (retryPolicyFor d)) \<and> executeOnce c (env_reply env n) = Inr x"
proof (induction p c env d v attempt rule: execute_from.induct)
  case (1 p c env d v attempt)
  show ?case
  proof (cases "env_limiter env attempt")
    case None
    show ?thesis
    proof (cases "executeOnce c (env_reply env attempt)")
      case (Inr y)
      with None 1(2) have "y = x" by (subst (asm) execute_from.simps) (simp add: Let_def)
      with Inr show ?thesis by (intro exI [of _ attempt]) simp
    next
      case (Inl e)
      with None 1(2) obtain ms where ms: "delayBeforeRetry (env_random env attempt) e attempt (retryPolicyFor d) = Some ms"
        by (subst (asm) execute_from.simps) (auto simp: Let_def split: option.splits)
      with None Inl 1(2) have "fst (execute_from p c env d v (attempt + 1)) = Inr x"
        by (subst (asm) execute_from.simps) (simp add: Let_def split: prod.splits)
      from 1(1) [OF None refl Inl ms this] obtain n where n: "attempt + 1 \<le> n"
        "n \<le> max (attempt + 1) (maxRetries (retryPolicyFor d))" "executeOnce c (env_reply env n) = Inr x" by blast
      from ms have "attempt < maxRetries (retryPolicyFor d)" by (auto simp: delayBeforeRetry_def split: if_splits)
      with n show ?thesis by (intro exI [of _ n]) auto
    qed
  next
    case (Some m)
    with 1(2) show ?thesis by (subst (asm) execute_from.simps) simp
  qed
qed

lemma execute_succeeds_at_last:
  assumes lim: "\<And>n. env_limiter env n = None" and q: "isQueryOperation d"
    and two: "\<And>n. n < 2 \<Longrightarrow> \<exists>e. executeOnce c (env_reply env n) = Inl e \<and> isRetryable e (retryPolicyFor d)"
    and ok: "executeOnce c (env_reply env 2) = Inr x"
  shows "fst (client_execute p c env d v) = Inr x"
proof -
  have pol: "maxRetries (retryPolicyFor d) = 2" using q by (simp add: retryPolicyFor_def MAX_QUERY_RETRIES_def)
  have two': "fst (execute_from p c env d v 2) = Inr x"
    by (subst execute_from.simps) (simp add: lim ok Let_def)
  have step: "fst (execute_from p c env d v n) = fst (execute_from p c env d v (n + 1))" if n: "n < 2" for n
  proof -
    obtain e where e: "executeOnce c (env_reply env n) = Inl e" "isRetryable e (retryPolicyFor d)"
      using two [OF n] by blast
    then obtain ms where "delayBeforeRetry (env_random env n) e n (retryPolicyFor d) = Some ms"
      using n pol by (cases "isTooManyRequests e") (auto simp: delayBeforeRetry_def)
    with e lim show ?thesis by (subst execute_from.simps) (simp add: Let_def split: prod.splits)
  qed
  have "fst (execute_from p c env d v 0) = Inr x" using step [of 0] step [of 1] two' by (simp add: numeral_2_eq_2)
  then show ?thesis by (simp add: client_execute_def)
qed

end
