(* ===== verification/SnapshotCache.thy ===== *)
theory SnapshotCache
  imports GraphqlClient
begin

text \<open>
  The snapshot cache in front of the GraphQL client (\<open>src/graphql/snapshot-cache.ts\<close>). A
  request is two steps, as in the code's \<open>await\<close>: \<open>cache_begin\<close> looks the entry up,
  \<open>cache_finish\<close> stores the reply or clears the cache. \<open>cached_execute\<close> is one request that
  nobody interleaves with.

  The locale \<open>gql_executor\<close> is the contract of the wrapped executor: it can be asked what it
  has answered so far. The client of \<open>GraphqlClient\<close> is its interpretation.
\<close>

section \<open>State and operations\<close>

definition SNAPSHOT_TTL_MS :: int where "SNAPSHOT_TTL_MS = 5000"

record 'd cache_entry =
  entry_data :: 'd
  storedAtMs :: int

record 'd cache_state =
  cache :: "(string \<times> 'd cache_entry) list"
  documentIds :: "gql_document list"

record cache_options =
  ttlMs :: int
  cacheable :: "gql_document list"

definition empty_cache :: "'d cache_state" where
  "empty_cache = \<lparr>cache = [], documentIds = []\<rparr>"

text \<open>\<open>documentIds\<close> maps a document to its position of first use.\<close>

fun index_of :: "'a \<Rightarrow> 'a list \<Rightarrow> nat option" where
  "index_of x [] = None"
| "index_of x (y # ys) = (if x = y then Some 0 else map_option Suc (index_of x ys))"

definition key_text :: "nat \<Rightarrow> jsval \<Rightarrow> string" where
  "key_text i variables = show_nat i @ '':'' @ stringify (if nullish variables then JNull else variables)"

definition cacheKey :: "gql_document \<Rightarrow> jsval \<Rightarrow> 'd cache_state \<Rightarrow> string \<times> 'd cache_state" where
  "cacheKey document variables st =
     (case index_of document (documentIds st) of
        Some i \<Rightarrow> (key_text i variables, st)
      | None \<Rightarrow> (key_text (length (documentIds st)) variables,
                 st\<lparr>documentIds := documentIds st @ [document]\<rparr>))"

text \<open>Served from the cache with its age, or fetch (and store under the key, if any).\<close>

datatype 'd begin_outcome = Served 'd int | Fetch "string option"

definition cache_begin :: "cache_options \<Rightarrow> int \<Rightarrow> gql_document \<Rightarrow> jsval \<Rightarrow> 'd cache_state \<Rightarrow> 'd begin_outcome \<times> 'd cache_state" where
  "cache_begin opts nowMs document variables st =
     (if document \<notin> set (cacheable opts) then (Fetch None, st)
      else (let (key, st') = cacheKey document variables st
            in case map_of (cache st') key of
                 Some cached \<Rightarrow>
                   if nowMs - storedAtMs cached \<le> ttlMs opts
                   then (Served (entry_data cached) (nowMs - storedAtMs cached), st')
                   else (Fetch (Some key), st')
               | None \<Rightarrow> (Fetch (Some key), st')))"

definition cache_finish :: "int \<Rightarrow> gql_document \<Rightarrow> string option \<Rightarrow> string + 'd \<Rightarrow> 'd cache_state \<Rightarrow> 'd cache_state" where
  "cache_finish nowMs document target reply st =
     (case target of
        None \<Rightarrow> if has_mutation document then st\<lparr>cache := []\<rparr> else st
      | Some key \<Rightarrow>
          (case reply of
             Inl e \<Rightarrow> st
           | Inr data \<Rightarrow> st\<lparr>cache := upsert key \<lparr>entry_data = data, storedAtMs = nowMs\<rparr> (cache st)\<rparr>))"

text \<open>
  One request that starts at \<open>nowB\<close> and, if it reaches the inner executor, is answered at \<open>nowE\<close>.
\<close>

definition cached_execute ::
  "cache_options \<Rightarrow> ('s \<Rightarrow> int \<Rightarrow> gql_document \<Rightarrow> jsval \<Rightarrow> (string + 'd) \<times> 's) \<Rightarrow> int \<Rightarrow> int
    \<Rightarrow> gql_document \<Rightarrow> jsval \<Rightarrow> 'd cache_state \<times> 's \<Rightarrow> (string + 'd) \<times> 'd cache_state \<times> 's" where
  "cached_execute opts inner nowB nowE document variables cs =
     (let (st, s) = cs
      in case cache_begin opts nowB document variables st of
           (Served data age, st') \<Rightarrow> (Inr data, st', s)
         | (Fetch target, st') \<Rightarrow>
             (let (reply, s') = inner s nowE document variables
              in (reply, cache_finish nowE document target reply st', s')))"

fun cached_requests ::
  "cache_options \<Rightarrow> ('s \<Rightarrow> int \<Rightarrow> gql_document \<Rightarrow> jsval \<Rightarrow> (string + 'd) \<times> 's)
    \<Rightarrow> (int \<times> int \<times> gql_document \<times> jsval) list \<Rightarrow> 'd cache_state \<times> 's \<Rightarrow> (string + 'd) list \<times> 'd cache_state \<times> 's" where
  "cached_requests opts inner [] cs = ([], cs)"
| "cached_requests opts inner ((nowB, nowE, d, v) # reqs) cs =
     (let (r, cs') = cached_execute opts inner nowB nowE d v cs;
          (rs, cs'') = cached_requests opts inner reqs cs'
      in (r # rs, cs''))"

section \<open>Keys\<close>

lemma index_of_Some: "index_of x ys = Some i \<Longrightarrow> i < length ys \<and> ys ! i = x"
  by (induction ys arbitrary: i) (auto split: if_splits)

lemma index_of_None: "index_of x ys = None \<longleftrightarrow> x \<notin> set ys"
  by (induction ys) auto

lemma index_of_append: "index_of x ys = Some i \<Longrightarrow> index_of x (ys @ zs) = Some i"
  by (induction ys arbitrary: i) (auto split: if_splits)

lemma index_of_snoc: "x \<notin> set ys \<Longrightarrow> index_of x (ys @ [x]) = Some (length ys)"
  by (induction ys) auto

lemma digit_not_colon: "is_digit c \<Longrightarrow> c \<noteq> CHR '':''"
  by (auto simp: is_digit_def)

lemma takeWhile_key: "takeWhile is_digit (show_nat i @ '':'' @ t) = show_nat i"
proof -
  have "takeWhile is_digit (show_nat i @ '':'' @ t) = show_nat i @ takeWhile is_digit ('':'' @ t)"
    by (rule takeWhile_append2) (use nat_digits_digits [of i] in \<open>auto simp: show_nat_def\<close>)
  then show ?thesis by (simp add: is_digit_def)
qed

lemma digit_char_inj: "a < 10 \<Longrightarrow> b < 10 \<Longrightarrow> digit_char a = digit_char b \<Longrightarrow> a = b"
  unfolding digit_char_def by (subst (asm) nth_eq_iff_index_eq) auto

lemma nat_digits_inj: "nat_digits m = nat_digits n \<Longrightarrow> m = n"
proof (induction m arbitrary: n rule: nat_digits.induct)
  case (1 m)
  have eqs: "nat_digits k = (if k < 10 then [digit_char k] else nat_digits (k div 10) @ [digit_char (k mod 10)])" for k
    by (rule nat_digits.simps)
  consider "m < 10" "n < 10" | "m < 10" "\<not> n < 10" | "\<not> m < 10" "n < 10" | "\<not> m < 10" "\<not> n < 10" by blast
  then show ?case
  proof cases
    case 1
    with "1.prems" show ?thesis by (simp add: eqs [of m] eqs [of n] digit_char_inj)
  next
    case 2
    with "1.prems" show ?thesis by (simp add: eqs [of m] eqs [of n] Cons_eq_append_conv)
  next
    case 3
    with "1.prems" show ?thesis by (simp add: eqs [of m] eqs [of n] append_eq_Cons_conv)
  next
    case 4
    with "1.prems" have "nat_digits (m div 10) = nat_digits (n div 10)" "digit_char (m mod 10) = digit_char (n mod 10)"
      by (simp_all add: eqs [of m] eqs [of n])
    with "1.IH" 4 have "m div 10 = n div 10" "m mod 10 = n mod 10" by (simp_all add: digit_char_inj)
    then show ?thesis by (metis div_mult_mod_eq)
  qed
qed

lemma key_text_inj:
  assumes "key_text i v = key_text j u"
  shows "i = j \<and> stringify (if nullish v then JNull else v) = stringify (if nullish u then JNull else u)"
proof -
  have "show_nat i = show_nat j"
    using assms takeWhile_key [of i] takeWhile_key [of j] by (metis key_text_def)
  then show ?thesis using assms nat_digits_inj by (auto simp: key_text_def show_nat_def)
qed

section \<open>The contract of the wrapped executor\<close>

text \<open>One answered call: when, what, and the answer.\<close>

type_synonym 'd call = "int \<times> gql_document \<times> jsval \<times> (string + 'd)"

definition call_mutates :: "'d call \<Rightarrow> bool" where
  "call_mutates c = (case c of (t, d, v, r) \<Rightarrow> has_mutation d)"

text \<open>The same variables as far as the request body can tell.\<close>

definition same_variables :: "jsval \<Rightarrow> jsval \<Rightarrow> bool" where
  "same_variables v u \<longleftrightarrow>
     stringify (if nullish v then JNull else v) = stringify (if nullish u then JNull else u)"

text \<open>Every entry is the answer to a call for its key, with no mutation answered after it.\<close>

definition backed :: "'d cache_state \<Rightarrow> 'd call list \<Rightarrow> string \<Rightarrow> 'd cache_entry \<Rightarrow> bool" where
  "backed st h key e \<longleftrightarrow>
     (\<exists>h1 d v h2 i. h = h1 @ (storedAtMs e, d, v, Inr (entry_data e)) # h2 \<and> (\<forall>c \<in> set h2. \<not> call_mutates c)
                  \<and> index_of d (documentIds st) = Some i \<and> key = key_text i v)"

definition cache_inv :: "'d cache_state \<Rightarrow> 'd call list \<Rightarrow> bool" where
  "cache_inv st h \<longleftrightarrow> (\<forall>key e. map_of (cache st) key = Some e \<longrightarrow> backed st h key e)"

lemma empty_cache_inv: "cache_inv empty_cache h"
  by (simp add: cache_inv_def empty_cache_def)

lemma cacheKey_spec:
  assumes "cacheKey d v st = (key, st')"
  shows "\<exists>i. index_of d (documentIds st') = Some i \<and> key = key_text i v" "cache st' = cache st"
    "cache_inv st h \<Longrightarrow> cache_inv st' h"
proof -
  show "\<exists>i. index_of d (documentIds st') = Some i \<and> key = key_text i v" "cache st' = cache st"
    using assms by (auto simp: cacheKey_def index_of_None index_of_snoc split: option.splits)
  assume inv: "cache_inv st h"
  have mono: "index_of x (documentIds st) = Some i \<Longrightarrow> index_of x (documentIds st') = Some i" for x i
    using assms by (auto simp: cacheKey_def index_of_append split: option.splits)
  show "cache_inv st' h" unfolding cache_inv_def
  proof (intro allI impI)
    fix k e assume "map_of (cache st') k = Some e"
    then have "backed st h k e" using inv \<open>cache st' = cache st\<close> by (simp add: cache_inv_def)
    then show "backed st' h k e" unfolding backed_def using mono by blast
  qed
qed

lemma backed_snoc: "backed st h k e \<Longrightarrow> \<not> call_mutates c \<Longrightarrow> backed st (h @ [c]) k e"
  unfolding backed_def by (elim exE) (rule exI, rule exI, rule exI, rule_tac x = "h2 @ [c]" in exI, auto)

lemma cache_inv_snoc: "cache_inv st h \<Longrightarrow> \<not> call_mutates c \<Longrightarrow> cache_inv st (h @ [c])"
  unfolding cache_inv_def using backed_snoc by blast

lemma cache_begin_inv:
  "cache_inv st h \<Longrightarrow> cache_begin opts t d v st = (r, st') \<Longrightarrow> cache_inv st' h"
  by (auto simp: cache_begin_def dest: cacheKey_spec(3) split: if_splits prod.splits option.splits)

lemma cache_begin_fetch:
  assumes "cache_begin opts t d v st = (Fetch (Some key), st')"
  shows "d \<in> set (cacheable opts) \<and> (\<exists>i. index_of d (documentIds st') = Some i \<and> key = key_text i v)"
  using assms by (auto simp: cache_begin_def dest: cacheKey_spec(1) split: if_splits prod.splits option.splits)

text \<open>The key under which a call in flight will store its answer belongs to its document and variables.\<close>

definition target_fits :: "cache_options \<Rightarrow> 'd cache_state \<Rightarrow> gql_document \<Rightarrow> jsval \<Rightarrow> string option \<Rightarrow> bool" where
  "target_fits opts st d v target =
     (case target of
        None \<Rightarrow> d \<notin> set (cacheable opts)
      | Some key \<Rightarrow> d \<in> set (cacheable opts) \<and> (\<exists>i. index_of d (documentIds st) = Some i \<and> key = key_text i v))"

lemma cache_begin_fits:
  assumes "cache_begin opts t d v st = (Fetch target, st')"
  shows "target_fits opts st' d v target"
proof (cases target)
  case None
  with assms show ?thesis
    by (auto simp: target_fits_def cache_begin_def split: if_splits prod.splits option.splits)
next
  case (Some key)
  with cache_begin_fetch [OF assms [unfolded Some]] show ?thesis by (simp add: target_fits_def)
qed

lemma cache_finish_inv:
  assumes inv: "cache_inv st h" and ro: "\<forall>d \<in> set (cacheable opts). \<not> has_mutation d"
    and fits: "target_fits opts st d v target"
  shows "cache_inv (cache_finish t d target r st) (h @ [(t, d, v, r)])"
proof (cases target)
  case None
  then show ?thesis using inv
    by (cases "has_mutation d") (auto simp: cache_finish_def call_mutates_def intro: cache_inv_snoc, simp add: cache_inv_def)
next
  case (Some key)
  with fits obtain i
    where d: "d \<in> set (cacheable opts)" and i: "index_of d (documentIds st) = Some i" "key = key_text i v"
    by (auto simp: target_fits_def)
  have nm: "\<not> call_mutates (t, d, v, r)" using ro d by (simp add: call_mutates_def)
  show ?thesis
  proof (cases r)
    case (Inl e)
    with Some cache_inv_snoc [OF inv nm] show ?thesis by (simp add: cache_finish_def)
  next
    case (Inr data)
    let ?st = "cache_finish t d target r st"
    show ?thesis unfolding cache_inv_def
    proof (intro allI impI)
      fix k e assume e: "map_of (cache ?st) k = Some e"
      have ids: "documentIds ?st = documentIds st" using Some Inr by (simp add: cache_finish_def)
      show "backed ?st (h @ [(t, d, v, r)]) k e"
      proof (cases "k = key")
        case True
        with e Some Inr have "e = \<lparr>entry_data = data, storedAtMs = t\<rparr>" by (simp add: cache_finish_def)
        with True i Inr ids show ?thesis unfolding backed_def
          by (intro exI [of _ h] exI [of _ d] exI [of _ v] exI [of _ "[]"] exI [of _ i]) simp
      next
        case False
        with e Some Inr have "map_of (cache st) k = Some e" by (simp add: cache_finish_def)
        with inv have "backed st h k e" by (simp add: cache_inv_def)
        from backed_snoc [OF this nm] ids show ?thesis by (simp add: backed_def)
      qed
    qed
  qed
qed

text \<open>What a served snapshot is worth.\<close>

definition recent_answer :: "cache_options \<Rightarrow> 'd call list \<Rightarrow> int \<Rightarrow> gql_document \<Rightarrow> jsval \<Rightarrow> 'd \<Rightarrow> bool" where
  "recent_answer opts h now d v x \<longleftrightarrow>
     (\<exists>h1 t u h2. h = h1 @ (t, d, u, Inr x) # h2 \<and> same_variables v u \<and> now - t \<le> ttlMs opts
                \<and> (\<forall>c \<in> set h2. \<not> call_mutates c))"

lemma served_backed:
  assumes inv: "cache_inv st h" and b: "cache_begin opts now d v st = (Served x age, st')"
  shows "\<exists>h1 t u h2. h = h1 @ (t, d, u, Inr x) # h2 \<and> same_variables v u \<and> age = now - t \<and> age \<le> ttlMs opts
                \<and> (\<forall>c \<in> set h2. \<not> call_mutates c)"
proof -
  obtain key st1 where k: "cacheKey d v st = (key, st1)" by force
  from b k obtain e where e: "map_of (cache st1) key = Some e" "now - storedAtMs e \<le> ttlMs opts" "x = entry_data e"
      "age = now - storedAtMs e"
    by (auto simp: cache_begin_def split: if_splits option.splits)
  from cacheKey_spec(1) [OF k] obtain i where i: "index_of d (documentIds st1) = Some i" "key = key_text i v" by blast
  from cacheKey_spec(3) [OF k inv] e(1) have "backed st1 h key e" by (simp add: cache_inv_def)
  then obtain h1 d' u h2 j where h: "h = h1 @ (storedAtMs e, d', u, Inr (entry_data e)) # h2"
      "\<forall>c \<in> set h2. \<not> call_mutates c" "index_of d' (documentIds st1) = Some j" "key = key_text j u"
    unfolding backed_def by blast
  from h(4) i(2) have "i = j" "same_variables v u"
    using key_text_inj [of i v j u] by (auto simp: same_variables_def)
  moreover from this h(3) i(1) have "d' = d" by (auto dest: index_of_Some)
  ultimately show ?thesis using h e(2-4) by blast
qed

lemma served_recent:
  assumes "cache_inv st h" "cache_begin opts now d v st = (Served x age, st')"
  shows "recent_answer opts h now d v x"
  using served_backed [OF assms] unfolding recent_answer_def by blast

locale gql_executor =
  fixes exec :: "'s \<Rightarrow> int \<Rightarrow> gql_document \<Rightarrow> jsval \<Rightarrow> (string + 'd) \<times> 's"
    and hist :: "'s \<Rightarrow> 'd call list"
  assumes exec_records: "exec s t d v = (r, s') \<Longrightarrow> hist s' = hist s @ [(t, d, v, r)]"
begin

lemma cached_step:
  assumes "cache_inv st (hist s)" "\<forall>d \<in> set (cacheable opts). \<not> has_mutation d"
    "cached_execute opts exec nowB nowE d v (st, s) = (r, st', s')"
  shows "cache_inv st' (hist s') \<and>
         (hist s' = hist s @ [(nowE, d, v, r)] \<or>
          (\<exists>x. r = Inr x \<and> s' = s \<and> recent_answer opts (hist s) nowB d v x))"
proof -
  obtain b st1 where b: "cache_begin opts nowB d v st = (b, st1)" by force
  note inv1 = cache_begin_inv [OF assms(1) b]
  show ?thesis
  proof (cases b)
    case (Served x age)
    with assms(3) b have "r = Inr x" "st' = st1" "s' = s" by (auto simp: cached_execute_def)
    with inv1 served_recent [OF assms(1) b [unfolded Served]] show ?thesis by blast
  next
    case (Fetch target)
    obtain r1 s1 where e: "exec s nowE d v = (r1, s1)" by force
    with Fetch assms(3) b have eqs: "r = r1" "s' = s1" "st' = cache_finish nowE d target r1 st1"
      by (auto simp: cached_execute_def)
    from exec_records [OF e] cache_finish_inv [OF inv1 assms(2) cache_begin_fits [OF b [unfolded Fetch]], of nowE r1] eqs
    show ?thesis by simp
  qed
qed

lemma cached_requests_inv:
  "cache_inv st (hist s) \<Longrightarrow> \<forall>d \<in> set (cacheable opts). \<not> has_mutation d \<Longrightarrow>
   cached_requests opts exec reqs (st, s) = (rs, st', s') \<Longrightarrow> cache_inv st' (hist s')"
proof (induction reqs arbitrary: st s rs)
  case (Cons q reqs)
  obtain nowB nowE d v where q: "q = (nowB, nowE, d, v)" by (cases q)
  obtain r st1 s1 where e: "cached_execute opts exec nowB nowE d v (st, s) = (r, st1, s1)"
    by (metis prod_cases3)
  obtain rs1 where "cached_requests opts exec reqs (st1, s1) = (rs1, st', s')"
    using Cons.prems(3) q e by (auto split: prod.splits)
  with Cons.IH cached_step [OF Cons.prems(1,2) e] Cons.prems(2) show ?case by blast
qed simp

text \<open>After any sequence of requests, the next one is answered now or by a recent, unspoilt answer.\<close>

lemma cached_fresh:
  assumes "\<forall>d \<in> set (cacheable opts). \<not> has_mutation d"
    "cached_requests opts exec reqs (empty_cache, s0) = (rs, st, s)"
    "cached_execute opts exec nowB nowE d v (st, s) = (r, st', s')"
  shows "hist s' = hist s @ [(nowE, d, v, r)] \<or>
         (\<exists>x. r = Inr x \<and> s' = s \<and> recent_answer opts (hist s) nowB d v x)"
  using cached_step [OF cached_requests_inv [OF empty_cache_inv assms(1,2)] assms(1,3)] by blast

end

section \<open>The client as the wrapped executor\<close>

definition error_text :: "client_error \<Rightarrow> string" where
  "error_text e = (case e of HttpStatusError s m \<Rightarrow> m | UnraidApiError m \<Rightarrow> m | OtherError m \<Rightarrow> m | NonError \<Rightarrow> [])"

text \<open>The state is the history of calls; the \<open>n\<close>-th call meets the \<open>n\<close>-th environment.\<close>

definition unraid_exec ::
  "(gql_document \<Rightarrow> string) \<Rightarrow> execute_options \<Rightarrow> (nat \<Rightarrow> client_env)
    \<Rightarrow> jsval call list \<Rightarrow> int \<Rightarrow> gql_document \<Rightarrow> jsval \<Rightarrow> (string + jsval) \<times> jsval call list" where
  "unraid_exec print_doc config env h t d v =
     (let r = (case fst (client_execute print_doc config (env (length h)) d v) of
                 Inl e \<Rightarrow> Inl (error_text e) | Inr x \<Rightarrow> Inr x)
      in (r, h @ [(t, d, v, r)]))"

interpretation unraid: gql_executor "unraid_exec print_doc config env" "\<lambda>h. h"
  for print_doc config env
  by unfold_locales (auto simp: unraid_exec_def Let_def)

text \<open>Requests one after the other, in front of the client.\<close>

lemma client_answers_fresh:
  assumes "\<forall>q \<in> set (cacheable opts). \<not> has_mutation q"
    "cached_requests opts (unraid_exec p c ces) reqs (empty_cache, []) = (rs, st, h)"
    "cached_execute opts (unraid_exec p c ces) nowB nowE d v (st, h) = (r, st', h')"
  shows "h' = h @ [(nowE, d, v, r)] \<or> (\<exists>x. r = Inr x \<and> h' = h \<and> recent_answer opts h nowB d v x)"
  using unraid.cached_fresh [OF assms] .

end
