(* ===== verification/Documents.thy ===== *)
theory Documents
  imports Effects
begin

text \<open>
  The typed GraphQL operations of \<open>src/types/unraid/graphql.ts\<close>, one definition per exported
  document: its name, its kind and its selection tree (argument bindings are not needed by the
  model; the variables are passed at the call).
\<close>

abbreviation leaf :: "string \<Rightarrow> selection" where "leaf n \<equiv> Field n []"

section \<open>Queries and mutations\<close>

definition ApiKeyListDocument :: gql_document where
  "ApiKeyListDocument = mk_doc ''ApiKeyList'' Query
    [Field ''apiKeys'' [leaf ''id'', leaf ''name'', leaf ''description'', leaf ''roles'',
     leaf ''createdAt'', Field ''permissions'' [leaf ''resource'', leaf ''actions'']]]"

definition ApiKeyCreateDocument :: gql_document where
  "ApiKeyCreateDocument = mk_doc ''ApiKeyCreate'' Mutation
    [Field ''apiKey'' [Field ''create'' [leaf ''id'', leaf ''name'', leaf ''key'', leaf ''roles'']]]"

definition ApiKeyUpdateDocument :: gql_document where
  "ApiKeyUpdateDocument = mk_doc ''ApiKeyUpdate'' Mutation
    [Field ''apiKey'' [Field ''update'' [leaf ''id'', leaf ''name'', leaf ''description'',
     leaf ''roles'']]]"

definition ApiKeyAddRoleDocument :: gql_document where
  "ApiKeyAddRoleDocument = mk_doc ''ApiKeyAddRole'' Mutation
    [Field ''apiKey'' [leaf ''addRole'']]"

definition ApiKeyRemoveRoleDocument :: gql_document where
  "ApiKeyRemoveRoleDocument = mk_doc ''ApiKeyRemoveRole'' Mutation
    [Field ''apiKey'' [leaf ''removeRole'']]"

definition ApiKeyDeleteDocument :: gql_document where
  "ApiKeyDeleteDocument = mk_doc ''ApiKeyDelete'' Mutation
    [Field ''apiKey'' [leaf ''delete'']]"

definition ArraySetStateDocument :: gql_document where
  "ArraySetStateDocument = mk_doc ''ArraySetState'' Mutation
    [Field ''array'' [Field ''setState'' [leaf ''id'', leaf ''state'']]]"

definition ArrayStateProbeDocument :: gql_document where
  "ArrayStateProbeDocument = mk_doc ''ArrayStateProbe'' Query
    [Field ''array'' [leaf ''state'']]"

definition ArrayDiskAddDocument :: gql_document where
  "ArrayDiskAddDocument = mk_doc ''ArrayDiskAdd'' Mutation
    [Field ''array'' [Field ''addDiskToArray'' [leaf ''state'']]]"

definition ArrayDiskMountDocument :: gql_document where
  "ArrayDiskMountDocument = mk_doc ''ArrayDiskMount'' Mutation
    [Field ''array'' [Field ''mountArrayDisk'' [leaf ''id'', leaf ''status'']]]"

definition ArrayDiskUnmountDocument :: gql_document where
  "ArrayDiskUnmountDocument = mk_doc ''ArrayDiskUnmount'' Mutation
    [Field ''array'' [Field ''unmountArrayDisk'' [leaf ''id'', leaf ''status'']]]"

definition ArrayDiskClearStatsDocument :: gql_document where
  "ArrayDiskClearStatsDocument = mk_doc ''ArrayDiskClearStats'' Mutation
    [Field ''array'' [leaf ''clearArrayDiskStatistics'']]"

definition ArrayStatusDocument :: gql_document where
  "ArrayStatusDocument = mk_doc ''ArrayStatus'' Query
    [Field ''array'' [leaf ''state'', Field ''capacity'' [Field ''kilobytes'' [leaf ''free'',
     leaf ''used'', leaf ''total'']], Field ''parityCheckStatus'' [leaf ''status'', leaf ''progress'',
     leaf ''errors'', leaf ''running'', leaf ''paused'', leaf ''speed''],
     Field ''parities'' [leaf ''name'', leaf ''status'', leaf ''temp'', leaf ''type''],
     Field ''disks'' [leaf ''name'', leaf ''status'', leaf ''temp'', leaf ''fsFree'', leaf ''fsUsed'',
     leaf ''fsSize'', leaf ''numErrors'', leaf ''isSpinning'', leaf ''type''],
     Field ''caches'' [leaf ''name'', leaf ''status'', leaf ''temp'', leaf ''fsFree'', leaf ''fsUsed'',
     leaf ''type'']]]"

definition ParityCheckStartDocument :: gql_document where
  "ParityCheckStartDocument = mk_doc ''ParityCheckStart'' Mutation
    [Field ''parityCheck'' [leaf ''start'']]"

definition ParityCheckPauseDocument :: gql_document where
  "ParityCheckPauseDocument = mk_doc ''ParityCheckPause'' Mutation
    [Field ''parityCheck'' [leaf ''pause'']]"

definition ParityCheckResumeDocument :: gql_document where
  "ParityCheckResumeDocument = mk_doc ''ParityCheckResume'' Mutation
    [Field ''parityCheck'' [leaf ''resume'']]"

definition ParityCheckCancelDocument :: gql_document where
  "ParityCheckCancelDocument = mk_doc ''ParityCheckCancel'' Mutation
    [Field ''parityCheck'' [leaf ''cancel'']]"

definition ParityHistoryDocument :: gql_document where
  "ParityHistoryDocument = mk_doc ''ParityHistory'' Query
    [Field ''parityHistory'' [leaf ''date'', leaf ''duration'', leaf ''speed'', leaf ''status'',
     leaf ''errors'', leaf ''correcting'']]"

definition DiskListDocument :: gql_document where
  "DiskListDocument = mk_doc ''DiskList'' Query
    [Field ''disks'' [leaf ''device'', leaf ''name'', leaf ''vendor'', leaf ''type'', leaf ''size'',
     leaf ''interfaceType'', leaf ''smartStatus'', leaf ''temperature'', leaf ''isSpinning'',
     leaf ''serialNum'', leaf ''firmwareRevision'', Field ''partitions'' [leaf ''name'',
     leaf ''fsType'', leaf ''size'']]]"

definition DockerAutostartStateDocument :: gql_document where
  "DockerAutostartStateDocument = mk_doc ''DockerAutostartState'' Query
    [Field ''docker'' [Field ''containers'' [leaf ''id'', leaf ''names'', leaf ''autoStart'',
     leaf ''autoStartOrder'', leaf ''autoStartWait'']]]"

definition DockerSetAutostartDocument :: gql_document where
  "DockerSetAutostartDocument = mk_doc ''DockerSetAutostart'' Mutation
    [Field ''docker'' [leaf ''updateAutostartConfiguration'']]"

definition DockerStartDocument :: gql_document where
  "DockerStartDocument = mk_doc ''DockerStart'' Mutation
    [Field ''docker'' [Field ''start'' [leaf ''id'', leaf ''names'', leaf ''state'', leaf ''status'']]]"

definition DockerStopDocument :: gql_document where
  "DockerStopDocument = mk_doc ''DockerStop'' Mutation
    [Field ''docker'' [Field ''stop'' [leaf ''id'', leaf ''names'', leaf ''state'', leaf ''status'']]]"

definition DockerPauseDocument :: gql_document where
  "DockerPauseDocument = mk_doc ''DockerPause'' Mutation
    [Field ''docker'' [Field ''pause'' [leaf ''id'', leaf ''names'', leaf ''state'', leaf ''status'']]]"

definition DockerUnpauseDocument :: gql_document where
  "DockerUnpauseDocument = mk_doc ''DockerUnpause'' Mutation
    [Field ''docker'' [Field ''unpause'' [leaf ''id'', leaf ''names'', leaf ''state'', leaf ''status'']]]"

definition DockerRestartDocument :: gql_document where
  "DockerRestartDocument = mk_doc ''DockerRestart'' Mutation
    [Field ''docker'' [Field ''restart'' [leaf ''id'', leaf ''names'', leaf ''state'', leaf ''status'']]]"

definition DockerContainerListDocument :: gql_document where
  "DockerContainerListDocument = mk_doc ''DockerContainerList'' Query
    [Field ''docker'' [Field ''containers'' [leaf ''id'', leaf ''names'', leaf ''image'',
     leaf ''state'', leaf ''status'', leaf ''autoStart'', leaf ''isUpdateAvailable'']]]"

definition DockerContainerLogsDocument :: gql_document where
  "DockerContainerLogsDocument = mk_doc ''DockerContainerLogs'' Query
    [Field ''docker'' [Field ''logs'' [leaf ''containerId'', Field ''lines'' [leaf ''timestamp'',
     leaf ''message''], leaf ''cursor'']]]"

definition DockerRemoveContainerDocument :: gql_document where
  "DockerRemoveContainerDocument = mk_doc ''DockerRemoveContainer'' Mutation
    [Field ''docker'' [leaf ''removeContainer'']]"

definition DockerUpdateContainersDocument :: gql_document where
  "DockerUpdateContainersDocument = mk_doc ''DockerUpdateContainers'' Mutation
    [Field ''docker'' [Field ''updateContainers'' [leaf ''id'', leaf ''names'', leaf ''state'',
     leaf ''status'', leaf ''isUpdateAvailable'']]]"

definition DockerUpdateAllDocument :: gql_document where
  "DockerUpdateAllDocument = mk_doc ''DockerUpdateAll'' Mutation
    [Field ''docker'' [Field ''updateAllContainers'' [leaf ''id'', leaf ''names'', leaf ''state'',
     leaf ''status'']]]"

definition DockerNetworkListDocument :: gql_document where
  "DockerNetworkListDocument = mk_doc ''DockerNetworkList'' Query
    [Field ''docker'' [Field ''networks'' [leaf ''id'', leaf ''name'', leaf ''driver'', leaf ''scope'',
     leaf ''enableIPv6'', leaf ''internal'', leaf ''attachable'']]]"

definition DockerPortConflictsDocument :: gql_document where
  "DockerPortConflictsDocument = mk_doc ''DockerPortConflicts'' Query
    [Field ''docker'' [Field ''portConflicts'' [Field ''containerPorts'' [leaf ''privatePort'',
     leaf ''type'', Field ''containers'' [leaf ''id'', leaf ''name'']],
     Field ''lanPorts'' [leaf ''lanIpPort'', leaf ''publicPort'', leaf ''type'',
     Field ''containers'' [leaf ''id'', leaf ''name'']]]]]"

definition LogListDocument :: gql_document where
  "LogListDocument = mk_doc ''LogList'' Query
    [Field ''logFiles'' [leaf ''name'', leaf ''path'', leaf ''size'', leaf ''modifiedAt'']]"

definition LogReadAllowlistDocument :: gql_document where
  "LogReadAllowlistDocument = mk_doc ''LogReadAllowlist'' Query
    [Field ''logFiles'' [leaf ''name'', leaf ''path'']]"

definition LogReadContentDocument :: gql_document where
  "LogReadContentDocument = mk_doc ''LogReadContent'' Query
    [Field ''logFile'' [leaf ''path'', leaf ''content'', leaf ''totalLines'', leaf ''startLine'']]"

definition MoverStatusDocument :: gql_document where
  "MoverStatusDocument = mk_doc ''MoverStatus'' Query
    [Field ''vars'' [leaf ''shareMoverActive'', leaf ''shareMoverSchedule'', leaf ''shareMoverLogging'']]"

definition NotificationAlertsDocument :: gql_document where
  "NotificationAlertsDocument = mk_doc ''NotificationAlerts'' Query
    [Field ''notifications'' [Field ''warningsAndAlerts'' [leaf ''id'', leaf ''title'',
     leaf ''subject'', leaf ''description'', leaf ''importance'', leaf ''link'', leaf ''type'',
     leaf ''timestamp'', leaf ''formattedTimestamp'']]]"

definition ArchiveNotificationsDocument :: gql_document where
  "ArchiveNotificationsDocument = mk_doc ''ArchiveNotifications'' Mutation
    [Field ''archiveNotifications'' [Field ''unread'' [leaf ''info'', leaf ''warning'', leaf ''alert'',
     leaf ''total''], Field ''archive'' [leaf ''info'', leaf ''warning'', leaf ''alert'',
     leaf ''total'']]]"

definition UnarchiveNotificationsDocument :: gql_document where
  "UnarchiveNotificationsDocument = mk_doc ''UnarchiveNotifications'' Mutation
    [Field ''unarchiveNotifications'' [Field ''unread'' [leaf ''info'', leaf ''warning'',
     leaf ''alert'', leaf ''total''], Field ''archive'' [leaf ''info'', leaf ''warning'',
     leaf ''alert'', leaf ''total'']]]"

definition ArchiveAllDocument :: gql_document where
  "ArchiveAllDocument = mk_doc ''ArchiveAll'' Mutation
    [Field ''archiveAll'' [Field ''unread'' [leaf ''info'', leaf ''warning'', leaf ''alert'',
     leaf ''total''], Field ''archive'' [leaf ''info'', leaf ''warning'', leaf ''alert'',
     leaf ''total'']]]"

definition UnarchiveAllDocument :: gql_document where
  "UnarchiveAllDocument = mk_doc ''UnarchiveAll'' Mutation
    [Field ''unarchiveAll'' [Field ''unread'' [leaf ''info'', leaf ''warning'', leaf ''alert'',
     leaf ''total''], Field ''archive'' [leaf ''info'', leaf ''warning'', leaf ''alert'',
     leaf ''total'']]]"

definition CreateNotificationDocument :: gql_document where
  "CreateNotificationDocument = mk_doc ''CreateNotification'' Mutation
    [Field ''createNotification'' [leaf ''id'', leaf ''title'', leaf ''subject'', leaf ''description'',
     leaf ''importance'', leaf ''link'', leaf ''type'', leaf ''timestamp'', leaf ''formattedTimestamp'']]"

definition NotifyIfUniqueDocument :: gql_document where
  "NotifyIfUniqueDocument = mk_doc ''NotifyIfUnique'' Mutation
    [Field ''notifyIfUnique'' [leaf ''id'', leaf ''title'', leaf ''subject'', leaf ''description'',
     leaf ''importance'', leaf ''link'', leaf ''type'', leaf ''timestamp'', leaf ''formattedTimestamp'']]"

definition DeleteNotificationDocument :: gql_document where
  "DeleteNotificationDocument = mk_doc ''DeleteNotification'' Mutation
    [Field ''deleteNotification'' [Field ''unread'' [leaf ''info'', leaf ''warning'', leaf ''alert'',
     leaf ''total''], Field ''archive'' [leaf ''info'', leaf ''warning'', leaf ''alert'',
     leaf ''total'']]]"

definition DeleteArchivedNotificationsDocument :: gql_document where
  "DeleteArchivedNotificationsDocument = mk_doc ''DeleteArchivedNotifications'' Mutation
    [Field ''deleteArchivedNotifications'' [Field ''unread'' [leaf ''info'', leaf ''warning'',
     leaf ''alert'', leaf ''total''], Field ''archive'' [leaf ''info'', leaf ''warning'',
     leaf ''alert'', leaf ''total'']]]"

definition NotificationListDocument :: gql_document where
  "NotificationListDocument = mk_doc ''NotificationList'' Query
    [Field ''notifications'' [Field ''list'' [leaf ''id'', leaf ''title'', leaf ''subject'',
     leaf ''description'', leaf ''importance'', leaf ''link'', leaf ''type'', leaf ''timestamp'',
     leaf ''formattedTimestamp'']]]"

definition NotificationOverviewDocument :: gql_document where
  "NotificationOverviewDocument = mk_doc ''NotificationOverview'' Query
    [Field ''notifications'' [Field ''overview'' [Field ''unread'' [leaf ''info'', leaf ''warning'',
     leaf ''alert'', leaf ''total''], Field ''archive'' [leaf ''info'', leaf ''warning'',
     leaf ''alert'', leaf ''total'']]]]"

definition RecalculateOverviewDocument :: gql_document where
  "RecalculateOverviewDocument = mk_doc ''RecalculateOverview'' Mutation
    [Field ''recalculateOverview'' [Field ''unread'' [leaf ''info'', leaf ''warning'', leaf ''alert'',
     leaf ''total''], Field ''archive'' [leaf ''info'', leaf ''warning'', leaf ''alert'',
     leaf ''total'']]]"

definition NotificationUnreadDocument :: gql_document where
  "NotificationUnreadDocument = mk_doc ''NotificationUnread'' Mutation
    [Field ''unreadNotification'' [leaf ''id'', leaf ''title'', leaf ''importance'']]"

definition PluginAddDocument :: gql_document where
  "PluginAddDocument = mk_doc ''PluginAdd'' Mutation
    [leaf ''addPlugin'']"

definition PluginInstallPlgDocument :: gql_document where
  "PluginInstallPlgDocument = mk_doc ''PluginInstallPlg'' Mutation
    [Field ''unraidPlugins'' [Field ''installPlugin'' [leaf ''id'', leaf ''url'', leaf ''name'',
     leaf ''status'']]]"

definition PluginListDocument :: gql_document where
  "PluginListDocument = mk_doc ''PluginList'' Query
    [Field ''plugins'' [leaf ''name'', leaf ''version'', leaf ''hasApiModule'', leaf ''hasCliModule''],
     leaf ''installedUnraidPlugins'']"

definition PluginRemoveDocument :: gql_document where
  "PluginRemoveDocument = mk_doc ''PluginRemove'' Mutation
    [leaf ''removePlugin'']"

definition ShareListDocument :: gql_document where
  "ShareListDocument = mk_doc ''ShareList'' Query
    [Field ''shares'' [leaf ''name'', leaf ''free'', leaf ''used'', leaf ''size'', leaf ''cache'',
     leaf ''include'', leaf ''exclude'', leaf ''comment'']]"

definition ConnectionDoctorDocument :: gql_document where
  "ConnectionDoctorDocument = mk_doc ''ConnectionDoctor'' Query
    [leaf ''online'', Field ''info'' [Field ''versions'' [Field ''core'' [leaf ''unraid'',
     leaf ''api'']]]]"

definition SystemHealthDocument :: gql_document where
  "SystemHealthDocument = mk_doc ''SystemHealth'' Query
    [Field ''array'' [leaf ''state'', Field ''capacity'' [Field ''kilobytes'' [leaf ''used'',
     leaf ''total'']], Field ''parityCheckStatus'' [leaf ''status'', leaf ''errors'', leaf ''running''],
     Field ''parities'' [leaf ''name'', leaf ''status'', leaf ''temp''], Field ''disks'' [leaf ''name'',
     leaf ''status'', leaf ''temp'', leaf ''numErrors''], Field ''caches'' [leaf ''name'',
     leaf ''status'', leaf ''temp'']],
     Field ''notifications'' [Field ''overview'' [Field ''unread'' [leaf ''warning'', leaf ''alert'']]],
     Field ''docker'' [Field ''containers'' [leaf ''isUpdateAvailable'']]]"

definition SystemInfoDocument :: gql_document where
  "SystemInfoDocument = mk_doc ''SystemInfo'' Query
    [Field ''info'' [leaf ''time'', Field ''os'' [leaf ''platform'', leaf ''distro'', leaf ''release'',
     leaf ''kernel'', leaf ''uptime'', leaf ''hostname''], Field ''cpu'' [leaf ''manufacturer'',
     leaf ''brand'', leaf ''cores'', leaf ''threads'']]]"

definition SystemMetricsDocument :: gql_document where
  "SystemMetricsDocument = mk_doc ''SystemMetrics'' Query
    [Field ''metrics'' [Field ''cpu'' [leaf ''percentTotal'', Field ''cpus'' [leaf ''percentTotal'']],
     Field ''memory'' [leaf ''total'', leaf ''used'', leaf ''free'', leaf ''available'',
     leaf ''percentTotal'', leaf ''swapTotal'', leaf ''swapUsed'', leaf ''percentSwapTotal''],
     Field ''temperature'' [Field ''sensors'' [leaf ''name'', leaf ''type'',
     Field ''current'' [leaf ''value'', leaf ''unit'', leaf ''status''], leaf ''warning'',
     leaf ''critical''], Field ''summary'' [leaf ''average'', leaf ''warningCount'',
     leaf ''criticalCount'', Field ''hottest'' [leaf ''name'', Field ''current'' [leaf ''value'',
     leaf ''unit'']]]], Field ''network'' [leaf ''name'', leaf ''operstate'', leaf ''rxSec'',
     leaf ''txSec'', leaf ''utilizationPercent'', leaf ''bytesReceived'', leaf ''bytesSent'',
     leaf ''receiveErrors'', leaf ''transmitErrors'', leaf ''receiveDropped'', leaf ''transmitDropped'',
     leaf ''lastUpdated'']], Field ''systemTime'' [leaf ''currentTime'', leaf ''timeZone'',
     leaf ''useNtp'']]"

definition UpsStatusDocument :: gql_document where
  "UpsStatusDocument = mk_doc ''UpsStatus'' Query
    [Field ''upsDevices'' [leaf ''id'', leaf ''name'', leaf ''model'', leaf ''status'',
     Field ''battery'' [leaf ''chargeLevel'', leaf ''estimatedRuntime''],
     Field ''power'' [leaf ''inputVoltage'', leaf ''outputVoltage'', leaf ''loadPercentage'',
     leaf ''nominalPower'', leaf ''currentPower'']]]"

definition VmResolveDocument :: gql_document where
  "VmResolveDocument = mk_doc ''VmResolve'' Query
    [Field ''vms'' [Field ''domains'' [leaf ''id'', leaf ''name'']]]"

definition VmStartDocument :: gql_document where
  "VmStartDocument = mk_doc ''VmStart'' Mutation
    [Field ''vm'' [leaf ''start'']]"

definition VmStopDocument :: gql_document where
  "VmStopDocument = mk_doc ''VmStop'' Mutation
    [Field ''vm'' [leaf ''stop'']]"

definition VmPauseDocument :: gql_document where
  "VmPauseDocument = mk_doc ''VmPause'' Mutation
    [Field ''vm'' [leaf ''pause'']]"

definition VmResumeDocument :: gql_document where
  "VmResumeDocument = mk_doc ''VmResume'' Mutation
    [Field ''vm'' [leaf ''resume'']]"

definition VmForceStopDocument :: gql_document where
  "VmForceStopDocument = mk_doc ''VmForceStop'' Mutation
    [Field ''vm'' [leaf ''forceStop'']]"

definition VmRebootDocument :: gql_document where
  "VmRebootDocument = mk_doc ''VmReboot'' Mutation
    [Field ''vm'' [leaf ''reboot'']]"

definition VmResetDocument :: gql_document where
  "VmResetDocument = mk_doc ''VmReset'' Mutation
    [Field ''vm'' [leaf ''reset'']]"

definition VmListDocument :: gql_document where
  "VmListDocument = mk_doc ''VmList'' Query
    [Field ''vms'' [Field ''domains'' [leaf ''id'', leaf ''name'', leaf ''state'']]]"

section \<open>Which of them mutate\<close>

text \<open>The read documents and the write documents of the tools.\<close>

definition query_documents :: "gql_document list" where
  "query_documents =
     [ApiKeyListDocument, ArrayStateProbeDocument, ArrayStatusDocument, ParityHistoryDocument,
     DiskListDocument, DockerAutostartStateDocument, DockerContainerListDocument,
     DockerContainerLogsDocument, DockerNetworkListDocument, DockerPortConflictsDocument,
     LogListDocument, LogReadAllowlistDocument, LogReadContentDocument, MoverStatusDocument,
     NotificationAlertsDocument, NotificationListDocument, NotificationOverviewDocument,
     PluginListDocument, ShareListDocument, ConnectionDoctorDocument, SystemHealthDocument,
     SystemInfoDocument, SystemMetricsDocument, UpsStatusDocument, VmResolveDocument, VmListDocument]"

definition mutation_documents :: "gql_document list" where
  "mutation_documents =
     [ApiKeyCreateDocument, ApiKeyUpdateDocument, ApiKeyAddRoleDocument, ApiKeyRemoveRoleDocument,
     ApiKeyDeleteDocument, ArraySetStateDocument, ArrayDiskAddDocument, ArrayDiskMountDocument,
     ArrayDiskUnmountDocument, ArrayDiskClearStatsDocument, ParityCheckStartDocument,
     ParityCheckPauseDocument, ParityCheckResumeDocument, ParityCheckCancelDocument,
     DockerSetAutostartDocument, DockerStartDocument, DockerStopDocument, DockerPauseDocument,
     DockerUnpauseDocument, DockerRestartDocument, DockerRemoveContainerDocument,
     DockerUpdateContainersDocument, DockerUpdateAllDocument, ArchiveNotificationsDocument,
     UnarchiveNotificationsDocument, ArchiveAllDocument, UnarchiveAllDocument,
     CreateNotificationDocument, NotifyIfUniqueDocument, DeleteNotificationDocument,
     DeleteArchivedNotificationsDocument, RecalculateOverviewDocument, NotificationUnreadDocument,
     PluginAddDocument, PluginInstallPlgDocument, PluginRemoveDocument, VmStartDocument, VmStopDocument,
     VmPauseDocument, VmResumeDocument, VmForceStopDocument, VmRebootDocument, VmResetDocument]"

lemma ApiKeyListDocument_kind [simp]: "\<not> has_mutation ApiKeyListDocument"
  by (simp add: ApiKeyListDocument_def)
lemma ApiKeyCreateDocument_kind [simp]: "has_mutation ApiKeyCreateDocument"
  by (simp add: ApiKeyCreateDocument_def)
lemma ApiKeyUpdateDocument_kind [simp]: "has_mutation ApiKeyUpdateDocument"
  by (simp add: ApiKeyUpdateDocument_def)
lemma ApiKeyAddRoleDocument_kind [simp]: "has_mutation ApiKeyAddRoleDocument"
  by (simp add: ApiKeyAddRoleDocument_def)
lemma ApiKeyRemoveRoleDocument_kind [simp]: "has_mutation ApiKeyRemoveRoleDocument"
  by (simp add: ApiKeyRemoveRoleDocument_def)
lemma ApiKeyDeleteDocument_kind [simp]: "has_mutation ApiKeyDeleteDocument"
  by (simp add: ApiKeyDeleteDocument_def)
lemma ArraySetStateDocument_kind [simp]: "has_mutation ArraySetStateDocument"
  by (simp add: ArraySetStateDocument_def)
lemma ArrayStateProbeDocument_kind [simp]: "\<not> has_mutation ArrayStateProbeDocument"
  by (simp add: ArrayStateProbeDocument_def)
lemma ArrayDiskAddDocument_kind [simp]: "has_mutation ArrayDiskAddDocument"
  by (simp add: ArrayDiskAddDocument_def)
lemma ArrayDiskMountDocument_kind [simp]: "has_mutation ArrayDiskMountDocument"
  by (simp add: ArrayDiskMountDocument_def)
lemma ArrayDiskUnmountDocument_kind [simp]: "has_mutation ArrayDiskUnmountDocument"
  by (simp add: ArrayDiskUnmountDocument_def)
lemma ArrayDiskClearStatsDocument_kind [simp]: "has_mutation ArrayDiskClearStatsDocument"
  by (simp add: ArrayDiskClearStatsDocument_def)
lemma ArrayStatusDocument_kind [simp]: "\<not> has_mutation ArrayStatusDocument"
  by (simp add: ArrayStatusDocument_def)
lemma ParityCheckStartDocument_kind [simp]: "has_mutation ParityCheckStartDocument"
  by (simp add: ParityCheckStartDocument_def)
lemma ParityCheckPauseDocument_kind [simp]: "has_mutation ParityCheckPauseDocument"
  by (simp add: ParityCheckPauseDocument_def)
lemma ParityCheckResumeDocument_kind [simp]: "has_mutation ParityCheckResumeDocument"
  by (simp add: ParityCheckResumeDocument_def)
lemma ParityCheckCancelDocument_kind [simp]: "has_mutation ParityCheckCancelDocument"
  by (simp add: ParityCheckCancelDocument_def)
lemma ParityHistoryDocument_kind [simp]: "\<not> has_mutation ParityHistoryDocument"
  by (simp add: ParityHistoryDocument_def)
lemma DiskListDocument_kind [simp]: "\<not> has_mutation DiskListDocument"
  by (simp add: DiskListDocument_def)
lemma DockerAutostartStateDocument_kind [simp]: "\<not> has_mutation DockerAutostartStateDocument"
  by (simp add: DockerAutostartStateDocument_def)
lemma DockerSetAutostartDocument_kind [simp]: "has_mutation DockerSetAutostartDocument"
  by (simp add: DockerSetAutostartDocument_def)
lemma DockerStartDocument_kind [simp]: "has_mutation DockerStartDocument"
  by (simp add: DockerStartDocument_def)
lemma DockerStopDocument_kind [simp]: "has_mutation DockerStopDocument"
  by (simp add: DockerStopDocument_def)
lemma DockerPauseDocument_kind [simp]: "has_mutation DockerPauseDocument"
  by (simp add: DockerPauseDocument_def)
lemma DockerUnpauseDocument_kind [simp]: "has_mutation DockerUnpauseDocument"
  by (simp add: DockerUnpauseDocument_def)
lemma DockerRestartDocument_kind [simp]: "has_mutation DockerRestartDocument"
  by (simp add: DockerRestartDocument_def)
lemma DockerContainerListDocument_kind [simp]: "\<not> has_mutation DockerContainerListDocument"
  by (simp add: DockerContainerListDocument_def)
lemma DockerContainerLogsDocument_kind [simp]: "\<not> has_mutation DockerContainerLogsDocument"
  by (simp add: DockerContainerLogsDocument_def)
lemma DockerRemoveContainerDocument_kind [simp]: "has_mutation DockerRemoveContainerDocument"
  by (simp add: DockerRemoveContainerDocument_def)
lemma DockerUpdateContainersDocument_kind [simp]: "has_mutation DockerUpdateContainersDocument"
  by (simp add: DockerUpdateContainersDocument_def)
lemma DockerUpdateAllDocument_kind [simp]: "has_mutation DockerUpdateAllDocument"
  by (simp add: DockerUpdateAllDocument_def)
lemma DockerNetworkListDocument_kind [simp]: "\<not> has_mutation DockerNetworkListDocument"
  by (simp add: DockerNetworkListDocument_def)
lemma DockerPortConflictsDocument_kind [simp]: "\<not> has_mutation DockerPortConflictsDocument"
  by (simp add: DockerPortConflictsDocument_def)
lemma LogListDocument_kind [simp]: "\<not> has_mutation LogListDocument"
  by (simp add: LogListDocument_def)
lemma LogReadAllowlistDocument_kind [simp]: "\<not> has_mutation LogReadAllowlistDocument"
  by (simp add: LogReadAllowlistDocument_def)
lemma LogReadContentDocument_kind [simp]: "\<not> has_mutation LogReadContentDocument"
  by (simp add: LogReadContentDocument_def)
lemma MoverStatusDocument_kind [simp]: "\<not> has_mutation MoverStatusDocument"
  by (simp add: MoverStatusDocument_def)
lemma NotificationAlertsDocument_kind [simp]: "\<not> has_mutation NotificationAlertsDocument"
  by (simp add: NotificationAlertsDocument_def)
lemma ArchiveNotificationsDocument_kind [simp]: "has_mutation ArchiveNotificationsDocument"
  by (simp add: ArchiveNotificationsDocument_def)
lemma UnarchiveNotificationsDocument_kind [simp]: "has_mutation UnarchiveNotificationsDocument"
  by (simp add: UnarchiveNotificationsDocument_def)
lemma ArchiveAllDocument_kind [simp]: "has_mutation ArchiveAllDocument"
  by (simp add: ArchiveAllDocument_def)
lemma UnarchiveAllDocument_kind [simp]: "has_mutation UnarchiveAllDocument"
  by (simp add: UnarchiveAllDocument_def)
lemma CreateNotificationDocument_kind [simp]: "has_mutation CreateNotificationDocument"
  by (simp add: CreateNotificationDocument_def)
lemma NotifyIfUniqueDocument_kind [simp]: "has_mutation NotifyIfUniqueDocument"
  by (simp add: NotifyIfUniqueDocument_def)
lemma DeleteNotificationDocument_kind [simp]: "has_mutation DeleteNotificationDocument"
  by (simp add: DeleteNotificationDocument_def)
lemma DeleteArchivedNotificationsDocument_kind [simp]: "has_mutation DeleteArchivedNotificationsDocument"
  by (simp add: DeleteArchivedNotificationsDocument_def)
lemma NotificationListDocument_kind [simp]: "\<not> has_mutation NotificationListDocument"
  by (simp add: NotificationListDocument_def)
lemma NotificationOverviewDocument_kind [simp]: "\<not> has_mutation NotificationOverviewDocument"
  by (simp add: NotificationOverviewDocument_def)
lemma RecalculateOverviewDocument_kind [simp]: "has_mutation RecalculateOverviewDocument"
  by (simp add: RecalculateOverviewDocument_def)
lemma NotificationUnreadDocument_kind [simp]: "has_mutation NotificationUnreadDocument"
  by (simp add: NotificationUnreadDocument_def)
lemma PluginAddDocument_kind [simp]: "has_mutation PluginAddDocument"
  by (simp add: PluginAddDocument_def)
lemma PluginInstallPlgDocument_kind [simp]: "has_mutation PluginInstallPlgDocument"
  by (simp add: PluginInstallPlgDocument_def)
lemma PluginListDocument_kind [simp]: "\<not> has_mutation PluginListDocument"
  by (simp add: PluginListDocument_def)
lemma PluginRemoveDocument_kind [simp]: "has_mutation PluginRemoveDocument"
  by (simp add: PluginRemoveDocument_def)
lemma ShareListDocument_kind [simp]: "\<not> has_mutation ShareListDocument"
  by (simp add: ShareListDocument_def)
lemma ConnectionDoctorDocument_kind [simp]: "\<not> has_mutation ConnectionDoctorDocument"
  by (simp add: ConnectionDoctorDocument_def)
lemma SystemHealthDocument_kind [simp]: "\<not> has_mutation SystemHealthDocument"
  by (simp add: SystemHealthDocument_def)
lemma SystemInfoDocument_kind [simp]: "\<not> has_mutation SystemInfoDocument"
  by (simp add: SystemInfoDocument_def)
lemma SystemMetricsDocument_kind [simp]: "\<not> has_mutation SystemMetricsDocument"
  by (simp add: SystemMetricsDocument_def)
lemma UpsStatusDocument_kind [simp]: "\<not> has_mutation UpsStatusDocument"
  by (simp add: UpsStatusDocument_def)
lemma VmResolveDocument_kind [simp]: "\<not> has_mutation VmResolveDocument"
  by (simp add: VmResolveDocument_def)
lemma VmStartDocument_kind [simp]: "has_mutation VmStartDocument"
  by (simp add: VmStartDocument_def)
lemma VmStopDocument_kind [simp]: "has_mutation VmStopDocument"
  by (simp add: VmStopDocument_def)
lemma VmPauseDocument_kind [simp]: "has_mutation VmPauseDocument"
  by (simp add: VmPauseDocument_def)
lemma VmResumeDocument_kind [simp]: "has_mutation VmResumeDocument"
  by (simp add: VmResumeDocument_def)
lemma VmForceStopDocument_kind [simp]: "has_mutation VmForceStopDocument"
  by (simp add: VmForceStopDocument_def)
lemma VmRebootDocument_kind [simp]: "has_mutation VmRebootDocument"
  by (simp add: VmRebootDocument_def)
lemma VmResetDocument_kind [simp]: "has_mutation VmResetDocument"
  by (simp add: VmResetDocument_def)
lemma VmListDocument_kind [simp]: "\<not> has_mutation VmListDocument"
  by (simp add: VmListDocument_def)

lemma query_documents_read: "d \<in> set query_documents \<Longrightarrow> \<not> has_mutation d"
  by (auto simp: query_documents_def)

lemma mutation_documents_write: "d \<in> set mutation_documents \<Longrightarrow> has_mutation d"
  by (auto simp: mutation_documents_def)

end
