(* ===== verification/CachingExecutor.thy ===== *)
theory CachingExecutor
  imports SnapshotCache Documents
begin

text \<open>
  \<open>CachingExecutor\<close> of \<open>src/graphql/snapshot-cache.ts\<close> with calls that overlap. \<open>SnapshotCache\<close>
  has its operations on the cache; here a call is split where the code awaits the wrapped executor:
  \<open>Asks\<close> is a call up to there, \<open>Answers\<close> its continuation. Payloads are objects with an identity,
  because \<open>servedAges\<close>, the ages that \<open>cacheAgeMs\<close> reads, is keyed by the object and not by its value.

  The lemmas show for every interleaving what a payload that comes from the cache is worth and which
  age is reported for a payload.
\<close>

section \<open>The executor\<close>

text \<open>A payload as the program holds it: its identity and its value.\<close>

type_synonym payload = "nat \<times> jsval"

definition DEFAULT_CACHEABLE_DOCUMENTS :: "gql_document list" where
  "DEFAULT_CACHEABLE_DOCUMENTS = [SystemMetricsDocument, ArrayStatusDocument, DockerContainerListDocument]"

definition default_options :: cache_options where
  "default_options = \<lparr>ttlMs = SNAPSHOT_TTL_MS, cacheable = DEFAULT_CACHEABLE_DOCUMENTS\<rparr>"

lemma default_options_simps:
  "ttlMs default_options = SNAPSHOT_TTL_MS" "cacheable default_options = DEFAULT_CACHEABLE_DOCUMENTS"
  by (simp_all add: default_options_def)

definition is_object :: "jsval \<Rightarrow> bool" where
  "is_object v = (case v of JArr xs \<Rightarrow> True | JObj ms \<Rightarrow> True | _ \<Rightarrow> False)"

type_synonym served_ages = "(nat \<times> int) list"

definition stampAge :: "payload \<Rightarrow> int \<Rightarrow> served_ages \<Rightarrow> served_ages" where
  "stampAge data ageMs servedAges = (if is_object (snd data) then upsert (fst data) ageMs servedAges else servedAges)"

definition cacheAgeMs :: "served_ages \<Rightarrow> payload \<Rightarrow> int option" where
  "cacheAgeMs servedAges data = (if is_object (snd data) then map_of servedAges (fst data) else None)"

text \<open>
  A call that waits for the wrapped executor: its document, its variables and the key under which
  it will store the answer (none for a document that is not cached).
\<close>

record pending =
  pd_document :: gql_document
  pd_variables :: jsval
  pd_target :: "string option"

text \<open>\<open>ce_waiting\<close> has the calls in flight by their number; \<open>ce_objects\<close> counts the payloads made.\<close>

record caching_executor =
  ce_cache :: "payload cache_state"
  ce_ages :: served_ages
  ce_waiting :: "(nat \<times> pending) list"
  ce_calls :: nat
  ce_objects :: nat

definition newCachingExecutor :: caching_executor where
  "newCachingExecutor = \<lparr>ce_cache = empty_cache, ce_ages = [], ce_waiting = [], ce_calls = 0, ce_objects = 0\<rparr>"

text \<open>A call that returns: when, which, its answer, and what \<open>cacheAgeMs\<close> says of it then.\<close>

record delivery =
  dl_time :: int
  dl_call :: nat
  dl_document :: gql_document
  dl_variables :: jsval
  dl_cached :: bool
  dl_answer :: "string + payload"
  dl_age :: "int option"

datatype executor_event =
    Asks int gql_document jsval
  | Answers int nat "string + jsval"

definition answer_age :: "served_ages \<Rightarrow> string + payload \<Rightarrow> int option" where
  "answer_age ages answer = (case answer of Inl e \<Rightarrow> None | Inr p \<Rightarrow> cacheAgeMs ages p)"

definition asks :: "cache_options \<Rightarrow> int \<Rightarrow> gql_document \<Rightarrow> jsval \<Rightarrow> caching_executor \<Rightarrow> delivery option \<times> caching_executor" where
  "asks opts nowMs document variables st =
     (let n = ce_calls st; st1 = st\<lparr>ce_calls := n + 1\<rparr>
      in case cache_begin opts nowMs document variables (ce_cache st) of
           (Served data ageMs, c) \<Rightarrow>
             (let ages = stampAge data ageMs (ce_ages st)
              in (Some \<lparr>dl_time = nowMs, dl_call = n, dl_document = document, dl_variables = variables,
                        dl_cached = True, dl_answer = Inr data, dl_age = cacheAgeMs ages data\<rparr>,
                  st1\<lparr>ce_cache := c, ce_ages := ages\<rparr>))
         | (Fetch target, c) \<Rightarrow>
             (None, st1\<lparr>ce_cache := c,
                        ce_waiting := ce_waiting st @ [(n, \<lparr>pd_document = document, pd_variables = variables, pd_target = target\<rparr>)]\<rparr>))"

definition answers :: "int \<Rightarrow> nat \<Rightarrow> string + jsval \<Rightarrow> caching_executor \<Rightarrow> delivery option \<times> caching_executor" where
  "answers nowMs n reply st =
     (case map_of (ce_waiting st) n of
        None \<Rightarrow> (None, st)
      | Some q \<Rightarrow>
          (let answer = map_sum id (Pair (ce_objects st)) reply;
               ages = (case (pd_target q, answer) of
                         (Some key, Inr data) \<Rightarrow> stampAge data 0 (ce_ages st)
                       | _ \<Rightarrow> ce_ages st)
           in (Some \<lparr>dl_time = nowMs, dl_call = n, dl_document = pd_document q, dl_variables = pd_variables q,
                     dl_cached = False, dl_answer = answer, dl_age = answer_age ages answer\<rparr>,
               st\<lparr>ce_cache := cache_finish nowMs (pd_document q) (pd_target q) answer (ce_cache st),
                  ce_ages := ages,
                  ce_waiting := filter (\<lambda>(m, q). m \<noteq> n) (ce_waiting st),
                  ce_objects := ce_objects st + 1\<rparr>)))"

definition executor_step :: "cache_options \<Rightarrow> executor_event \<Rightarrow> caching_executor \<Rightarrow> delivery option \<times> caching_executor" where
  "executor_step opts e st =
     (case e of Asks nowMs document variables \<Rightarrow> asks opts nowMs document variables st
      | Answers nowMs n reply \<Rightarrow> answers nowMs n reply st)"

fun deliveries :: "cache_options \<Rightarrow> executor_event list \<Rightarrow> caching_executor \<Rightarrow> delivery list \<times> caching_executor" where
  "deliveries opts [] st = ([], st)"
| "deliveries opts (e # es) st =
     (let (d, st1) = executor_step opts e st; (ds, st2) = deliveries opts es st1
      in ((case d of None \<Rightarrow> [] | Some x \<Rightarrow> [x]) @ ds, st2))"

section \<open>What the log says of the state\<close>

text \<open>The answers of the wrapped executor, in the order in which they came.\<close>

definition log_calls :: "delivery list \<Rightarrow> payload call list" where
  "log_calls ds = map (\<lambda>x. (dl_time x, dl_document x, dl_variables x, dl_answer x)) (filter (\<lambda>x. \<not> dl_cached x) ds)"

lemma log_calls_simps [simp]:
  "log_calls [] = []" "log_calls (ds @ es) = log_calls ds @ log_calls es"
  "log_calls [x] = (if dl_cached x then [] else [(dl_time x, dl_document x, dl_variables x, dl_answer x)])"
  by (simp_all add: log_calls_def)

definition executor_inv :: "cache_options \<Rightarrow> delivery list \<Rightarrow> caching_executor \<Rightarrow> bool" where
  "executor_inv opts ds st \<longleftrightarrow>
     cache_inv (ce_cache st) (log_calls ds)
     \<and> (\<forall>(n, q) \<in> set (ce_waiting st). target_fits opts (ce_cache st) (pd_document q) (pd_variables q) (pd_target q))
     \<and> (\<forall>(k, e) \<in> set (cache (ce_cache st)). fst (entry_data e) < ce_objects st)
     \<and> (\<forall>(i, a) \<in> set (ce_ages st). i < ce_objects st)"

lemma new_executor_inv: "executor_inv opts [] newCachingExecutor"
  by (simp add: executor_inv_def newCachingExecutor_def empty_cache_inv) (simp add: empty_cache_def)

lemma executor_invD:
  assumes "executor_inv opts ds st"
  shows "cache_inv (ce_cache st) (log_calls ds)"
    "\<forall>(n, q) \<in> set (ce_waiting st). target_fits opts (ce_cache st) (pd_document q) (pd_variables q) (pd_target q)"
    "\<forall>(k, e) \<in> set (cache (ce_cache st)). fst (entry_data e) < ce_objects st"
    "\<forall>(i, a) \<in> set (ce_ages st). i < ce_objects st"
  using assms unfolding executor_inv_def by blast+

lemma upsert_mem: "x \<in> set (upsert k v xs) \<Longrightarrow> x = (k, v) \<or> x \<in> set xs"
  by (induction xs) (auto split: if_splits)

lemma stampAge_mem: "(i, a) \<in> set (stampAge p g ages) \<Longrightarrow> i = fst p \<or> (i, a) \<in> set ages"
  by (auto simp: stampAge_def dest: upsert_mem split: if_splits)

lemma stamped_age: "cacheAgeMs (stampAge p g ages) p = (if is_object (snd p) then Some g else None)"
  by (simp add: cacheAgeMs_def stampAge_def)

text \<open>The documents get numbers that stay theirs.\<close>

lemma begin_ids:
  assumes "cache_begin opts t d v c = (r, c')"
  shows "index_of x (documentIds c) = Some i \<Longrightarrow> index_of x (documentIds c') = Some i" "cache c' = cache c"
  using assms
  by (auto simp: cache_begin_def cacheKey_def index_of_append Let_def split: if_splits option.splits prod.splits)

lemma finish_ids: "documentIds (cache_finish t d target r c) = documentIds c"
  by (simp add: cache_finish_def split: option.splits sum.splits)

lemma target_fits_mono:
  assumes "target_fits opts c d v target"
    and "\<And>x i. index_of x (documentIds c) = Some i \<Longrightarrow> index_of x (documentIds c') = Some i"
  shows "target_fits opts c' d v target"
  using assms by (auto simp: target_fits_def split: option.splits)

lemma waiting_fits_mono:
  assumes w: "\<forall>(n, q) \<in> set w. target_fits opts c (pd_document q) (pd_variables q) (pd_target q)"
    and ids: "\<And>x i. index_of x (documentIds c) = Some i \<Longrightarrow> index_of x (documentIds c') = Some i"
  shows "\<forall>(n, q) \<in> set w. target_fits opts c' (pd_document q) (pd_variables q) (pd_target q)"
proof (rule ballI, rule case_prodI2)
  fix p n q assume "p \<in> set w" "p = (n, q)"
  with w have "target_fits opts c (pd_document q) (pd_variables q) (pd_target q)" by blast
  from target_fits_mono [OF this ids] show "target_fits opts c' (pd_document q) (pd_variables q) (pd_target q)" .
qed

lemma finish_mem:
  "(k, e) \<in> set (cache (cache_finish t d target r c)) \<Longrightarrow>
   (k, e) \<in> set (cache c) \<or> (\<exists>data. r = Inr data \<and> target \<noteq> None \<and> entry_data e = data)"
  by (auto simp: cache_finish_def dest!: upsert_mem split: option.splits sum.splits if_splits)

text \<open>One step: the invariant stays, and what is delivered is as the property says.\<close>

definition delivery_ok :: "cache_options \<Rightarrow> delivery list \<Rightarrow> delivery \<Rightarrow> bool" where
  "delivery_ok opts ds x \<longleftrightarrow>
     (if dl_cached x
      then \<exists>p h1 t u h2. dl_answer x = Inr p \<and> log_calls ds = h1 @ (t, dl_document x, u, Inr p) # h2
             \<and> same_variables (dl_variables x) u \<and> dl_time x - t \<le> ttlMs opts \<and> (\<forall>c \<in> set h2. \<not> call_mutates c)
             \<and> dl_age x = (if is_object (snd p) then Some (dl_time x - t) else None)
      else dl_age x = (case dl_answer x of
             Inr p \<Rightarrow> if dl_document x \<in> set (cacheable opts) \<and> is_object (snd p) then Some 0 else None
           | Inl e \<Rightarrow> None))"

text \<open>The same, over the log.\<close>

lemma log_calls_split:
  assumes "log_calls ds = h1 @ (t, d, u, r) # h2"
  shows "\<exists>ds1 y ds2. filter (\<lambda>z. \<not> dl_cached z) ds = ds1 @ y # ds2 \<and> t = dl_time y \<and> d = dl_document y
           \<and> u = dl_variables y \<and> r = dl_answer y
           \<and> h2 = map (\<lambda>x. (dl_time x, dl_document x, dl_variables x, dl_answer x)) ds2"
  using assms unfolding log_calls_def map_eq_append_conv map_eq_Cons_conv by blast

lemma cached_delivery:
  assumes ok: "delivery_ok opts ds x" and c: "dl_cached x"
  shows "\<exists>p ds1 y ds2. filter (\<lambda>z. \<not> dl_cached z) ds = ds1 @ y # ds2
           \<and> dl_document y = dl_document x \<and> same_variables (dl_variables x) (dl_variables y)
           \<and> dl_answer x = Inr p \<and> dl_answer y = Inr p \<and> dl_time x - dl_time y \<le> ttlMs opts
           \<and> (\<forall>z \<in> set ds2. \<not> has_mutation (dl_document z))
           \<and> dl_age x = (if is_object (snd p) then Some (dl_time x - dl_time y) else None)"
proof -
  from ok c obtain p h1 t u h2 where a: "dl_answer x = Inr p" "same_variables (dl_variables x) u" "dl_time x - t \<le> ttlMs opts"
      "dl_age x = (if is_object (snd p) then Some (dl_time x - t) else None)" "\<forall>c \<in> set h2. \<not> call_mutates c"
    and l: "log_calls ds = h1 @ (t, dl_document x, u, Inr p) # h2"
    unfolding delivery_ok_def by (simp only: if_True) blast
  from log_calls_split [OF l] obtain ds1 y ds2 where y: "filter (\<lambda>z. \<not> dl_cached z) ds = ds1 @ y # ds2"
      "t = dl_time y" "dl_document x = dl_document y" "u = dl_variables y" "Inr p = dl_answer y"
      "h2 = map (\<lambda>x. (dl_time x, dl_document x, dl_variables x, dl_answer x)) ds2" by blast
  have "\<forall>z \<in> set ds2. \<not> has_mutation (dl_document z)" using a(5) y(6) by (simp add: call_mutates_def)
  then show ?thesis using a(1-4) y(1-5) by metis
qed

lemma served_entry:
  assumes "cache_begin opts t d v c = (Served p age, c')"
  shows "\<exists>key e. (key, e) \<in> set (cache c) \<and> entry_data e = p"
proof -
  obtain key c1 where k: "cacheKey d v c = (key, c1)" by force
  from assms k obtain e where "map_of (cache c1) key = Some e" "entry_data e = p"
    by (auto simp: cache_begin_def split: if_splits option.splits)
  with cacheKey_spec(2) [OF k] show ?thesis by (auto dest: map_of_SomeD)
qed

lemma asks_step:
  assumes inv: "executor_inv opts ds st" and s: "asks opts t d v st = (r, st')"
  shows "executor_inv opts (ds @ (case r of None \<Rightarrow> [] | Some x \<Rightarrow> [x])) st' \<and> (\<forall>x. r = Some x \<longrightarrow> delivery_ok opts ds x)"
proof -
  obtain b c where b: "cache_begin opts t d v (ce_cache st) = (b, c)" by force
  have ci: "cache_inv c (log_calls ds)" by (rule cache_begin_inv [OF executor_invD(1) [OF inv] b])
  have fl: "\<forall>(n, q) \<in> set (ce_waiting st). target_fits opts c (pd_document q) (pd_variables q) (pd_target q)"
    by (rule waiting_fits_mono [OF executor_invD(2) [OF inv] begin_ids(1) [OF b]])
  have cc: "cache c = cache (ce_cache st)" by (rule begin_ids(2) [OF b])
  show ?thesis
  proof (cases b)
    case (Served p age)
    from served_backed [OF executor_invD(1) [OF inv] b [unfolded Served]] obtain h1 u0 u h2 where
      h: "log_calls ds = h1 @ (u0, d, u, Inr p) # h2" "same_variables v u" "age = t - u0" "age \<le> ttlMs opts"
         "\<forall>c \<in> set h2. \<not> call_mutates c" by blast
    from served_entry [OF b [unfolded Served]] have o: "fst p < ce_objects st" using inv by (fastforce simp: executor_inv_def)
    have ages: "\<forall>(i, a) \<in> set (stampAge p age (ce_ages st)). i < ce_objects st"
      using o inv by (auto simp: executor_inv_def dest!: stampAge_mem)
    from s b Served have r: "r = Some \<lparr>dl_time = t, dl_call = ce_calls st, dl_document = d, dl_variables = v,
        dl_cached = True, dl_answer = Inr p, dl_age = cacheAgeMs (stampAge p age (ce_ages st)) p\<rparr>"
      and st': "st' = st\<lparr>ce_calls := ce_calls st + 1, ce_cache := c, ce_ages := stampAge p age (ce_ages st)\<rparr>"
      by (auto simp: asks_def Let_def)
    have "executor_inv opts (ds @ (case r of None \<Rightarrow> [] | Some x \<Rightarrow> [x])) st'"
      using ci fl ages inv by (simp add: r st' executor_inv_def cc)
    moreover have "delivery_ok opts ds (the r)"
      using h by (simp add: r delivery_ok_def stamped_age) blast
    ultimately show ?thesis by (simp add: r)
  next
    case (Fetch target)
    from s b Fetch have r: "r = None"
      and st': "st' = st\<lparr>ce_calls := ce_calls st + 1, ce_cache := c,
        ce_waiting := ce_waiting st @ [(ce_calls st, \<lparr>pd_document = d, pd_variables = v, pd_target = target\<rparr>)]\<rparr>"
      by (auto simp: asks_def Let_def)
    from cache_begin_fits [OF b [unfolded Fetch]] ci fl inv show ?thesis
      by (auto simp: r st' executor_inv_def cc)
  qed
qed

lemma answers_step:
  assumes inv: "executor_inv opts ds st" and ro: "\<forall>d \<in> set (cacheable opts). \<not> has_mutation d"
    and s: "answers t n reply st = (r, st')"
  shows "executor_inv opts (ds @ (case r of None \<Rightarrow> [] | Some x \<Rightarrow> [x])) st' \<and> (\<forall>x. r = Some x \<longrightarrow> delivery_ok opts ds x)"
proof (cases "map_of (ce_waiting st) n")
  case None
  with s inv show ?thesis by (simp add: answers_def)
next
  case (Some q)
  let ?a = "map_sum id (Pair (ce_objects st)) reply"
  let ?ages = "case (pd_target q, ?a) of (Some key, Inr data) \<Rightarrow> stampAge data 0 (ce_ages st) | _ \<Rightarrow> ce_ages st"
  let ?x = "\<lparr>dl_time = t, dl_call = n, dl_document = pd_document q, dl_variables = pd_variables q,
     dl_cached = False, dl_answer = ?a, dl_age = answer_age ?ages ?a\<rparr>"
  let ?c = "cache_finish t (pd_document q) (pd_target q) ?a (ce_cache st)"
  from Some have q: "(n, q) \<in> set (ce_waiting st)" by (rule map_of_SomeD)
  with inv have fits: "target_fits opts (ce_cache st) (pd_document q) (pd_variables q) (pd_target q)"
    by (fastforce dest: executor_invD(2))
  from s Some have r: "r = Some ?x" and st': "st' = st\<lparr>ce_cache := ?c, ce_ages := ?ages,
      ce_waiting := filter (\<lambda>(m, q). m \<noteq> n) (ce_waiting st), ce_objects := ce_objects st + 1\<rparr>"
    by (simp_all add: answers_def Let_def)
  have ci: "cache_inv ?c (log_calls ds @ [(t, pd_document q, pd_variables q, ?a)])"
    by (rule cache_finish_inv [OF executor_invD(1) [OF inv] ro fits])
  have fl: "\<forall>(m, q) \<in> set (ce_waiting st). target_fits opts ?c (pd_document q) (pd_variables q) (pd_target q)"
    by (rule waiting_fits_mono [OF executor_invD(2) [OF inv]]) (simp add: finish_ids)
  have old: "\<forall>(k, e) \<in> set (cache (ce_cache st)). fst (entry_data e) < ce_objects st"
    by (rule executor_invD(3) [OF inv])
  have ob: "\<forall>(k, e) \<in> set (cache ?c). fst (entry_data e) < ce_objects st + 1"
  proof safe
    fix k e assume "(k, e) \<in> set (cache ?c)"
    from finish_mem [OF this] old show "fst (entry_data e) < ce_objects st + 1"
      by (cases reply) auto
  qed
  have new: "map_of (ce_ages st) (ce_objects st) = None"
    using inv by (fastforce simp: executor_inv_def map_of_eq_None_iff)
  have ages: "\<forall>(i, g) \<in> set ?ages. i < ce_objects st + 1"
    using inv by (cases reply) (auto simp: executor_inv_def less_Suc_eq split: option.splits dest!: stampAge_mem)
  have "executor_inv opts (ds @ [?x]) st'"
    using ci fl ob ages by (simp add: st' executor_inv_def)
  moreover have "delivery_ok opts ds ?x"
    using fits new
    by (cases reply; cases "pd_target q") (auto simp: delivery_ok_def answer_age_def target_fits_def cacheAgeMs_def stampAge_def)
  ultimately show ?thesis by (simp add: r)
qed

lemma deliveries_ok:
  assumes "\<forall>d \<in> set (cacheable opts). \<not> has_mutation d"
  shows "executor_inv opts ds0 st \<Longrightarrow> deliveries opts es st = (ds, st') \<Longrightarrow> ds = ds1 @ x # ds2 \<Longrightarrow> delivery_ok opts (ds0 @ ds1) x"
proof (induction es arbitrary: ds0 st ds ds1)
  case (Cons e es)
  obtain r st1 where r: "executor_step opts e st = (r, st1)" by force
  obtain ds' where ds': "deliveries opts es st1 = (ds', st')" using Cons.prems(2) r by (auto split: prod.splits)
  let ?r = "case r of None \<Rightarrow> [] | Some x \<Rightarrow> [x]"
  have step: "executor_inv opts (ds0 @ ?r) st1" "\<forall>x. r = Some x \<longrightarrow> delivery_ok opts ds0 x"
    using r asks_step [OF Cons.prems(1)] answers_step [OF Cons.prems(1) assms]
    by (cases e; fastforce simp: executor_step_def)+
  have split: "?r @ ds' = ds1 @ x # ds2" using Cons.prems(2,3) r ds' by (auto split: prod.splits)
  show ?case
  proof (cases r)
    case None
    with Cons.IH [OF step(1) ds', of ds1] split show ?thesis by simp
  next
    case (Some y)
    show ?thesis
    proof (cases ds1)
      case Nil
      with split Some step(2) show ?thesis by simp
    next
      case (Cons z zs)
      with split Some Cons.IH [OF step(1) ds', of zs] show ?thesis by simp
    qed
  qed
qed simp

section \<open>A read that overlaps a mutation\<close>

text \<open>
  The order of the log is the order of the answers: a read that was sent before a mutation and is
  answered after it stores what the server said before the mutation, and a later read gets that.
\<close>

definition overlapping_mutation :: "executor_event list" where
  "overlapping_mutation =
     [Asks 0 ArrayStatusDocument JUndef, Asks 1 ArraySetStateDocument JUndef, Answers 2 1 (Inr (JObj [])),
      Answers 3 0 (Inr (JObj [(''array'', JStr ''before'')])), Asks 4 ArrayStatusDocument JUndef]"

lemma overlapping_read_is_served:
  "map (\<lambda>x. (dl_call x, dl_cached x, map_sum id snd (dl_answer x))) (fst (deliveries default_options overlapping_mutation newCachingExecutor)) =
     [(1, False, Inr (JObj [])), (0, False, Inr (JObj [(''array'', JStr ''before'')])), (2, True, Inr (JObj [(''array'', JStr ''before'')]))]"
  by code_simp

end
