(* ===== verification/LiveStore.thy ===== *)
theory LiveStore
  imports Json
begin

text \<open>
  The latest-sample store fed by the live subscriptions and the aggregation of container
  statistics (\<open>src/graphql/live-store.ts\<close>). The clock is an argument. The locale
  \<open>sample_store\<close> is what consumers rely on: the last write of a topic is what a read returns.
\<close>

section \<open>Container statistics\<close>

definition DOCKER_CONTAINER_EVICTION_MS :: int where "DOCKER_CONTAINER_EVICTION_MS = 30000"

record LiveContainerStats =
  stat_id :: string
  cpuPercent :: rat
  memUsage :: string
  memPercent :: rat
  netIO :: string
  blockIO :: string

type_synonym timestamped_stats = "LiveContainerStats \<times> int"

text \<open>The aggregate: container id to its last sample and arrival time.\<close>

type_synonym docker_aggregate = "(string \<times> timestamped_stats) list"

text \<open>
  \<open>previous\<close> is \<open>None\<close> when it is no aggregate; \<open>incoming\<close> is the event's
  \<open>dockerContainerStats\<close>, if it has one.
\<close>

definition mergeDockerStatsSample ::
  "docker_aggregate option \<Rightarrow> LiveContainerStats option \<Rightarrow> int \<Rightarrow> docker_aggregate" where
  "mergeDockerStatsSample previous incoming nowMs =
     (let existing = (case previous of None \<Rightarrow> [] | Some p \<Rightarrow> p);
          kept = filter (\<lambda>(i, entry). nowMs - snd entry \<le> DOCKER_CONTAINER_EVICTION_MS) existing
      in case incoming of
           None \<Rightarrow> kept
         | Some stats \<Rightarrow> if stat_id stats = [] then kept else upsert (stat_id stats) (stats, nowMs) kept)"

lemma map_of_filter_pairs:
  "distinct (map fst xs) \<Longrightarrow>
   map_of (filter (\<lambda>(i, e). P e) xs) k = (case map_of xs k of None \<Rightarrow> None | Some e \<Rightarrow> if P e then Some e else None)"
  by (induction xs) (auto split: option.splits simp: map_of_eq_None_iff rev_image_eqI)

text \<open>The effect of one event on a lookup.\<close>

lemma merge_lookup:
  assumes "distinct (map fst prev)"
  shows "map_of (mergeDockerStatsSample (Some prev) incoming now) k =
     (case incoming of
        Some stats \<Rightarrow> if stat_id stats \<noteq> [] \<and> k = stat_id stats then Some (stats, now)
                      else (case map_of prev k of None \<Rightarrow> None
                            | Some e \<Rightarrow> if now - snd e \<le> DOCKER_CONTAINER_EVICTION_MS then Some e else None)
      | None \<Rightarrow> (case map_of prev k of None \<Rightarrow> None
                 | Some e \<Rightarrow> if now - snd e \<le> DOCKER_CONTAINER_EVICTION_MS then Some e else None))"
  using map_of_filter_pairs [OF assms, of "\<lambda>e. now - snd e \<le> DOCKER_CONTAINER_EVICTION_MS" k]
  by (auto simp: mergeDockerStatsSample_def Let_def split: option.splits)

lemma merge_distinct:
  "distinct (map fst prev) \<Longrightarrow> distinct (map fst (mergeDockerStatsSample (Some prev) incoming now))"
  by (auto simp: mergeDockerStatsSample_def Let_def distinct_map_filter distinct_upsert split: option.splits)

text \<open>A sequence of events, each with its arrival time.\<close>

definition merge_all :: "(LiveContainerStats option \<times> int) list \<Rightarrow> docker_aggregate" where
  "merge_all evs = foldl (\<lambda>agg (s, t). mergeDockerStatsSample (Some agg) s t) [] evs"

lemma merge_all_distinct: "distinct (map fst (merge_all evs))"
proof (induction evs rule: rev_induct)
  case Nil
  then show ?case by (simp add: merge_all_def)
next
  case (snoc e evs)
  then show ?case by (cases e) (simp add: merge_all_def merge_distinct)
qed

text \<open>
  After any run of events the aggregate holds, for each container, its last sample, and only
  samples that were younger than the eviction window when the last event arrived.
\<close>

definition last_sample :: "(LiveContainerStats option \<times> int) list \<Rightarrow> string \<Rightarrow> timestamped_stats option" where
  "last_sample evs k =
     (let own = filter (\<lambda>(s, t). \<exists>x. s = Some x \<and> stat_id x = k) evs
      in if own = [] then None
         else (case last own of (Some x, t) \<Rightarrow> Some (x, t) | (None, t) \<Rightarrow> None))"

lemma last_sample_snoc:
  "last_sample (evs @ [(s, t)]) k =
     (case s of Some x \<Rightarrow> if stat_id x = k then Some (x, t) else last_sample evs k | None \<Rightarrow> last_sample evs k)"
  by (auto simp: last_sample_def Let_def split: option.splits)

text \<open>Arrival times never go back.\<close>

definition in_order :: "(LiveContainerStats option \<times> int) list \<Rightarrow> bool" where
  "in_order evs = sorted (map snd evs)"

lemma last_sample_time: "last_sample evs k = Some (x, t) \<Longrightarrow> t \<in> set (map snd evs)"
proof (induction evs rule: rev_induct)
  case (snoc e evs)
  obtain s u where e: "e = (s, u)" by (cases e)
  from snoc show ?case unfolding e last_sample_snoc by (auto split: option.splits if_splits)
qed (simp add: last_sample_def Let_def)

lemma merge_all_snoc:
  "merge_all (evs @ [(s, t)]) = mergeDockerStatsSample (Some (merge_all evs)) s t"
  by (simp add: merge_all_def)

lemma merge_all_sound:
  "map_of (merge_all evs) k = Some e \<Longrightarrow> k \<noteq> [] \<Longrightarrow> last_sample evs k = Some e"
proof (induction evs arbitrary: e rule: rev_induct)
  case (snoc ev evs)
  obtain s t where ev: "ev = (s, t)" by (cases ev)
  from snoc.prems(1) show ?case
    unfolding ev merge_all_snoc last_sample_snoc merge_lookup [OF merge_all_distinct]
    using snoc.IH snoc.prems(2) by (auto split: option.splits if_splits)
qed (simp add: merge_all_def)

lemma merge_all_fresh:
  assumes "in_order (evs @ [(s, t)])" "map_of (merge_all (evs @ [(s, t)])) k = Some e"
  shows "t - snd e \<le> DOCKER_CONTAINER_EVICTION_MS"
  using assms(2) unfolding merge_all_snoc merge_lookup [OF merge_all_distinct]
  by (auto simp: DOCKER_CONTAINER_EVICTION_MS_def split: option.splits if_splits)

lemma merge_all_complete:
  "in_order evs \<Longrightarrow> k \<noteq> [] \<Longrightarrow> last_sample evs k = Some (x, t) \<Longrightarrow>
   \<forall>u \<in> set (map snd evs). u - t \<le> DOCKER_CONTAINER_EVICTION_MS \<Longrightarrow> map_of (merge_all evs) k = Some (x, t)"
proof (induction evs rule: rev_induct)
  case (snoc ev evs)
  obtain s u where ev: "ev = (s, u)" by (cases ev)
  have ord: "in_order evs" using snoc.prems(1) by (simp add: in_order_def sorted_append)
  show ?case
  proof (cases "\<exists>y. s = Some y \<and> stat_id y = k")
    case True
    with snoc.prems(2,3) show ?thesis
      unfolding ev merge_all_snoc last_sample_snoc merge_lookup [OF merge_all_distinct] by auto
  next
    case False
    with snoc.prems(3) have "last_sample evs k = Some (x, t)"
      unfolding ev last_sample_snoc by (auto split: option.splits if_splits)
    from snoc.IH [OF ord snoc.prems(2) this] snoc.prems(4) have "map_of (merge_all evs) k = Some (x, t)" by simp
    with False snoc.prems(4) show ?thesis
      unfolding ev merge_all_snoc merge_lookup [OF merge_all_distinct] by (auto split: option.splits)
  qed
qed (simp add: last_sample_def Let_def)

section \<open>The store\<close>

record 'd stored_sample =
  sample_data :: 'd
  receivedAtMs :: int

type_synonym 'd live_store = "(string \<times> 'd stored_sample) list"

definition store_empty :: "'d live_store" where "store_empty = []"

definition store_set :: "int \<Rightarrow> string \<Rightarrow> 'd \<Rightarrow> 'd live_store \<Rightarrow> 'd live_store" where
  "store_set nowMs topic data st = upsert topic \<lparr>sample_data = data, receivedAtMs = nowMs\<rparr> st"

definition store_get :: "int \<Rightarrow> string \<Rightarrow> 'd live_store \<Rightarrow> ('d \<times> int) option" where
  "store_get nowMs topic st =
     map_option (\<lambda>sample. (sample_data sample, nowMs - receivedAtMs sample)) (map_of st topic)"

text \<open>What a consumer of the store relies on.\<close>

locale sample_store =
  fixes put :: "int \<Rightarrow> string \<Rightarrow> 'd \<Rightarrow> 's \<Rightarrow> 's"
    and get :: "int \<Rightarrow> string \<Rightarrow> 's \<Rightarrow> ('d \<times> int) option"
    and init :: 's
  assumes get_init: "get now topic init = None"
    and get_put_same: "get now topic (put t topic d s) = Some (d, now - t)"
    and get_put_other: "topic \<noteq> topic' \<Longrightarrow> get now topic (put t topic' d s) = get now topic s"
begin

definition puts :: "(int \<times> string \<times> 'd) list \<Rightarrow> 's" where
  "puts ws = foldl (\<lambda>s (t, topic, d). put t topic d s) init ws"

text \<open>A read returns the last write of its topic, whatever was written to the others.\<close>

lemma get_puts:
  "get now topic (puts ws) =
     (case filter (\<lambda>(t, topic', d). topic' = topic) ws of
        [] \<Rightarrow> None | ms \<Rightarrow> (case last ms of (t, topic', d) \<Rightarrow> Some (d, now - t)))"
proof (induction ws rule: rev_induct)
  case Nil
  then show ?case by (simp add: puts_def get_init)
next
  case (snoc w ws)
  obtain t topic' d where w: "w = (t, topic', d)" by (cases w)
  have "puts (ws @ [w]) = put t topic' d (puts ws)" by (simp add: puts_def w)
  then show ?case
    using snoc by (cases "topic' = topic") (auto simp: w get_put_same get_put_other split: list.splits)
qed

end

interpretation live: sample_store store_set store_get store_empty
  by unfold_locales (auto simp: store_set_def store_get_def store_empty_def)

end
