(* ===== verification/MetricsHistory.thy ===== *)
theory MetricsHistory
  imports Json
begin

text \<open>
  The metric subscriptions and the series they yield (\<open>src/graphql/metric-subscriptions.ts\<close>),
  and the bounded history of downsampled points (\<open>src/graphql/metrics-history.ts\<close>): a ring of
  30-second buckets per topic, written through \<open>ring_add\<close> and read through \<open>ring_window\<close>.
  Times are milliseconds since the epoch, as naturals; a window may start before it.
\<close>

section \<open>Series of a sample\<close>

datatype metric_topic = Cpu | Memory | Network

record metric_subscription =
  feedTopic :: string
  query :: string

definition METRIC_SUBSCRIPTIONS :: "metric_topic \<Rightarrow> metric_subscription" where
  "METRIC_SUBSCRIPTIONS topic =
     (case topic of
        Cpu \<Rightarrow> \<lparr>feedTopic = ''systemMetricsCpu'',
                query = ''subscription { systemMetricsCpu { percentTotal cpus { percentTotal } } }''\<rparr>
      | Memory \<Rightarrow> \<lparr>feedTopic = ''systemMetricsMemory'',
                query = ''subscription { systemMetricsMemory { total used free available percentTotal } }''\<rparr>
      | Network \<Rightarrow> \<lparr>feedTopic = ''systemMetricsNetwork'',
                query = ''subscription { systemMetricsNetwork { name operstate rxSec txSec utilizationPercent } }''\<rparr>)"

definition LOOPBACK_INTERFACE :: string where "LOOPBACK_INTERFACE = ''lo''"

type_synonym series = "(string \<times> rat) list"

definition isRecord :: "jsval \<Rightarrow> bool" where
  "isRecord v = (case v of JObj ms \<Rightarrow> True | _ \<Rightarrow> False)"

definition finiteNumber :: "jsval \<Rightarrow> rat option" where
  "finiteNumber v = (case v of JNum q \<Rightarrow> Some q | _ \<Rightarrow> None)"

definition cpuSeries :: "jsval \<Rightarrow> series option" where
  "cpuSeries payload =
     (if isRecord payload
      then map_option (\<lambda>percent. [(''percent'', percent)]) (finiteNumber (getp payload ''percentTotal''))
      else None)"

definition memorySeries :: "jsval \<Rightarrow> series option" where
  "memorySeries payload =
     (if \<not> isRecord payload then None
      else (case (finiteNumber (getp payload ''percentTotal''), finiteNumber (getp payload ''used'')) of
              (Some percent, Some usedBytes) \<Rightarrow> Some [(''percent'', percent), (''usedBytes'', usedBytes)]
            | _ \<Rightarrow> None))"

fun sum_interfaces :: "jsval list \<Rightarrow> rat \<times> rat \<Rightarrow> rat \<times> rat" where
  "sum_interfaces [] acc = acc"
| "sum_interfaces (entry # es) (rx, tx) =
     (if \<not> isRecord entry \<or> getp entry ''name'' = JStr LOOPBACK_INTERFACE then sum_interfaces es (rx, tx)
      else (let num = (\<lambda>k. case finiteNumber (getp entry k) of None \<Rightarrow> 0 | Some q \<Rightarrow> q)
            in sum_interfaces es (rx + num ''rxSec'', tx + num ''txSec'')))"

definition networkSeries :: "jsval \<Rightarrow> series option" where
  "networkSeries payload =
     (case payload of
        JArr es \<Rightarrow> (let (rx, tx) = sum_interfaces es (0, 0)
                    in Some [(''rxBytesPerSec'', rx), (''txBytesPerSec'', tx)])
      | _ \<Rightarrow> None)"

definition extractSeries :: "metric_topic \<Rightarrow> jsval \<Rightarrow> series option" where
  "extractSeries topic sample =
     (let payload = (if isRecord sample then getp sample (feedTopic (METRIC_SUBSCRIPTIONS topic)) else JNull)
      in case topic of Cpu \<Rightarrow> cpuSeries payload | Memory \<Rightarrow> memorySeries payload | Network \<Rightarrow> networkSeries payload)"

section \<open>Buckets\<close>

definition BUCKET_MS :: nat where "BUCKET_MS = 30000"
definition RETENTION_MS :: nat where "RETENTION_MS = 24 * 60 * 60 * 1000"
definition BUCKET_CAPACITY :: nat where "BUCKET_CAPACITY = RETENTION_MS div BUCKET_MS"
definition MS_PER_MINUTE :: int where "MS_PER_MINUTE = 60000"

record accumulator =
  acc_min :: rat
  acc_max :: rat
  acc_sum :: rat
  acc_count :: nat

definition fold_value :: "accumulator option \<Rightarrow> rat \<Rightarrow> accumulator" where
  "fold_value a v =
     (case a of
        None \<Rightarrow> \<lparr>acc_min = v, acc_max = v, acc_sum = v, acc_count = 1\<rparr>
      | Some x \<Rightarrow> \<lparr>acc_min = min (acc_min x) v, acc_max = max (acc_max x) v,
                  acc_sum = acc_sum x + v, acc_count = acc_count x + 1\<rparr>)"

record slot =
  bucketIndex :: nat
  slot_series :: "(string \<times> accumulator) list"

record series_stats =
  st_min :: rat
  st_max :: rat
  st_avg :: rat
  st_count :: nat

record history_point =
  bucketStartMs :: nat
  point_series :: "(string \<times> series_stats) list"

definition toPoint :: "slot \<Rightarrow> history_point" where
  "toPoint s =
     \<lparr>bucketStartMs = bucketIndex s * BUCKET_MS,
      point_series = map (\<lambda>(n, a). (n, \<lparr>st_min = acc_min a, st_max = acc_max a,
                                        st_avg = acc_sum a / of_nat (acc_count a), st_count = acc_count a\<rparr>)) (slot_series s)\<rparr>"

section \<open>The ring\<close>

type_synonym ring = "slot option list"

definition ring_empty :: ring where
  "ring_empty = replicate BUCKET_CAPACITY None"

definition fold_series :: "series \<Rightarrow> (string \<times> accumulator) list \<Rightarrow> (string \<times> accumulator) list" where
  "fold_series values accs = foldl (\<lambda>as (n, v). upsert n (fold_value (map_of as n) v) as) accs values"

definition ring_add :: "series \<Rightarrow> nat \<Rightarrow> ring \<Rightarrow> ring" where
  "ring_add values atMs slots =
     (let b = atMs div BUCKET_MS;
          position = b mod BUCKET_CAPACITY;
          old = (case slots ! position of
                   Some s \<Rightarrow> if bucketIndex s = b then slot_series s else []
                 | None \<Rightarrow> [])
      in slots[position := Some \<lparr>bucketIndex = b, slot_series = fold_series values old\<rparr>])"

definition ring_window :: "int \<Rightarrow> ring \<Rightarrow> history_point list" where
  "ring_window sinceMs slots =
     (let firstIndex = sinceMs div int BUCKET_MS
      in map toPoint (sort_key bucketIndex
           [s. Some s \<leftarrow> slots, int (bucketIndex s) \<ge> firstIndex]))"

definition ring_size :: "ring \<Rightarrow> nat" where
  "ring_size slots = length (filter (\<lambda>s. s \<noteq> None) slots)"

section \<open>What the ring holds\<close>

lemma capacity_pos [simp]: "0 < BUCKET_CAPACITY"
  by (simp add: BUCKET_CAPACITY_def RETENTION_MS_def BUCKET_MS_def)

lemma capacity_eq: "BUCKET_CAPACITY = 2880"
  by (simp add: BUCKET_CAPACITY_def RETENTION_MS_def BUCKET_MS_def)

definition ring_ok :: "ring \<Rightarrow> bool" where
  "ring_ok slots \<longleftrightarrow> length slots = BUCKET_CAPACITY \<and>
     (\<forall>p < BUCKET_CAPACITY. \<forall>s. slots ! p = Some s \<longrightarrow> bucketIndex s mod BUCKET_CAPACITY = p)"

lemma ring_ok_empty: "ring_ok ring_empty"
  by (simp add: ring_ok_def ring_empty_def)

lemma ring_ok_add: "ring_ok slots \<Longrightarrow> ring_ok (ring_add values t slots)"
  by (auto simp: ring_ok_def ring_add_def Let_def nth_list_update)

lemma ring_size_le: "ring_ok slots \<Longrightarrow> ring_size slots \<le> BUCKET_CAPACITY"
  unfolding ring_size_def ring_ok_def using length_filter_le [of "\<lambda>s. s \<noteq> None" slots] by simp

text \<open>The slot of a bucket, if the ring still holds that bucket.\<close>

definition ring_bucket :: "ring \<Rightarrow> nat \<Rightarrow> (string \<times> accumulator) list option" where
  "ring_bucket slots b =
     (case slots ! (b mod BUCKET_CAPACITY) of
        Some s \<Rightarrow> if bucketIndex s = b then Some (slot_series s) else None
      | None \<Rightarrow> None)"

lemma ring_bucket_add:
  assumes "ring_ok slots"
  shows "ring_bucket (ring_add values t slots) b =
     (if b = t div BUCKET_MS
      then Some (fold_series values (case ring_bucket slots b of None \<Rightarrow> [] | Some as \<Rightarrow> as))
      else if b mod BUCKET_CAPACITY = t div BUCKET_MS mod BUCKET_CAPACITY then None
      else ring_bucket slots b)"
proof -
  have "length slots = BUCKET_CAPACITY" using assms by (simp add: ring_ok_def)
  then show ?thesis
    by (auto simp: ring_bucket_def ring_add_def Let_def nth_list_update split: option.splits)
qed

text \<open>
  The reference: all samples of the bucket, folded in order of arrival. \<open>ring_of\<close> is the ring
  after a log of samples.
\<close>

definition ring_of :: "(series \<times> nat) list \<Rightarrow> ring" where
  "ring_of samples = foldl (\<lambda>r (v, t). ring_add v t r) ring_empty samples"

definition bucket_reference :: "(series \<times> nat) list \<Rightarrow> nat \<Rightarrow> (string \<times> accumulator) list option" where
  "bucket_reference samples b =
     (let own = filter (\<lambda>(v, t). t div BUCKET_MS = b) samples
      in if own = [] then None else Some (foldl (\<lambda>as (v, t). fold_series v as) [] own))"

lemma ring_of_snoc: "ring_of (samples @ [(v, t)]) = ring_add v t (ring_of samples)"
  by (simp add: ring_of_def)

lemma ring_of_ok: "ring_ok (ring_of samples)"
proof (induction samples rule: rev_induct)
  case (snoc x xs)
  then show ?case by (cases x) (simp add: ring_of_snoc ring_ok_add)
qed (simp add: ring_of_def ring_ok_empty)

lemma bucket_reference_snoc:
  "bucket_reference (samples @ [(v, t)]) b =
     (if t div BUCKET_MS = b
      then Some (fold_series v (case bucket_reference samples b of None \<Rightarrow> [] | Some as \<Rightarrow> as))
      else bucket_reference samples b)"
  by (auto simp: bucket_reference_def Let_def)

lemma mod_eq_within:
  assumes "b mod n = c mod n" "b \<le> c" "c < b + n"
  shows "b = (c :: nat)"
proof -
  obtain k where k: "c = b + n * k" using assms(1,2) by (metis mod_eq_nat2E)
  with assms(3) have "n * k < n" by simp
  then have "k = 0" by (cases k) auto
  with k show ?thesis by simp
qed

text \<open>
  For samples that arrive in order of time, every bucket within the retention of the newest
  sample holds exactly the fold of all its samples.
\<close>

lemma ring_bucket_reference:
  "sorted (map snd samples) \<Longrightarrow>
   \<forall>t \<in> set (map snd samples). t div BUCKET_MS < b + BUCKET_CAPACITY \<Longrightarrow>
   ring_bucket (ring_of samples) b = bucket_reference samples b"
proof (induction samples rule: rev_induct)
  case Nil
  then show ?case by (simp add: ring_of_def ring_bucket_def ring_empty_def bucket_reference_def)
next
  case (snoc x samples)
  obtain v t where x: "x = (v, t)" by (cases x)
  have sorted: "sorted (map snd samples)" "\<forall>u \<in> set (map snd samples). u \<le> t"
    using snoc.prems(1) by (auto simp: x sorted_append)
  have IH: "ring_bucket (ring_of samples) b = bucket_reference samples b"
    using snoc.IH [OF sorted(1)] snoc.prems(2) by auto
  show ?case
  proof (cases "b = t div BUCKET_MS")
    case True
    with IH show ?thesis by (simp add: x ring_of_snoc ring_bucket_add [OF ring_of_ok] bucket_reference_snoc)
  next
    case False
    show ?thesis
    proof (cases "b mod BUCKET_CAPACITY = t div BUCKET_MS mod BUCKET_CAPACITY")
      case True
      have "t div BUCKET_MS < b + BUCKET_CAPACITY" using snoc.prems(2) by (simp add: x)
      with True False mod_eq_within [of b BUCKET_CAPACITY "t div BUCKET_MS"]
      have lt: "t div BUCKET_MS < b" by force
      have "filter (\<lambda>(v, u). u div BUCKET_MS = b) samples = []"
      proof (rule filter_False, clarify)
        fix v u assume "(v, u) \<in> set samples" and b: "b = u div BUCKET_MS"
        then have "u \<le> t" using sorted(2) by force
        then have "u div BUCKET_MS \<le> t div BUCKET_MS" by (rule div_le_mono)
        with lt b show False by simp
      qed
      then have "bucket_reference samples b = None" by (simp add: bucket_reference_def)
      with False True show ?thesis
        by (simp add: x ring_of_snoc ring_bucket_add [OF ring_of_ok] bucket_reference_snoc)
    next
      case False
      with \<open>b \<noteq> t div BUCKET_MS\<close> IH show ?thesis
        by (simp add: x ring_of_snoc ring_bucket_add [OF ring_of_ok] bucket_reference_snoc)
    qed
  qed
qed

section \<open>Windows\<close>

definition window_slots :: "int \<Rightarrow> ring \<Rightarrow> slot list" where
  "window_slots sinceMs slots = [s. Some s \<leftarrow> slots, int (bucketIndex s) \<ge> sinceMs div int BUCKET_MS]"

lemma window_slots_Cons:
  "window_slots t (x # xs) =
     (case x of Some s \<Rightarrow> if int (bucketIndex s) \<ge> t div int BUCKET_MS then s # window_slots t xs else window_slots t xs
      | None \<Rightarrow> window_slots t xs)"
  by (simp add: window_slots_def split: option.splits)

lemma window_slots_set: "s \<in> set (window_slots t slots) \<longleftrightarrow> Some s \<in> set slots \<and> int (bucketIndex s) \<ge> t div int BUCKET_MS"
  by (auto simp: window_slots_def)

lemma window_slots_length: "length (window_slots t slots) \<le> length slots"
  by (induction slots) (auto simp: window_slots_Cons window_slots_def [of t "[]"] split: option.splits)

lemma distinct_window_slots:
  assumes "\<And>i j s u. i < length slots \<Longrightarrow> j < length slots \<Longrightarrow> slots ! i = Some s \<Longrightarrow> slots ! j = Some u \<Longrightarrow>
      bucketIndex s = bucketIndex u \<Longrightarrow> i = j"
  shows "distinct (map bucketIndex (window_slots t slots))"
  using assms
proof (induction slots)
  case (Cons x xs)
  have tl: "distinct (map bucketIndex (window_slots t xs))"
  proof (rule Cons.IH)
    fix i j s u assume "i < length xs" "j < length xs" "xs ! i = Some s" "xs ! j = Some u" "bucketIndex s = bucketIndex u"
    then show "i = j" using Cons.prems [of "Suc i" "Suc j" s u] by simp
  qed
  have "bucketIndex s \<notin> bucketIndex ` set (window_slots t xs)" if "x = Some s" for s
  proof
    assume "bucketIndex s \<in> bucketIndex ` set (window_slots t xs)"
    then obtain u where u: "u \<in> set (window_slots t xs)" "bucketIndex s = bucketIndex u" by auto
    then have "Some u \<in> set xs" by (simp add: window_slots_set)
    then obtain j where "j < length xs" "xs ! j = Some u" by (metis in_set_conv_nth)
    with u that Cons.prems [of 0 "Suc j" s u] show False by simp
  qed
  with tl show ?case by (auto simp: window_slots_Cons split: option.splits)
qed (simp add: window_slots_def)

lemma ring_ok_positions:
  "ring_ok slots \<Longrightarrow> i < length slots \<Longrightarrow> j < length slots \<Longrightarrow> slots ! i = Some s \<Longrightarrow> slots ! j = Some u \<Longrightarrow>
   bucketIndex s = bucketIndex u \<Longrightarrow> i = j"
  by (metis ring_ok_def)

lemma ring_window_alt: "ring_window t slots = map toPoint (sort_key bucketIndex (window_slots t slots))"
  by (simp add: ring_window_def window_slots_def Let_def)

text \<open>A window is strictly increasing in time and bounded by the ring.\<close>

lemma ring_window_sorted:
  assumes "ring_ok slots"
  shows "sorted_wrt (<) (map bucketStartMs (ring_window t slots))"
proof -
  have "distinct (map bucketIndex (window_slots t slots))"
    by (rule distinct_window_slots) (rule ring_ok_positions [OF assms])
  then have "distinct (map bucketIndex (sort_key bucketIndex (window_slots t slots)))"
    by (simp add: distinct_map)
  moreover have "sorted (map bucketIndex (sort_key bucketIndex (window_slots t slots)))" by simp
  ultimately have "sorted_wrt (<) (map bucketIndex (sort_key bucketIndex (window_slots t slots)))"
    using strict_sorted_iff by blast
  moreover have "map bucketStartMs (ring_window t slots) =
      map (\<lambda>b. b * BUCKET_MS) (map bucketIndex (sort_key bucketIndex (window_slots t slots)))"
    by (simp add: ring_window_alt toPoint_def)
  ultimately show ?thesis
    by (simp add: sorted_wrt_map BUCKET_MS_def)
qed

lemma ring_window_length: "ring_ok slots \<Longrightarrow> length (ring_window t slots) \<le> BUCKET_CAPACITY"
  unfolding ring_window_alt using window_slots_length [of t slots] by (simp add: ring_ok_def)

lemma ring_window_iff:
  assumes "ring_ok slots"
  shows "p \<in> set (ring_window t slots) \<longleftrightarrow>
     (\<exists>b as. ring_bucket slots b = Some as \<and> int b \<ge> t div int BUCKET_MS \<and>
             p = toPoint \<lparr>bucketIndex = b, slot_series = as\<rparr>)"
proof
  assume "p \<in> set (ring_window t slots)"
  then obtain s where s: "Some s \<in> set slots" "int (bucketIndex s) \<ge> t div int BUCKET_MS" "p = toPoint s"
    by (auto simp: ring_window_alt window_slots_set)
  then obtain i where "i < BUCKET_CAPACITY" "slots ! i = Some s"
    using assms by (auto simp: in_set_conv_nth ring_ok_def)
  with assms have "ring_bucket slots (bucketIndex s) = Some (slot_series s)"
    by (auto simp: ring_bucket_def ring_ok_def)
  with s show "\<exists>b as. ring_bucket slots b = Some as \<and> int b \<ge> t div int BUCKET_MS \<and>
             p = toPoint \<lparr>bucketIndex = b, slot_series = as\<rparr>"
    by (intro exI [of _ "bucketIndex s"] exI [of _ "slot_series s"]) (cases s, simp)
next
  assume "\<exists>b as. ring_bucket slots b = Some as \<and> int b \<ge> t div int BUCKET_MS \<and>
             p = toPoint \<lparr>bucketIndex = b, slot_series = as\<rparr>"
  then obtain b as where b: "ring_bucket slots b = Some as" "int b \<ge> t div int BUCKET_MS"
      "p = toPoint \<lparr>bucketIndex = b, slot_series = as\<rparr>" by blast
  then have "slots ! (b mod BUCKET_CAPACITY) = Some \<lparr>bucketIndex = b, slot_series = as\<rparr>"
    by (auto simp: ring_bucket_def split: option.splits if_splits)
  moreover have "b mod BUCKET_CAPACITY < length slots" using assms by (simp add: ring_ok_def)
  ultimately have "Some \<lparr>bucketIndex = b, slot_series = as\<rparr> \<in> set slots" by (metis nth_mem)
  with b show "p \<in> set (ring_window t slots)"
    by (simp add: ring_window_alt window_slots_set)
qed

section \<open>Statistics of a series\<close>

text \<open>The accumulator of a list of values.\<close>

definition acc_of :: "rat list \<Rightarrow> accumulator option" where
  "acc_of vs = foldl (\<lambda>a v. Some (fold_value a v)) None vs"

lemma acc_of_spec:
  "vs \<noteq> [] \<Longrightarrow> \<exists>a. acc_of vs = Some a \<and> acc_min a = Min (set vs) \<and> acc_max a = Max (set vs) \<and>
      acc_sum a = sum_list vs \<and> acc_count a = length vs"
proof (induction vs rule: rev_induct)
  case (snoc v vs)
  show ?case
  proof (cases "vs = []")
    case True
    then show ?thesis by (simp add: acc_of_def fold_value_def)
  next
    case False
    with snoc.IH obtain a where a: "acc_of vs = Some a" "acc_min a = Min (set vs)" "acc_max a = Max (set vs)"
      "acc_sum a = sum_list vs" "acc_count a = length vs" by blast
    have "acc_of (vs @ [v]) = Some (fold_value (Some a) v)" using a(1) by (simp add: acc_of_def)
    with a False show ?thesis by (simp add: fold_value_def min.commute max.commute)
  qed
qed simp

section \<open>The recorder\<close>

record recorder =
  buffers :: "metric_topic \<Rightarrow> ring"
  subscriptions :: "metric_topic list"
  startedAt :: "nat option"

definition newRecorder :: recorder where
  "newRecorder = \<lparr>buffers = (\<lambda>_. ring_empty), subscriptions = [], startedAt = None\<rparr>"

text \<open>\<open>start\<close> opens the three subscriptions; the state lists those that are open.\<close>

definition recorder_start :: "nat \<Rightarrow> recorder \<Rightarrow> recorder" where
  "recorder_start nowMs r =
     (case startedAt r of
        Some t \<Rightarrow> r
      | None \<Rightarrow> r\<lparr>startedAt := Some nowMs, subscriptions := subscriptions r @ [Cpu, Memory, Network]\<rparr>)"

definition recorder_record :: "nat \<Rightarrow> metric_topic \<Rightarrow> jsval \<Rightarrow> recorder \<Rightarrow> recorder" where
  "recorder_record nowMs topic data r =
     (case extractSeries topic data of
        None \<Rightarrow> r
      | Some values \<Rightarrow> r\<lparr>buffers := (buffers r)(topic := ring_add values nowMs (buffers r topic))\<rparr>)"

definition recorder_dispose :: "recorder \<Rightarrow> recorder" where
  "recorder_dispose r = r\<lparr>subscriptions := [], startedAt := None\<rparr>"

definition isRunning :: "recorder \<Rightarrow> bool" where
  "isRunning r = (startedAt r \<noteq> None)"

record history_window =
  points :: "history_point list"
  gaps :: int
  expectedBuckets :: int

definition recorder_window :: "nat \<Rightarrow> metric_topic \<Rightarrow> nat \<Rightarrow> recorder \<Rightarrow> history_window" where
  "recorder_window nowMs topic windowMinutes r =
     (let requestedSince = int nowMs - int windowMinutes * MS_PER_MINUTE;
          since = max requestedSince (case startedAt r of Some t \<Rightarrow> int t | None \<Rightarrow> requestedSince);
          pts = ring_window since (buffers r topic);
          expected = max 1 \<lceil>of_int (int nowMs - since) / (of_nat BUCKET_MS :: rat)\<rceil>
      in \<lparr>points = pts, gaps = max 0 (expected - int (length pts)), expectedBuckets = expected\<rparr>)"

datatype recorder_op = Start nat | Sample nat metric_topic jsval | Dispose

definition recorder_step :: "recorder \<Rightarrow> recorder_op \<Rightarrow> recorder" where
  "recorder_step r opn =
     (case opn of
        Start t \<Rightarrow> recorder_start t r
      | Sample t topic data \<Rightarrow> recorder_record t topic data r
      | Dispose \<Rightarrow> recorder_dispose r)"

definition recorder_ok :: "recorder \<Rightarrow> bool" where
  "recorder_ok r \<longleftrightarrow> (\<forall>topic. ring_ok (buffers r topic)) \<and>
     subscriptions r = (if startedAt r = None then [] else [Cpu, Memory, Network])"

lemma newRecorder_ok: "recorder_ok newRecorder"
  by (simp add: recorder_ok_def newRecorder_def ring_ok_empty)

lemma recorder_step_ok: "recorder_ok r \<Longrightarrow> recorder_ok (recorder_step r opn)"
  by (auto simp: recorder_ok_def recorder_step_def recorder_start_def recorder_record_def recorder_dispose_def
        ring_ok_add split: recorder_op.splits option.splits)

lemma recorder_reach_ok: "recorder_ok (foldl recorder_step newRecorder ops)"
  by (induction ops rule: rev_induct) (simp_all add: newRecorder_ok recorder_step_ok)

end
