(* ===== verification/SubscriptionFeed.thy ===== *)
theory SubscriptionFeed
  imports Json
begin

text \<open>
  The live subscription feed (\<open>src/graphql/subscription-feed.ts\<close>): a WebSocket client built on
  first use, shared by all subscriptions, and dropped by \<open>dispose\<close>. The wire protocol and its
  reconnects belong to the graphql-ws package; the client is represented by a number.
\<close>

section \<open>The endpoint\<close>

definition toWsUrl :: "string \<Rightarrow> string" where
  "toWsUrl endpoint = (if starts_with endpoint ''http'' then ''ws'' @ drop 4 endpoint else endpoint)"

lemma toWsUrl_schemes:
  "toWsUrl (''http://'' @ rest) = ''ws://'' @ rest" "toWsUrl (''https://'' @ rest) = ''wss://'' @ rest"
  by (simp_all add: toWsUrl_def starts_with_def)

text \<open>The options of the graphql-ws client; the key travels in the connection parameters.\<close>

definition RETRY_ATTEMPTS :: nat where "RETRY_ATTEMPTS = 10"

record ws_client_options =
  ws_url :: string
  ws_connectionParams :: "(string \<times> string) list"
  ws_lazy :: bool
  ws_retryAttempts :: nat
  ws_shouldRetry :: bool

definition realClient :: "string \<Rightarrow> string \<Rightarrow> ws_client_options" where
  "realClient endpoint apiKey =
     \<lparr>ws_url = toWsUrl endpoint, ws_connectionParams = [(''x-api-key'', apiKey)], ws_lazy = True,
      ws_retryAttempts = RETRY_ATTEMPTS, ws_shouldRetry = True\<rparr>"

section \<open>The feed\<close>

record subscription =
  sub_id :: nat
  sub_client :: nat
  sub_query :: string
  sub_variables :: jsval

record feed =
  client :: "nat option"
  built :: nat
  subs :: "subscription list"
  sub_count :: nat

definition newFeed :: feed where
  "newFeed = \<lparr>client = None, built = 0, subs = [], sub_count = 0\<rparr>"

text \<open>\<open>this.client ??= this.buildClient()\<close>.\<close>

definition ensure_client :: "feed \<Rightarrow> nat \<times> feed" where
  "ensure_client f =
     (case client f of
        Some c \<Rightarrow> (c, f)
      | None \<Rightarrow> (built f, f\<lparr>client := Some (built f), built := built f + 1\<rparr>))"

definition feed_subscribe :: "string \<Rightarrow> jsval \<Rightarrow> feed \<Rightarrow> nat \<times> feed" where
  "feed_subscribe q v f =
     (let (c, f') = ensure_client f;
          i = sub_count f'
      in (i, f'\<lparr>subs := subs f' @ [\<lparr>sub_id = i, sub_client = c, sub_query = q, sub_variables = v\<rparr>],
               sub_count := i + 1\<rparr>))"

definition feed_unsubscribe :: "nat \<Rightarrow> feed \<Rightarrow> feed" where
  "feed_unsubscribe i f = f\<lparr>subs := filter (\<lambda>s. sub_id s \<noteq> i) (subs f)\<rparr>"

text \<open>Disposing the client ends every subscription on it.\<close>

definition feed_dispose :: "feed \<Rightarrow> feed" where
  "feed_dispose f =
     (case client f of
        None \<Rightarrow> f
      | Some c \<Rightarrow> f\<lparr>client := None, subs := filter (\<lambda>s. sub_client s \<noteq> c) (subs f)\<rparr>)"

text \<open>What the sink passes on: \<open>onData\<close> only sees data that is present.\<close>

datatype wire_message = Next jsval | WireError string | Complete
datatype handler_call = OnData jsval | OnError string

definition sink :: "bool \<Rightarrow> wire_message \<Rightarrow> handler_call option" where
  "sink has_onError m =
     (case m of
        Next data \<Rightarrow> if nullish data then None else Some (OnData data)
      | WireError e \<Rightarrow> if has_onError then Some (OnError e) else None
      | Complete \<Rightarrow> None)"

datatype feed_op = Subscribe string jsval | Unsubscribe nat | DisposeFeed

definition feed_step :: "feed \<Rightarrow> feed_op \<Rightarrow> feed" where
  "feed_step f opn =
     (case opn of
        Subscribe q v \<Rightarrow> snd (feed_subscribe q v f)
      | Unsubscribe i \<Rightarrow> feed_unsubscribe i f
      | DisposeFeed \<Rightarrow> feed_dispose f)"

section \<open>One client for all live subscriptions\<close>

definition feed_ok :: "feed \<Rightarrow> bool" where
  "feed_ok f \<longleftrightarrow> (\<forall>s \<in> set (subs f). client f = Some (sub_client s) \<and> sub_id s < sub_count f)
     \<and> (\<forall>c. client f = Some c \<longrightarrow> c < built f) \<and> distinct (map sub_id (subs f))"

lemma newFeed_ok: "feed_ok newFeed"
  by (simp add: feed_ok_def newFeed_def)

lemma feed_step_ok: "feed_ok f \<Longrightarrow> feed_ok (feed_step f opn)"
  by (cases opn)
     (fastforce simp: feed_ok_def feed_step_def feed_subscribe_def ensure_client_def feed_unsubscribe_def feed_dispose_def
        distinct_map_filter Let_def split: option.splits)+

lemma feed_reach_ok: "feed_ok (foldl feed_step newFeed ops)"
  by (induction ops rule: rev_induct) (simp_all add: newFeed_ok feed_step_ok)

text \<open>A client is built only by a subscription after a dispose (or the first one).\<close>

lemma feed_step_built:
  "built (feed_step f opn) = built f + (if client f = None \<and> (\<exists>q v. opn = Subscribe q v) then 1 else 0)"
  by (cases opn)
     (auto simp: feed_step_def feed_subscribe_def ensure_client_def feed_unsubscribe_def feed_dispose_def Let_def
        split: option.splits)

end
