(* ===== verification/JsonRoundtrip.thy ===== *)
theory JsonRoundtrip
  imports Json
begin

text \<open>
  Parsing what \<open>JSON.stringify\<close> printed returns the printed value, for the compact and the
  indented form: first for string bodies and integers, then for values by induction along
  the serializer, with the fuel of the parser bounded by the length of the text.
\<close>

section \<open>Round trip\<close>

text \<open>The values \<open>JSON.stringify\<close> represents exactly (no undefined, integral numbers, distinct keys).\<close>

fun json_ok :: "jsval \<Rightarrow> bool" where
  "json_ok JUndef = False"
| "json_ok (JNum q) = (of_int \<lfloor>q\<rfloor> = q)"
| "json_ok (JArr xs) = (\<forall>x \<in> set xs. json_ok x)"
| "json_ok (JObj ms) = (distinct (map fst ms) \<and> (\<forall>(k, v) \<in> set ms. json_ok v))"
| "json_ok _ = True"

lemma char_less_32:
  assumes "(of_char c :: nat) < 32"
  shows "char_of (16 * (of_char c div 16) + of_char c mod 16 :: nat) = c"
  by simp

lemma hex_val_hex_char: "n < 16 \<Longrightarrow> hex_val (hex_char n) = Some n"
proof -
  assume "n < 16"
  then have "n \<in> {0,1,2,3,4,5,6,7,8,9,10,11,12,13,14,15}" by simp presburger
  then show ?thesis by (elim insertE) (simp_all add: hex_val_def hex_char_def)
qed

lemma parse_str_esc_char:
  "parse_str (esc_char c @ t) = map_option (\<lambda>(u, r). (c # u, r)) (parse_str t)"
proof (cases "c \<in> {CHR 0x22, CHR 0x5C, CHR 0x08, CHR 0x0C, CHR 0x0A, CHR 0x0D, CHR 0x09}")
  case True
  then show ?thesis by (elim insertE) (simp_all add: esc_char_def)
next
  case False
  show ?thesis
  proof (cases "(of_char c :: nat) < 32")
    case True
    have h0: "hex_val (CHR ''0'') = Some 0" by (simp add: hex_val_def)
    have hd: "hex_val (hex_char (of_char c div 16)) = Some (of_char c div 16)"
      and hm: "hex_val (hex_char (of_char c mod 16)) = Some (of_char c mod 16)"
      using True by (auto intro!: hex_val_hex_char)
    have u: "utf8 (16 * (of_char c div 16) + of_char c mod 16) = [c]"
      using True by (simp add: utf8_def)
    have e: "esc_char c = bslash @ ''u00'' @ [hex_char (of_char c div 16), hex_char (of_char c mod 16)]"
      using True False by (simp add: esc_char_def)
    show ?thesis unfolding e using h0 hd hm u by simp
  next
    case big: False
    with False have e: "esc_char c = [c]" by (simp add: esc_char_def)
    from False big show ?thesis unfolding e by simp
  qed
qed

lemma parse_str_esc: "parse_str (esc s @ CHR 0x22 # r) = Some (s, r)"
  by (induction s) (simp_all add: esc_def parse_str_esc_char)

text \<open>Decimal digits.\<close>

lemma digit_val_digit_char: "d < 10 \<Longrightarrow> digit_val (digit_char d) = d"
proof -
  assume "d < 10"
  then have "d \<in> {0,1,2,3,4,5,6,7,8,9}" by auto
  then show ?thesis by (elim insertE) (simp_all add: digit_val_def digit_char_def)
qed

lemma digits_val_snoc: "digits_val (ds @ [c]) = 10 * digits_val ds + digit_val c"
  by (simp add: digits_val_def)

lemma digits_val_nat_digits: "digits_val (nat_digits n) = n"
proof (induction n rule: nat_digits.induct)
  case (1 n)
  show ?case
  proof (cases "n < 10")
    case True
    then show ?thesis by (subst nat_digits.simps) (simp add: digits_val_def digit_val_digit_char)
  next
    case False
    with 1 show ?thesis
      by (subst nat_digits.simps) (simp add: digits_val_snoc digit_val_digit_char)
  qed
qed

lemma digit_char_0_iff: "d < 10 \<Longrightarrow> digit_char d = CHR ''0'' \<longleftrightarrow> d = 0"
proof -
  assume "d < 10"
  then have "d \<in> {0,1,2,3,4,5,6,7,8,9}" by auto
  then show ?thesis by (elim insertE) (simp_all add: digit_char_def)
qed

lemma nat_digits_no_leading_0: "n > 0 \<Longrightarrow> hd (nat_digits n) \<noteq> CHR ''0''"
proof (induction n rule: nat_digits.induct)
  case (1 n)
  show ?case
  proof (cases "n < 10")
    case True
    with 1 show ?thesis by (subst nat_digits.simps) (simp add: digit_char_0_iff)
  next
    case False
    with 1 show ?thesis by (subst nat_digits.simps) simp
  qed
qed

lemma nat_digits_0: "nat_digits 0 = ''0''"
  by (subst nat_digits.simps) (simp add: digit_char_def)

text \<open>What may follow a number without extending it.\<close>

definition ends_number :: "string \<Rightarrow> bool" where
  "ends_number r = (case r of [] \<Rightarrow> True | c # _ \<Rightarrow> \<not> is_digit c \<and> c \<notin> {CHR ''.'', CHR ''e'', CHR ''E''})"

lemma ends_number_frac: "ends_number r \<Longrightarrow> parse_frac r = Some (0, r)"
  by (auto simp: ends_number_def parse_frac_def split: list.splits)

lemma ends_number_exp: "ends_number r \<Longrightarrow> parse_exp r = Some (1, r)"
  by (auto simp: ends_number_def parse_exp_def split: list.splits)

lemma take_digits:
  assumes "\<forall>c \<in> set ds. is_digit c" "ends_number r"
  shows "takeWhile is_digit (ds @ r) = ds" "dropWhile is_digit (ds @ r) = r"
proof -
  have "takeWhile is_digit r = [] \<and> dropWhile is_digit r = r"
    using assms(2) by (cases r) (auto simp: ends_number_def)
  with assms(1) show "takeWhile is_digit (ds @ r) = ds" "dropWhile is_digit (ds @ r) = r"
    by (simp_all add: takeWhile_append dropWhile_append)
qed

lemma minus_not_digit: "\<not> is_digit (CHR ''-'')"
  by (simp add: is_digit_def)

lemma parse_num_nat:
  assumes "ends_number r"
  shows "parse_num (nat_digits n @ r) = Some (JNum (of_nat n), r)"
    and "parse_num (CHR ''-'' # nat_digits n @ r) = Some (JNum (- of_nat n), r)"
proof -
  obtain c ds where nd: "nat_digits n = c # ds" by (cases "nat_digits n") auto
  have dig: "\<forall>x \<in> set (nat_digits n). is_digit x" by (rule nat_digits_digits)
  with nd have "is_digit c" by simp
  then have cm: "c \<noteq> CHR ''-''" using minus_not_digit by auto
  have lead: "\<not> (hd (nat_digits n) = CHR ''0'' \<and> length (nat_digits n) > 1)"
    using nat_digits_no_leading_0 [of n] by (cases "n = 0") (auto simp: nat_digits_0)
  note tk = take_digits [OF dig assms]
  show "parse_num (nat_digits n @ r) = Some (JNum (of_nat n), r)"
    using cm lead tk ends_number_frac [OF assms] ends_number_exp [OF assms] digits_val_nat_digits [of n]
    by (simp add: parse_num_def nd)
  show "parse_num (CHR ''-'' # nat_digits n @ r) = Some (JNum (- of_nat n), r)"
    using lead tk ends_number_frac [OF assms] ends_number_exp [OF assms] digits_val_nat_digits [of n]
    by (simp add: parse_num_def nd)
qed

lemma parse_num_int:
  assumes "ends_number r"
  shows "parse_num (num_text (of_int i) @ r) = Some (JNum (of_int i), r)"
  using parse_num_nat [OF assms, of "nat i"] parse_num_nat [OF assms, of "nat (- i)"]
  by (auto simp: num_text_def show_int_def show_nat_def)

lemma num_text_int_hd:
  obtains c t where "num_text (of_int i) = c # t" "is_digit c \<or> c = CHR ''-''"
proof -
  obtain c ds where nd: "nat_digits (nat \<bar>i\<bar>) = c # ds" by (cases "nat_digits (nat \<bar>i\<bar>)") auto
  moreover have "is_digit c" using nat_digits_digits [of "nat \<bar>i\<bar>"] nd by simp
  ultimately show thesis
    by (cases "i < 0") (auto simp: num_text_def show_int_def show_nat_def intro: that)
qed

text \<open>Whitespace and delimiters around a serialized value.\<close>

lemma skip_ws_Cons [simp]:
  "skip_ws (c # s) = (if c \<in> {CHR 0x20, CHR 0x09, CHR 0x0A, CHR 0x0D} then skip_ws s else c # s)"
  by (simp add: skip_ws_def)

lemma skip_ws_Nil [simp]: "skip_ws [] = []"
  by (simp add: skip_ws_def)

lemma skip_ws_brk [simp]: "skip_ws (brk g i @ s) = skip_ws s"
  by (induction i) (auto simp: brk_def skip_ws_def)

lemma parse_val_brk [simp]: "parse_val n (brk g i @ s) = parse_val n s"
  by (cases n) simp_all

lemma skip_ws_colon [simp]: "skip_ws (colon g @ s) = CHR '':'' # (if g = 0 then s else CHR '' '' # s)"
  by (simp add: colon_def)

lemma parse_val_space [simp]: "parse_val n (CHR '' '' # s) = parse_val n s"
  by (cases n) simp_all

lemma ends_number_brk [simp]: "ends_number (brk g i @ CHR '']'' # r)" "ends_number (brk g i @ CHR ''}'' # r)"
  "ends_number (CHR '','' # r)"
  by (cases i; simp add: brk_def ends_number_def is_digit_def)+

text \<open>The first character of a serialization is neither whitespace nor a closing bracket.\<close>

lemma ser_head:
  assumes "json_ok v"
  obtains c t where "ser g i v = c # t" "c \<notin> {CHR 0x20, CHR 0x09, CHR 0x0A, CHR 0x0D, CHR '']'', CHR ''}''}"
proof (cases v)
  case (JNum q)
  with assms obtain z where q: "q = of_int z" by (metis json_ok.simps(2))
  obtain c t where "num_text (of_int z) = c # t" "is_digit c \<or> c = CHR ''-''"
    by (rule num_text_int_hd)
  with JNum q show thesis by (intro that [of c t]) (auto simp: is_digit_def)
next
  case (JBool b)
  then show thesis using that by (cases b) auto
next
  case (JArr xs)
  then show thesis using that by (cases "xs = []") auto
next
  case (JObj ms)
  then show thesis using that by (cases "ser_members g (i + g) ms = []") (auto simp: Let_def)
qed (use assms in \<open>auto simp: Let_def json_string_def intro: that\<close>)

text \<open>How much fuel a value needs, and that its own length is enough.\<close>

fun need :: "jsval \<Rightarrow> nat" where
  "need (JArr xs) = Suc (foldr (\<lambda>x m. Suc (max (need x) m)) xs 0)"
| "need (JObj ms) = Suc (foldr (\<lambda>(k, x) m. Suc (max (need x) m)) ms 0)"
| "need _ = 1"

abbreviation need_items :: "jsval list \<Rightarrow> nat" where
  "need_items xs \<equiv> foldr (\<lambda>x m. Suc (max (need x) m)) xs 0"

abbreviation need_members :: "(string \<times> jsval) list \<Rightarrow> nat" where
  "need_members ms \<equiv> foldr (\<lambda>(k, x) m. Suc (max (need x) m)) ms 0"

lemma ser_items_Nil [simp]: "ser_items g i xs = [] \<longleftrightarrow> xs = []"
  by (cases xs) auto

lemma ser_members_Nil:
  "\<forall>(k, v) \<in> set ms. json_ok v \<Longrightarrow> ser_members g i ms = [] \<longleftrightarrow> ms = []"
  by (cases ms) (auto split: if_splits)

lemma need_le_length:
  "json_ok v \<Longrightarrow> need v \<le> length (ser g i v)"
  "\<forall>x \<in> set xs. json_ok x \<Longrightarrow> need_items xs \<le> Suc (length (join ('','' @ brk g i) (ser_items g i xs)))"
  "\<forall>(k, x) \<in> set ms. json_ok x \<Longrightarrow> need_members ms \<le> Suc (length (join ('','' @ brk g i) (ser_members g i ms)))"
proof (induction g i v and g i xs and g i ms rule: ser_ser_items_ser_members.induct)
  case (4 g i q)
  then obtain z where "q = of_int z" by (metis json_ok.simps(2))
  then show ?case using num_text_int_hd [of z] by (metis One_nat_def Suc_leI length_greater_0_conv list.discI need.simps(6) ser.simps(4))
next
  case (7 g i ms)
  then show ?case by (cases ms) (auto simp: Let_def)
next
  case (9 g i x xs)
  then show ?case by (cases xs) (auto simp: join_Cons)
next
  case (11 g i k v ms)
  then have "v \<noteq> JUndef" by auto
  with 11 show ?case
    by (cases "ms = []") (auto simp: join_Cons ser_members_Nil json_string_def colon_def)
qed (auto simp: json_string_def)

lemma parse_val_number:
  assumes "c = CHR ''-'' \<or> is_digit c"
  shows "parse_val (Suc n) (c # t) = parse_num (c # t)"
  using assms by (auto simp: is_digit_def)

lemma parse_ser:
  "json_ok v \<Longrightarrow> need v \<le> n \<Longrightarrow> ends_number r \<Longrightarrow> parse_val n (ser g i v @ r) = Some (v, r)"
  "\<forall>x \<in> set xs. json_ok x \<Longrightarrow> xs \<noteq> [] \<Longrightarrow> need_items xs \<le> n \<Longrightarrow>
     parse_items n (join ('','' @ brk g i) (ser_items g i xs) @ brk g i' @ CHR '']'' # r) = Some (xs, r)"
  "\<forall>(k, x) \<in> set ms. json_ok x \<Longrightarrow> ms \<noteq> [] \<Longrightarrow> need_members ms \<le> n \<Longrightarrow> distinct (map fst (acc @ ms)) \<Longrightarrow>
     parse_members n acc (join ('','' @ brk g i) (ser_members g i ms) @ brk g i' @ CHR ''}'' # r) = Some (acc @ ms, r)"
proof (induction g i v and g i xs and g i ms arbitrary: n r and n r i' and n r i' acc rule: ser_ser_items_ser_members.induct)
  case (2 g i)
  then show ?case by (cases n) auto
next
  case (3 g i b)
  then show ?case by (cases n) auto
next
  case (4 g i q)
  then obtain z where q: "q = of_int z" by (metis json_ok.simps(2))
  obtain c t where ct: "num_text (of_int z) = c # t" "is_digit c \<or> c = CHR ''-''"
    by (rule num_text_int_hd)
  from 4 obtain m where n: "n = Suc m" by (cases n) auto
  from ct(2) have "parse_val n (c # t @ r) = parse_num (c # t @ r)"
    unfolding n by (intro parse_val_number) blast
  moreover have "parse_num (c # t @ r) = Some (JNum (of_int z), r)"
    using parse_num_int [OF 4(3), of z] unfolding ct(1) by simp
  ultimately show ?case unfolding q ser.simps ct(1) by simp
next
  case (5 g i s)
  then show ?case by (cases n) (auto simp: json_string_def parse_str_esc)
next
  case (6 g i xs)
  then obtain m where n: "n = Suc m" by (cases n) auto
  show ?case
  proof (cases "xs = []")
    case True
    then show ?thesis using n by simp
  next
    case False
    then obtain x ys where xs: "xs = x # ys" by (cases xs) auto
    with 6 have "json_ok x" by simp
    then obtain c t where ct: "ser g (i + g) x = c # t"
        "c \<notin> {CHR 0x20, CHR 0x09, CHR 0x0A, CHR 0x0D, CHR '']'', CHR ''}''}"
      by (rule ser_head)
    let ?body = "join ('','' @ brk g (i + g)) (ser_items g (i + g) xs) @ brk g i @ CHR '']'' # r"
    have hd: "\<exists>u. skip_ws ?body = c # u \<and> c \<noteq> CHR '']''"
      using ct xs by (cases ys) auto
    have items: "parse_items m (brk g (i + g) @ ?body) = parse_items m ?body"
      by (cases m) simp_all
    have "parse_items m ?body = Some (xs, r)"
      using 6 False n by simp
    with hd items False n show ?thesis by auto
  qed
next
  case (7 g i ms)
  then obtain m where n: "n = Suc m" by (cases n) auto
  show ?case
  proof (cases "ms = []")
    case True
    then show ?thesis using n by simp
  next
    case False
    then obtain k x ys where ms: "ms = (k, x) # ys" by (cases ms) auto
    let ?body = "join ('','' @ brk g (i + g)) (ser_members g (i + g) ms) @ brk g i @ CHR ''}'' # r"
    have "x \<noteq> JUndef" using 7 ms by auto
    then have hd: "\<exists>u. skip_ws ?body = CHR 0x22 # u"
      using ms by (cases "ser_members g (i + g) ys") (auto simp: json_string_def)
    have nn: "ser_members g (i + g) ms \<noteq> []"
      using 7 ms by auto
    have mem: "parse_members m [] (brk g (i + g) @ ?body) = parse_members m [] ?body"
      by (cases m) simp_all
    have "parse_members m [] ?body = Some (ms, r)"
      using 7 False n by (auto simp: Let_def)
    with hd mem nn n show ?thesis by (auto simp: Let_def)
  qed
next
  case (9 g i x xs)
  then obtain m where n: "n = Suc m" by (cases n) auto
  show ?case
  proof (cases "xs = []")
    case True
    with 9 n show ?thesis by simp
  next
    case False
    let ?tl = "join ('','' @ brk g i) (ser_items g i xs) @ brk g i' @ CHR '']'' # r"
    have "parse_items m (brk g i @ ?tl) = parse_items m ?tl" by (cases m) simp_all
    moreover have "parse_items m ?tl = Some (xs, r)" using 9 False n by simp
    moreover have "parse_val m (ser g i x @ CHR '','' # brk g i @ ?tl) = Some (x, CHR '','' # brk g i @ ?tl)"
      using 9 n by simp
    ultimately show ?thesis using False n by (simp add: join_Cons)
  qed
next
  case (11 g i k v ms)
  then obtain m where n: "n = Suc m" by (cases n) auto
  from 11 have v: "v \<noteq> JUndef" "json_ok v" and fresh: "k \<notin> fst ` set acc" by auto
  have ups: "upsert k v acc = acc @ [(k, v)]" using fresh by (rule upsert_fresh)
  have nv: "need v \<le> m" using 11(6) n by simp
  have pv: "parse_val m (ser g i v @ CHR '','' # u) = Some (v, CHR '','' # u)" for u
    using 11(2) [OF v(1) v(2) nv] by simp
  show ?case
  proof (cases "ms = []")
    case True
    have "parse_val m (ser g i v @ brk g i' @ CHR ''}'' # r) = Some (v, brk g i' @ CHR ''}'' # r)"
      using 11(2) [OF v(1) v(2) nv] by simp
    with True v n ups show ?thesis
      by (cases "g = 0") (simp_all add: json_string_def parse_str_esc)
  next
    case False
    let ?tl = "join ('','' @ brk g i) (ser_members g i ms) @ brk g i' @ CHR ''}'' # r"
    have "ser_members g i ms \<noteq> []" using 11 False by (auto simp: ser_members_Nil)
    moreover have "parse_members m (acc @ [(k, v)]) (brk g i @ ?tl) = parse_members m (acc @ [(k, v)]) ?tl"
      by (cases m) simp_all
    moreover have "parse_members m (acc @ [(k, v)]) ?tl = Some ((acc @ [(k, v)]) @ ms, r)"
      using 11 v False n by simp
    ultimately show ?thesis using v n ups pv [of "brk g i @ ?tl"]
      by (cases "g = 0") (simp_all add: join_Cons json_string_def parse_str_esc)
  qed
qed simp_all

text \<open>\<open>JSON.parse(JSON.stringify(v))\<close> and \<open>JSON.parse(JSON.stringify(v, null, g))\<close> give \<open>v\<close> back.\<close>

lemma parse_stringify_gap: "json_ok v \<Longrightarrow> json_parse (ser g 0 v) = Some v"
proof -
  assume ok: "json_ok v"
  have "need v \<le> Suc (length (ser g 0 v))" using need_le_length(1) [OF ok, of g 0] by simp
  from parse_ser(1) [OF ok this, of "[]" g 0] show ?thesis
    by (simp add: json_parse_def ends_number_def)
qed

lemma parse_stringify: "json_ok v \<Longrightarrow> json_parse (stringify v) = Some v"
  by (simp add: stringify_def parse_stringify_gap)

lemma parse_stringify2: "json_ok v \<Longrightarrow> json_parse (stringify2 v) = Some v"
  by (simp add: stringify2_def parse_stringify_gap)

end
