(* ===== verification/Truncate.thy ===== *)
theory Truncate
  imports JsonRoundtrip
begin

text \<open>
  Output caps (\<open>src/tools/_shared/truncate-output.ts\<close>). \<open>truncateOutput\<close> keeps the tail
  of a text; \<open>truncateJsonPayload\<close> replaces an oversized serialization by an envelope that
  is itself JSON. The halving loop is a recursion on the head length.
\<close>

definition MAX_OUTPUT_CHARS :: nat where "MAX_OUTPUT_CHARS = 30000"

definition truncateOutput :: "string \<Rightarrow> string" where
  "truncateOutput output =
     (if length output \<le> MAX_OUTPUT_CHARS then output
      else (let dropped = length output - MAX_OUTPUT_CHARS
            in ''[truncated '' @ show_nat dropped @ '' characters from the start]'' @ nl @ drop dropped output))"

definition TRUNCATED_HEAD_CHARS :: nat where "TRUNCATED_HEAD_CHARS = 20000"
definition MIN_HEAD_CHARS :: nat where "MIN_HEAD_CHARS = 1000"

definition TRUNCATION_HINT :: string where
  "TRUNCATION_HINT = ''Narrow the selection, add filters, or page the data to fit under the output cap.''"

definition envelope_value :: "string \<Rightarrow> nat \<Rightarrow> jsval" where
  "envelope_value serialized headLength =
     (let head = take headLength serialized
      in JObj [(''truncated'', JBool True),
               (''dropped_chars'', JInt (int (length serialized - length head))),
               (''hint'', JStr TRUNCATION_HINT),
               (''partial_json_head'', JStr head)])"

definition renderEnvelope :: "string \<Rightarrow> nat \<Rightarrow> string" where
  "renderEnvelope serialized headLength = stringify2 (envelope_value serialized headLength)"

text \<open>The loop, started with the current head length; it returns the last head length tried.\<close>

function shrink_head :: "string \<Rightarrow> nat \<Rightarrow> nat" where
  "shrink_head serialized headLength =
     (if length (renderEnvelope serialized headLength) > MAX_OUTPUT_CHARS \<and> headLength > MIN_HEAD_CHARS
      then shrink_head serialized (headLength div 2) else headLength)"
  by pat_completeness auto
termination
  by (relation "measure snd") (auto simp: MIN_HEAD_CHARS_def)

declare shrink_head.simps [simp del]

definition truncateJsonPayload :: "string \<Rightarrow> string" where
  "truncateJsonPayload serialized =
     (if length serialized \<le> MAX_OUTPUT_CHARS then serialized
      else renderEnvelope serialized (shrink_head serialized TRUNCATED_HEAD_CHARS))"

section \<open>The envelope is parseable and small\<close>

lemma renderEnvelope_parse:
  "json_parse (renderEnvelope s n) = Some (envelope_value s n)"
  unfolding renderEnvelope_def
  by (rule parse_stringify2) (simp add: envelope_value_def Let_def)

lemma length_esc_char: "length (esc_char c) \<le> 6"
  by (simp add: esc_char_def)

lemma length_esc: "length (esc s) \<le> 6 * length s"
proof (induction s)
  case (Cons c s)
  then show ?case using length_esc_char [of c] by (simp add: esc_def)
qed (simp add: esc_def)

lemma length_nat_digits: "n < 10 ^ k \<Longrightarrow> 0 < k \<Longrightarrow> length (nat_digits n) \<le> k"
proof (induction k arbitrary: n)
  case (Suc k)
  show ?case
  proof (cases "n < 10")
    case True
    then show ?thesis by (subst nat_digits.simps) simp
  next
    case False
    with Suc.prems have "0 < k" by (cases k) auto
    moreover have "n div 10 < 10 ^ k" using Suc.prems by (simp add: div_less_iff_less_mult)
    ultimately have "length (nat_digits (n div 10)) \<le> k" by (rule Suc.IH [rotated])
    with False show ?thesis by (subst nat_digits.simps) simp
  qed
qed simp

lemma length_envelope:
  assumes "length s < 10 ^ k" "0 < k"
  shows "length (renderEnvelope s n) \<le> 300 + k + 6 * n"
proof -
  have num: "num_text (of_int (int m)) = nat_digits m" for m
    by (simp add: num_text_def show_int_def show_nat_def)
  have "length (num_text (of_int (int (length s - length (take n s))))) \<le> k"
    unfolding num by (rule length_nat_digits) (use assms in auto)
  moreover have "length (esc (take n s)) \<le> 6 * n"
    using length_esc [of "take n s"] by simp
  moreover have "length (esc TRUNCATION_HINT) \<le> 100"
    by (simp add: TRUNCATION_HINT_def esc_def esc_char_def)
  ultimately show ?thesis
    by (simp del: of_int_of_nat_eq length_take add: renderEnvelope_def envelope_value_def stringify2_def Let_def json_string_def
        brk_def colon_def esc_def esc_char_def)
qed

text \<open>The loop only stops on an envelope that fits, or on a head so short that it must fit.\<close>

lemma shrink_head_stops:
  "length (renderEnvelope s (shrink_head s n)) \<le> MAX_OUTPUT_CHARS \<or> shrink_head s n \<le> MIN_HEAD_CHARS"
proof (induction s n rule: shrink_head.induct)
  case (1 s n)
  then show ?case
    by (cases "length (renderEnvelope s n) > MAX_OUTPUT_CHARS \<and> n > MIN_HEAD_CHARS")
       (auto simp: shrink_head.simps [of s n])
qed

lemma shrink_head_le: "shrink_head s n \<le> n"
proof (induction s n rule: shrink_head.induct)
  case (1 s n)
  then show ?case
    by (cases "length (renderEnvelope s n) > MAX_OUTPUT_CHARS \<and> n > MIN_HEAD_CHARS")
       (auto simp: shrink_head.simps [of s n])
qed

lemma truncateJsonPayload_length:
  assumes "length s < 10 ^ 20"
  shows "length (truncateJsonPayload s) \<le> MAX_OUTPUT_CHARS"
proof -
  have "length (renderEnvelope s m) \<le> MAX_OUTPUT_CHARS" if "m \<le> MIN_HEAD_CHARS" for m
    using length_envelope [OF assms, of m] that by (simp add: MIN_HEAD_CHARS_def MAX_OUTPUT_CHARS_def)
  with shrink_head_stops [of s TRUNCATED_HEAD_CHARS] show ?thesis
    by (auto simp: truncateJsonPayload_def)
qed

lemma truncateJsonPayload_parse:
  "json_parse s \<noteq> None \<Longrightarrow> json_parse (truncateJsonPayload s) \<noteq> None"
  by (simp add: truncateJsonPayload_def renderEnvelope_parse)

lemma truncateJsonPayload_head:
  assumes "length s > MAX_OUTPUT_CHARS"
  obtains n v where "json_parse (truncateJsonPayload s) = Some v" "getp v ''partial_json_head'' = JStr (take n s)"
    "getp v ''dropped_chars'' = JInt (int (length s - n))" "n \<le> TRUNCATED_HEAD_CHARS"
proof -
  define n where "n = shrink_head s TRUNCATED_HEAD_CHARS"
  have le: "n \<le> TRUNCATED_HEAD_CHARS" unfolding n_def by (rule shrink_head_le)
  have "json_parse (truncateJsonPayload s) = Some (envelope_value s n)"
    using assms by (simp add: truncateJsonPayload_def renderEnvelope_parse n_def)
  moreover have "n \<le> length s" using le assms by (simp add: TRUNCATED_HEAD_CHARS_def MAX_OUTPUT_CHARS_def)
  ultimately show thesis using le by (intro that) (auto simp: envelope_value_def Let_def min_absorb2)
qed

text \<open>\<open>truncateOutput\<close> keeps exactly the last \<open>MAX_OUTPUT_CHARS\<close> characters.\<close>

lemma truncateOutput_tail:
  "length out > MAX_OUTPUT_CHARS \<Longrightarrow>
   \<exists>note kept. truncateOutput out = note @ nl @ kept \<and> suffix kept out \<and> length kept = MAX_OUTPUT_CHARS"
  by (rule exI [of _ "''[truncated '' @ show_nat (length out - MAX_OUTPUT_CHARS) @ '' characters from the start]''"],
      rule exI [of _ "drop (length out - MAX_OUTPUT_CHARS) out"])
     (auto simp: truncateOutput_def Let_def suffix_drop)

lemma json_parse_empty_object: "json_parse ''{}'' = Some (JObj [])"
  by code_simp

end
