(* ===== verification/Respond.thy ===== *)
theory Respond
  imports Effects Redact Truncate
begin

text \<open>
  Tool results (\<open>src/tools/_shared/respond.ts\<close>, \<open>require-shell.ts\<close>). Every text a tool
  returns passes through the redactor here; the registered secrets are read with the
  \<open>Secrets\<close> request.
\<close>

datatype response_format = Concise | Detailed

text \<open>The \<open>CallToolResult\<close> the handlers build: one text block, the error flag, structured content.\<close>

record tool_result =
  content :: string
  isError :: bool
  structuredContent :: "jsval option"

definition mk_text :: "string list \<Rightarrow> string \<Rightarrow> tool_result" where
  "mk_text secrets t = \<lparr>content = redactSecrets secrets t, isError = False, structuredContent = None\<rparr>"

definition mk_error :: "string list \<Rightarrow> string \<Rightarrow> tool_result" where
  "mk_error secrets t = \<lparr>content = redactSecrets secrets t, isError = True, structuredContent = None\<rparr>"

definition toolText :: "string \<Rightarrow> tool_result prog" where
  "toolText t = Secrets (\<lambda>secrets. Ret (mk_text secrets t))"

definition toolError :: "string \<Rightarrow> tool_result prog" where
  "toolError message = Secrets (\<lambda>secrets. Ret (mk_error secrets message))"

definition formatResponse :: "response_format \<Rightarrow> string \<Rightarrow> jsval \<Rightarrow> tool_result prog" where
  "formatResponse format concise detailed =
     (if format = Detailed then toolText (truncateJsonPayload (stringify2 detailed)) else toolText concise)"

text \<open>
  \<open>JSON.parse(redactSecrets(JSON.stringify(structured)))\<close>; the parse throws a SyntaxError when
  redaction broke the JSON.
\<close>

definition redactStructured :: "string list \<Rightarrow> jsval \<Rightarrow> jsval option" where
  "redactStructured secrets structured = json_parse (redactSecrets secrets (stringify structured))"

definition formatStructuredResponse :: "response_format \<Rightarrow> string \<Rightarrow> jsval \<Rightarrow> tool_result prog" where
  "formatStructuredResponse format concise structured =
     Secrets (\<lambda>secrets.
       case redactStructured secrets structured of
         None \<Rightarrow> Throw ''SyntaxError''
       | Some redacted \<Rightarrow>
           Ret \<lparr>content = (if format = Detailed then truncateJsonPayload (stringify2 redacted)
                        else redactSecrets secrets concise),
                isError = False, structuredContent = Some redacted\<rparr>)"

definition sshUnavailableError :: "tool_result prog" where
  \<open>sshUnavailableError =
     toolError ''SSH is not configured, so host-level tools are unavailable. Set UNRAID_SSH_HOST plus UNRAID_SSH_PASSWORD or UNRAID_SSH_KEY_PATH (and optionally UNRAID_SSH_PORT, UNRAID_SSH_USER) in the MCP server\'s environment, then restart it.''\<close>

section \<open>Rules\<close>

lemma run_toolText [prog_simps]: "run w tr (toolText t) = (Inr (mk_text (w_secrets w) t), tr)"
  by (simp add: toolText_def)

lemma run_toolError [prog_simps]: "run w tr (toolError t) = (Inr (mk_error (w_secrets w) t), tr)"
  by (simp add: toolError_def)

lemma run_formatResponse [prog_simps]:
  "run w tr (formatResponse f c d) =
     (Inr (mk_text (w_secrets w) (if f = Detailed then truncateJsonPayload (stringify2 d) else c)), tr)"
  by (simp add: formatResponse_def run_toolText)

lemma isError_mk [simp]: "isError (mk_text s t) = False" "isError (mk_error s t) = True"
  by (simp_all add: mk_text_def mk_error_def)

lemma emits_toolText [emits_intros]: "emits P (toolText t)" by (simp add: toolText_def)
lemma emits_toolError [emits_intros]: "emits P (toolError t)" by (simp add: toolError_def)

lemma emits_formatResponse [emits_intros]: "emits P (formatResponse f c d)"
  by (simp add: formatResponse_def emits_toolText)

lemma emits_formatStructuredResponse [emits_intros]: "emits P (formatStructuredResponse f c d)"
  by (auto simp: formatStructuredResponse_def split: option.splits)

lemma emits_sshUnavailable [emits_intros]: "emits P sshUnavailableError"
  by (simp add: sshUnavailableError_def emits_toolError)

lemma run_sshUnavailable [prog_simps]: "\<exists>t. run w tr sshUnavailableError = (Inr (mk_error (w_secrets w) t), tr)"
  by (auto simp: sshUnavailableError_def run_toolError)

end
