(* ===== verification/Confirm.thy ===== *)
theory Confirm
  imports Respond
begin

text \<open>
  The confirmation gates (\<open>src/tools/_shared/confirm.ts\<close>) and the elicitation channel they
  ask the human through (\<open>src/tools/_shared/elicitation.ts\<close>).

  A gate returns \<open>None\<close> to proceed (the code's \<open>null\<close>) or the refusal to return. The
  locale \<open>gate\<close> is the contract every state-changing tool relies on: a gate lets the caller
  through exactly when the call is approved, and its only requests are elicitations.
\<close>

section \<open>The elicitation channel\<close>

datatype elicitation_outcome = Accepted | Declined | Unavailable

text \<open>
  The optional channel argument of a handler: \<open>None\<close> when absent or null, otherwise the
  answer of \<open>isAvailable()\<close> (whether the client declared the elicitation capability).
\<close>

type_synonym channel = "bool option"

definition boolean_field :: "string \<Rightarrow> string \<Rightarrow> jsval" where
  "boolean_field title descr =
     JObj [(''type'', JStr ''boolean''), (''title'', JStr title), (''description'', JStr descr)]"

definition confirmationSchema :: "bool \<Rightarrow> jsval" where
  "confirmationSchema requireRisk =
     (let properties =
            [(''confirm'', boolean_field ''Confirm'' ''Set to true to proceed with this action.'')]
            @ (if requireRisk
               then [(''acknowledge_risk'', boolean_field ''Acknowledge risk'' ''Set to true to acknowledge the risk described above.'')]
               else [])
      in JObj [(''type'', JStr ''object''), (''properties'', JObj properties),
               (''required'', JArr (map (JStr \<circ> fst) properties))])"

definition allConfirmed :: "jsval \<Rightarrow> bool \<Rightarrow> bool" where
  "allConfirmed formContent requireRisk =
     (if getp formContent ''confirm'' \<noteq> JBool True then False
      else \<not> requireRisk \<or> getp formContent ''acknowledge_risk'' = JBool True)"

text \<open>The outcome the real channel derives from the SDK's reply.\<close>

definition channel_outcome :: "bool \<Rightarrow> elicit_reply \<Rightarrow> elicitation_outcome" where
  "channel_outcome requireRisk reply =
     (case reply of
        ElicitFailed \<Rightarrow> Unavailable
      | ElicitAnswered action formContent \<Rightarrow>
          if action \<noteq> ''accept'' then Declined
          else if allConfirmed formContent requireRisk then Accepted else Declined)"

definition channel_confirm :: "string \<Rightarrow> bool \<Rightarrow> elicitation_outcome prog" where
  "channel_confirm message requireRisk = Elicit message requireRisk (\<lambda>r. Ret (channel_outcome requireRisk r))"

section \<open>The gates\<close>

definition DECLINED_MESSAGE :: string where
  "DECLINED_MESSAGE = ''The user declined the confirmation prompt. No changes were made.''"

text \<open>An optional boolean argument that is explicitly true.\<close>

abbreviation is_true :: "bool option \<Rightarrow> bool" where "is_true b \<equiv> b = Some True"

definition refuse :: "string \<Rightarrow> tool_result option prog" where
  "refuse message = bind (toolError message) (\<lambda>r. Ret (Some r))"

definition confirm_refusal :: "string \<Rightarrow> string" where
  \<open>confirm_refusal actionDescription =
     ''Refusing to '' @ actionDescription @ '': this is a state-changing action that requires confirmation. Re-call with "confirm": true to proceed. No changes were made.''\<close>

definition requireConfirmation :: "bool option \<Rightarrow> string \<Rightarrow> tool_result option prog" where
  "requireConfirmation cf actionDescription =
     (if is_true cf then Ret None else refuse (confirm_refusal actionDescription))"

record risk_flags =
  confirm :: "bool option"
  acknowledge_risk :: "bool option"

definition both_flags :: "risk_flags \<Rightarrow> bool" where
  "both_flags flags = (is_true (confirm flags) \<and> is_true (acknowledge_risk flags))"

definition requireRiskAcknowledgement :: "risk_flags \<Rightarrow> string \<Rightarrow> tool_result option prog" where
  "requireRiskAcknowledgement flags refusalMessage =
     (if both_flags flags then Ret None else refuse refusalMessage)"

text \<open>
  \<open>askHuman\<close>: \<open>Some None\<close> to proceed, \<open>Some (Some r)\<close> to refuse with \<open>r\<close>, \<open>None\<close>
  (undefined) to fall back to the argument path.
\<close>

definition askHuman :: "channel \<Rightarrow> string \<Rightarrow> bool \<Rightarrow> tool_result option option prog" where
  "askHuman ch message requireRisk =
     (if ch \<noteq> Some True then Ret None
      else bind (channel_confirm message requireRisk) (\<lambda>outcome.
        if outcome = Accepted then Ret (Some None)
        else if outcome = Declined then bind (refuse DECLINED_MESSAGE) (\<lambda>r. Ret (Some r))
        else Ret None))"

definition confirm_prompt :: "string \<Rightarrow> string" where
  "confirm_prompt actionDescription = ''Confirm: '' @ actionDescription @ ''? This is a state-changing action.''"

definition requireConfirmationInteractive :: "channel \<Rightarrow> bool option \<Rightarrow> string \<Rightarrow> tool_result option prog" where
  "requireConfirmationInteractive ch cf actionDescription =
     (if is_true cf then Ret None
      else bind (askHuman ch (confirm_prompt actionDescription) False) (\<lambda>asked.
        case asked of Some r \<Rightarrow> Ret r | None \<Rightarrow> requireConfirmation cf actionDescription))"

definition requireRiskAcknowledgementInteractive :: "channel \<Rightarrow> risk_flags \<Rightarrow> string \<Rightarrow> tool_result option prog" where
  "requireRiskAcknowledgementInteractive ch flags refusalMessage =
     (if both_flags flags then Ret None
      else bind (askHuman ch refusalMessage True) (\<lambda>asked.
        case asked of Some r \<Rightarrow> Ret r | None \<Rightarrow> requireRiskAcknowledgement flags refusalMessage))"

section \<open>When a call is approved\<close>

text \<open>The human accepted the form the gate showed, in this world at this point of the run.\<close>

definition human_accepts :: "world \<Rightarrow> event list \<Rightarrow> channel \<Rightarrow> string \<Rightarrow> bool \<Rightarrow> bool" where
  "human_accepts w tr ch message requireRisk =
     (ch = Some True \<and> channel_outcome requireRisk (w_elicit w tr message requireRisk) = Accepted)"

lemma human_accepts_iff:
  "human_accepts w tr ch message requireRisk \<longleftrightarrow>
     ch = Some True \<and>
     (\<exists>form. w_elicit w tr message requireRisk = ElicitAnswered ''accept'' form \<and>
             getp form ''confirm'' = JBool True \<and>
             (requireRisk \<longrightarrow> getp form ''acknowledge_risk'' = JBool True))"
  by (auto simp: human_accepts_def channel_outcome_def allConfirmed_def split: elicit_reply.splits if_splits)

text \<open>Running the gates.\<close>

lemma run_refuse [prog_simps]:
  "run w tr (refuse m) = (Inr (Some (mk_error (w_secrets w) m)), tr)"
  by (simp add: refuse_def run_bind run_toolError)

lemma run_askHuman:
  "run w tr (askHuman ch m b) =
     (if ch \<noteq> Some True then (Inr None, tr)
      else (Inr (case channel_outcome b (w_elicit w tr m b) of
                   Accepted \<Rightarrow> Some None
                 | Declined \<Rightarrow> Some (Some (mk_error (w_secrets w) DECLINED_MESSAGE))
                 | Unavailable \<Rightarrow> None), tr @ [EElicit m b]))"
  by (simp add: askHuman_def channel_confirm_def prog_simps split: elicitation_outcome.splits)

definition asked_events :: "channel \<Rightarrow> string \<Rightarrow> bool \<Rightarrow> event list" where
  "asked_events ch m b = (if ch = Some True then [EElicit m b] else [])"

lemma run_confirm_gate:
  "run w tr (requireConfirmationInteractive ch cf d) =
     (if is_true cf then (Inr None, tr)
      else (Inr (if human_accepts w tr ch (confirm_prompt d) False then None
                 else Some (mk_error (w_secrets w)
                   (if ch = Some True \<and> channel_outcome False (w_elicit w tr (confirm_prompt d) False) = Declined
                    then DECLINED_MESSAGE else confirm_refusal d))),
            tr @ asked_events ch (confirm_prompt d) False))"
  by (simp add: requireConfirmationInteractive_def requireConfirmation_def run_bind run_askHuman run_refuse
      human_accepts_def asked_events_def split: elicitation_outcome.splits)

lemma run_risk_gate:
  "run w tr (requireRiskAcknowledgementInteractive ch flags m) =
     (if both_flags flags then (Inr None, tr)
      else (Inr (if human_accepts w tr ch m True then None
                 else Some (mk_error (w_secrets w)
                   (if ch = Some True \<and> channel_outcome True (w_elicit w tr m True) = Declined
                    then DECLINED_MESSAGE else m))),
            tr @ asked_events ch m True))"
  by (simp add: requireRiskAcknowledgementInteractive_def requireRiskAcknowledgement_def run_bind run_askHuman run_refuse
      human_accepts_def asked_events_def split: elicitation_outcome.splits)

definition is_elicit :: "event \<Rightarrow> bool" where
  "is_elicit e = (case e of EElicit m b \<Rightarrow> True | _ \<Rightarrow> False)"

lemma is_elicit_simps [simp]:
  "is_elicit (EElicit m b)" "\<not> is_elicit (EGql d v)" "\<not> is_elicit (EShell c t)" "\<not> is_elicit (ENotify n)"
  by (simp_all add: is_elicit_def)

lemma emits_refuse [emits_intros]: "emits P (refuse m)"
  by (simp add: refuse_def emits_bind emits_toolError)

lemma emits_askHuman: "(\<And>m b. P (EElicit m b)) \<Longrightarrow> emits P (askHuman ch m b)"
  by (auto simp: askHuman_def channel_confirm_def intro!: emits_intros)

lemma emits_confirm_gate [emits_intros]:
  "(\<And>m b. P (EElicit m b)) \<Longrightarrow> emits P (requireConfirmationInteractive ch cf d)"
  by (auto simp: requireConfirmationInteractive_def requireConfirmation_def intro!: emits_intros emits_askHuman)

lemma emits_risk_gate [emits_intros]:
  "(\<And>m b. P (EElicit m b)) \<Longrightarrow> emits P (requireRiskAcknowledgementInteractive ch flags m)"
  by (auto simp: requireRiskAcknowledgementInteractive_def requireRiskAcknowledgement_def intro!: emits_intros emits_askHuman)

section \<open>The contract of a gate\<close>

text \<open>The shape of every gated handler: ask, return the refusal, otherwise do the work.\<close>

definition gated :: "tool_result option prog \<Rightarrow> tool_result prog \<Rightarrow> tool_result prog" where
  "gated g work = bind g (\<lambda>x. case x of Some r \<Rightarrow> Ret r | None \<Rightarrow> work)"

lemma emits_gated [emits_intros]: "emits P g \<Longrightarrow> emits P work \<Longrightarrow> emits P (gated g work)"
  by (auto simp: gated_def intro!: emits_intros)


text \<open>
  \<open>guard\<close> asks for approval of a call with arguments \<open>'a\<close>, \<open>approved\<close> says when the call is
  approved in a world at a point of the run, \<open>asks\<close> is the list of prompts shown.
\<close>

locale gate =
  fixes guard :: "'a \<Rightarrow> tool_result option prog"
    and approved :: "world \<Rightarrow> event list \<Rightarrow> 'a \<Rightarrow> bool"
  assumes guard_approved: "approved w tr a \<Longrightarrow> \<exists>es. run w tr (guard a) = (Inr None, tr @ es)"
    and guard_refused: "\<not> approved w tr a \<Longrightarrow>
      \<exists>r es. run w tr (guard a) = (Inr (Some r), tr @ es) \<and> isError r"
    and guard_asks: "emits is_elicit (guard a)"
begin

lemma gated_refusal:
  assumes "\<not> approved w tr a"
  shows "\<exists>r es. run w tr (gated (guard a) body) = (Inr r, tr @ es)
                \<and> isError r \<and> (\<forall>e \<in> set es. is_elicit e)"
proof -
  from guard_refused [OF assms] obtain r es where r: "run w tr (guard a) = (Inr (Some r), tr @ es)" "isError r"
    by blast
  have "\<forall>e \<in> set es. is_elicit e" using run_emits [OF guard_asks, of w tr a es] r by simp
  with r show ?thesis by (simp add: gated_def run_bind)
qed

lemma gated_pass:
  assumes "approved w tr a"
  shows "\<exists>es. (\<forall>e \<in> set es. is_elicit e) \<and>
     run w tr (gated (guard a) body) = run w (tr @ es) body"
proof -
  from guard_approved [OF assms] obtain es where r: "run w tr (guard a) = (Inr None, tr @ es)" by blast
  have "\<forall>e \<in> set es. is_elicit e" using run_emits [OF guard_asks, of w tr a es] r by simp
  with r show ?thesis by (auto simp: gated_def run_bind)
qed

text \<open>A gated handler touches the host only when the call is approved.\<close>

lemma gated_safe:
  assumes "snd (run w tr (gated (guard a) body)) = tr @ es"
    and "e \<in> set es" "touches_host e"
  shows "approved w tr a"
proof (rule ccontr)
  assume "\<not> approved w tr a"
  from gated_refusal [OF this, of body] obtain r es' where
    "run w tr (gated (guard a) body) = (Inr r, tr @ es')"
    "\<forall>e \<in> set es'. is_elicit e" by blast
  with assms have "is_elicit e" by simp
  with assms(3) show False by (cases e) auto
qed

lemma gated_events:
  "e \<in> set (events_of w (gated (guard a) body)) \<Longrightarrow> touches_host e \<Longrightarrow> approved w [] a"
  using gated_safe [of w "[]" a body "events_of w (gated (guard a) body)" e] by (simp add: events_of_def)

lemma gated_result:
  assumes "\<not> approved w [] a"
  shows "\<exists>r. result_of w (gated (guard a) body) = Inr r \<and> isError r"
  using gated_refusal [OF assms, of body] by (auto simp: result_of_def)

end

text \<open>Both gates of the code meet the contract.\<close>

definition confirm_approved :: "world \<Rightarrow> event list \<Rightarrow> channel \<times> bool option \<times> string \<Rightarrow> bool" where
  "confirm_approved w tr a =
     (case a of (ch, cf, d) \<Rightarrow> is_true cf \<or> human_accepts w tr ch (confirm_prompt d) False)"

definition risk_approved :: "world \<Rightarrow> event list \<Rightarrow> channel \<times> risk_flags \<times> string \<Rightarrow> bool" where
  "risk_approved w tr a = (case a of (ch, flags, m) \<Rightarrow> both_flags flags \<or> human_accepts w tr ch m True)"

interpretation tier1: gate "\<lambda>(ch, cf, d). requireConfirmationInteractive ch cf d" confirm_approved
  by unfold_locales
     (auto simp: run_confirm_gate confirm_approved_def asked_events_def intro: emits_confirm_gate)

interpretation tier2: gate "\<lambda>(ch, flags, m). requireRiskAcknowledgementInteractive ch flags m" risk_approved
  by unfold_locales
     (auto simp: run_risk_gate risk_approved_def asked_events_def intro: emits_risk_gate)

end
