(* ===== verification/ShellQuote.thy ===== *)
theory ShellQuote
  imports Prelude
begin

text \<open>
  Shell quoting (\<open>src/tools/_shared/quote-shell.ts\<close>), checked against a model of how a POSIX
  shell cuts a command line into words: single quotes, double quotes, backslash, blanks, and
  the characters that have a meaning when they are not quoted.
\<close>

section \<open>The code\<close>

text \<open>\<open>value.replace(/'/g, "'\\''")\<close> between single quotes.\<close>

definition quote_char :: "char \<Rightarrow> string" where
  "quote_char c = (if c = CHR 0x27 then squote @ bslash @ squote @ squote else [c])"

definition quoteForShell :: "string \<Rightarrow> string" where
  "quoteForShell value = squote @ concat (map quote_char value) @ squote"

section \<open>Word splitting of a POSIX shell\<close>

datatype sh_token = ShWord string | ShOper char

datatype sh_mode = ShPlain | ShEscaped | ShSingle | ShDouble | ShDoubleEscaped

text \<open>The tokens found so far, the word being collected (if one has begun), and the mode.\<close>

record sh_state =
  sh_done :: "sh_token list"
  sh_word :: "string option"
  sh_mode :: sh_mode

definition sh_start :: sh_state where
  "sh_start = \<lparr>sh_done = [], sh_word = None, sh_mode = ShPlain\<rparr>"

definition sh_blank :: "char \<Rightarrow> bool" where
  "sh_blank c = (c = CHR '' '' \<or> c = CHR 0x09)"

text \<open>Unquoted, these are operators, separators or the start of an expansion.\<close>

definition sh_special :: "char \<Rightarrow> bool" where
  "sh_special c = (c \<in> set (''|&;()<>$*?[]#~=%!{}'' @ backtick @ nl))"

definition sh_emit :: "sh_state \<Rightarrow> sh_token list" where
  "sh_emit s = sh_done s @ (case sh_word s of None \<Rightarrow> [] | Some x \<Rightarrow> [ShWord x])"

definition sh_add :: "sh_state \<Rightarrow> string \<Rightarrow> sh_state" where
  "sh_add s t = s\<lparr>sh_word := Some (case sh_word s of None \<Rightarrow> t | Some x \<Rightarrow> x @ t)\<rparr>"

definition sh_break :: "sh_state \<Rightarrow> sh_token list \<Rightarrow> sh_state" where
  "sh_break s ts = s\<lparr>sh_done := sh_emit s @ ts, sh_word := None\<rparr>"

definition sh_step :: "sh_state \<Rightarrow> char \<Rightarrow> sh_state" where
  "sh_step s c =
     (case sh_mode s of
        ShPlain \<Rightarrow>
          if c = CHR 0x27 then (sh_add s [])\<lparr>sh_mode := ShSingle\<rparr>
          else if c = CHR 0x22 then (sh_add s [])\<lparr>sh_mode := ShDouble\<rparr>
          else if c = CHR 0x5C then s\<lparr>sh_mode := ShEscaped\<rparr>
          else if sh_blank c then sh_break s []
          else if sh_special c then sh_break s [ShOper c]
          else sh_add s [c]
      | ShEscaped \<Rightarrow> (sh_add s (if c = CHR 0x0A then [] else [c]))\<lparr>sh_mode := ShPlain\<rparr>
      | ShSingle \<Rightarrow> if c = CHR 0x27 then s\<lparr>sh_mode := ShPlain\<rparr> else sh_add s [c]
      | ShDouble \<Rightarrow>
          if c = CHR 0x22 then s\<lparr>sh_mode := ShPlain\<rparr>
          else if c = CHR 0x5C then s\<lparr>sh_mode := ShDoubleEscaped\<rparr>
          else if c = CHR 0x60 \<or> c = CHR ''$'' then s\<lparr>sh_done := sh_done s @ [ShOper c]\<rparr>
          else sh_add s [c]
      | ShDoubleEscaped \<Rightarrow>
          (sh_add s (if c \<in> set (dquote @ bslash @ backtick @ ''$'') then [c] else bslash @ [c]))\<lparr>sh_mode := ShDouble\<rparr>)"

definition sh_run :: "sh_state \<Rightarrow> string \<Rightarrow> sh_state" where
  "sh_run s t = foldl sh_step s t"

text \<open>The tokens of a complete line; \<open>None\<close> when a quote is left open.\<close>

definition sh_tokens :: "string \<Rightarrow> sh_token list option" where
  "sh_tokens line =
     (let s = sh_run sh_start line in if sh_mode s = ShPlain then Some (sh_emit s) else None)"

section \<open>A quoted value is one literal piece of a word\<close>

lemma sh_run_append: "sh_run s (t @ u) = sh_run (sh_run s t) u"
  by (simp add: sh_run_def)

lemma sh_run_Cons: "sh_run s (c # u) = sh_run (sh_step s c) u"
  by (simp add: sh_run_def)

lemma sh_run_Nil: "sh_run s [] = s"
  by (simp add: sh_run_def)

lemma sh_add_add: "sh_add (sh_add s t) u = sh_add s (t @ u)"
  by (simp add: sh_add_def split: option.splits)

lemma sh_mode_add [simp]: "sh_mode (sh_add s t) = sh_mode s"
  by (simp add: sh_add_def)

lemma sh_add_mode: "(sh_add s t)\<lparr>sh_mode := m\<rparr> = sh_add (s\<lparr>sh_mode := m\<rparr>) t"
  by (simp add: sh_add_def)

lemma sh_run_body:
  "sh_mode s = ShSingle \<Longrightarrow> sh_word s \<noteq> None \<Longrightarrow> sh_run s (concat (map quote_char v)) = sh_add s v"
proof (induction v arbitrary: s)
  case Nil
  then show ?case by (cases s) (auto simp: sh_run_Nil sh_add_def)
next
  case (Cons c v)
  have w: "sh_word (sh_add s t) \<noteq> None" for t by (simp add: sh_add_def)
  have step: "sh_run s (quote_char c) = sh_add s [c]"
    using Cons.prems by (cases s) (auto simp: quote_char_def sh_run_Cons sh_run_Nil sh_step_def sh_add_def)
  have "sh_run s (concat (map quote_char (c # v))) = sh_run (sh_add s [c]) (concat (map quote_char v))"
    by (simp add: sh_run_append step)
  also have "\<dots> = sh_add (sh_add s [c]) v"
    using Cons.prems w by (intro Cons.IH) auto
  finally show ?case by (simp add: sh_add_add)
qed

lemma sh_run_quote:
  assumes "sh_mode s = ShPlain"
  shows "sh_run s (quoteForShell v) = sh_add s v"
proof -
  define s1 where "s1 = (sh_add s [])\<lparr>sh_mode := ShSingle\<rparr>"
  have s1: "sh_mode s1 = ShSingle" "sh_word s1 \<noteq> None" by (auto simp: s1_def sh_add_def)
  have "sh_run s (quoteForShell v) = sh_step (sh_run s1 (concat (map quote_char v))) (CHR 0x27)"
    using assms by (simp add: quoteForShell_def sh_run_Cons sh_run_append sh_run_Nil sh_step_def s1_def)
  also have "\<dots> = sh_step (sh_add s1 v) (CHR 0x27)" using sh_run_body [OF s1] by simp
  also have "\<dots> = sh_add s v" using assms s1
    by (cases s) (auto simp: s1_def sh_step_def sh_add_def split: option.splits)
  finally show ?thesis .
qed

text \<open>An argument of a command line: quoted, or written as it is (then only plain characters).\<close>

datatype sh_arg = Quoted string | Bare string

definition sh_plain :: "char \<Rightarrow> bool" where
  "sh_plain c = (\<not> sh_special c \<and> \<not> sh_blank c \<and> c \<notin> {CHR 0x22, CHR 0x27, CHR 0x5C})"

fun arg_text :: "sh_arg \<Rightarrow> string" where
  "arg_text (Quoted v) = quoteForShell v"
| "arg_text (Bare v) = v"

fun arg_value :: "sh_arg \<Rightarrow> string" where
  "arg_value (Quoted v) = v"
| "arg_value (Bare v) = v"

fun arg_ok :: "sh_arg \<Rightarrow> bool" where
  "arg_ok (Quoted v) = True"
| "arg_ok (Bare v) = (v \<noteq> [] \<and> (\<forall>c \<in> set v. sh_plain c))"

definition command_line :: "sh_arg list \<Rightarrow> string" where
  "command_line as = join '' '' (map arg_text as)"

lemma sh_step_plain: "sh_mode s = ShPlain \<Longrightarrow> sh_plain c \<Longrightarrow> sh_step s c = sh_add s [c]"
  by (simp add: sh_step_def sh_plain_def)

lemma sh_run_plain:
  "sh_mode s = ShPlain \<Longrightarrow> v \<noteq> [] \<Longrightarrow> \<forall>c \<in> set v. sh_plain c \<Longrightarrow> sh_run s v = sh_add s v"
proof (induction v arbitrary: s)
  case (Cons c v)
  note st = sh_step_plain [of s c]
  show ?case
  proof (cases "v = []")
    case True
    with Cons.prems st show ?thesis by (simp add: sh_run_Cons sh_run_Nil)
  next
    case False
    with Cons.IH [of "sh_add s [c]"] Cons.prems st show ?thesis by (simp add: sh_run_Cons sh_add_add)
  qed
qed simp

lemma sh_run_arg: "sh_mode s = ShPlain \<Longrightarrow> arg_ok a \<Longrightarrow> sh_run s (arg_text a) = sh_add s (arg_value a)"
  by (cases a) (simp_all add: sh_run_quote sh_run_plain)

lemma sh_step_blank: "sh_mode s = ShPlain \<Longrightarrow> sh_step s (CHR '' '') = sh_break s []"
  by (simp add: sh_step_def sh_blank_def)

lemma sh_run_args:
  "sh_mode s = ShPlain \<Longrightarrow> sh_word s = None \<Longrightarrow> \<forall>a \<in> set as. arg_ok a \<Longrightarrow>
   sh_emit (sh_run s (command_line as)) = sh_done s @ map (\<lambda>a. ShWord (arg_value a)) as \<and>
   sh_mode (sh_run s (command_line as)) = ShPlain"
proof (induction as arbitrary: s)
  case Nil
  then show ?case by (simp add: sh_run_Nil sh_emit_def command_line_def)
next
  case (Cons a as)
  show ?case
  proof (cases as)
    case Nil
    with Cons.prems show ?thesis by (simp add: command_line_def sh_run_arg) (simp add: sh_emit_def sh_add_def)
  next
    case (Cons a' as')
    define s' where "s' = sh_break (sh_add s (arg_value a)) []"
    have s': "sh_mode s' = ShPlain" "sh_word s' = None" "sh_done s' = sh_done s @ [ShWord (arg_value a)]"
      using Cons.prems by (auto simp: s'_def sh_break_def sh_add_def sh_emit_def)
    have "command_line (a # as) = arg_text a @ '' '' @ command_line as"
      by (simp add: command_line_def Cons)
    then have "sh_run s (command_line (a # as)) = sh_run s' (command_line as)"
      using Cons.prems by (simp add: sh_run_append sh_run_Cons sh_run_arg sh_step_blank s'_def)
    with Cons.IH [OF s'(1,2)] Cons.prems(3) s'(3) show ?thesis by simp
  qed
qed

text \<open>
  The shell cuts such a line into exactly the given arguments, whatever the quoted ones contain.
\<close>

lemma sh_tokens_args:
  "\<forall>a \<in> set as. arg_ok a \<Longrightarrow> sh_tokens (command_line as) = Some (map (\<lambda>a. ShWord (arg_value a)) as)"
  using sh_run_args [of sh_start as] by (simp add: sh_tokens_def sh_start_def)

text \<open>
  After a prefix that leaves the shell outside quotes with no word begun, a quoted argument is
  exactly one more word, whatever the argument contains.
\<close>

lemma sh_tokens_prefix_quoted:
  assumes "sh_mode (sh_run sh_start pre) = ShPlain" "sh_word (sh_run sh_start pre) = None"
  shows "sh_tokens (pre @ quoteForShell v) = Some (sh_done (sh_run sh_start pre) @ [ShWord v])"
  using assms by (simp add: sh_tokens_def sh_run_append sh_run_quote) (simp add: sh_emit_def sh_add_def)

end
