(* ===== verification/Progress.thy ===== *)
theory Progress
  imports Effects
begin

text \<open>
  Progress notifications (\<open>src/tools/_shared/progress.ts\<close>): the context read off the second
  argument of a tool callback, one best-effort update, and the heartbeat timer as a small
  state machine. A rejected notification is swallowed.
\<close>

section \<open>The context\<close>

text \<open>\<open>_meta\<close> with its token, and whether a notifier function is present.\<close>

record call_meta =
  meta_token :: "jsval option"
  has_notifier :: bool

text \<open>
  The second callback argument: not an object, the v2 shape (with \<open>mcpReq\<close>), or the v1 shape.
\<close>

datatype handler_extra = NoObject | V2 call_meta | V1 call_meta

record progress_context =
  progressToken :: "jsval option"
  sendNotification :: bool

definition progressContextFrom :: "handler_extra \<Rightarrow> progress_context" where
  "progressContextFrom extra =
     (case extra of
        NoObject \<Rightarrow> \<lparr>progressToken = None, sendNotification = False\<rparr>
      | V2 v2 \<Rightarrow> \<lparr>progressToken = meta_token v2, sendNotification = has_notifier v2\<rparr>
      | V1 v1 \<Rightarrow> \<lparr>progressToken = meta_token v1, sendNotification = has_notifier v1\<rparr>)"

section \<open>One update\<close>

record progress_update =
  pu_progress :: int
  pu_total :: "int option"
  pu_message :: "string option"

definition notification :: "jsval \<Rightarrow> progress_update \<Rightarrow> jsval" where
  "notification token u =
     JObj [(''method'', JStr ''notifications/progress''),
           (''params'', JObj ([(''progressToken'', token), (''progress'', JInt (pu_progress u))]
              @ (case pu_total u of None \<Rightarrow> [] | Some t \<Rightarrow> [(''total'', JInt t)])
              @ (case pu_message u of None \<Rightarrow> [] | Some m \<Rightarrow> [(''message'', JStr m)])))]"

text \<open>The reply (whether the send was rejected) does not matter.\<close>

definition sendProgress :: "progress_context \<Rightarrow> progress_update \<Rightarrow> unit prog" where
  "sendProgress context update =
     (case progressToken context of
        None \<Rightarrow> Ret ()
      | Some token \<Rightarrow>
          if \<not> sendNotification context then Ret ()
          else Notify (notification token update) (\<lambda>_. Ret ()))"

section \<open>The heartbeat\<close>

definition HEARTBEAT_INTERVAL_MS :: int where "HEARTBEAT_INTERVAL_MS = 5000"

text \<open>
  The timer: inert (no token or sender), running with the number of beats sent so far, or
  stopped. Each timer tick sends one notification; a stopped timer does not tick.
\<close>

datatype heartbeat = Inert | Beating nat | Stopped

definition startProgressHeartbeat :: "progress_context \<Rightarrow> heartbeat" where
  "startProgressHeartbeat context =
     (if progressToken context = None \<or> \<not> sendNotification context then Inert else Beating 0)"

definition heartbeat_tick :: "progress_context \<Rightarrow> string \<Rightarrow> heartbeat \<Rightarrow> (unit prog \<times> heartbeat)" where
  "heartbeat_tick context msg h =
     (case h of
        Beating beats \<Rightarrow>
          (sendProgress context \<lparr>pu_progress = int (beats + 1), pu_total = None, pu_message = Some msg\<rparr>, Beating (beats + 1))
      | _ \<Rightarrow> (Ret (), h))"

definition heartbeat_stop :: "heartbeat \<Rightarrow> heartbeat" where
  "heartbeat_stop h = (case h of Inert \<Rightarrow> Inert | _ \<Rightarrow> Stopped)"

text \<open>\<open>n\<close> ticks in a row.\<close>

fun heartbeat_ticks :: "progress_context \<Rightarrow> string \<Rightarrow> nat \<Rightarrow> heartbeat \<Rightarrow> unit prog" where
  "heartbeat_ticks context msg 0 h = Ret ()"
| "heartbeat_ticks context msg (Suc n) h =
     (let (p, h') = heartbeat_tick context msg h in seq p (heartbeat_ticks context msg n h'))"

text \<open>
  A shell command under a heartbeat that ticks \<open>n\<close> times before the reply arrives; the timer
  is stopped in \<open>finally\<close>, so nothing is sent afterwards.
\<close>

definition execute_shell_beating :: "progress_context \<Rightarrow> string \<Rightarrow> nat \<Rightarrow> string \<Rightarrow> int \<Rightarrow> shell_result prog" where
  "execute_shell_beating context msg n command timeoutMs =
     Shell command timeoutMs (\<lambda>reply.
       seq (heartbeat_ticks context msg n (startProgressHeartbeat context))
         (case reply of Inl e \<Rightarrow> Throw e | Inr r \<Rightarrow> Ret r))"

text \<open>The same around a GraphQL call.\<close>

definition execute_gql_beating :: "progress_context \<Rightarrow> string \<Rightarrow> nat \<Rightarrow> gql_document \<Rightarrow> jsval \<Rightarrow> jsval prog" where
  "execute_gql_beating context msg n d v =
     Gql d v (\<lambda>reply.
       seq (heartbeat_ticks context msg n (startProgressHeartbeat context))
         (case reply of Inl e \<Rightarrow> Throw e | Inr r \<Rightarrow> Ret r))"

section \<open>Rules\<close>

definition is_notify :: "event \<Rightarrow> bool" where
  "is_notify e = (case e of ENotify n \<Rightarrow> True | _ \<Rightarrow> False)"

lemma emits_sendProgress [emits_intros]: "(\<And>n. P (ENotify n)) \<Longrightarrow> emits P (sendProgress c u)"
  by (simp add: sendProgress_def split: option.splits)

lemma emits_heartbeat_ticks [emits_intros]:
  "(\<And>n. P (ENotify n)) \<Longrightarrow> emits P (heartbeat_ticks c m k h)"
proof (induction c m k h rule: heartbeat_ticks.induct)
  case (2 c m n h)
  then show ?case
    by (cases h) (auto simp: heartbeat_tick_def intro!: emits_intros)
qed simp

lemma emits_shell_beating [emits_intros]:
  "P (EShell c t) \<Longrightarrow> (\<And>n. P (ENotify n)) \<Longrightarrow> emits P (execute_shell_beating ctx m k c t)"
  by (auto simp: execute_shell_beating_def split: sum.splits intro!: emits_intros)

lemma emits_gql_beating [emits_intros]:
  "P (EGql d v) \<Longrightarrow> (\<And>n. P (ENotify n)) \<Longrightarrow> emits P (execute_gql_beating ctx m k d v)"
  by (auto simp: execute_gql_beating_def split: sum.splits intro!: emits_intros)

text \<open>An update never fails and adds at most one event.\<close>

lemma run_sendProgress [prog_simps]:
  "run w tr (sendProgress c u) =
     (Inr (), tr @ (case progressToken c of None \<Rightarrow> []
                    | Some token \<Rightarrow> if sendNotification c then [ENotify (notification token u)] else []))"
  by (simp add: sendProgress_def split: option.splits)

text \<open>The notifications of \<open>n\<close> ticks count up from the beats already sent.\<close>

definition beat_note :: "jsval \<Rightarrow> string \<Rightarrow> nat \<Rightarrow> event" where
  "beat_note token msg i = ENotify (notification token \<lparr>pu_progress = int i, pu_total = None, pu_message = Some msg\<rparr>)"

lemma run_heartbeat_from:
  assumes "progressToken c = Some token" "sendNotification c"
  shows "run w tr (heartbeat_ticks c msg n (Beating b)) = (Inr (), tr @ map (beat_note token msg) [b + 1..<b + n + 1])"
proof (induction n arbitrary: tr b)
  case (Suc n)
  have "[b + 1..<b + Suc n + 1] = (b + 1) # [b + 2..<b + Suc n + 1]"
    by (simp add: upt_conv_Cons)
  with Suc [of "tr @ [beat_note token msg (b + 1)]" "b + 1"] assms show ?case
    by (simp add: heartbeat_tick_def prog_simps beat_note_def add.commute)
qed simp

lemma run_heartbeat_inert: "run w tr (heartbeat_ticks c msg n Inert) = (Inr (), tr)"
  by (induction n) (auto simp: heartbeat_tick_def prog_simps)

lemma run_heartbeat:
  "run w tr (heartbeat_ticks c msg n (startProgressHeartbeat c)) =
     (Inr (), tr @ (case progressToken c of None \<Rightarrow> []
                    | Some token \<Rightarrow> if sendNotification c then map (beat_note token msg) [1..<n + 1] else []))"
  using run_heartbeat_from [of c _ w tr msg n 0]
  by (auto simp: startProgressHeartbeat_def run_heartbeat_inert split: option.splits simp del: upt_Suc)

lemma heartbeat_ticks_quiet: "\<exists>es. run w tr (heartbeat_ticks c msg n (startProgressHeartbeat c)) = (Inr (), tr @ es)"
  by (simp add: run_heartbeat)

text \<open>A beating command returns what the plain command returns.\<close>

lemma run_shell_beating:
  "run w tr (execute_shell_beating ctx msg n c t) =
     (w_shell w tr c t,
      snd (run w (tr @ [EShell c t]) (heartbeat_ticks ctx msg n (startProgressHeartbeat ctx))))"
  by (auto simp: execute_shell_beating_def prog_simps run_heartbeat split: sum.splits)

end
