(* ===== verification/ToolSupport.thy ===== *)
theory ToolSupport
  imports Confirm Documents JsNumber ShellQuote Progress
begin

text \<open>
  What the tool handlers share: template-literal rendering of payload values, nullish
  coalescing, access to lists of a payload, the optional SSH executor, and the rules about the
  events of a handler that \<open>auto\<close> uses for them.
\<close>

section \<open>Payload values\<close>

text \<open>\<open>`${v}`\<close>.\<close>

fun display :: "jsval \<Rightarrow> string" where
  "display JUndef = ''undefined''"
| "display JNull = ''null''"
| "display (JBool b) = (if b then ''true'' else ''false'')"
| "display (JNum q) = num_text q"
| "display (JStr s) = s"
| "display (JArr xs) = join '','' (map (\<lambda>x. if nullish x then [] else display x) xs)"
| "display (JObj ms) = ''[object Object]''"

text \<open>\<open>a ?? b\<close> and JavaScript truthiness.\<close>

definition coalesce :: "jsval \<Rightarrow> jsval \<Rightarrow> jsval" where
  "coalesce a b = (if nullish a then b else a)"

definition truthy :: "jsval \<Rightarrow> bool" where
  "truthy v =
     (case v of JUndef \<Rightarrow> False | JNull \<Rightarrow> False | JBool b \<Rightarrow> b | JNum q \<Rightarrow> q \<noteq> 0 | JStr s \<Rightarrow> s \<noteq> [] | _ \<Rightarrow> True)"

text \<open>An array of the payload; iterating over anything else throws.\<close>

definition as_list :: "jsval \<Rightarrow> jsval list prog" where
  "as_list v = decode (case v of JArr xs \<Rightarrow> Some xs | _ \<Rightarrow> None)"

definition list_or_empty :: "jsval \<Rightarrow> jsval list prog" where
  "list_or_empty v = (if nullish v then Ret [] else as_list v)"

text \<open>An optional property of a JSON object: absent when the argument is.\<close>

definition opt_prop :: "string \<Rightarrow> jsval option \<Rightarrow> (string \<times> jsval) list" where
  "opt_prop k v = (case v of None \<Rightarrow> [] | Some x \<Rightarrow> [(k, x)])"

definition js_string_opt :: "string option \<Rightarrow> jsval" where
  "js_string_opt s = (case s of None \<Rightarrow> JUndef | Some t \<Rightarrow> JStr t)"

lemma emits_as_list [emits_intros]: "emits P (as_list v)"
  by (simp add: as_list_def emits_decode)

lemma emits_list_or_empty [emits_intros]: "emits P (list_or_empty v)"
  by (simp add: list_or_empty_def emits_as_list)

definition as_list_result :: "jsval \<Rightarrow> string + jsval list" where
  "as_list_result v = (case v of JArr xs \<Rightarrow> Inr xs | _ \<Rightarrow> Inl ''TypeError: unexpected payload shape'')"

lemma run_as_list [prog_simps]: "run w tr (as_list v) = (as_list_result v, tr)"
  by (simp add: as_list_def run_decode as_list_result_def split: jsval.splits)

lemma run_list_or_empty [prog_simps]:
  "run w tr (list_or_empty v) = (if nullish v then Inr [] else as_list_result v, tr)"
  by (simp add: list_or_empty_def run_as_list)

section \<open>The SSH executor of a handler\<close>

text \<open>
  \<open>shell_configured\<close> says whether the handler was built with an executor; without one it
  returns the shared refusal (\<open>if (!shell) return sshUnavailableError();\<close>).
\<close>

definition with_shell :: "bool \<Rightarrow> tool_result prog \<Rightarrow> tool_result prog" where
  "with_shell shell_configured work = (if shell_configured then work else sshUnavailableError)"

lemma emits_with_shell [emits_intros]: "emits P work \<Longrightarrow> emits P (with_shell b work)"
  by (simp add: with_shell_def emits_sshUnavailable)

lemma with_shell_off: "\<exists>t. run w tr (with_shell False work) = (Inr (mk_error (w_secrets w) t), tr)"
  by (simp add: with_shell_def run_sshUnavailable)

section \<open>Failure of the work\<close>

text \<open>\<open>try { ... } catch (error) { return toolError(prefix + message) }\<close>.\<close>

definition failing_with :: "string \<Rightarrow> tool_result prog \<Rightarrow> tool_result prog" where
  "failing_with prefix_text work = catch work (\<lambda>msg. toolError (prefix_text @ msg))"

lemma emits_failing_with [emits_intros]: "emits P work \<Longrightarrow> emits P (failing_with t work)"
  by (simp add: failing_with_def emits_catch emits_toolError)

lemma run_failing_with [prog_simps]:
  "run w tr (failing_with t work) =
     (case run w tr work of
        (Inl e, tr') \<Rightarrow> (Inr (mk_error (w_secrets w) (t @ e)), tr')
      | (Inr r, tr') \<Rightarrow> (Inr r, tr'))"
  by (simp add: failing_with_def run_catch run_toolError split: prod.splits sum.splits)

lemma failing_with_total: "\<exists>r tr'. run w tr (failing_with t work) = (Inr r, tr')"
  by (auto simp: failing_with_def run_catch run_toolError split: prod.splits sum.splits)

section \<open>Handlers that only read\<close>

definition reads_only :: "event \<Rightarrow> bool" where
  "reads_only e = (case e of EGql d v \<Rightarrow> \<not> has_mutation d | EShell c t \<Rightarrow> False | EElicit m b \<Rightarrow> False | ENotify n \<Rightarrow> True)"

lemma reads_only_simps [simp]:
  "reads_only (EGql d v) \<longleftrightarrow> \<not> has_mutation d" "\<not> reads_only (EShell c t)" "\<not> reads_only (EElicit m b)"
  "reads_only (ENotify n)"
  by (simp_all add: reads_only_def)

text \<open>A handler that queries, or runs one of a set of shell commands.\<close>

definition runs_only :: "(string \<Rightarrow> bool) \<Rightarrow> event \<Rightarrow> bool" where
  "runs_only ok e = (case e of EGql d v \<Rightarrow> \<not> has_mutation d | EShell c t \<Rightarrow> ok c | EElicit m b \<Rightarrow> False | ENotify n \<Rightarrow> True)"

lemma runs_only_simps [simp]:
  "runs_only ok (EGql d v) \<longleftrightarrow> \<not> has_mutation d" "runs_only ok (EShell c t) \<longleftrightarrow> ok c"
  "\<not> runs_only ok (EElicit m b)" "runs_only ok (ENotify n)"
  by (simp_all add: runs_only_def)

end
