(* ===== verification/ArrayTools.thy ===== *)
theory ArrayTools
  imports ToolSupport
begin

text \<open>
  The array tools: \<open>array_action\<close>, \<open>array_disk_action\<close>, \<open>parity_check\<close> and \<open>array_status\<close>
  (\<open>src/tools/array/\<close>). Each state-changing handler is a gate followed by its work; the
  interpretations of the locale \<open>gate\<close> say when a call of the tool is approved.
\<close>

section \<open>array\_action\<close>

datatype array_action = ArrayStart | ArrayStop

definition array_action_text :: "array_action \<Rightarrow> string" where
  "array_action_text a = (case a of ArrayStart \<Rightarrow> ''start'' | ArrayStop \<Rightarrow> ''stop'')"

definition DESIRED_STATE :: "array_action \<Rightarrow> string" where
  "DESIRED_STATE a = (case a of ArrayStart \<Rightarrow> ''START'' | ArrayStop \<Rightarrow> ''STOP'')"

definition REQUESTED_SUMMARY :: "array_action \<Rightarrow> string" where
  "REQUESTED_SUMMARY a =
     (case a of
        ArrayStart \<Rightarrow> ''Array start requested. Run array_status to confirm '' @ mdash @ '' state reads may lag a few seconds.''
      | ArrayStop \<Rightarrow> ''Array stop requested '' @ mdash @ '' Unraid is taking every share, Docker container, and VM offline. Run array_status to confirm '' @ mdash @ '' state reads may lag a few seconds.'')"

definition ALREADY_IN_STATE_MESSAGE :: "array_action \<Rightarrow> string" where
  "ALREADY_IN_STATE_MESSAGE a =
     (case a of ArrayStart \<Rightarrow> ''The array is already STARTED'' | ArrayStop \<Rightarrow> ''The array is already STOPPED'')"

definition CHANGE_IN_FLIGHT_MESSAGE :: string where
  "CHANGE_IN_FLIGHT_MESSAGE = ''Array state is still being updated''"

definition STATE_NOT_LOADED_MESSAGE :: string where
  "STATE_NOT_LOADED_MESSAGE = ''state was not loaded''"

definition NO_OP_SUMMARY :: "array_action \<Rightarrow> string" where
  "NO_OP_SUMMARY a =
     (case a of
        ArrayStart \<Rightarrow> ''Unraid reports the array is already STARTED '' @ mdash @ '' no action was taken.''
      | ArrayStop \<Rightarrow> ''Unraid reports the array is already stopped '' @ mdash @ '' or it is in an error state where stop does not apply (the API reports both the same way). Run array_status to see the actual state. No changes were made.'')"

record array_action_args =
  aa_format :: response_format
  aa_action :: array_action
  aa_flags :: risk_flags

definition ARRAY_STOP_REFUSAL :: string where
  \<open>ARRAY_STOP_REFUSAL = ''Refusing to stop the array: Unraid will take every share, Docker container, and VM offline until the array is started again. Re-call with "confirm": true and "acknowledge_risk": true to proceed. No changes were made.''\<close>

definition array_gateRefusal :: "channel \<Rightarrow> array_action_args \<Rightarrow> tool_result option prog" where
  "array_gateRefusal ch args =
     (if aa_action args \<noteq> ArrayStop
      then requireConfirmationInteractive ch (confirm (aa_flags args)) (array_action_text (aa_action args) @ '' the array'')
      else requireRiskAcknowledgementInteractive ch (aa_flags args) ARRAY_STOP_REFUSAL)"

definition array_outcome :: "array_action \<Rightarrow> string \<Rightarrow> string \<Rightarrow> jsval" where
  "array_outcome action outcome message =
     JObj [(''requested'', JStr (array_action_text action)), (''outcome'', JStr outcome), (''apiMessage'', JStr message)]"

definition array_mapKnownError :: "array_action \<Rightarrow> string \<Rightarrow> response_format \<Rightarrow> tool_result option prog" where
  "array_mapKnownError action message format =
     (if js_includes message (ALREADY_IN_STATE_MESSAGE action)
      then bind (formatResponse format (NO_OP_SUMMARY action) (array_outcome action ''already-in-state'' message)) (\<lambda>r. Ret (Some r))
      else if js_includes message CHANGE_IN_FLIGHT_MESSAGE
      then refuse (''Cannot '' @ array_action_text action @ '' the array: another array state change is still in progress. Retry shortly. No changes were made.'')
      else if js_includes message STATE_NOT_LOADED_MESSAGE
      then bind (formatResponse format
                  (''The array '' @ array_action_text action @ '' command was issued, but the API could not read back the array state. Run array_status to check the result.'')
                  (array_outcome action ''issued-unverified'' message)) (\<lambda>r. Ret (Some r))
      else Ret None)"

definition array_action_work :: "array_action_args \<Rightarrow> tool_result prog" where
  "array_action_work args =
     (let action = aa_action args
      in catch
          (bind (execute_gql ArraySetStateDocument
                   (JObj [(''input'', JObj [(''desiredState'', JStr (DESIRED_STATE action))])])) (\<lambda>data.
           bind (path data [''array'', ''setState'', ''state'']) (\<lambda>state.
           formatResponse (aa_format args) (REQUESTED_SUMMARY action)
             (JObj [(''requested'', JStr (array_action_text action)), (''outcome'', JStr ''requested''),
                    (''preMutationState'', state)]))))
          (\<lambda>message. bind (array_mapKnownError action message (aa_format args)) (\<lambda>known.
             case known of
               Some r \<Rightarrow> Ret r
             | None \<Rightarrow> toolError (''Failed to '' @ array_action_text action @ '' the array: '' @ message))))"

definition arrayActionHandler :: "channel \<Rightarrow> array_action_args \<Rightarrow> tool_result prog" where
  "arrayActionHandler ch args = gated (array_gateRefusal ch args) (array_action_work args)"

definition array_action_approved :: "world \<Rightarrow> event list \<Rightarrow> channel \<times> array_action_args \<Rightarrow> bool" where
  "array_action_approved w tr x =
     (case x of (ch, args) \<Rightarrow>
        (if aa_action args = ArrayStop then risk_approved w tr (ch, aa_flags args, ARRAY_STOP_REFUSAL)
         else confirm_approved w tr (ch, confirm (aa_flags args), array_action_text (aa_action args) @ '' the array'')))"

interpretation array_gate: gate "\<lambda>(ch, args). array_gateRefusal ch args" array_action_approved
  by unfold_locales
     (auto simp: array_gateRefusal_def array_action_approved_def run_confirm_gate run_risk_gate
        confirm_approved_def risk_approved_def asked_events_def intro!: emits_confirm_gate emits_risk_gate split: if_splits)

lemma array_mapKnownError_spec:
  "\<exists>r. run w tr (array_mapKnownError a m f) = (Inr r, tr)"
  by (auto simp: array_mapKnownError_def prog_simps)

lemma emits_array_mapKnownError [emits_intros]: "emits P (array_mapKnownError a m f)"
  by (auto simp: array_mapKnownError_def intro!: emits_intros)

lemma emits_array_action_work:
  "P (EGql ArraySetStateDocument (JObj [(''input'', JObj [(''desiredState'', JStr (DESIRED_STATE (aa_action args)))])]))
   \<Longrightarrow> emits P (array_action_work args)"
  by (auto simp: array_action_work_def Let_def intro!: emits_intros)

section \<open>array\_disk\_action\<close>

datatype disk_action = DiskAdd | DiskMount | DiskUnmount | DiskClearStatistics

definition disk_action_text :: "disk_action \<Rightarrow> string" where
  "disk_action_text a =
     (case a of DiskAdd \<Rightarrow> ''add'' | DiskMount \<Rightarrow> ''mount'' | DiskUnmount \<Rightarrow> ''unmount''
      | DiskClearStatistics \<Rightarrow> ''clear_statistics'')"

definition NEEDS_STOPPED_ARRAY :: "disk_action set" where "NEEDS_STOPPED_ARRAY = {DiskAdd}"

definition NEEDS_STARTED_ARRAY :: "disk_action set" where
  "NEEDS_STARTED_ARRAY = {DiskMount, DiskUnmount, DiskClearStatistics}"

definition SLOT_ACTIONS :: "disk_action set" where "SLOT_ACTIONS = {DiskAdd}"

text \<open>The action argument: one of the schema's, or the retired \<open>remove\<close> of older clients.\<close>

datatype disk_action_arg = RetiredRemove | Known disk_action

definition RETIRED_REMOVE_MESSAGE :: string where
  \<open>RETIRED_REMOVE_MESSAGE = ''Action "remove" was retired by the Unraid API (4.37+): remove a disk from the array in the web UI (Main '' @ rarrow @ '' array devices, with the array stopped). No changes were made.''\<close>

record array_disk_args =
  ad_format :: response_format
  ad_id :: string
  ad_slot :: "int option"
  ad_flags :: risk_flags

definition disk_refusalMessage :: "disk_action \<Rightarrow> string \<Rightarrow> string" where
  \<open>disk_refusalMessage action i =
     (let consequence =
            (if action \<in> NEEDS_STOPPED_ARRAY
             then ''changes which disks are part of the protected array '' @ mdash @ '' a wrong disk here risks data loss''
             else ''changes a live array disk\'s mount/statistics state'')
      in ''Refusing to '' @ disk_action_text action @ '' disk '' @ i @ '': this '' @ consequence @ ''. Re-call with "confirm": true and "acknowledge_risk": true to proceed. No changes were made.'')\<close>

definition statePrecondition :: "disk_action \<Rightarrow> tool_result option prog" where
  "statePrecondition action =
     bind (execute_gql ArrayStateProbeDocument JUndef) (\<lambda>data.
     bind (path data [''array'', ''state'']) (\<lambda>state.
       if action \<in> NEEDS_STOPPED_ARRAY \<and> state \<noteq> JStr ''STOPPED''
       then refuse (''Cannot '' @ disk_action_text action @ '' a disk while the array state is '' @ display state @ '': Unraid requires a STOPPED array for membership changes. Stop it first with array_action (this takes shares, containers, and VMs offline). No changes were made.'')
       else if action \<in> NEEDS_STARTED_ARRAY \<and> state \<noteq> JStr ''STARTED''
       then refuse (''Cannot '' @ disk_action_text action @ '' disk while the array state is '' @ display state @ '': this action needs a STARTED array. Start it with array_action. No changes were made.'')
       else Ret None))"

definition slot_value :: "int option \<Rightarrow> jsval" where
  "slot_value s = (case s of None \<Rightarrow> JUndef | Some n \<Rightarrow> JInt n)"

definition disk_mutation :: "disk_action \<Rightarrow> array_disk_args \<Rightarrow> gql_document \<times> jsval" where
  "disk_mutation action args =
     (case action of
        DiskAdd \<Rightarrow> (ArrayDiskAddDocument, JObj [(''input'', JObj [(''id'', JStr (ad_id args)), (''slot'', slot_value (ad_slot args))])])
      | DiskMount \<Rightarrow> (ArrayDiskMountDocument, JObj [(''id'', JStr (ad_id args))])
      | DiskUnmount \<Rightarrow> (ArrayDiskUnmountDocument, JObj [(''id'', JStr (ad_id args))])
      | DiskClearStatistics \<Rightarrow> (ArrayDiskClearStatsDocument, JObj [(''id'', JStr (ad_id args))]))"

definition runDiskAction :: "disk_action \<Rightarrow> array_disk_args \<Rightarrow> jsval prog" where
  "runDiskAction action args = (let (d, v) = disk_mutation action args in execute_gql d v)"

definition disk_successSummary :: "disk_action \<Rightarrow> string \<Rightarrow> string" where
  "disk_successSummary action i =
     ''Disk '' @ disk_action_text action @ '' requested for '' @ i @ ''. The API returns a pre-mutation snapshot, so verify the result with array_status and disk_list.''"

definition array_disk_work :: "disk_action \<Rightarrow> array_disk_args \<Rightarrow> tool_result prog" where
  "array_disk_work action args =
     failing_with (''Failed to '' @ disk_action_text action @ '' disk '' @ ad_id args @ '': '')
       (bind (statePrecondition action) (\<lambda>failure.
          case failure of
            Some r \<Rightarrow> Ret r
          | None \<Rightarrow>
              bind (runDiskAction action args) (\<lambda>_.
              formatResponse (ad_format args) (disk_successSummary action (ad_id args))
                (JObj [(''action'', JStr (disk_action_text action)), (''id'', JStr (ad_id args)),
                       (''slot'', slot_value (ad_slot args)), (''requested'', JBool True)]))))"

definition arrayDiskActionHandler :: "channel \<Rightarrow> disk_action_arg \<Rightarrow> array_disk_args \<Rightarrow> tool_result prog" where
  "arrayDiskActionHandler ch arg args =
     (case arg of
        RetiredRemove \<Rightarrow> toolError RETIRED_REMOVE_MESSAGE
      | Known action \<Rightarrow>
          if ad_slot args \<noteq> None \<and> action \<notin> SLOT_ACTIONS
          then toolError (backtick @ ''slot'' @ backtick @ '' is only valid with action '' @ dquote @ ''add'' @ dquote @ ''. No changes were made.'')
          else gated (requireRiskAcknowledgementInteractive ch (ad_flags args) (disk_refusalMessage action (ad_id args)))
                 (array_disk_work action args))"

text \<open>
  A disk mutation is only sent after a probe that reported the state the action needs.
\<close>

definition required_state :: "disk_action \<Rightarrow> string" where
  "required_state action = (if action \<in> NEEDS_STOPPED_ARRAY then ''STOPPED'' else ''STARTED'')"

lemma every_action_needs_a_state: "action \<in> NEEDS_STOPPED_ARRAY \<longleftrightarrow> action \<notin> NEEDS_STARTED_ARRAY"
  by (cases action) (auto simp: NEEDS_STOPPED_ARRAY_def NEEDS_STARTED_ARRAY_def)

definition probed_state :: "world \<Rightarrow> event list \<Rightarrow> jsval option" where
  "probed_state w tr =
     (case w_gql w tr ArrayStateProbeDocument JUndef of
        Inl e \<Rightarrow> None
      | Inr data \<Rightarrow> (case path_result data [''array'', ''state''] of Inl e \<Rightarrow> None | Inr state \<Rightarrow> Some state))"

lemma run_statePrecondition:
  obtains x where "run w tr (statePrecondition action) = (x, tr @ [EGql ArrayStateProbeDocument JUndef])"
    "x = Inr None \<Longrightarrow> probed_state w tr = Some (JStr (required_state action))"
proof (cases "probed_state w tr")
  case None
  then have "\<exists>e. run w tr (statePrecondition action) = (Inl e, tr @ [EGql ArrayStateProbeDocument JUndef])"
    by (auto simp: statePrecondition_def run_bind run_execute_gql run_path probed_state_def
        simp del: path.simps path_result.simps split: sum.splits)
  then show thesis using that by blast
next
  case (Some state)
  then obtain data where "w_gql w tr ArrayStateProbeDocument JUndef = Inr data"
    "path_result data [''array'', ''state''] = Inr state"
    by (auto simp: probed_state_def simp del: path_result.simps split: sum.splits)
  then have "\<exists>r. run w tr (statePrecondition action) =
      (Inr (if state = JStr (required_state action) then None else Some r), tr @ [EGql ArrayStateProbeDocument JUndef])"
    using every_action_needs_a_state [of action]
    by (auto simp: statePrecondition_def run_bind run_execute_gql run_path run_refuse required_state_def
        simp del: path.simps path_result.simps)
  then obtain r where "run w tr (statePrecondition action) =
      (Inr (if state = JStr (required_state action) then None else Some r), tr @ [EGql ArrayStateProbeDocument JUndef])" ..
  then show thesis by (rule that) (use Some in \<open>auto split: if_splits\<close>)
qed

lemma array_disk_work_probes:
  assumes "EGql d v \<in> set (snd (run w tr (array_disk_work action args))) - set tr" "has_mutation d"
  shows "probed_state w tr = Some (JStr (required_state action))"
proof (rule ccontr)
  assume no: "probed_state w tr \<noteq> Some (JStr (required_state action))"
  obtain x where x: "run w tr (statePrecondition action) = (x, tr @ [EGql ArrayStateProbeDocument JUndef])" "x \<noteq> Inr None"
    using run_statePrecondition no by metis
  have "snd (run w tr (array_disk_work action args)) = tr @ [EGql ArrayStateProbeDocument JUndef]"
    using x(2) by (cases x) (auto simp: array_disk_work_def run_failing_with run_bind x(1) split: option.splits)
  with assms show False by auto
qed

section \<open>parity\_check\<close>

datatype parity_action = ParityStart | ParityPause | ParityResume | ParityCancel

definition parity_action_text :: "parity_action \<Rightarrow> string" where
  "parity_action_text a =
     (case a of ParityStart \<Rightarrow> ''start'' | ParityPause \<Rightarrow> ''pause'' | ParityResume \<Rightarrow> ''resume'' | ParityCancel \<Rightarrow> ''cancel'')"

definition DEFAULT_CORRECT :: bool where "DEFAULT_CORRECT = False"

definition POINT_TO_STATUS :: string where
  "POINT_TO_STATUS = ''Run array_status to confirm '' @ mdash @ '' status reads may lag a few seconds.''"

definition INVALID_STATE_MESSAGE :: string where "INVALID_STATE_MESSAGE = ''Invalid parity check state''"
definition HISTORY_READ_MESSAGE :: string where "HISTORY_READ_MESSAGE = ''Parity history file not found''"

record parity_args =
  pc_format :: response_format
  pc_action :: parity_action
  pc_correct :: "bool option"
  pc_confirm :: "bool option"

definition parity_describeAction :: "parity_args \<Rightarrow> string" where
  "parity_describeAction args =
     (if pc_action args \<noteq> ParityStart then parity_action_text (pc_action args) @ '' the parity check''
      else if pc_correct args = Some True then ''start a correcting parity check (writes corrections to parity)''
      else ''start a read-only parity check'')"

definition parity_gateRefusal :: "channel \<Rightarrow> parity_args \<Rightarrow> tool_result option prog" where
  "parity_gateRefusal ch args =
     (if pc_correct args \<noteq> None \<and> pc_action args \<noteq> ParityStart
      then refuse (backtick @ ''correct'' @ backtick @ '' is only valid with action '' @ dquote @ ''start'' @ dquote @ '' (it selects a correcting check). No changes were made.'')
      else requireConfirmationInteractive ch (pc_confirm args) (parity_describeAction args))"

definition parity_runAction :: "parity_action \<Rightarrow> bool \<Rightarrow> jsval prog" where
  "parity_runAction action correct =
     (case action of
        ParityStart \<Rightarrow> execute_gql ParityCheckStartDocument (JObj [(''correct'', JBool correct)])
      | ParityPause \<Rightarrow> execute_gql ParityCheckPauseDocument JUndef
      | ParityResume \<Rightarrow> execute_gql ParityCheckResumeDocument JUndef
      | ParityCancel \<Rightarrow> execute_gql ParityCheckCancelDocument JUndef)"

definition parity_summarize :: "parity_action \<Rightarrow> bool \<Rightarrow> string" where
  "parity_summarize action correct =
     (if action = ParityStart
      then ''Parity check start requested ('' @ (if correct then ''correcting '' @ mdash @ '' writes corrections to parity'' else ''read-only'') @ ''). '' @ POINT_TO_STATUS
      else ''Parity check '' @ parity_action_text action @ '' requested. '' @ POINT_TO_STATUS @ '' If no check was running, Unraid may accept this with no effect.'')"

definition parity_mapKnownError :: "parity_action \<Rightarrow> string \<Rightarrow> response_format \<Rightarrow> tool_result option prog" where
  "parity_mapKnownError action message format =
     (if js_includes message INVALID_STATE_MESSAGE
      then refuse (''Unraid refused to '' @ parity_action_text action @ '' the parity check '' @ mdash @ '' a check is already running (run array_status to see it). No changes were made.'')
      else if js_includes message HISTORY_READ_MESSAGE
      then bind (formatResponse format
                  (''The parity check '' @ parity_action_text action @ '' command was issued, but the API'' @ squote @ ''s post-command history read failed. '' @ POINT_TO_STATUS)
                  (JObj [(''requested'', JStr (parity_action_text action)), (''outcome'', JStr ''issued-unverified''), (''apiMessage'', JStr message)]))
             (\<lambda>r. Ret (Some r))
      else Ret None)"

definition parity_work :: "parity_args \<Rightarrow> tool_result prog" where
  "parity_work args =
     (let action = pc_action args;
          correct = (case pc_correct args of None \<Rightarrow> DEFAULT_CORRECT | Some b \<Rightarrow> b)
      in catch
          (bind (parity_runAction action correct) (\<lambda>_.
             formatResponse (pc_format args) (parity_summarize action correct)
               (JObj [(''requested'', JStr (parity_action_text action)), (''correct'', JBool correct), (''outcome'', JStr ''requested'')])))
          (\<lambda>message. bind (parity_mapKnownError action message (pc_format args)) (\<lambda>known.
             case known of
               Some r \<Rightarrow> Ret r
             | None \<Rightarrow> toolError (''Failed to '' @ parity_action_text action @ '' the parity check: '' @ message))))"

definition parityCheckHandler :: "channel \<Rightarrow> parity_args \<Rightarrow> tool_result prog" where
  "parityCheckHandler ch args = gated (parity_gateRefusal ch args) (parity_work args)"

definition parity_approved :: "world \<Rightarrow> event list \<Rightarrow> channel \<times> parity_args \<Rightarrow> bool" where
  "parity_approved w tr x =
     (case x of (ch, args) \<Rightarrow>
        \<not> (pc_correct args \<noteq> None \<and> pc_action args \<noteq> ParityStart) \<and>
        confirm_approved w tr (ch, pc_confirm args, parity_describeAction args))"

interpretation parity_gate: gate "\<lambda>(ch, args). parity_gateRefusal ch args" parity_approved
  by unfold_locales
     (auto simp: parity_gateRefusal_def parity_approved_def run_confirm_gate run_refuse
        confirm_approved_def asked_events_def intro!: emits_confirm_gate emits_refuse split: if_splits)

text \<open>Corrections are only written when the caller asked for them on a start.\<close>

lemma parity_correcting:
  assumes "EGql ParityCheckStartDocument v \<in> set (events_of w (parityCheckHandler ch args))" "getp v ''correct'' = JBool True"
  shows "pc_action args = ParityStart \<and> pc_correct args = Some True"
proof -
  let ?P = "\<lambda>e. \<forall>v. e = EGql ParityCheckStartDocument v \<longrightarrow> getp v ''correct'' = JBool True \<longrightarrow>
     pc_action args = ParityStart \<and> pc_correct args = Some True"
  have "emits ?P (parity_work args)"
    by (auto simp: parity_work_def parity_runAction_def parity_mapKnownError_def Let_def DEFAULT_CORRECT_def
          ParityCheckStartDocument_def ParityCheckPauseDocument_def ParityCheckResumeDocument_def ParityCheckCancelDocument_def mk_doc_def
        split: parity_action.splits option.splits intro!: emits_intros)
  moreover have "emits ?P (parity_gateRefusal ch args)"
    using parity_gate.guard_asks [of "(ch, args)"] by (auto elim!: emits_mono)
  ultimately have "emits ?P (parityCheckHandler ch args)"
    unfolding parityCheckHandler_def by (rule emits_gated [rotated])
  from events_emits [OF this assms(1)] assms(2) show ?thesis by blast
qed

section \<open>array\_status\<close>

definition ACTIVE_CHECK_STATUSES :: "string list" where "ACTIVE_CHECK_STATUSES = [''RUNNING'', ''PAUSED'']"

definition describeParity :: "jsval \<Rightarrow> string" where
  "describeParity parity =
     (if getp parity ''status'' \<in> JStr ` set ACTIVE_CHECK_STATUSES
      then ''Parity check '' @ display (getp parity ''status'') @ '': '' @ display (coalesce (getp parity ''progress'') (JNum 0)) @ ''% at '' @ display (coalesce (getp parity ''speed'') (JStr ''?'')) @ '' MB/s''
      else ''Parity: '' @ display (getp parity ''status'') @ '' (errors: see parity_history)'')"

definition number_field :: "jsval \<Rightarrow> rat" where
  "number_field v = toNumber (case v of JStr s \<Rightarrow> Some s | JNum q \<Rightarrow> Some (num_text q) | _ \<Rightarrow> None)"

definition array_summarize :: "jsval \<Rightarrow> string prog" where
  "array_summarize data =
     bind (path data [''array'', ''capacity'', ''kilobytes'', ''total'']) (\<lambda>total.
     bind (path data [''array'', ''capacity'', ''kilobytes'', ''used'']) (\<lambda>used.
     bind (path data [''array'', ''disks'']) (\<lambda>disks0. bind (as_list disks0) (\<lambda>disks.
     bind (path data [''array'', ''parityCheckStatus'', ''status'']) (\<lambda>_.
     bind (path data [''array'', ''parities'']) (\<lambda>parities0. bind (as_list parities0) (\<lambda>parities.
     bind (path data [''array'', ''caches'']) (\<lambda>caches0. bind (as_list caches0) (\<lambda>caches.
       (let totalKb = number_field total; usedKb = number_field used;
            percent = (if totalKb > 0 then math_round (usedKb / totalKb * 100) else 0);
            dataOk = length (filter (\<lambda>d. getp d ''status'' = JStr ''DISK_OK'') disks);
            arr = getp data ''array''
        in Ret (''Array '' @ display (getp arr ''state'') @ '' '' @ mdash @ '' '' @ humanizeKilobytes (Finite usedKb) @ '' / '' @ humanizeKilobytes (Finite totalKb)
             @ '' used ('' @ show_int percent @ ''%). '' @ describeParity (getp arr ''parityCheckStatus'') @ ''. Disks: '' @ show_nat dataOk @ ''/'' @ show_nat (length disks)
             @ '' data OK, '' @ show_nat (length parities) @ '' parity, '' @ show_nat (length caches) @ '' cache.''))))))))))) "

text \<open>\<open>cacheAgeMs\<close> is the age that the snapshot cache stamps on an answer it gives.\<close>

definition members :: "jsval \<Rightarrow> (string \<times> jsval) list" where
  "members v = (case v of JObj ms \<Rightarrow> ms | _ \<Rightarrow> [])"

definition arrayStatusHandler :: "(jsval \<Rightarrow> int option) \<Rightarrow> response_format \<Rightarrow> tool_result prog" where
  "arrayStatusHandler cacheAgeMs format =
     failing_with ''Failed to fetch array status: ''
       (bind (execute_gql ArrayStatusDocument JUndef) (\<lambda>data.
        bind (prop_of data ''array'') (\<lambda>arr.
        bind (array_summarize data) (\<lambda>concise.
        formatStructuredResponse format concise (JObj (upsert ''data_age_ms'' (JInt (case cacheAgeMs data of None \<Rightarrow> 0 | Some a \<Rightarrow> a)) (members arr)))))))"

lemma arrayStatus_reads: "emits reads_only (arrayStatusHandler cacheAgeMs format)"
  unfolding arrayStatusHandler_def array_summarize_def
  by (intro emits_intros) simp_all

end
