(* ===== verification/Payload.thy ===== *)
theory Payload
  imports ToolSupport "HOL-Library.Multiset"
begin

text \<open>
  Reading payloads at their declared types, and the array methods of the standard library the
  tools use on them. A decoder returns \<open>None\<close> when the value does not have the shape the
  GraphQL schema promises. \<open>js_sort\<close> is \<open>Array.prototype.sort\<close>, which is stable; the locale
  \<open>comparator\<close> holds its specification for a comparison that is total and transitive.
\<close>

section \<open>Decoders\<close>

definition dec_str :: "jsval \<Rightarrow> string option" where
  "dec_str v = (case v of JStr s \<Rightarrow> Some s | _ \<Rightarrow> None)"

definition dec_bool :: "jsval \<Rightarrow> bool option" where
  "dec_bool v = (case v of JBool b \<Rightarrow> Some b | _ \<Rightarrow> None)"

definition dec_int :: "jsval \<Rightarrow> int option" where
  "dec_int v = (case v of JNum q \<Rightarrow> if of_int \<lfloor>q\<rfloor> = q then Some \<lfloor>q\<rfloor> else None | _ \<Rightarrow> None)"

text \<open>A nullable field: the outer \<open>None\<close> is a wrong shape, the inner one is null.\<close>

definition nullable :: "(jsval \<Rightarrow> 'a option) \<Rightarrow> jsval \<Rightarrow> 'a option option" where
  "nullable dec v = (if nullish v then Some None else map_option Some (dec v))"

fun dec_all :: "(jsval \<Rightarrow> 'a option) \<Rightarrow> jsval list \<Rightarrow> 'a list option" where
  "dec_all dec [] = Some []"
| "dec_all dec (v # vs) =
     (case (dec v, dec_all dec vs) of (Some x, Some xs) \<Rightarrow> Some (x # xs) | _ \<Rightarrow> None)"

definition dec_list :: "(jsval \<Rightarrow> 'a option) \<Rightarrow> jsval \<Rightarrow> 'a list option" where
  "dec_list dec v = (case v of JArr vs \<Rightarrow> dec_all dec vs | _ \<Rightarrow> None)"

definition js_opt_int :: "int option \<Rightarrow> jsval" where
  "js_opt_int n = (case n of None \<Rightarrow> JUndef | Some i \<Rightarrow> JInt i)"

definition js_null_int :: "int option \<Rightarrow> jsval" where
  "js_null_int n = (case n of None \<Rightarrow> JNull | Some i \<Rightarrow> JInt i)"

definition js_null_str :: "string option \<Rightarrow> jsval" where
  "js_null_str s = (case s of None \<Rightarrow> JNull | Some t \<Rightarrow> JStr t)"

section \<open>Sets and maps in insertion order\<close>

text \<open>\<open>[...new Set(xs)]\<close>: the first occurrence of each element.\<close>

fun uniq_from :: "'a list \<Rightarrow> 'a list \<Rightarrow> 'a list" where
  "uniq_from seen [] = []"
| "uniq_from seen (x # xs) = (if x \<in> set seen then uniq_from seen xs else x # uniq_from (x # seen) xs)"

definition js_uniq :: "'a list \<Rightarrow> 'a list" where
  "js_uniq xs = uniq_from [] xs"

lemma set_uniq_from: "set (uniq_from seen xs) = set xs - set seen"
  by (induction seen xs rule: uniq_from.induct) auto

lemma set_js_uniq [simp]: "set (js_uniq xs) = set xs"
  by (simp add: js_uniq_def set_uniq_from)

lemma distinct_uniq_from: "distinct (uniq_from seen xs)"
  by (induction seen xs rule: uniq_from.induct) (auto simp: set_uniq_from)

lemma distinct_js_uniq [simp]: "distinct (js_uniq xs)"
  by (simp add: js_uniq_def distinct_uniq_from)

text \<open>\<open>xs.filter((x, i) => xs.indexOf(x) !== i)\<close>: every occurrence after the first.\<close>

fun repeats_from :: "'a list \<Rightarrow> 'a list \<Rightarrow> 'a list" where
  "repeats_from seen [] = []"
| "repeats_from seen (x # xs) = (if x \<in> set seen then x # repeats_from seen xs else repeats_from (x # seen) xs)"

lemma repeats_from_empty: "repeats_from seen xs = [] \<longleftrightarrow> distinct xs \<and> set xs \<inter> set seen = {}"
  by (induction seen xs rule: repeats_from.induct) auto

text \<open>\<open>new Map(pairs).get(k)\<close>: the last pair wins.\<close>

definition js_map_get :: "('k \<times> 'v) list \<Rightarrow> 'k \<Rightarrow> 'v option" where
  "js_map_get ps k = map_of (rev ps) k"

section \<open>Sorting\<close>

fun sort_insert :: "('a \<Rightarrow> 'a \<Rightarrow> int) \<Rightarrow> 'a \<Rightarrow> 'a list \<Rightarrow> 'a list" where
  "sort_insert cmp x [] = [x]"
| "sort_insert cmp x (y # ys) = (if cmp x y \<le> 0 then x # y # ys else y # sort_insert cmp x ys)"

definition js_sort :: "('a \<Rightarrow> 'a \<Rightarrow> int) \<Rightarrow> 'a list \<Rightarrow> 'a list" where
  "js_sort cmp xs = foldr (sort_insert cmp) xs []"

lemma mset_sort_insert: "mset (sort_insert cmp x ys) = add_mset x (mset ys)"
  by (induction cmp x ys rule: sort_insert.induct) auto

lemma mset_js_sort [simp]: "mset (js_sort cmp xs) = mset xs"
  by (induction xs) (auto simp: js_sort_def mset_sort_insert)

lemma set_js_sort [simp]: "set (js_sort cmp xs) = set xs"
  by (metis mset_js_sort set_mset_mset)

lemma length_js_sort [simp]: "length (js_sort cmp xs) = length xs"
  by (metis mset_js_sort size_mset)

locale comparator =
  fixes cmp :: "'a \<Rightarrow> 'a \<Rightarrow> int"
  assumes cmp_total: "cmp x y \<le> 0 \<or> cmp y x \<le> 0"
    and cmp_trans: "cmp x y \<le> 0 \<Longrightarrow> cmp y z \<le> 0 \<Longrightarrow> cmp x z \<le> 0"
begin

lemma set_sort_insert: "set (sort_insert cmp x ys) = insert x (set ys)"
  by (induction ys) auto

lemma sorted_sort_insert:
  "sorted_wrt (\<lambda>a b. cmp a b \<le> 0) ys \<Longrightarrow> sorted_wrt (\<lambda>a b. cmp a b \<le> 0) (sort_insert cmp x ys)"
proof (induction ys)
  case (Cons y ys)
  show ?case
  proof (cases "cmp x y \<le> 0")
    case True
    with Cons.prems show ?thesis by (auto intro: cmp_trans)
  next
    case False
    then have "cmp y x \<le> 0" using cmp_total by blast
    with False Cons show ?thesis by (auto simp: set_sort_insert)
  qed
qed simp

lemma sorted_js_sort: "sorted_wrt (\<lambda>a b. cmp a b \<le> 0) (js_sort cmp xs)"
  by (induction xs) (auto simp: js_sort_def sorted_sort_insert)

text \<open>Elements that compare equal keep their order.\<close>

lemma filter_sort_insert:
  assumes "\<And>a b. P a \<Longrightarrow> P b \<Longrightarrow> cmp a b \<le> 0"
  shows "filter P (sort_insert cmp x ys) = (if P x then x # filter P ys else filter P ys)"
  using assms by (induction ys) auto

lemma stable_js_sort:
  assumes "\<And>a b. P a \<Longrightarrow> P b \<Longrightarrow> cmp a b \<le> 0"
  shows "filter P (js_sort cmp xs) = filter P xs"
  using assms by (induction xs) (auto simp: js_sort_def filter_sort_insert)

end

end
