(* ===== verification/DockerTools.thy ===== *)
theory DockerTools
  imports Payload
begin

text \<open>
  The state-changing Docker tools (\<open>src/tools/docker/\<close>): \<open>docker_autostart_set\<close>,
  \<open>docker_container_action\<close>, \<open>docker_container_remove\<close> and \<open>docker_container_update\<close>.
\<close>

definition stripLeadingSlash :: "string option \<Rightarrow> string \<Rightarrow> string" where
  "stripLeadingSlash name fallback =
     (case name of None \<Rightarrow> fallback | Some n \<Rightarrow> if starts_with n ''/'' then drop 1 n else n)"

section \<open>docker\_autostart\_set\<close>

record container =
  c_id :: string
  c_names :: "string list"
  c_autoStart :: bool
  c_autoStartOrder :: "int option"
  c_autoStartWait :: "int option"

definition dec_container :: "jsval \<Rightarrow> container option" where
  "dec_container v =
     (case (dec_str (getp v ''id''), dec_list dec_str (getp v ''names''), dec_bool (getp v ''autoStart''),
            nullable dec_int (getp v ''autoStartOrder''), nullable dec_int (getp v ''autoStartWait'')) of
        (Some i, Some ns, Some a, Some ordr, Some wt) \<Rightarrow>
          Some \<lparr>c_id = i, c_names = ns, c_autoStart = a, c_autoStartOrder = ordr, c_autoStartWait = wt\<rparr>
      | _ \<Rightarrow> None)"

record change =
  ch_id :: string
  auto_start :: bool
  ch_wait :: "int option"

record merged_entry =
  me_id :: string
  me_autoStart :: bool
  me_wait :: "int option"
  me_order :: "int option"

definition validateChanges :: "change list \<Rightarrow> container list \<Rightarrow> string option" where
  "validateChanges changes containers =
     (let ids = map ch_id changes;
          duplicates = js_uniq (repeats_from [] ids)
      in if length duplicates > 0
         then Some (''Duplicate container id(s) in changes: '' @ join '', '' duplicates @ ''. No changes were made.'')
         else (let unknown = filter (\<lambda>i. i \<notin> set (map c_id containers)) ids
               in if length unknown > 0
                  then Some (''Unknown container id(s): '' @ join '', '' unknown @ ''. No changes were made.'')
                  else None))"

definition mergeEntry :: "container \<Rightarrow> change option \<Rightarrow> merged_entry" where
  "mergeEntry c chg =
     \<lparr>me_id = c_id c,
      me_autoStart = (case chg of Some x \<Rightarrow> auto_start x | None \<Rightarrow> c_autoStart c),
      me_wait = (case chg of
                   Some x \<Rightarrow> (case ch_wait x of Some n \<Rightarrow> Some n | None \<Rightarrow> c_autoStartWait c)
                 | None \<Rightarrow> c_autoStartWait c),
      me_order = c_autoStartOrder c\<rparr>"

definition compareByOrder :: "merged_entry \<Rightarrow> merged_entry \<Rightarrow> int" where
  "compareByOrder a b =
     (case (me_order a, me_order b) of
        (None, None) \<Rightarrow> 0 | (None, Some _) \<Rightarrow> 1 | (Some _, None) \<Rightarrow> -1 | (Some x, Some y) \<Rightarrow> x - y)"

definition merged_entries :: "container list \<Rightarrow> change list \<Rightarrow> merged_entry list" where
  "merged_entries containers changes =
     map (\<lambda>c. mergeEntry c (js_map_get (map (\<lambda>x. (ch_id x, x)) changes) (c_id c))) containers"

definition entry_json :: "merged_entry \<Rightarrow> jsval" where
  "entry_json e = JObj [(''id'', JStr (me_id e)), (''autoStart'', JBool (me_autoStart e)), (''wait'', js_opt_int (me_wait e))]"

text \<open>\<open>buildEntries\<close> sorts the merged entries and keeps three of their fields.\<close>

definition sorted_entries :: "container list \<Rightarrow> change list \<Rightarrow> merged_entry list" where
  "sorted_entries containers changes = js_sort compareByOrder (merged_entries containers changes)"

definition buildEntries :: "container list \<Rightarrow> change list \<Rightarrow> jsval" where
  "buildEntries containers changes = JArr (map entry_json (sorted_entries containers changes))"

definition describeChange :: "change \<Rightarrow> string \<Rightarrow> string" where
  "describeChange x name =
     (let state = (if auto_start x then ''ON'' else ''OFF'');
          wt = (case ch_wait x of
                  Some n \<Rightarrow> if auto_start x \<and> n \<noteq> 0 then '' (wait '' @ show_int n @ ''s)'' else []
                | None \<Rightarrow> [])
      in name @ '' '' @ state @ wt)"

definition first_name :: "string list \<Rightarrow> string option" where
  "first_name ns = (case ns of [] \<Rightarrow> None | n # _ \<Rightarrow> Some n)"

definition buildNameById :: "container list \<Rightarrow> (string \<times> string) list" where
  "buildNameById containers = map (\<lambda>c. (c_id c, stripLeadingSlash (first_name (c_names c)) (c_id c))) containers"

definition name_or_id :: "container list \<Rightarrow> string \<Rightarrow> string" where
  "name_or_id containers i = (case js_map_get (buildNameById containers) i of Some n \<Rightarrow> n | None \<Rightarrow> i)"

definition detailChanges :: "change list \<Rightarrow> container list \<Rightarrow> jsval" where
  "detailChanges changes containers =
     JArr (map (\<lambda>x. JObj [(''id'', JStr (ch_id x)), (''name'', JStr (name_or_id containers (ch_id x))),
                          (''autoStart'', JBool (auto_start x)), (''wait'', js_null_int (ch_wait x))]) changes)"

definition autostart_summarize :: "bool \<Rightarrow> change list \<Rightarrow> container list \<Rightarrow> bool \<Rightarrow> string" where
  "autostart_summarize ok changes containers persist =
     (if \<not> ok then ''Autostart not updated (the API returned false); no boot-time change took effect.''
      else ''Autostart updated: '' @ join '', '' (map (\<lambda>x. describeChange x (name_or_id containers (ch_id x))) changes)
           @ '' '' @ mdash @ '' '' @ (if persist then ''autostart file + WebGUI prefs'' else ''autostart file only'')
           @ ''; effective next array/Docker start.'')"

record autostart_args =
  as_format :: response_format
  as_changes :: "change list"
  as_persist :: bool
  as_confirm :: "bool option"

definition AUTOSTART_DESCRIPTION :: string where
  "AUTOSTART_DESCRIPTION = ''change Docker autostart configuration''"

definition autostart_work :: "autostart_args \<Rightarrow> tool_result prog" where
  "autostart_work args =
     failing_with ''Failed to update Docker autostart: ''
       (bind (execute_gql DockerAutostartStateDocument JUndef) (\<lambda>data.
        bind (path data [''docker'', ''containers'']) (\<lambda>cs.
        bind (decode (dec_list dec_container cs)) (\<lambda>containers.
        (case validateChanges (as_changes args) containers of
           Some err \<Rightarrow> toolError err
         | None \<Rightarrow>
             bind (execute_gql DockerSetAutostartDocument
                     (JObj [(''entries'', buildEntries containers (as_changes args)), (''persist'', JBool (as_persist args))])) (\<lambda>res.
             bind (path res [''docker'', ''updateAutostartConfiguration'']) (\<lambda>ok.
             formatResponse (as_format args)
               (autostart_summarize (truthy ok) (as_changes args) containers (as_persist args))
               (JObj [(''ok'', ok), (''persisted'', JBool (as_persist args)),
                      (''changes'', detailChanges (as_changes args) containers)]))))))))"

definition dockerAutostartSetHandler :: "channel \<Rightarrow> autostart_args \<Rightarrow> tool_result prog" where
  "dockerAutostartSetHandler ch args =
     gated (requireConfirmationInteractive ch (as_confirm args) AUTOSTART_DESCRIPTION) (autostart_work args)"

section \<open>The resubmitted configuration\<close>

interpretation order: comparator compareByOrder
  by unfold_locales (auto simp: compareByOrder_def split: option.splits)

lemma validateChanges_None:
  "validateChanges changes containers = None \<longleftrightarrow>
     distinct (map ch_id changes) \<and> set (map ch_id changes) \<subseteq> set (map c_id containers)"
proof -
  have "js_uniq (repeats_from [] (map ch_id changes)) = [] \<longleftrightarrow> distinct (map ch_id changes)"
    using set_js_uniq [of "repeats_from [] (map ch_id changes)"] repeats_from_empty [of "[]" "map ch_id changes"]
    by (metis inf_bot_right list.set(1) set_empty)
  then show ?thesis by (auto simp: validateChanges_def Let_def filter_empty_conv)
qed

text \<open>Every container is resubmitted exactly once.\<close>

lemma sorted_entries_ids: "mset (map me_id (sorted_entries containers changes)) = mset (map c_id containers)"
proof -
  have "mset (map me_id (sorted_entries containers changes)) = mset (map me_id (merged_entries containers changes))"
    by (metis mset_js_sort mset_map sorted_entries_def)
  also have "map me_id (merged_entries containers changes) = map c_id containers"
    by (simp add: merged_entries_def mergeEntry_def)
  finally show ?thesis .
qed

text \<open>A container without a change keeps its setting; a changed one gets the requested one.\<close>

lemma js_map_get_distinct:
  "distinct (map fst ps) \<Longrightarrow> (k, v) \<in> set ps \<Longrightarrow> js_map_get ps k = Some v"
  unfolding js_map_get_def by (rule map_of_is_SomeI) (simp_all add: rev_map [symmetric])

lemma js_map_get_absent: "k \<notin> fst ` set ps \<Longrightarrow> js_map_get ps k = None"
  by (simp add: js_map_get_def map_of_eq_None_iff)

lemma merged_unchanged:
  assumes "c \<in> set containers" "c_id c \<notin> set (map ch_id changes)"
  shows "\<lparr>me_id = c_id c, me_autoStart = c_autoStart c, me_wait = c_autoStartWait c, me_order = c_autoStartOrder c\<rparr>
           \<in> set (sorted_entries containers changes)"
proof -
  have "js_map_get (map (\<lambda>x. (ch_id x, x)) changes) (c_id c) = None"
    by (rule js_map_get_absent) (use assms in auto)
  then have "mergeEntry c (js_map_get (map (\<lambda>x. (ch_id x, x)) changes) (c_id c))
      = \<lparr>me_id = c_id c, me_autoStart = c_autoStart c, me_wait = c_autoStartWait c, me_order = c_autoStartOrder c\<rparr>"
    by (simp add: mergeEntry_def)
  from this [symmetric] show ?thesis unfolding sorted_entries_def set_js_sort merged_entries_def set_map
    by (rule image_eqI) (rule assms(1))
qed

lemma merged_changed:
  assumes "c \<in> set containers" "x \<in> set changes" "ch_id x = c_id c" "distinct (map ch_id changes)"
  shows "mergeEntry c (Some x) \<in> set (sorted_entries containers changes)"
proof -
  have "(c_id c, x) \<in> set (map (\<lambda>x. (ch_id x, x)) changes)"
    using assms(2,3) by force
  moreover have "distinct (map fst (map (\<lambda>x. (ch_id x, x)) changes))" using assms(4) by (simp add: o_def)
  ultimately have "js_map_get (map (\<lambda>x. (ch_id x, x)) changes) (c_id c) = Some x"
    by (intro js_map_get_distinct)
  then have "mergeEntry c (Some x) = mergeEntry c (js_map_get (map (\<lambda>x. (ch_id x, x)) changes) (c_id c))"
    by simp
  then show ?thesis unfolding sorted_entries_def set_js_sort merged_entries_def set_map
    by (rule image_eqI) (rule assms(1))
qed

lemma sorted_entries_sorted: "sorted_wrt (\<lambda>a b. compareByOrder a b \<le> 0) (sorted_entries containers changes)"
  by (simp add: sorted_entries_def order.sorted_js_sort)

text \<open>Entries without a position keep the order the API listed them in.\<close>

lemma sorted_entries_stable:
  "filter (\<lambda>e. me_order e = k) (sorted_entries containers changes) =
   filter (\<lambda>e. me_order e = k) (merged_entries containers changes)"
  unfolding sorted_entries_def by (rule order.stable_js_sort) (auto simp: compareByOrder_def split: option.splits)

section \<open>docker\_container\_action\<close>

datatype container_action = CStart | CStop | CPause | CUnpause | CRestart

definition container_action_text :: "container_action \<Rightarrow> string" where
  "container_action_text a =
     (case a of CStart \<Rightarrow> ''start'' | CStop \<Rightarrow> ''stop'' | CPause \<Rightarrow> ''pause'' | CUnpause \<Rightarrow> ''unpause'' | CRestart \<Rightarrow> ''restart'')"

definition container_PAST_TENSE :: "container_action \<Rightarrow> string" where
  "container_PAST_TENSE a =
     (case a of CStart \<Rightarrow> ''Started'' | CStop \<Rightarrow> ''Stopped'' | CPause \<Rightarrow> ''Paused'' | CUnpause \<Rightarrow> ''Unpaused'' | CRestart \<Rightarrow> ''Restarted'')"

definition READBACK_QUIRK :: string where "READBACK_QUIRK = ''not found after''"

definition container_document :: "container_action \<Rightarrow> gql_document" where
  "container_document a =
     (case a of CStart \<Rightarrow> DockerStartDocument | CStop \<Rightarrow> DockerStopDocument | CPause \<Rightarrow> DockerPauseDocument
      | CUnpause \<Rightarrow> DockerUnpauseDocument | CRestart \<Rightarrow> DockerRestartDocument)"

definition container_runAction :: "container_action \<Rightarrow> string \<Rightarrow> jsval prog" where
  "container_runAction a i =
     bind (execute_gql (container_document a) (JObj [(''id'', JStr i)])) (\<lambda>data.
       path data [''docker'', container_action_text a])"

record container_args =
  ca_format :: response_format
  ca_id :: string
  ca_action :: container_action
  ca_confirm :: "bool option"

definition container_action_work :: "container_args \<Rightarrow> tool_result prog" where
  "container_action_work args =
     (let a = ca_action args; i = ca_id args
      in catch
          (bind (container_runAction a i) (\<lambda>cont.
           bind (prop_of cont ''names'') (\<lambda>ns.
           bind (decode (dec_list dec_str ns)) (\<lambda>names.
             formatResponse (ca_format args)
               (container_PAST_TENSE a @ '' container '' @ stripLeadingSlash (first_name names) i @ ''.'') cont))))
          (\<lambda>msg.
             if js_includes msg READBACK_QUIRK
             then toolText (''Requested '' @ container_action_text a @ '' for container '' @ i @ ''. The API could not read the container back after the action (a known quirk, most common when addressing by name instead of id); the '' @ container_action_text a @ '' very likely succeeded. Verify with docker_container_list.'')
             else toolError (''Failed to '' @ container_action_text a @ '' container '' @ i @ '': '' @ msg)))"

definition dockerContainerActionHandler :: "channel \<Rightarrow> container_args \<Rightarrow> tool_result prog" where
  "dockerContainerActionHandler ch args =
     gated (requireConfirmationInteractive ch (ca_confirm args)
              (container_action_text (ca_action args) @ '' container '' @ ca_id args))
       (container_action_work args)"

lemma container_document_mutates [simp]: "has_mutation (container_document a)"
  by (cases a) (simp_all add: container_document_def)

section \<open>docker\_container\_remove\<close>

record remove_args =
  rm_format :: response_format
  rm_id :: string
  rm_with_image :: "bool option"
  rm_confirm :: "bool option"

definition js_bool_opt :: "bool option \<Rightarrow> jsval" where
  "js_bool_opt b = (case b of None \<Rightarrow> JUndef | Some x \<Rightarrow> JBool x)"

definition remove_summarize :: "string \<Rightarrow> bool \<Rightarrow> bool option \<Rightarrow> string" where
  "remove_summarize i removed withImage =
     (if \<not> removed then ''Container '' @ i @ '' was not removed (API returned false).''
      else ''Removed container '' @ i @ ''.'' @ (if is_true withImage then '' Image removal attempted (best-effort).'' else []))"

definition container_remove_work :: "remove_args \<Rightarrow> tool_result prog" where
  "container_remove_work args =
     failing_with (''Failed to remove container '' @ rm_id args @ '': '')
       (bind (execute_gql DockerRemoveContainerDocument
                (JObj [(''id'', JStr (rm_id args)), (''withImage'', js_bool_opt (rm_with_image args))])) (\<lambda>data.
        bind (path data [''docker'', ''removeContainer'']) (\<lambda>removed.
        formatResponse (rm_format args) (remove_summarize (rm_id args) (truthy removed) (rm_with_image args))
          (JObj [(''removed'', removed)]))))"

definition dockerContainerRemoveHandler :: "channel \<Rightarrow> remove_args \<Rightarrow> tool_result prog" where
  "dockerContainerRemoveHandler ch args =
     gated (requireConfirmationInteractive ch (rm_confirm args) (''remove container '' @ rm_id args))
       (container_remove_work args)"

section \<open>docker\_container\_update\<close>

datatype update_target = TargetError string | UpdateAll | UpdateIds "string list"

definition resolveTarget :: "string list option \<Rightarrow> bool option \<Rightarrow> update_target" where
  "resolveTarget ids all =
     (case ids of
        Some (i # is) \<Rightarrow>
          if is_true all then TargetError (''Provide either '' @ backtick @ ''ids'' @ backtick @ '' or '' @ backtick @ ''all'' @ backtick @ '', not both.'')
          else UpdateIds (i # is)
      | _ \<Rightarrow>
          if \<not> is_true all then TargetError (''Provide '' @ backtick @ ''ids'' @ backtick @ '' (one or more) or '' @ backtick @ ''all: true'' @ backtick @ ''.'')
          else UpdateAll)"

definition runUpdate :: "update_target \<Rightarrow> jsval prog" where
  "runUpdate t =
     (case t of
        UpdateIds ids \<Rightarrow>
          bind (execute_gql DockerUpdateContainersDocument (JObj [(''ids'', JArr (map JStr ids))])) (\<lambda>data.
            path data [''docker'', ''updateContainers''])
      | _ \<Rightarrow> bind (execute_gql DockerUpdateAllDocument JUndef) (\<lambda>data. path data [''docker'', ''updateAllContainers'']))"

definition update_summarize :: "string list list \<Rightarrow> string" where
  "update_summarize containers =
     (if length containers = 0 then ''No containers had an available update.''
      else ''Update requested for '' @ show_nat (length containers) @ '' container(s): ''
           @ join '', '' (map (\<lambda>ns. stripLeadingSlash (first_name ns) ''(unnamed)'') containers) @ ''.'')"

record update_args =
  up_format :: response_format
  up_ids :: "string list option"
  up_all :: "bool option"
  up_confirm :: "bool option"

definition progress_step :: "int \<Rightarrow> string \<Rightarrow> progress_update" where
  "progress_step n msg = \<lparr>pu_progress = n, pu_total = Some 1, pu_message = Some msg\<rparr>"

definition container_update_work :: "handler_extra \<Rightarrow> update_args \<Rightarrow> tool_result prog" where
  "container_update_work extra args =
     (case resolveTarget (up_ids args) (up_all args) of
        TargetError err \<Rightarrow> toolError err
      | target \<Rightarrow>
          (let ctx = progressContextFrom extra;
               label = (case target of UpdateIds ids \<Rightarrow> show_nat (length ids) @ '' container(s)'' | _ \<Rightarrow> ''all updatable containers'')
           in failing_with ''Failed to update Docker container(s): ''
                (seq (sendProgress ctx (progress_step 0 (''Updating '' @ label @ ''...'')))
                  (bind (runUpdate target) (\<lambda>v.
                   seq (sendProgress ctx (progress_step 1 ''Update finished.''))
                     (bind (decode (dec_list (\<lambda>c. dec_list dec_str (getp c ''names'')) v)) (\<lambda>names.
                        formatResponse (up_format args) (update_summarize names) v)))))))"

definition dockerContainerUpdateHandler :: "channel \<Rightarrow> handler_extra \<Rightarrow> update_args \<Rightarrow> tool_result prog" where
  "dockerContainerUpdateHandler ch extra args =
     gated (requireConfirmationInteractive ch (up_confirm args) ''update Docker container(s)'')
       (container_update_work extra args)"

text \<open>An update names exactly the containers the caller listed, or all of them on request.\<close>

lemma resolveTarget_ids: "resolveTarget ids all = UpdateIds is \<longleftrightarrow> ids = Some is \<and> is \<noteq> [] \<and> \<not> is_true all"
  by (auto simp: resolveTarget_def split: option.splits list.splits)

lemma resolveTarget_all: "resolveTarget ids all = UpdateAll \<longleftrightarrow> (ids = None \<or> ids = Some []) \<and> is_true all"
  by (auto simp: resolveTarget_def split: option.splits list.splits)

end
