(* ===== verification/VmTools.thy ===== *)
theory VmTools
  imports Payload
begin

text \<open>
  \<open>vm_action\<close> (\<open>src/tools/vm/vm-action.ts\<close>): the target is resolved against the live list of
  domains, by id first and by name second, before the lifecycle mutation is sent.
\<close>

definition stripServerPrefix :: "string \<Rightarrow> string" where
  "stripServerPrefix i = (let parts = split_on '':'' i in if length parts = 2 then parts ! 1 else i)"

datatype vm_action = VStart | VStop | VPause | VResume | VForceStop | VReboot | VReset

definition vm_action_text :: "vm_action \<Rightarrow> string" where
  "vm_action_text a =
     (case a of VStart \<Rightarrow> ''start'' | VStop \<Rightarrow> ''stop'' | VPause \<Rightarrow> ''pause'' | VResume \<Rightarrow> ''resume''
      | VForceStop \<Rightarrow> ''forceStop'' | VReboot \<Rightarrow> ''reboot'' | VReset \<Rightarrow> ''reset'')"

definition UNGRACEFUL :: "vm_action set" where "UNGRACEFUL = {VForceStop, VReset}"

definition vm_PAST_TENSE :: "vm_action \<Rightarrow> string" where
  "vm_PAST_TENSE a =
     (case a of VStart \<Rightarrow> ''Started'' | VStop \<Rightarrow> ''Stopped'' | VPause \<Rightarrow> ''Paused'' | VResume \<Rightarrow> ''Resumed''
      | VForceStop \<Rightarrow> ''Force-stopped'' | VReboot \<Rightarrow> ''Rebooted'' | VReset \<Rightarrow> ''Reset'')"

record vm_domain =
  vm_id :: string
  vm_name :: "string option"

definition dec_domain :: "jsval \<Rightarrow> vm_domain option" where
  "dec_domain v =
     (case (dec_str (getp v ''id''), nullable dec_str (getp v ''name'')) of
        (Some i, Some n) \<Rightarrow> Some \<lparr>vm_id = i, vm_name = n\<rparr> | _ \<Rightarrow> None)"

record vm_args =
  va_format :: response_format
  va_vm :: string
  va_action :: vm_action
  va_flags :: risk_flags

definition vm_refusal :: "vm_action \<Rightarrow> string \<Rightarrow> string" where
  \<open>vm_refusal a vm = ''Refusing to '' @ vm_action_text a @ '' VM '' @ vm @ '': this ungraceful action can corrupt the guest filesystem (like pulling the power). Re-call with "confirm": true and "acknowledge_risk": true to proceed. No changes were made.''\<close>

definition vm_gateRefusal :: "channel \<Rightarrow> vm_args \<Rightarrow> tool_result option prog" where
  "vm_gateRefusal ch args =
     (if va_action args \<notin> UNGRACEFUL
      then requireConfirmationInteractive ch (confirm (va_flags args)) (vm_action_text (va_action args) @ '' VM '' @ va_vm args)
      else requireRiskAcknowledgementInteractive ch (va_flags args) (vm_refusal (va_action args) (va_vm args)))"

definition matchesId :: "vm_domain \<Rightarrow> string \<Rightarrow> bool" where
  "matchesId d vm = (vm_id d = vm \<or> stripServerPrefix (vm_id d) = stripServerPrefix vm)"

fun find_first :: "('a \<Rightarrow> bool) \<Rightarrow> 'a list \<Rightarrow> 'a option" where
  "find_first P [] = None"
| "find_first P (x # xs) = (if P x then Some x else find_first P xs)"

definition name_matches :: "vm_domain \<Rightarrow> string \<Rightarrow> bool" where
  "name_matches d vm = (map_option to_lower (vm_name d) = Some (to_lower vm))"

definition resolveVm :: "vm_domain list \<Rightarrow> string \<Rightarrow> string + vm_domain" where
  "resolveVm domains vm =
     (case find_first (\<lambda>d. matchesId d vm) domains of
        Some d \<Rightarrow> Inr d
      | None \<Rightarrow>
          (case filter (\<lambda>d. name_matches d vm) domains of
             [d] \<Rightarrow> Inr d
           | [] \<Rightarrow> Inl (''No VM matches '' @ squote @ vm @ squote @ ''.'')
           | ds \<Rightarrow> Inl (''Multiple VMs named '' @ squote @ vm @ squote @ '': '' @ join '', '' (map vm_id ds) @ ''. Pass the id to disambiguate.'')))"

definition vm_document :: "vm_action \<Rightarrow> gql_document" where
  "vm_document a =
     (case a of VStart \<Rightarrow> VmStartDocument | VStop \<Rightarrow> VmStopDocument | VPause \<Rightarrow> VmPauseDocument
      | VResume \<Rightarrow> VmResumeDocument | VForceStop \<Rightarrow> VmForceStopDocument | VReboot \<Rightarrow> VmRebootDocument
      | VReset \<Rightarrow> VmResetDocument)"

definition vm_runAction :: "vm_action \<Rightarrow> string \<Rightarrow> jsval prog" where
  "vm_runAction a i =
     bind (execute_gql (vm_document a) (JObj [(''id'', JStr i)])) (\<lambda>data. path data [''vm'', vm_action_text a])"

definition vm_summarize :: "vm_action \<Rightarrow> string \<Rightarrow> bool \<Rightarrow> string" where
  "vm_summarize a label ok =
     (if \<not> ok then ''VM '' @ label @ '': '' @ vm_action_text a @ '' returned false instead of confirming success. Run vm_list to check the current state.''
      else vm_PAST_TENSE a @ '' VM '' @ label @ ''.'')"

definition vm_work :: "vm_args \<Rightarrow> tool_result prog" where
  "vm_work args =
     (let a = va_action args; vm = va_vm args
      in failing_with (''Failed to '' @ vm_action_text a @ '' VM '' @ vm @ '': '')
          (bind (execute_gql VmResolveDocument JUndef) (\<lambda>data.
           bind (path data [''vms'', ''domains'']) (\<lambda>ds.
           bind (list_or_empty ds) (\<lambda>raw.
           bind (decode (dec_all dec_domain raw)) (\<lambda>domains.
             (case resolveVm domains vm of
                Inl err \<Rightarrow> toolError err
              | Inr d \<Rightarrow>
                  bind (vm_runAction a (vm_id d)) (\<lambda>ok.
                  formatResponse (va_format args)
                    (vm_summarize a (case vm_name d of Some n \<Rightarrow> n | None \<Rightarrow> vm_id d) (truthy ok))
                    (JObj [(''ok'', ok), (''action'', JStr (vm_action_text a)), (''id'', JStr (vm_id d)),
                           (''name'', js_null_str (vm_name d))])))))))))"

definition vmActionHandler :: "channel \<Rightarrow> vm_args \<Rightarrow> tool_result prog" where
  "vmActionHandler ch args = gated (vm_gateRefusal ch args) (vm_work args)"

section \<open>Approval\<close>

definition vm_approved :: "world \<Rightarrow> event list \<Rightarrow> channel \<times> vm_args \<Rightarrow> bool" where
  "vm_approved w tr x =
     (case x of (ch, args) \<Rightarrow>
        (if va_action args \<in> UNGRACEFUL
         then risk_approved w tr (ch, va_flags args, vm_refusal (va_action args) (va_vm args))
         else confirm_approved w tr (ch, confirm (va_flags args), vm_action_text (va_action args) @ '' VM '' @ va_vm args)))"

interpretation vm_gate: gate "\<lambda>(ch, args). vm_gateRefusal ch args" vm_approved
  by unfold_locales
     (auto simp: vm_gateRefusal_def vm_approved_def run_confirm_gate run_risk_gate
        confirm_approved_def risk_approved_def asked_events_def intro!: emits_confirm_gate emits_risk_gate split: if_splits)

section \<open>Resolution\<close>

lemma find_first_Some: "find_first P xs = Some x \<Longrightarrow> x \<in> set xs \<and> P x"
  by (induction xs) (auto split: if_splits)

lemma find_first_None: "find_first P xs = None \<longleftrightarrow> (\<forall>x \<in> set xs. \<not> P x)"
  by (induction xs) auto

lemma resolveVm_Inr:
  "resolveVm domains vm = Inr d \<Longrightarrow>
   d \<in> set domains \<and> (matchesId d vm \<or> (\<forall>x \<in> set domains. \<not> matchesId x vm) \<and> filter (\<lambda>x. name_matches x vm) domains = [d])"
proof (cases "find_first (\<lambda>d. matchesId d vm) domains")
  case (Some y)
  assume "resolveVm domains vm = Inr d"
  with Some find_first_Some [OF Some] show ?thesis by (simp add: resolveVm_def)
next
  case None
  assume r: "resolveVm domains vm = Inr d"
  with None have f: "filter (\<lambda>x. name_matches x vm) domains = [d]"
    by (auto simp: resolveVm_def split: list.splits)
  then have "d \<in> set domains" by (metis filter_is_subset list.set_intros(1) subsetD)
  with f None show ?thesis by (simp add: find_first_None)
qed

text \<open>The mutation goes to a listed domain that the argument identifies.\<close>

lemma vm_document_mutates [simp]: "has_mutation (vm_document a)"
  by (cases a) (simp_all add: vm_document_def)

text \<open>The domains the server listed, at the point of the run where the list was asked for.\<close>

definition listed_domains :: "world \<Rightarrow> event list \<Rightarrow> vm_domain list option" where
  "listed_domains w tr =
     (case w_gql w tr VmResolveDocument JUndef of
        Inl e \<Rightarrow> None
      | Inr data \<Rightarrow>
          (case path_result data [''vms'', ''domains''] of
             Inl e \<Rightarrow> None
           | Inr ds \<Rightarrow>
               (case (if nullish ds then Inr [] else as_list_result ds) of
                  Inl e \<Rightarrow> None
                | Inr raw \<Rightarrow> dec_all dec_domain raw)))"

definition vm_mutation :: "vm_args \<Rightarrow> vm_domain \<Rightarrow> event" where
  "vm_mutation args d = EGql (vm_document (va_action args)) (JObj [(''id'', JStr (vm_id d))])"

lemma run_vm_runAction:
  "\<exists>x. run w tr (vm_runAction a i) = (x, tr @ [EGql (vm_document a) (JObj [(''id'', JStr i)])])"
  by (simp add: vm_runAction_def run_bind run_execute_gql run_path del: path.simps split: sum.splits)

text \<open>The list is read first; the mutation follows only for a resolved target, with its id.\<close>

definition vm_resolve :: "string \<Rightarrow> (string + vm_domain) prog" where
  "vm_resolve vm =
     bind (execute_gql VmResolveDocument JUndef) (\<lambda>data.
     bind (path data [''vms'', ''domains'']) (\<lambda>ds.
     bind (list_or_empty ds) (\<lambda>raw.
     bind (decode (dec_all dec_domain raw)) (\<lambda>domains. Ret (resolveVm domains vm)))))"

lemma run_vm_resolve:
  "\<exists>e. run w tr (vm_resolve vm) =
     (case listed_domains w tr of None \<Rightarrow> Inl e | Some ds \<Rightarrow> Inr (resolveVm ds vm), tr @ [EGql VmResolveDocument JUndef])"
  by (auto simp: vm_resolve_def run_bind run_execute_gql run_path run_list_or_empty run_decode listed_domains_def
      simp del: path.simps path_result.simps split: sum.splits option.splits)

lemma vm_work_resolve:
  "vm_work args =
     failing_with (''Failed to '' @ vm_action_text (va_action args) @ '' VM '' @ va_vm args @ '': '')
       (bind (vm_resolve (va_vm args)) (\<lambda>target.
          case target of
            Inl err \<Rightarrow> toolError err
          | Inr d \<Rightarrow>
              bind (vm_runAction (va_action args) (vm_id d)) (\<lambda>ok.
              formatResponse (va_format args)
                (vm_summarize (va_action args) (case vm_name d of Some n \<Rightarrow> n | None \<Rightarrow> vm_id d) (truthy ok))
                (JObj [(''ok'', ok), (''action'', JStr (vm_action_text (va_action args))), (''id'', JStr (vm_id d)),
                       (''name'', js_null_str (vm_name d))]))))"
  by (simp add: vm_work_def vm_resolve_def Let_def bind_assoc)

lemma vm_work_trace:
  "snd (run w tr (vm_work args)) =
     tr @ [EGql VmResolveDocument JUndef] @
       (case listed_domains w tr of
          None \<Rightarrow> []
        | Some ds \<Rightarrow> (case resolveVm ds (va_vm args) of Inl err \<Rightarrow> [] | Inr d \<Rightarrow> [vm_mutation args d]))"
proof -
  obtain e where r: "run w tr (vm_resolve (va_vm args)) =
     (case listed_domains w tr of None \<Rightarrow> Inl e | Some ds \<Rightarrow> Inr (resolveVm ds (va_vm args)), tr @ [EGql VmResolveDocument JUndef])"
    using run_vm_resolve by blast
  show ?thesis
  proof (cases "listed_domains w tr")
    case None
    with r show ?thesis by (simp add: vm_work_resolve run_failing_with run_bind)
  next
    case (Some ds)
    show ?thesis
    proof (cases "resolveVm ds (va_vm args)")
      case (Inl err)
      with Some r show ?thesis by (simp add: vm_work_resolve run_failing_with run_bind run_toolError)
    next
      case (Inr d)
      obtain x where "run w (tr @ [EGql VmResolveDocument JUndef]) (vm_runAction (va_action args) (vm_id d)) =
          (x, (tr @ [EGql VmResolveDocument JUndef]) @ [vm_mutation args d])"
        using run_vm_runAction unfolding vm_mutation_def by blast
      with Some Inr r show ?thesis
        by (cases x) (simp_all add: vm_work_resolve run_failing_with run_bind run_formatResponse)
    qed
  qed
qed

end
