(* ===== verification/ServiceTools.thy ===== *)
theory ServiceTools
  imports Payload
begin

text \<open>
  The rc.d service tools (\<open>src/tools/service/\<close>): \<open>service_action\<close>, which verifies its effect by
  a status read-back, and \<open>service_list\<close>.
\<close>

section \<open>Services\<close>

datatype service = Samba | Nfs | Sshd | Docker | Libvirt | Tailscale

definition service_name :: "service \<Rightarrow> string" where
  "service_name s =
     (case s of Samba \<Rightarrow> ''samba'' | Nfs \<Rightarrow> ''nfs'' | Sshd \<Rightarrow> ''sshd'' | Docker \<Rightarrow> ''docker'' | Libvirt \<Rightarrow> ''libvirt''
      | Tailscale \<Rightarrow> ''tailscale'')"

definition SERVICES :: "service \<Rightarrow> string" where
  "SERVICES s =
     (case s of Samba \<Rightarrow> ''rc.samba'' | Nfs \<Rightarrow> ''rc.nfsd'' | Sshd \<Rightarrow> ''rc.sshd'' | Docker \<Rightarrow> ''rc.docker''
      | Libvirt \<Rightarrow> ''rc.libvirt'' | Tailscale \<Rightarrow> ''rc.tailscale'')"

definition SERVICE_NAMES :: "service list" where
  "SERVICE_NAMES = [Samba, Nfs, Sshd, Docker, Libvirt, Tailscale]"

definition RC_DIR :: string where "RC_DIR = ''/etc/rc.d''"
definition SERVICE_TIMEOUT_MS :: int where "SERVICE_TIMEOUT_MS = 120000"
definition service_PROBE_TIMEOUT_MS :: int where "service_PROBE_TIMEOUT_MS = 10000"
definition NOT_INSTALLED_MARKER :: string where "NOT_INSTALLED_MARKER = ''NOT_INSTALLED''"

datatype service_state = Running | StoppedState | NotInstalled | UnknownState

definition service_state_text :: "service_state \<Rightarrow> string" where
  "service_state_text s =
     (case s of Running \<Rightarrow> ''running'' | StoppedState \<Rightarrow> ''stopped'' | NotInstalled \<Rightarrow> ''not_installed''
      | UnknownState \<Rightarrow> ''unknown'')"

definition rcScript :: "service \<Rightarrow> string" where
  "rcScript s = RC_DIR @ ''/'' @ SERVICES s"

definition rcCommand :: "service \<Rightarrow> string \<Rightarrow> string" where
  "rcCommand s verb = quoteForShell (rcScript s) @ '' '' @ verb"

text \<open>The regular expressions are literal, case-insensitive searches.\<close>

definition parseStatusOutput :: "string \<Rightarrow> service_state" where
  "parseStatusOutput out =
     (let line = trim out
      in if line = NOT_INSTALLED_MARKER then NotInstalled
         else if js_includes (to_lower line) ''currently running'' then Running
         else if js_includes (to_lower line) ''not running'' then StoppedState
         else UnknownState)"

section \<open>service\_action\<close>

datatype service_verb = SRestart | SStart | SStop

definition service_verb_text :: "service_verb \<Rightarrow> string" where
  "service_verb_text v = (case v of SRestart \<Rightarrow> ''restart'' | SStart \<Rightarrow> ''start'' | SStop \<Rightarrow> ''stop'')"

definition NEVER_STOP :: "service set" where "NEVER_STOP = {Docker, Libvirt}"

definition EXPECTED_STATE :: "service_verb \<Rightarrow> service_state" where
  "EXPECTED_STATE v = (case v of SRestart \<Rightarrow> Running | SStart \<Rightarrow> Running | SStop \<Rightarrow> StoppedState)"

record service_args =
  sa_format :: "response_format option"
  sa_service :: service
  sa_action :: service_verb
  sa_allow_stop :: "bool option"
  sa_flags :: risk_flags

text \<open>The service is one of the enumeration, so the unknown-service branch cannot be taken.\<close>

definition service_validate :: "service_args \<Rightarrow> string option" where
  \<open>service_validate args =
     (if sa_action args = SStop \<and> sa_service args \<in> NEVER_STOP
      then Some (''Refusing to stop '' @ service_name (sa_service args) @ '': that takes every container/VM offline '' @ mdash @ '' stop the array with array_action or use the web UI instead. No changes were made.'')
      else if sa_action args = SStop \<and> \<not> is_true (sa_allow_stop args)
      then Some (''Refusing to stop '' @ service_name (sa_service args) @ '': stopping it cuts off every client using it (shares/SSH). Re-call with "allow_stop": true as well if that is intended. No changes were made.'')
      else None)\<close>

definition service_refusalMessage :: "service_args \<Rightarrow> string" where
  \<open>service_refusalMessage args =
     ''Refusing to '' @ service_verb_text (sa_action args) @ '' '' @ service_name (sa_service args) @ '': this interrupts the service for every client using it ('' @ SERVICES (sa_service args) @ '' '' @ service_verb_text (sa_action args) @ ''). Re-call with "confirm": true and "acknowledge_risk": true to proceed. No changes were made.''\<close>

definition service_renderOutcome :: "service_args \<Rightarrow> service_state \<Rightarrow> string \<Rightarrow> tool_result prog" where
  "service_renderOutcome args state detail =
     (let verified = (state = EXPECTED_STATE (sa_action args));
          verb = service_verb_text (sa_action args);
          payload = JObj [(''service'', JStr (service_name (sa_service args))), (''action'', JStr verb),
                          (''stateAfter'', JStr (service_state_text state)), (''verified'', JBool verified),
                          (''detail'', JStr detail)]
      in if \<not> verified
         then toolError (SERVICES (sa_service args) @ '' '' @ verb @ '' ran, but the status read-back says: '' @ dquote @ detail @ dquote @ '' (state ''
                @ service_state_text state @ '', expected '' @ service_state_text (EXPECTED_STATE (sa_action args)) @ ''). Check the syslog with log_read.'')
         else formatResponse (case sa_format args of None \<Rightarrow> Concise | Some f \<Rightarrow> f)
                (service_name (sa_service args) @ '' '' @ verb @ '' done '' @ mdash @ '' state now '' @ service_state_text state @ '' (verified: '' @ dquote @ detail @ dquote @ '')'')
                payload)"

definition first_nonempty :: "string \<Rightarrow> string \<Rightarrow> string" where
  "first_nonempty a b = (if a \<noteq> [] then a else b)"

definition runVerb :: "service_args \<Rightarrow> tool_result prog" where
  "runVerb args =
     (let s = sa_service args; verb = service_verb_text (sa_action args)
      in bind (execute_shell (''test -x '' @ quoteForShell (rcScript s)) service_PROBE_TIMEOUT_MS) (\<lambda>probe.
         if exitCode probe \<noteq> 0
         then toolError (service_name s @ '' is not installed on this server ('' @ rcScript s @ '' is missing). No changes were made.'')
         else bind (execute_shell (rcCommand s verb) SERVICE_TIMEOUT_MS) (\<lambda>act.
           if exitCode act \<noteq> 0
           then toolError (SERVICES s @ '' '' @ verb @ '' failed (exit '' @ show_int (exitCode act) @ ''): '' @ first_nonempty (trim (stderr act)) (trim (stdout act)))
           else bind (execute_shell (rcCommand s ''status'') service_PROBE_TIMEOUT_MS) (\<lambda>status.
             service_renderOutcome args (parseStatusOutput (stdout status)) (trim (stdout status))))))"

definition serviceActionHandler :: "bool \<Rightarrow> channel \<Rightarrow> service_args \<Rightarrow> tool_result prog" where
  "serviceActionHandler shell ch args =
     with_shell shell
       (case service_validate args of
          Some err \<Rightarrow> toolError err
        | None \<Rightarrow>
            gated (requireRiskAcknowledgementInteractive ch (sa_flags args) (service_refusalMessage args))
              (failing_with (''Failed to '' @ service_verb_text (sa_action args) @ '' '' @ service_name (sa_service args) @ '' over SSH: '')
                (runVerb args)))"

section \<open>What the handler may run\<close>

text \<open>The three commands of a call.\<close>

definition service_commands :: "service_args \<Rightarrow> string list" where
  "service_commands args =
     [''test -x '' @ quoteForShell (rcScript (sa_service args)),
      rcCommand (sa_service args) (service_verb_text (sa_action args)),
      rcCommand (sa_service args) ''status'']"

definition service_event_ok :: "service_args \<Rightarrow> event \<Rightarrow> bool" where
  "service_event_ok args e =
     (case e of EShell c t \<Rightarrow> c \<in> set (service_commands args) \<and> service_validate args = None
      | EElicit m b \<Rightarrow> True | _ \<Rightarrow> False)"

lemma service_events: "emits (service_event_ok args) (serviceActionHandler shell ch args)"
  unfolding serviceActionHandler_def runVerb_def service_renderOutcome_def Let_def
  by (intro emits_intros) (simp_all add: service_event_ok_def service_commands_def)

text \<open>
  A call ends in success only when the read-back, run last, showed the expected state after the
  verb exited with 0.
\<close>

definition shell_ok :: "world \<Rightarrow> event list \<Rightarrow> string \<Rightarrow> int \<Rightarrow> shell_result option" where
  "shell_ok w tr c t = (case w_shell w tr c t of Inl e \<Rightarrow> None | Inr r \<Rightarrow> Some r)"

lemma runVerb_success:
  assumes "run w tr (runVerb args) = (Inr r, tr')" "\<not> isError r"
  defines "s \<equiv> sa_service args" and "verb \<equiv> service_verb_text (sa_action args)"
  defines "tr1 \<equiv> tr @ [EShell (''test -x '' @ quoteForShell (rcScript s)) service_PROBE_TIMEOUT_MS]"
  defines "tr2 \<equiv> tr1 @ [EShell (rcCommand s verb) SERVICE_TIMEOUT_MS]"
  shows "tr' = tr2 @ [EShell (rcCommand s ''status'') service_PROBE_TIMEOUT_MS]
    \<and> (\<exists>act status. w_shell w tr1 (rcCommand s verb) SERVICE_TIMEOUT_MS = Inr act \<and> exitCode act = 0
         \<and> w_shell w tr2 (rcCommand s ''status'') service_PROBE_TIMEOUT_MS = Inr status
         \<and> parseStatusOutput (stdout status) = EXPECTED_STATE (sa_action args))"
  using assms(1,2) unfolding assms(3-6)
  by (auto simp: runVerb_def Let_def run_bind run_execute_shell run_toolError service_renderOutcome_def run_formatResponse
      split: sum.splits if_splits)

section \<open>service\_list\<close>

definition list_item :: "service \<Rightarrow> string" where
  \<open>list_item s =
     (let script = quoteForShell (rcScript s)
      in ''if [ -x '' @ script @ '' ]; then echo "'' @ SERVICES s @ '': $('' @ script @ '' status 2>&1 | head -1)"; else echo "''
         @ SERVICES s @ '': '' @ NOT_INSTALLED_MARKER @ ''"; fi'')\<close>

definition buildListCommand :: string where
  "buildListCommand = join ''; '' (map list_item SERVICE_NAMES)"

text \<open>Position of the first occurrence of \<open>": "\<close>, as \<open>indexOf\<close>.\<close>

fun index_of_text :: "string \<Rightarrow> string \<Rightarrow> nat option" where
  "index_of_text pat [] = (if pat = [] then Some 0 else None)"
| "index_of_text pat (c # s) = (if prefix pat (c # s) then Some 0 else map_option Suc (index_of_text pat s))"

fun listing_map :: "string list \<Rightarrow> (string \<times> string) list" where
  "listing_map [] = []"
| "listing_map (line # lines) =
     (case index_of_text '': '' line of
        Some n \<Rightarrow> if n > 0 then (take n line, trim (drop (n + 2) line)) # listing_map lines else listing_map lines
      | None \<Rightarrow> listing_map lines)"

record service_status =
  ss_service :: service
  ss_script :: string
  ss_state :: service_state
  ss_detail :: string

definition parseListing :: "string \<Rightarrow> service_status list" where
  "parseListing out =
     map (\<lambda>s. let detail = (case js_map_get (listing_map (split_on nl out)) (SERVICES s) of Some d \<Rightarrow> d | None \<Rightarrow> [])
              in \<lparr>ss_service = s, ss_script = rcScript s, ss_state = parseStatusOutput detail, ss_detail = detail\<rparr>)
         SERVICE_NAMES"

definition STATE_LABELS :: "service_state \<Rightarrow> string" where
  "STATE_LABELS s =
     (case s of Running \<Rightarrow> ''running'' | StoppedState \<Rightarrow> ''stopped'' | NotInstalled \<Rightarrow> ''not installed'' | UnknownState \<Rightarrow> ''unknown'')"

definition service_summarize :: "service_status list \<Rightarrow> string" where
  "service_summarize ss = join nl (map (\<lambda>x. service_name (ss_service x) @ '': '' @ STATE_LABELS (ss_state x)) ss)"

definition service_json :: "service_status \<Rightarrow> jsval" where
  "service_json x =
     JObj [(''name'', JStr (service_name (ss_service x))), (''script'', JStr (ss_script x)),
           (''state'', JStr (service_state_text (ss_state x))), (''detail'', JStr (ss_detail x))]"

definition serviceListHandler :: "bool \<Rightarrow> response_format \<Rightarrow> tool_result prog" where
  "serviceListHandler shell format =
     with_shell shell
       (failing_with ''Failed to list services over SSH: ''
         (bind (execute_shell buildListCommand SERVICE_TIMEOUT_MS) (\<lambda>res.
            (let services = parseListing (stdout res)
             in formatResponse format (service_summarize services)
                  (JObj [(''services'', JArr (map service_json services))])))))"

lemma service_list_events: "emits (runs_only (\<lambda>c. c = buildListCommand)) (serviceListHandler shell format)"
  unfolding serviceListHandler_def Let_def by (intro emits_intros) simp_all

text \<open>The report always covers the six services, in a fixed order.\<close>

lemma parseListing_services: "map ss_service (parseListing out) = SERVICE_NAMES"
  by (simp add: parseListing_def Let_def o_def)

text \<open>The shell sees two words: the script and the verb.\<close>

lemma rcCommand_words:
  assumes "verb \<noteq> []" "\<forall>c \<in> set verb. sh_plain c"
  shows "sh_tokens (rcCommand s verb) = Some [ShWord (rcScript s), ShWord verb]"
  using sh_tokens_args [of "[Quoted (rcScript s), Bare verb]"] assms
  by (simp add: command_line_def rcCommand_def)

end
