(* ===== verification/Patterns.thy ===== *)
theory Patterns
  imports ToolSupport Regex
begin

text \<open>
  Input patterns: which characters a validated string may contain. \<open>regex_chars r\<close> are the
  characters \<open>r\<close> can consume; a string that passes an anchored pattern has no others. The
  names and device paths that reach a shell command line are checked by such patterns.
\<close>

primrec regex_chars :: "regex \<Rightarrow> char \<Rightarrow> bool" where
  "regex_chars REmpty c = False"
| "regex_chars (RClass P) c = P c"
| "regex_chars (RSeq r1 r2) c = (regex_chars r1 c \<or> regex_chars r2 c)"
| "regex_chars (RAlt r1 r2) c = (regex_chars r1 c \<or> regex_chars r2 c)"
| "regex_chars (RStar r) c = regex_chars r c"
| "regex_chars (RLazyStar r) c = regex_chars r c"
| "regex_chars (RGroup n r) c = regex_chars r c"
| "regex_chars RStart c = False"
| "regex_chars RLineStart c = False"
| "regex_chars REnd c = False"
| "regex_chars RWordBoundary c = False"
| "regex_chars (RNotAhead r) c = False"

text \<open>From state \<open>st\<close> to \<open>st'\<close> only characters of \<open>P\<close> are consumed.\<close>

definition consumes :: "(char \<Rightarrow> bool) \<Rightarrow> mstate \<Rightarrow> mstate \<Rightarrow> bool" where
  "consumes P st st' = (\<exists>u. rest_of st = u @ rest_of st' \<and> (\<forall>c \<in> set u. P c))"

lemma consumes_refl: "rest_of st = rest_of st' \<Longrightarrow> consumes P st st'"
  by (auto simp: consumes_def)

lemma consumes_trans: "consumes P st st1 \<Longrightarrow> consumes P st1 st' \<Longrightarrow> consumes P st st'"
  by (auto simp: consumes_def)

lemma consumes_mono: "consumes P st st' \<Longrightarrow> (\<And>c. P c \<Longrightarrow> Q c) \<Longrightarrow> consumes Q st st'"
  by (auto simp: consumes_def)

lemma star_consumes:
  "(\<And>st st'. st' \<in> set (f st) \<Longrightarrow> consumes P st st') \<Longrightarrow> st' \<in> set (star_results f st) \<Longrightarrow> consumes P st st'"
proof (induction f st rule: star_results.induct)
  case (1 f st)
  from "1.prems"(2) consider "st' = st"
    | st1 where "st1 \<in> set (f st)" "length (rest_of st1) < length (rest_of st)" "st' \<in> set (star_results f st1)"
    by (subst (asm) star_results.simps) (auto split: if_splits)
  then show ?case
  proof cases
    case 2
    from "1.IH" [OF 2(1) 2(2) "1.prems"(1) 2(3)] "1.prems"(1) [OF 2(1)]
    show ?thesis by (blast intro: consumes_trans)
  qed (simp add: consumes_refl)
qed

lemma lazy_consumes:
  "(\<And>st st'. st' \<in> set (f st) \<Longrightarrow> consumes P st st') \<Longrightarrow> st' \<in> set (lazy_results f st) \<Longrightarrow> consumes P st st'"
proof (induction f st rule: lazy_results.induct)
  case (1 f st)
  from "1.prems"(2) consider "st' = st"
    | st1 where "st1 \<in> set (f st)" "length (rest_of st1) < length (rest_of st)" "st' \<in> set (lazy_results f st1)"
    by (subst (asm) lazy_results.simps) (auto split: if_splits)
  then show ?case
  proof cases
    case 2
    from "1.IH" [OF 2(1) 2(2) "1.prems"(1) 2(3)] "1.prems"(1) [OF 2(1)]
    show ?thesis by (blast intro: consumes_trans)
  qed (simp add: consumes_refl)
qed

lemma matches_consumes: "st' \<in> set (matches r st) \<Longrightarrow> consumes (regex_chars r) st st'"
proof (induction r arbitrary: st st')
  case (RClass P)
  then show ?case by (auto simp: consumes_def split: prod.splits list.splits if_splits)
next
  case (RSeq r1 r2)
  then obtain st1 where "st1 \<in> set (matches r1 st)" "st' \<in> set (matches r2 st1)" by auto
  then have "consumes (regex_chars r1) st st1" "consumes (regex_chars r2) st1 st'" using RSeq.IH by blast+
  then have "consumes (regex_chars (RSeq r1 r2)) st st1" "consumes (regex_chars (RSeq r1 r2)) st1 st'"
    by (auto elim: consumes_mono)
  then show ?case by (rule consumes_trans)
next
  case (RAlt r1 r2)
  then consider "st' \<in> set (matches r1 st)" | "st' \<in> set (matches r2 st)" by auto
  then show ?case
  proof cases
    case 1
    from consumes_mono [OF RAlt.IH(1) [OF 1]] show ?thesis by simp
  next
    case 2
    from consumes_mono [OF RAlt.IH(2) [OF 2]] show ?thesis by simp
  qed
next
  case (RStar r)
  from star_consumes [of "matches r" "regex_chars r" st' st, OF RStar.IH] RStar.prems show ?case by simp
next
  case (RLazyStar r)
  from lazy_consumes [of "matches r" "regex_chars r" st' st, OF RLazyStar.IH] RLazyStar.prems show ?case by simp
next
  case (RGroup n r)
  then obtain st1 where "st1 \<in> set (matches r st)" "rest_of st' = rest_of st1"
    by (auto split: prod.splits)
  with RGroup.IH have "consumes (regex_chars r) st st1" by blast
  with \<open>rest_of st' = rest_of st1\<close> show ?case by (simp add: consumes_def)
qed (auto simp: consumes_refl split: if_splits prod.splits)

section \<open>Anchored patterns\<close>

definition anchored :: "regex \<Rightarrow> regex" where
  "anchored r = RSeq RStart (RSeq r REnd)"

lemma test_from_anchored: "test_from (anchored r) (Some c) s = False"
  by (induction s arbitrary: c) (auto simp: anchored_def match_here_def)

lemma re_test_anchored: "re_test (anchored r) s \<longleftrightarrow> match_here (anchored r) None s \<noteq> None"
  by (cases s) (auto simp: re_test_def test_from_anchored)

text \<open>A string that passes an anchored pattern consists of characters of the pattern.\<close>

lemma re_test_chars:
  assumes "re_test (anchored r) s" "c \<in> set s"
  shows "regex_chars r c"
proof -
  from assms(1) obtain st where "match_here (anchored r) None s = Some st"
    by (auto simp: re_test_anchored)
  then have "st \<in> set (matches (anchored r) (None, s, []))" by (rule match_here_in)
  then obtain st1 where "st1 \<in> set (matches r (None, s, []))" "rest_of st1 = []"
    unfolding anchored_def by (simp split: if_splits) blast
  with matches_consumes [OF this(1)] assms(2) show ?thesis by (auto simp: consumes_def)
qed

lemma regex_chars_rseq [simp]: "regex_chars (rseq rs) c \<longleftrightarrow> (\<exists>r \<in> set rs. regex_chars r c)"
  by (induction rs) (auto simp: rseq_def)

lemma regex_chars_ralts [simp]: "regex_chars (ralts rs) c \<longleftrightarrow> (\<exists>r \<in> set rs. regex_chars r c)"
proof -
  have "regex_chars (foldl RAlt r qs) c \<longleftrightarrow> regex_chars r c \<or> (\<exists>q \<in> set qs. regex_chars q c)" for r qs
    by (induction qs arbitrary: r) auto
  then show ?thesis by (auto simp: ralts_def split: list.splits)
qed

lemma regex_chars_rstr [simp]: "regex_chars (rstr s) c \<longleftrightarrow> c \<in> set s"
  by (induction s) (auto simp: rstr_def rchar_def)

lemma regex_chars_simple [simp]:
  "regex_chars (rchar x) c \<longleftrightarrow> c = x" "regex_chars (rone_of s) c \<longleftrightarrow> c \<in> set s"
  "regex_chars rdigit c \<longleftrightarrow> is_digit c" "regex_chars (rplus r) c \<longleftrightarrow> regex_chars r c"
  "regex_chars (ropt r) c \<longleftrightarrow> regex_chars r c"
  by (auto simp: rchar_def rone_of_def rdigit_def rplus_def ropt_def)

text \<open>Letters, digits and the punctuation of paths are plain characters for the shell.\<close>

lemma char_cases_alnum: "is_alnum c \<Longrightarrow> sh_plain c"
  unfolding is_alnum_def is_digit_def is_upper_def is_lower_def sh_plain_def sh_special_def sh_blank_def
  by auto

end
