(* ===== verification/ZfsTools.thy ===== *)
theory ZfsTools
  imports Payload Patterns
begin

text \<open>
  The ZFS tools (\<open>src/tools/zfs/\<close>): snapshots are created, destroyed and rolled back behind
  both flags, on names that pass a pattern; datasets and snapshots are listed.
\<close>

section \<open>Names and the probe\<close>

definition zfs_PROBE_TIMEOUT_MS :: int where "zfs_PROBE_TIMEOUT_MS = 10000"
definition ZFS_COMMAND_TIMEOUT_MS :: int where "ZFS_COMMAND_TIMEOUT_MS = 30000"

definition zfs_char :: "char \<Rightarrow> bool" where
  "zfs_char c = (is_alnum c \<or> c \<in> set ''._:-'')"

definition zfs_segment :: regex where "zfs_segment = rplus (RClass zfs_char)"

definition DATASET_PATTERN :: regex where
  "DATASET_PATTERN = anchored (rseq [zfs_segment, RStar (RGroup 1 (rseq [rchar (CHR ''/''), zfs_segment]))])"

definition SNAPSHOT_NAME_PATTERN :: regex where
  "SNAPSHOT_NAME_PATTERN = anchored zfs_segment"

text \<open>\<open>None\<close>: zpool is there.\<close>

definition probeZfs :: "tool_result option prog" where
  "probeZfs =
     bind (execute_shell ''command -v zpool'' zfs_PROBE_TIMEOUT_MS) (\<lambda>probe.
       if exitCode probe \<noteq> 0
       then refuse ''ZFS is not available on this server: the zpool command was not found. ZFS ships with Unraid 6.12+; on older releases this tool cannot work.''
       else Ret None)"

text \<open>\<open>const missing = await probeZfs(shell); if (missing) return missing;\<close>\<close>

definition after_probe :: "tool_result prog \<Rightarrow> tool_result prog" where
  "after_probe work = bind probeZfs (\<lambda>missing. case missing of Some r \<Rightarrow> Ret r | None \<Rightarrow> work)"

section \<open>zfs\_snapshot\_action\<close>

datatype snapshot_action = SnapCreate | SnapDestroy | SnapRollback

definition snapshot_action_text :: "snapshot_action \<Rightarrow> string" where
  "snapshot_action_text a = (case a of SnapCreate \<Rightarrow> ''create'' | SnapDestroy \<Rightarrow> ''destroy'' | SnapRollback \<Rightarrow> ''rollback'')"

record snapshot_args =
  zs_action :: snapshot_action
  zs_dataset :: string
  zs_snapshot :: string
  zs_flags :: risk_flags

definition snapshotTarget :: "snapshot_args \<Rightarrow> string" where
  "snapshotTarget args = zs_dataset args @ ''@'' @ zs_snapshot args"

definition snapshot_consequence :: "snapshot_action \<Rightarrow> string" where
  "snapshot_consequence a =
     (case a of
        SnapCreate \<Rightarrow> ''creates a new snapshot (cheap, but pins space as data changes)''
      | SnapDestroy \<Rightarrow> ''PERMANENTLY deletes the snapshot and the rollback point it provides''
      | SnapRollback \<Rightarrow> ''DISCARDS every change to the dataset made after the snapshot '' @ mdash @ '' files written since are lost'')"

definition snapshot_refusalMessage :: "snapshot_args \<Rightarrow> string" where
  \<open>snapshot_refusalMessage args =
     ''Refusing to '' @ snapshot_action_text (zs_action args) @ '' ZFS snapshot '' @ snapshotTarget args @ '': this '' @ snapshot_consequence (zs_action args) @ ''. Re-call with "confirm": true and "acknowledge_risk": true to proceed. No changes were made.''\<close>

definition snapshot_subcommand :: "snapshot_action \<Rightarrow> string" where
  "snapshot_subcommand a = (case a of SnapCreate \<Rightarrow> ''snapshot'' | SnapDestroy \<Rightarrow> ''destroy'' | SnapRollback \<Rightarrow> ''rollback'')"

definition zfs_buildCommand :: "snapshot_args \<Rightarrow> string" where
  "zfs_buildCommand args = ''zfs '' @ snapshot_subcommand (zs_action args) @ '' '' @ quoteForShell (snapshotTarget args)"

definition names_ok :: "snapshot_args \<Rightarrow> bool" where
  "names_ok args = (re_test DATASET_PATTERN (zs_dataset args) \<and> re_test SNAPSHOT_NAME_PATTERN (zs_snapshot args))"

definition or_text :: "string \<Rightarrow> string \<Rightarrow> string" where
  "or_text a b = (if a \<noteq> [] then a else b)"

definition snapshot_work :: "snapshot_args \<Rightarrow> tool_result prog" where
  "snapshot_work args =
     failing_with (''Failed to '' @ snapshot_action_text (zs_action args) @ '' ZFS snapshot over SSH: '')
       (after_probe
         (bind (execute_shell (zfs_buildCommand args) ZFS_COMMAND_TIMEOUT_MS) (\<lambda>res.
            if exitCode res \<noteq> 0
            then toolError (''zfs '' @ snapshot_action_text (zs_action args) @ '' failed (exit '' @ show_int (exitCode res) @ ''): '' @ or_text (trim (stderr res)) ''(no output)'')
            else toolText (''ZFS snapshot '' @ snapshot_action_text (zs_action args) @ '' succeeded for '' @ snapshotTarget args @ ''. Verify with zfs_snapshot_list.''))))"

definition zfsSnapshotActionHandler :: "bool \<Rightarrow> channel \<Rightarrow> snapshot_args \<Rightarrow> tool_result prog" where
  "zfsSnapshotActionHandler shell ch args =
     with_shell shell
       (if \<not> names_ok args
        then toolError (''Invalid dataset or snapshot name (dataset: '' @ zs_dataset args @ '', snapshot: '' @ zs_snapshot args @ ''). No changes were made.'')
        else gated (requireRiskAcknowledgementInteractive ch (zs_flags args) (snapshot_refusalMessage args)) (snapshot_work args))"

section \<open>zfs\_dataset\_list\<close>

definition BYTES_PER_GIB :: rat where "BYTES_PER_GIB = 1024 ^ 3"

record dataset_row =
  ds_name :: "string option"
  ds_used :: js_num
  ds_available :: js_num
  ds_referenced :: js_num
  ds_mountpoint :: "string option"

text \<open>Destructuring past the end of the columns gives undefined, and \<open>Number(undefined)\<close> is NaN.\<close>

definition column :: "string list \<Rightarrow> nat \<Rightarrow> string option" where
  "column cols i = (if i < length cols then Some (cols ! i) else None)"

definition column_number :: "string list \<Rightarrow> nat \<Rightarrow> js_num" where
  "column_number cols i = (case column cols i of None \<Rightarrow> NonFinite | Some s \<Rightarrow> js_number s)"

definition content_lines :: "string \<Rightarrow> string list" where
  "content_lines out = filter (\<lambda>line. trim line \<noteq> []) (split_on nl out)"

definition parseDatasets :: "string \<Rightarrow> dataset_row list" where
  "parseDatasets out =
     map (\<lambda>line. let cols = split_on tab line
                 in \<lparr>ds_name = column cols 0, ds_used = column_number cols 1, ds_available = column_number cols 2,
                    ds_referenced = column_number cols 3, ds_mountpoint = column cols 4\<rparr>) (content_lines out)"

definition gib :: "js_num \<Rightarrow> string" where
  "gib bytes = (case bytes of Finite b \<Rightarrow> to_fixed 1 (b / BYTES_PER_GIB) | NonFinite \<Rightarrow> ''NaN'') @ '' GiB''"

definition show_opt :: "string option \<Rightarrow> string" where
  "show_opt s = (case s of None \<Rightarrow> ''undefined'' | Some t \<Rightarrow> t)"

definition dataset_summarize :: "dataset_row list \<Rightarrow> string" where
  "dataset_summarize ds =
     (if length ds = 0 then ''No ZFS datasets found.''
      else join nl ((show_nat (length ds) @ '' dataset(s):'') #
             map (\<lambda>d. ''- '' @ show_opt (ds_name d) @ '': '' @ gib (ds_used d) @ '' used, '' @ gib (ds_available d) @ '' available ('' @ show_opt (ds_mountpoint d) @ '')'') ds))"

definition js_num_json :: "js_num \<Rightarrow> jsval" where
  "js_num_json n = (case n of Finite q \<Rightarrow> JNum q | NonFinite \<Rightarrow> JNull)"

definition dataset_json :: "dataset_row \<Rightarrow> jsval" where
  "dataset_json d =
     JObj [(''name'', js_string_opt (ds_name d)), (''usedBytes'', js_num_json (ds_used d)),
           (''availableBytes'', js_num_json (ds_available d)), (''referencedBytes'', js_num_json (ds_referenced d)),
           (''mountpoint'', js_string_opt (ds_mountpoint d))]"

text \<open>The scope argument: an absent or empty name lists everything.\<close>

definition scope_of :: "string option \<Rightarrow> string" where
  "scope_of name = (case name of None \<Rightarrow> [] | Some n \<Rightarrow> if n = [] then [] else '' -r '' @ quoteForShell n)"

definition scope_invalid :: "string option \<Rightarrow> bool" where
  "scope_invalid name = (case name of None \<Rightarrow> False | Some n \<Rightarrow> n \<noteq> [] \<and> \<not> re_test DATASET_PATTERN n)"

definition dataset_list_command :: "string option \<Rightarrow> string" where
  "dataset_list_command pool = ''zfs list -H -p -o name,used,avail,refer,mountpoint'' @ scope_of pool"

definition zfsDatasetListHandler :: "bool \<Rightarrow> response_format \<Rightarrow> string option \<Rightarrow> tool_result prog" where
  "zfsDatasetListHandler shell format pool =
     with_shell shell
       (if scope_invalid pool then toolError (''Invalid pool name: '' @ show_opt pool)
        else failing_with ''Failed to list ZFS datasets over SSH: ''
          (after_probe
            (bind (execute_shell (dataset_list_command pool) ZFS_COMMAND_TIMEOUT_MS) (\<lambda>res.
               if exitCode res \<noteq> 0
               then toolError (''zfs list failed (exit '' @ show_int (exitCode res) @ ''): '' @ trim (stderr res))
               else formatResponse format (dataset_summarize (parseDatasets (stdout res)))
                      (JObj [(''datasets'', JArr (map dataset_json (parseDatasets (stdout res))))])))))"

section \<open>zfs\_snapshot\_list\<close>

record snapshot_row =
  sr_name :: "string option"
  sr_used :: "string option"
  sr_creation :: string

definition parseSnapshots :: "string \<Rightarrow> snapshot_row list" where
  "parseSnapshots out =
     map (\<lambda>line. let cols = split_on tab line
                 in \<lparr>sr_name = column cols 0, sr_used = column cols 1, sr_creation = join '' '' (drop 2 cols)\<rparr>)
         (content_lines out)"

definition snapshot_list_summarize :: "snapshot_row list \<Rightarrow> string" where
  "snapshot_list_summarize ss =
     (if length ss = 0 then ''No ZFS snapshots found.''
      else join nl ((show_nat (length ss) @ '' snapshot(s):'') #
             map (\<lambda>s. ''- '' @ show_opt (sr_name s) @ '' ('' @ show_opt (sr_used s) @ '', created '' @ sr_creation s @ '')'') ss))"

definition snapshot_json :: "snapshot_row \<Rightarrow> jsval" where
  "snapshot_json s =
     JObj [(''name'', js_string_opt (sr_name s)), (''used'', js_string_opt (sr_used s)), (''creation'', JStr (sr_creation s))]"

definition snapshot_list_command :: "string option \<Rightarrow> string" where
  "snapshot_list_command dataset = ''zfs list -H -t snapshot -o name,used,creation'' @ scope_of dataset"

definition zfsSnapshotListHandler :: "bool \<Rightarrow> response_format \<Rightarrow> string option \<Rightarrow> tool_result prog" where
  "zfsSnapshotListHandler shell format dataset =
     with_shell shell
       (if scope_invalid dataset then toolError (''Invalid dataset name: '' @ show_opt dataset)
        else failing_with ''Failed to list ZFS snapshots over SSH: ''
          (after_probe
            (bind (execute_shell (snapshot_list_command dataset) ZFS_COMMAND_TIMEOUT_MS) (\<lambda>res.
               if exitCode res \<noteq> 0
               then toolError (''zfs snapshot list failed (exit '' @ show_int (exitCode res) @ ''): '' @ trim (stderr res))
               else formatResponse format (snapshot_list_summarize (parseSnapshots (stdout res)))
                      (JObj [(''snapshots'', JArr (map snapshot_json (parseSnapshots (stdout res))))])))))"

section \<open>What the tools may run\<close>

lemma emits_after_probe [emits_intros]:
  "P (EShell ''command -v zpool'' zfs_PROBE_TIMEOUT_MS) \<Longrightarrow> emits P work \<Longrightarrow> emits P (after_probe work)"
  by (auto simp: after_probe_def probeZfs_def intro!: emits_intros)

definition zfs_event_ok :: "snapshot_args \<Rightarrow> event \<Rightarrow> bool" where
  "zfs_event_ok args e =
     (case e of EShell c t \<Rightarrow> names_ok args \<and> (c = ''command -v zpool'' \<or> c = zfs_buildCommand args)
      | EElicit m b \<Rightarrow> True | _ \<Rightarrow> False)"

lemma zfs_snapshot_events: "emits (zfs_event_ok args) (zfsSnapshotActionHandler shell ch args)"
  unfolding zfsSnapshotActionHandler_def snapshot_work_def
  by (intro emits_intros) (simp_all add: zfs_event_ok_def)

lemma zfs_list_events:
  "emits (runs_only (\<lambda>c. c = ''command -v zpool'' \<or> c = dataset_list_command pool)) (zfsDatasetListHandler shell format pool)"
  "emits (runs_only (\<lambda>c. c = ''command -v zpool'' \<or> c = snapshot_list_command pool)) (zfsSnapshotListHandler shell format pool)"
  unfolding zfsDatasetListHandler_def zfsSnapshotListHandler_def by (intro emits_intros; simp)+

lemma names_ok_chars:
  assumes "names_ok args" "c \<in> set (snapshotTarget args)"
  shows "zfs_char c \<or> c = CHR ''/'' \<or> c = CHR ''@''"
proof -
  have "regex_chars (rseq [zfs_segment, RStar (RGroup 1 (rseq [rchar (CHR ''/''), zfs_segment]))]) c"
    if "c \<in> set (zs_dataset args)"
    by (rule re_test_chars [OF _ that]) (use assms(1) in \<open>simp add: names_ok_def DATASET_PATTERN_def\<close>)
  moreover have "regex_chars zfs_segment c" if "c \<in> set (zs_snapshot args)"
    by (rule re_test_chars [OF _ that]) (use assms(1) in \<open>simp add: names_ok_def SNAPSHOT_NAME_PATTERN_def\<close>)
  ultimately show ?thesis using assms(2) by (auto simp: snapshotTarget_def zfs_segment_def)
qed

text \<open>The command is three words, the last of which names one snapshot.\<close>

lemma zfs_command_words:
  "sh_tokens (zfs_buildCommand args) =
     Some [ShWord ''zfs'', ShWord (snapshot_subcommand (zs_action args)), ShWord (snapshotTarget args)]"
proof -
  let ?as = "[Bare ''zfs'', Bare (snapshot_subcommand (zs_action args)), Quoted (snapshotTarget args)]"
  have "\<forall>a \<in> set ?as. arg_ok a"
    by (cases "zs_action args") (simp_all add: snapshot_subcommand_def sh_plain_def sh_special_def sh_blank_def)
  from sh_tokens_args [OF this] show ?thesis by (simp add: command_line_def zfs_buildCommand_def)
qed

end
