(* ===== verification/UnassignedTools.thy ===== *)
theory UnassignedTools
  imports Payload Patterns
begin

text \<open>
  Unassigned devices (\<open>src/tools/unassigned/\<close>): selecting the disks that belong to neither the
  array nor a pool, and mounting or unmounting one of their partitions behind both flags.
\<close>

section \<open>Reading the device map\<close>

definition DISKS_INI :: string where "DISKS_INI = ''/var/local/emhttp/disks.ini''"
definition LSBLK_COMMAND :: string where
  "LSBLK_COMMAND = ''lsblk -J -o NAME,KNAME,TYPE,SIZE,FSTYPE,MOUNTPOINT,LABEL,MODEL,SERIAL,TRAN''"
definition UD_SCRIPT :: string where "UD_SCRIPT = ''/usr/local/sbin/rc.unassigned''"
definition ud_PROBE_TIMEOUT_MS :: int where "ud_PROBE_TIMEOUT_MS = 10000"
definition LIST_TIMEOUT_MS :: int where "LIST_TIMEOUT_MS = 30000"
definition MOUNT_TIMEOUT_MS :: int where "MOUNT_TIMEOUT_MS = 120000"

definition lower_range :: regex where "lower_range = RClass is_lower"

definition PARTITION_BODY :: regex where
  "PARTITION_BODY =
     rseq [rstr ''/dev/'',
           RGroup 1 (ralts [rseq [rstr ''sd'', rplus lower_range, rplus rdigit],
                            rseq [rstr ''nvme'', rplus rdigit, rstr ''n'', rplus rdigit, rstr ''p'', rplus rdigit]])]"

definition PARTITION_PATTERN :: regex where "PARTITION_PATTERN = anchored PARTITION_BODY"

definition PSEUDO_DEVICE_PATTERN :: regex where
  "PSEUDO_DEVICE_PATTERN =
     RSeq RStart (RGroup 1 (ralts [rstr ''zram'', rstr ''loop'', rstr ''ram'', rstr ''md'', rstr ''dm-'', rstr ''nbd'']))"

definition DEVICE_LINE :: regex where
  "DEVICE_LINE = rseq [RLineStart, rstr (''device='' @ dquote), RGroup 1 (rplus (rnone_of dquote)), rstr dquote]"

definition parseAssignedDevices :: "string \<Rightarrow> string list" where
  "parseAssignedDevices disksIni = map (\<lambda>cs. group cs 1) (re_match_all DEVICE_LINE disksIni)"

section \<open>Selecting the unassigned disks\<close>

record partition =
  p_device :: string
  p_fstype :: jsval
  p_mountpoint :: jsval
  p_label :: jsval
  p_size :: jsval

record unassigned_disk =
  u_device :: string
  u_model :: jsval
  u_serial :: jsval
  u_size :: jsval
  u_transport :: jsval
  u_partitions :: "partition list"

text \<open>\<open>None\<close>: reading \<open>blockdevices\<close> off a null document is caught like a syntax error.\<close>

definition parseLsblk :: "string \<Rightarrow> jsval list" where
  "parseLsblk json =
     (case json_parse json of
        None \<Rightarrow> []
      | Some parsed \<Rightarrow> (case getp parsed ''blockdevices'' of JArr ds \<Rightarrow> ds | _ \<Rightarrow> []))"

definition dev_path :: "jsval \<Rightarrow> string" where
  "dev_path node = ''/dev/'' @ display (coalesce (getp node ''kname'') (JStr ''?''))"

definition or_null :: "jsval \<Rightarrow> jsval" where "or_null v = coalesce v JNull"

definition toPartition :: "jsval \<Rightarrow> partition" where
  "toPartition node =
     \<lparr>p_device = dev_path node, p_fstype = or_null (getp node ''fstype''), p_mountpoint = or_null (getp node ''mountpoint''),
      p_label = or_null (getp node ''label''), p_size = coalesce (getp node ''size'') (JStr ''?'')\<rparr>"

definition children_of :: "jsval \<Rightarrow> jsval list" where
  "children_of node = (case getp node ''children'' of JArr cs \<Rightarrow> cs | _ \<Rightarrow> [])"

definition toDisk :: "jsval \<Rightarrow> unassigned_disk" where
  "toDisk node =
     \<lparr>u_device = dev_path node, u_model = or_null (getp node ''model''), u_serial = or_null (getp node ''serial''),
      u_size = coalesce (getp node ''size'') (JStr ''?''), u_transport = or_null (getp node ''tran''),
      u_partitions = map toPartition (filter (\<lambda>c. getp c ''type'' = JStr ''part'') (children_of node))\<rparr>"

definition kname_text :: "jsval \<Rightarrow> string" where
  "kname_text node = display (coalesce (getp node ''kname'') (JStr []))"

definition is_unassigned :: "string list \<Rightarrow> jsval \<Rightarrow> bool" where
  "is_unassigned assigned node =
     (getp node ''type'' = JStr ''disk'' \<and> getp node ''kname'' \<noteq> JUndef \<and>
      \<not> re_test PSEUDO_DEVICE_PATTERN (kname_text node) \<and> kname_text node \<notin> set assigned)"

definition selectUnassigned :: "string \<Rightarrow> string list \<Rightarrow> unassigned_disk list" where
  "selectUnassigned lsblkJson assigned = map toDisk (filter (is_unassigned assigned) (parseLsblk lsblkJson))"

definition drop_trailing_digits :: "string \<Rightarrow> string" where
  "drop_trailing_digits s = rev (dropWhile is_digit (rev s))"

text \<open>\<open>name.replace(/p[0-9]+$/, "")\<close> and \<open>name.replace(/[0-9]+$/, "")\<close>.\<close>

definition strip_p_digits :: "string \<Rightarrow> string" where
  "strip_p_digits s =
     (let t = drop_trailing_digits s
      in if length t < length s \<and> ends_with t ''p'' then butlast t else s)"

definition parentDiskOf :: "string \<Rightarrow> string" where
  "parentDiskOf part =
     (let name = (if starts_with part ''/dev/'' then drop 5 part else part)
      in if starts_with name ''nvme'' then strip_p_digits name else drop_trailing_digits name)"

section \<open>unassigned\_action\<close>

datatype mount_action = Mount | Unmount

definition mount_action_text :: "mount_action \<Rightarrow> string" where
  "mount_action_text a = (case a of Mount \<Rightarrow> ''mount'' | Unmount \<Rightarrow> ''unmount'')"

definition UD_VERBS :: "mount_action \<Rightarrow> string" where
  "UD_VERBS a = (case a of Mount \<Rightarrow> ''mount'' | Unmount \<Rightarrow> ''umount'')"

record unassigned_args =
  ua_format :: "response_format option"
  ua_action :: mount_action
  ua_device :: string
  ua_flags :: risk_flags

definition ud_refusalMessage :: "unassigned_args \<Rightarrow> string" where
  \<open>ud_refusalMessage args =
     ''Refusing to '' @ mount_action_text (ua_action args) @ '' '' @ ua_device args @ '': this ''
     @ (case ua_action args of
          Mount \<Rightarrow> ''mounts the partition under /mnt/disks via the Unassigned Devices plugin (which may run its device scripts and share it over SMB per its settings)''
        | Unmount \<Rightarrow> ''unmounts the partition '' @ mdash @ '' anything still writing to it (containers, copies) will fail'')
     @ ''. Re-call with "confirm": true and "acknowledge_risk": true to proceed. No changes were made.''\<close>

definition mountpoint_command :: "string \<Rightarrow> string" where
  "mountpoint_command device = ''lsblk -J -o KNAME,MOUNTPOINT '' @ quoteForShell device"

text \<open>The mount point in lsblk's answer; every parse failure counts as no mount point.\<close>

definition mountpoint_of :: "string \<Rightarrow> jsval" where
  "mountpoint_of out =
     (case json_parse out of
        None \<Rightarrow> JNull
      | Some parsed \<Rightarrow>
          (case getp parsed ''blockdevices'' of
             JArr (d # ds) \<Rightarrow> coalesce (getp d ''mountpoint'') JNull
           | _ \<Rightarrow> JNull))"

definition readMountpoint :: "string \<Rightarrow> jsval prog" where
  "readMountpoint device =
     bind (execute_shell (mountpoint_command device) ud_PROBE_TIMEOUT_MS) (\<lambda>res. Ret (mountpoint_of (stdout res)))"

definition ud_probe_command :: string where "ud_probe_command = ''test -x '' @ quoteForShell UD_SCRIPT"
definition disks_ini_command :: string where "disks_ini_command = ''cat '' @ quoteForShell DISKS_INI"

definition ud_precondition :: "string \<Rightarrow> tool_result option prog" where
  "ud_precondition device =
     bind (execute_shell ud_probe_command ud_PROBE_TIMEOUT_MS) (\<lambda>plugin.
       if exitCode plugin \<noteq> 0
       then refuse ''The Unassigned Devices plugin is not installed (no /usr/local/sbin/rc.unassigned). Install it from Community Applications; a raw mount is deliberately not offered because UD owns mount-point naming, SMB sharing, and cleanup. No changes were made.''
       else bind (execute_shell disks_ini_command ud_PROBE_TIMEOUT_MS) (\<lambda>disksIni.
         if parentDiskOf device \<in> set (parseAssignedDevices (stdout disksIni))
         then refuse (device @ '' belongs to an assigned disk (array, pool, or flash) '' @ mdash @ '' it is not an unassigned device. No changes were made.'')
         else Ret None))"

definition ud_renderOutcome :: "unassigned_args \<Rightarrow> jsval \<Rightarrow> tool_result prog" where
  "ud_renderOutcome args mountpoint =
     (let verified = (case ua_action args of Mount \<Rightarrow> mountpoint \<noteq> JNull | Unmount \<Rightarrow> mountpoint = JNull);
          payload = JObj [(''action'', JStr (mount_action_text (ua_action args))), (''device'', JStr (ua_device args)),
                          (''mountpoint'', mountpoint), (''verified'', JBool verified)]
      in if \<not> verified
         then toolError (''rc.unassigned '' @ UD_VERBS (ua_action args) @ '' '' @ ua_device args @ '' ran, but lsblk shows the partition ''
                @ (if truthy mountpoint then ''still mounted at '' @ display mountpoint else ''not mounted'')
                @ ''. Check the Unassigned Devices log in the web UI (Main '' @ rarrow @ '' Unassigned Devices).'')
         else formatResponse (case ua_format args of None \<Rightarrow> Concise | Some f \<Rightarrow> f)
                (case ua_action args of
                   Mount \<Rightarrow> ua_device args @ '' mounted at '' @ display mountpoint @ '' (verified with lsblk).''
                 | Unmount \<Rightarrow> ua_device args @ '' unmounted (verified with lsblk).'')
                payload)"

definition ud_command :: "unassigned_args \<Rightarrow> string" where
  "ud_command args = quoteForShell UD_SCRIPT @ '' '' @ UD_VERBS (ua_action args) @ '' '' @ quoteForShell (ua_device args)"

definition ud_runAction :: "unassigned_args \<Rightarrow> tool_result prog" where
  "ud_runAction args =
     bind (ud_precondition (ua_device args)) (\<lambda>failure.
       case failure of
         Some r \<Rightarrow> Ret r
       | None \<Rightarrow>
           bind (execute_shell (ud_command args) MOUNT_TIMEOUT_MS) (\<lambda>res.
             if exitCode res \<noteq> 0
             then toolError (''rc.unassigned '' @ UD_VERBS (ua_action args) @ '' failed (exit '' @ show_int (exitCode res) @ ''): ''
                    @ (if trim (stderr res) \<noteq> [] then trim (stderr res) else trim (stdout res)))
             else bind (readMountpoint (ua_device args)) (\<lambda>mountpoint. ud_renderOutcome args mountpoint)))"

definition unassignedActionHandler :: "bool \<Rightarrow> channel \<Rightarrow> unassigned_args \<Rightarrow> tool_result prog" where
  "unassignedActionHandler shell ch args =
     with_shell shell
       (if \<not> re_test PARTITION_PATTERN (ua_device args)
        then toolError (dquote @ ua_device args @ dquote @ '' is not a partition path (expected /dev/sdX1 or /dev/nvmeXnYpZ '' @ mdash @ '' see unassigned_list). No changes were made.'')
        else gated (requireRiskAcknowledgementInteractive ch (ua_flags args) (ud_refusalMessage args))
               (failing_with (''Failed to '' @ mount_action_text (ua_action args) @ '' '' @ ua_device args @ '' over SSH: '') (ud_runAction args)))"

section \<open>What the handler may run\<close>

definition ud_event_ok :: "unassigned_args \<Rightarrow> event \<Rightarrow> bool" where
  "ud_event_ok args e =
     (case e of
        EShell c t \<Rightarrow> re_test PARTITION_PATTERN (ua_device args) \<and>
          c \<in> {ud_probe_command, disks_ini_command, ud_command args, mountpoint_command (ua_device args)}
      | EElicit m b \<Rightarrow> True | _ \<Rightarrow> False)"

lemma ud_events: "emits (ud_event_ok args) (unassignedActionHandler shell ch args)"
  unfolding unassignedActionHandler_def ud_runAction_def ud_precondition_def readMountpoint_def ud_renderOutcome_def Let_def
  by (intro emits_intros) (simp_all add: ud_event_ok_def)

text \<open>
  The mount command is only sent when the device map that was read does not list the parent
  disk of the partition.
\<close>

abbreviation "ud_probe_event \<equiv> EShell ud_probe_command ud_PROBE_TIMEOUT_MS"
abbreviation "disks_ini_event \<equiv> EShell disks_ini_command ud_PROBE_TIMEOUT_MS"

lemma run_ud_precondition:
  "\<exists>x es. run w tr (ud_precondition device) = (x, tr @ es) \<and> set es \<subseteq> {ud_probe_event, disks_ini_event} \<and>
     (x = Inr None \<longrightarrow>
       (\<exists>out. w_shell w (tr @ [ud_probe_event]) disks_ini_command ud_PROBE_TIMEOUT_MS = Inr out \<and>
          parentDiskOf device \<notin> set (parseAssignedDevices (stdout out))))"
proof (cases "w_shell w tr ud_probe_command ud_PROBE_TIMEOUT_MS")
  case (Inl e)
  then show ?thesis by (simp add: ud_precondition_def run_bind run_execute_shell)
next
  case probe: (Inr p)
  show ?thesis
  proof (cases "exitCode p = 0")
    case False
    with probe show ?thesis by (simp add: ud_precondition_def run_bind run_execute_shell run_refuse)
  next
    case True
    show ?thesis
    proof (cases "w_shell w (tr @ [ud_probe_event]) disks_ini_command ud_PROBE_TIMEOUT_MS")
      case (Inl e)
      with probe True show ?thesis by (simp add: ud_precondition_def run_bind run_execute_shell)
    next
      case (Inr out)
      with probe True show ?thesis
        by (cases "parentDiskOf device \<in> set (parseAssignedDevices (stdout out))")
           (simp_all add: ud_precondition_def run_bind run_execute_shell run_refuse)
    qed
  qed
qed

lemma ud_command_distinct:
  "ud_command args \<noteq> ud_probe_command" "ud_command args \<noteq> disks_ini_command"
  by (simp_all add: ud_command_def ud_probe_command_def disks_ini_command_def quoteForShell_def)

lemma ud_runAction_assigned:
  assumes "EShell (ud_command args) t \<in> set (snd (run w tr (ud_runAction args))) - set tr"
  shows "\<exists>out. w_shell w (tr @ [ud_probe_event]) disks_ini_command ud_PROBE_TIMEOUT_MS = Inr out \<and>
     parentDiskOf (ua_device args) \<notin> set (parseAssignedDevices (stdout out))"
proof -
  obtain x es where x: "run w tr (ud_precondition (ua_device args)) = (x, tr @ es)" "set es \<subseteq> {ud_probe_event, disks_ini_event}"
    "x = Inr None \<Longrightarrow> \<exists>out. w_shell w (tr @ [ud_probe_event]) disks_ini_command ud_PROBE_TIMEOUT_MS = Inr out \<and>
          parentDiskOf (ua_device args) \<notin> set (parseAssignedDevices (stdout out))"
    using run_ud_precondition [of w tr "ua_device args"] by auto
  have "x = Inr None"
  proof (rule ccontr)
    assume "x \<noteq> Inr None"
    then have "snd (run w tr (ud_runAction args)) = tr @ es"
      by (cases x) (auto simp: ud_runAction_def run_bind x(1) split: option.splits)
    with assms x(2) show False by (auto simp: ud_command_distinct)
  qed
  with x(3) show ?thesis by simp
qed

section \<open>What an unmount cannot see\<close>

text \<open>
  Neither look of an unmount tells a failed command from a negative answer: when the read of the
  device map and the final \<open>lsblk\<close> both lose their channel (exit code -1 and no output), no disk
  counts as assigned and the partition counts as unmounted.
\<close>

lemma unmount_trusts_failed_looks:
  assumes "w_shell w = (\<lambda>tr c t. Inr ([ok, lost, ok, lost] ! length tr))"
    and "exitCode ok = 0" "exitCode lost = -1" "stdout lost = []" "ua_action args = Unmount"
  shows "\<exists>r. result_of w (ud_runAction args) = Inr r \<and> \<not> isError r"
proof -
  have "parseAssignedDevices [] = []" "mountpoint_of [] = JNull" by code_simp+
  with assms show ?thesis
    by (cases "ua_format args")
      (simp_all add: result_of_def ud_runAction_def ud_precondition_def readMountpoint_def run_bind run_execute_shell
        ud_renderOutcome_def run_formatResponse)
qed

end
