(* ===== verification/ShareTools.thy ===== *)
theory ShareTools
  imports Payload Patterns
begin

text \<open>
  The share tools (\<open>src/tools/share/\<close>): the web UI's form bodies are rebuilt from the share's
  config file and the requested changes, handed to emhttpd, and the result is verified by
  reading the config back. Config files and forms are association lists in order.
\<close>

section \<open>Settings\<close>

definition SHARE_CFG_DIR :: string where "SHARE_CFG_DIR = ''/boot/config/shares''"
definition SHARES_ROOT :: string where "SHARES_ROOT = ''/mnt/user''"
definition share_DISKS_INI :: string where "share_DISKS_INI = ''/var/local/emhttp/disks.ini''"
definition VAR_INI :: string where "VAR_INI = ''/var/local/emhttp/var.ini''"
definition EMCMD :: string where "EMCMD = ''/usr/local/sbin/emcmd''"
definition CONTEXT_SEPARATOR :: string where "CONTEXT_SEPARATOR = ''=== VAR''"
definition MAX_SHARE_NAME_LENGTH :: nat where "MAX_SHARE_NAME_LENGTH = 40"
definition CFG_TIMEOUT_MS :: int where "CFG_TIMEOUT_MS = 10000"
definition EMCMD_TIMEOUT_MS :: int where "EMCMD_TIMEOUT_MS = 60000"

definition RESERVED_SHARE_NAMES :: "string list" where
  "RESERVED_SHARE_NAMES =
     [''flash'', ''boot'', ''disks'', ''disk'', ''user'', ''user0'', ''cache'', ''parity'', ''remotes'', ''addons'', ''rootshare'']"

type_synonym cfg = "(string \<times> string) list"

record share_settings =
  s_comment :: "string option"
  s_allocator :: "string option"
  s_useCache :: "string option"
  s_cachePool :: "string option"
  s_smbExport :: "string option"
  s_smbSecurity :: "string option"

datatype share_command = AddShare | Apply | Delete

definition share_command_text :: "share_command \<Rightarrow> string" where
  "share_command_text c = (case c of AddShare \<Rightarrow> ''Add Share'' | Apply \<Rightarrow> ''Apply'' | Delete \<Rightarrow> ''Delete'')"

record edit_input =
  e_name :: string
  e_nameOrig :: string
  e_current :: cfg
  e_changes :: share_settings
  e_command :: share_command

definition no_changes :: share_settings where
  "no_changes = \<lparr>s_comment = None, s_allocator = None, s_useCache = None, s_cachePool = None, s_smbExport = None, s_smbSecurity = None\<rparr>"

definition CREATE_DEFAULTS :: cfg where
  "CREATE_DEFAULTS =
     [(''shareAllocator'', ''highwater''), (''shareUseCache'', ''no''), (''shareCOW'', ''auto''),
      (''shareCaseSensitive'', ''auto''), (''shareExport'', ''-''), (''shareSecurity'', ''public'')]"

definition EDIT_FIELDS :: "string list" where
  "EDIT_FIELDS =
     [''shareComment'', ''shareAllocator'', ''shareFloor'', ''shareSplitLevel'', ''shareUseCache'', ''shareCachePool'',
      ''shareCachePool2'', ''shareCOW'', ''shareInclude'', ''shareExclude'']"

definition SMB_FIELDS :: "string list" where
  "SMB_FIELDS = [''shareExport'', ''shareSecurity'', ''shareCaseSensitive'', ''shareVolsizelimit'']"

section \<open>Config files\<close>

text \<open>Lines \<open>key="value"\<close>; a later line for the same key wins.\<close>

definition CFG_LINE :: regex where
  "CFG_LINE =
     rseq [RLineStart, RGroup 1 (rplus (RClass is_word)), rstr (''='' @ dquote), RGroup 2 (RStar (rnone_of dquote)), rstr dquote]"

definition parseShareCfg :: "string \<Rightarrow> cfg" where
  "parseShareCfg t = foldl (\<lambda>cfg cs. upsert (group cs 1) (group cs 2) cfg) [] (re_match_all CFG_LINE t)"

text \<open>\<open>SETTING_KEYS\<close> pairs each setting with its key; the settings that are present.\<close>

definition setting_pairs :: "share_settings \<Rightarrow> (string \<times> string option) list" where
  "setting_pairs c =
     [(''shareComment'', s_comment c), (''shareAllocator'', s_allocator c), (''shareUseCache'', s_useCache c),
      (''shareCachePool'', s_cachePool c), (''shareExport'', s_smbExport c), (''shareSecurity'', s_smbSecurity c)]"

definition changedFields :: "share_settings \<Rightarrow> cfg" where
  "changedFields c = [(k, v). (k, Some v) \<leftarrow> setting_pairs c]"

section \<open>Form bodies\<close>

definition unreserved :: "char \<Rightarrow> bool" where
  "unreserved c = (is_alnum c \<or> c \<in> set (''-_.!~*()'' @ squote))"

definition hex_upper :: "nat \<Rightarrow> char" where
  "hex_upper n = ''0123456789ABCDEF'' ! n"

definition encode_char :: "char \<Rightarrow> string" where
  "encode_char c =
     (if unreserved c then [c] else ''%'' @ [hex_upper (of_char c div 16), hex_upper (of_char c mod 16)])"

definition encodeURIComponent :: "string \<Rightarrow> string" where
  "encodeURIComponent s = concat (map encode_char s)"

definition encodePairs :: "(string \<times> string) list \<Rightarrow> string" where
  "encodePairs pairs = join ''&'' (map (\<lambda>(k, v). k @ ''='' @ encodeURIComponent v) pairs)"

text \<open>\<open>{ ...CREATE_DEFAULTS, ...current, ...changedFields }\<close>, read at one key.\<close>

definition merged_field :: "cfg \<Rightarrow> share_settings \<Rightarrow> string \<Rightarrow> string" where
  "merged_field current changes k =
     (case map_of (changedFields changes) k of
        Some v \<Rightarrow> v
      | None \<Rightarrow> (case map_of current k of
                    Some v \<Rightarrow> v
                  | None \<Rightarrow> (case map_of CREATE_DEFAULTS k of Some v \<Rightarrow> v | None \<Rightarrow> [])))"

definition edit_pairs :: "edit_input \<Rightarrow> (string \<times> string) list" where
  "edit_pairs inp =
     [(''shareName'', e_name inp), (''shareNameOrig'', e_nameOrig inp)] @
     map (\<lambda>f. (f, merged_field (e_current inp) (e_changes inp) f)) EDIT_FIELDS @
     [(''cmdEditShare'', share_command_text (e_command inp))]"

definition buildEditQuery :: "edit_input \<Rightarrow> string" where
  "buildEditQuery inp = encodePairs (edit_pairs inp)"

definition smb_pairs :: "string \<Rightarrow> cfg \<Rightarrow> share_settings \<Rightarrow> (string \<times> string) list" where
  "smb_pairs name current changes =
     [(''shareName'', name)] @ map (\<lambda>f. (f, merged_field current changes f)) SMB_FIELDS @ [(''changeShareSecurity'', ''Apply'')]"

definition buildSmbQuery :: "string \<Rightarrow> cfg \<Rightarrow> share_settings \<Rightarrow> string option" where
  "buildSmbQuery name current changes =
     (if s_smbExport changes = None \<and> s_smbSecurity changes = None then None
      else Some (encodePairs (smb_pairs name current changes)))"

definition emcmdCommand :: "string \<Rightarrow> string" where
  "emcmdCommand query = quoteForShell EMCMD @ '' '' @ quoteForShell query"

section \<open>Names\<close>

definition SECTION_LINE :: regex where
  "SECTION_LINE = rseq [RLineStart, rstr (''['' @ dquote), RGroup 1 (rplus (rnone_of dquote)), rstr (dquote @ '']'')]"

definition POOL_SECTION :: regex where
  "POOL_SECTION =
     rseq [SECTION_LINE, rstr nl,
           RLazyStar (rseq [RNotAhead (rstr ''[''), RStar (rnone_of nl), rstr nl]),
           rstr (''type='' @ dquote @ ''Cache'' @ dquote)]"

definition parsePoolNames :: "string \<Rightarrow> string list" where
  "parsePoolNames disksIni = map (\<lambda>cs. group cs 1) (re_match_all POOL_SECTION disksIni)"

definition parseDiskNames :: "string \<Rightarrow> string list" where
  "parseDiskNames disksIni = map (\<lambda>cs. group cs 1) (re_match_all SECTION_LINE disksIni)"

definition RESERVED_LINE :: regex where
  "RESERVED_LINE = rseq [RLineStart, rstr (''reservedNames='' @ dquote), RGroup 1 (RStar (rnone_of dquote)), rstr dquote]"

definition parseReservedNames :: "string \<Rightarrow> string list" where
  "parseReservedNames varIni =
     (case re_match RESERVED_LINE varIni of
        None \<Rightarrow> []
      | Some cs \<Rightarrow> if group cs 1 = [] then [] else filter (\<lambda>n. n \<noteq> []) (map trim (split_on '','' (group cs 1))))"

definition isReservedName :: "string \<Rightarrow> string list \<Rightarrow> bool" where
  "isReservedName name extra = (\<exists>r \<in> set (RESERVED_SHARE_NAMES @ extra). to_lower r = to_lower name)"

definition share_char :: "char \<Rightarrow> bool" where
  "share_char c = (is_alnum c \<or> c \<in> set ''._-'')"

definition SHARE_NAME_CHARACTERS :: regex where
  "SHARE_NAME_CHARACTERS = anchored (rplus (RClass share_char))"

definition validateShareName :: "string \<Rightarrow> string option" where
  "validateShareName name =
     (if length name = 0 then Some ''Share name is empty.''
      else if length name > MAX_SHARE_NAME_LENGTH
      then Some (''Share name must be '' @ show_nat MAX_SHARE_NAME_LENGTH @ '' characters or less.'')
      else if starts_with name ''.'' then Some ''Share names must not start with a dot (hidden shares are not allowed).''
      else if \<not> re_test SHARE_NAME_CHARACTERS name
      then Some ''Share names may only contain letters, digits, dot, underscore, and hyphen.''
      else None)"

definition shareCfgPath :: "string \<Rightarrow> string" where
  "shareCfgPath name = SHARE_CFG_DIR @ ''/'' @ name @ ''.cfg''"

definition unverifiedKeys :: "share_settings \<Rightarrow> cfg \<Rightarrow> string list" where
  "unverifiedKeys changes cfgAfter =
     map fst (filter (\<lambda>(k, v). map_of cfgAfter k \<noteq> Some v) (changedFields changes))"

section \<open>The write flow\<close>

record host_context =
  pools :: "string list"
  diskNames :: "string list"
  reserved :: "string list"

definition cfg_command :: "string \<Rightarrow> string" where
  "cfg_command name = ''cat '' @ quoteForShell (shareCfgPath name)"

definition readShareCfg :: "string \<Rightarrow> cfg option prog" where
  "readShareCfg name =
     bind (execute_shell (cfg_command name) CFG_TIMEOUT_MS) (\<lambda>res.
       Ret (if exitCode res = 0 then Some (parseShareCfg (stdout res)) else None))"

definition host_command :: string where
  "host_command =
     ''cat '' @ quoteForShell share_DISKS_INI @ ''; echo '' @ squote @ CONTEXT_SEPARATOR @ squote @ ''; grep ''
     @ squote @ ''^reservedNames='' @ squote @ '' '' @ quoteForShell VAR_INI"

definition host_of :: "string \<Rightarrow> host_context" where
  "host_of out =
     (let parts = split_on (CONTEXT_SEPARATOR @ nl) out;
          disksIni = (case parts of [] \<Rightarrow> [] | d # _ \<Rightarrow> d);
          varIni = (case parts of _ # v # _ \<Rightarrow> v | _ \<Rightarrow> [])
      in \<lparr>pools = parsePoolNames disksIni, diskNames = parseDiskNames disksIni, reserved = parseReservedNames varIni\<rparr>)"

definition readHostContext :: "host_context prog" where
  "readHostContext = bind (execute_shell host_command CFG_TIMEOUT_MS) (\<lambda>res. Ret (host_of (stdout res)))"

definition hostRefusal :: "string \<Rightarrow> share_settings \<Rightarrow> host_context \<Rightarrow> string option" where
  "hostRefusal name changes h =
     (if isReservedName name (reserved h @ diskNames h @ pools h)
      then Some (dquote @ name @ dquote @ '' is a reserved name (Unraid pseudo-share, disk, or pool name). No changes were made.'')
      else (case s_cachePool changes of
              Some p \<Rightarrow>
                if p \<notin> set (pools h)
                then Some (''Unknown cache pool '' @ dquote @ p @ dquote @ ''. Pools on this server: ''
                       @ (if join '', '' (pools h) \<noteq> [] then join '', '' (pools h) else ''(none)'') @ ''. No changes were made.'')
                else None
            | None \<Rightarrow> None))"

definition checkAgainstHost :: "string \<Rightarrow> share_settings \<Rightarrow> host_context \<Rightarrow> tool_result option prog" where
  "checkAgainstHost name changes h = (case hostRefusal name changes h of Some m \<Rightarrow> refuse m | None \<Rightarrow> Ret None)"

definition submitToEmhttpd :: "string \<Rightarrow> tool_result option prog" where
  "submitToEmhttpd query =
     bind (execute_shell (emcmdCommand query) EMCMD_TIMEOUT_MS) (\<lambda>res.
       if exitCode res \<noteq> 0
       then refuse (''emhttpd rejected the change (exit '' @ show_int (exitCode res) @ ''): ''
              @ (if trim (stdout res) \<noteq> [] then trim (stdout res) else trim (stderr res))
              @ ''. Nothing was verified '' @ mdash @ '' check the share in the web UI.'')
       else Ret None)"

text \<open>\<open>if (failure) return failure;\<close>\<close>

definition unless_failed :: "tool_result option prog \<Rightarrow> tool_result prog \<Rightarrow> tool_result prog" where
  "unless_failed check work = bind check (\<lambda>x. case x of Some r \<Rightarrow> Ret r | None \<Rightarrow> work)"

definition verify_outcome :: "edit_input \<Rightarrow> bool \<Rightarrow> cfg option \<Rightarrow> tool_result prog" where
  "verify_outcome inp smb after =
     (case after of
        None \<Rightarrow> toolError (''emhttpd accepted the change but '' @ shareCfgPath (e_name inp) @ '' could not be read back '' @ mdash @ '' not verified. Check the share in the web UI.'')
      | Some cfg \<Rightarrow>
          (let mismatched = unverifiedKeys (e_changes inp) cfg
           in if length mismatched > 0
              then toolError (''emhttpd accepted the change but the read-back differs for '' @ join '', '' mismatched @ '' '' @ mdash @ '' not verified. Check the share in the web UI (Shares '' @ rarrow @ '' '' @ e_name inp @ '').'')
              else toolText (''Share '' @ dquote @ e_name inp @ dquote @ '' '' @ (if e_command inp = AddShare then ''created'' else ''updated'')
                     @ '' '' @ mdash @ '' verified by re-reading '' @ shareCfgPath (e_name inp) @ (if smb then '' (SMB settings applied)'' else [])
                     @ ''. Data path: /mnt/user/'' @ e_name inp @ ''.'')))"

definition applyAndVerify :: "edit_input \<Rightarrow> tool_result prog" where
  "applyAndVerify inp =
     unless_failed (submitToEmhttpd (buildEditQuery inp))
       (let smbQuery = buildSmbQuery (e_name inp) (e_current inp) (e_changes inp)
        in unless_failed (case smbQuery of None \<Rightarrow> Ret None | Some q \<Rightarrow> submitToEmhttpd q)
             (bind (readShareCfg (e_name inp)) (\<lambda>after. verify_outcome inp (smbQuery \<noteq> None) after)))"

section \<open>The three handlers\<close>

record share_args =
  sh_name :: string
  sh_settings :: share_settings
  sh_flags :: risk_flags

definition create_input :: "share_args \<Rightarrow> edit_input" where
  "create_input args = \<lparr>e_name = sh_name args, e_nameOrig = [], e_current = [], e_changes = sh_settings args, e_command = AddShare\<rparr>"

definition runCreate :: "share_args \<Rightarrow> tool_result prog" where
  "runCreate args =
     bind (readShareCfg (sh_name args)) (\<lambda>existing.
       case existing of
         Some c \<Rightarrow> toolError (''Share '' @ dquote @ sh_name args @ dquote @ '' already exists '' @ mdash @ '' use share_edit to change it. No changes were made.'')
       | None \<Rightarrow> bind readHostContext (\<lambda>h.
           unless_failed (checkAgainstHost (sh_name args) (sh_settings args) h) (applyAndVerify (create_input args))))"

definition edit_input_of :: "share_args \<Rightarrow> cfg \<Rightarrow> edit_input" where
  "edit_input_of args current = \<lparr>e_name = sh_name args, e_nameOrig = sh_name args, e_current = current, e_changes = sh_settings args, e_command = Apply\<rparr>"

definition runEdit :: "share_args \<Rightarrow> tool_result prog" where
  "runEdit args =
     bind (readShareCfg (sh_name args)) (\<lambda>existing.
       case existing of
         None \<Rightarrow> toolError (''Share '' @ dquote @ sh_name args @ dquote @ '' has no config under /boot/config/shares '' @ mdash @ '' use share_create for a new share. No changes were made.'')
       | Some current \<Rightarrow> bind readHostContext (\<lambda>h.
           unless_failed (checkAgainstHost (sh_name args) (sh_settings args) h) (applyAndVerify (edit_input_of args current))))"

definition find_command :: "string \<Rightarrow> string" where
  "find_command name = ''find '' @ quoteForShell (SHARES_ROOT @ ''/'' @ name) @ '' -mindepth 1 -print -quit 2>/dev/null''"

definition firstEntry :: "string \<Rightarrow> string prog" where
  "firstEntry name = bind (execute_shell (find_command name) CFG_TIMEOUT_MS) (\<lambda>res. Ret (trim (stdout res)))"

definition delete_pair :: "string \<Rightarrow> bool" where
  "delete_pair p = (starts_with p ''shareName='' \<or> starts_with p ''shareNameOrig='' \<or> starts_with p ''cmdEditShare='')"

definition deleteQueryOnly :: "string \<Rightarrow> string" where
  "deleteQueryOnly fullQuery = join ''&'' (filter delete_pair (split_on ''&'' fullQuery))"

definition delete_input :: "string \<Rightarrow> edit_input" where
  "delete_input name = \<lparr>e_name = name, e_nameOrig = name, e_current = [], e_changes = no_changes, e_command = Delete\<rparr>"

definition delete_query :: "string \<Rightarrow> string" where
  "delete_query name = deleteQueryOnly (buildEditQuery (delete_input name))"

definition runDelete :: "string \<Rightarrow> tool_result prog" where
  "runDelete name =
     bind (readShareCfg name) (\<lambda>existing.
       case existing of
         None \<Rightarrow> toolError (''Share '' @ dquote @ name @ dquote @ '' has no config under /boot/config/shares. No changes were made.'')
       | Some c \<Rightarrow> bind (firstEntry name) (\<lambda>entry.
           if entry \<noteq> []
           then toolError (''Share '' @ dquote @ name @ dquote @ '' still contains data (e.g. '' @ entry @ ''). share_delete only removes the share configuration, never files: move or delete the contents of '' @ SHARES_ROOT @ ''/'' @ name @ '' first (they live on the array/pool disks). No changes were made.'')
           else unless_failed (submitToEmhttpd (delete_query name))
             (bind (readShareCfg name) (\<lambda>after.
                case after of
                  Some c \<Rightarrow> toolError (''emhttpd accepted the delete but '' @ shareCfgPath name @ '' still exists '' @ mdash @ '' not verified. Check Shares in the web UI.'')
                | None \<Rightarrow> toolText (''Share '' @ dquote @ name @ dquote @ '' configuration deleted '' @ mdash @ '' verified: '' @ shareCfgPath name @ '' is gone. No files were touched.'')))))"

definition hasChanges :: "share_args \<Rightarrow> bool" where
  "hasChanges args = (\<exists>(k, v) \<in> set (setting_pairs (sh_settings args)). v \<noteq> None)"

definition create_refusal :: "string \<Rightarrow> string" where
  \<open>create_refusal name = ''Refusing to create share "'' @ name @ ''": this adds a user share (and its directory under /mnt/user) exactly as the web UI would. Re-call with "confirm": true and "acknowledge_risk": true to proceed. No changes were made.''\<close>

definition edit_refusal :: "string \<Rightarrow> string" where
  \<open>edit_refusal name = ''Refusing to edit share "'' @ name @ ''": changing allocation, cache mode, or SMB export/security affects where new files land and who can reach them. Re-call with "confirm": true and "acknowledge_risk": true to proceed. No changes were made.''\<close>

definition delete_refusal :: "string \<Rightarrow> string" where
  \<open>delete_refusal name = ''Refusing to delete share "'' @ name @ ''": this removes the share\'s configuration (SMB/NFS export, allocation settings). It never deletes files, and refuses while the share holds data. Re-call with "confirm": true and "acknowledge_risk": true to proceed. No changes were made.''\<close>

definition shareCreateHandler :: "bool \<Rightarrow> channel \<Rightarrow> share_args \<Rightarrow> tool_result prog" where
  "shareCreateHandler shell ch args =
     with_shell shell
       (case validateShareName (sh_name args) of
          Some m \<Rightarrow> toolError (m @ '' No changes were made.'')
        | None \<Rightarrow> gated (requireRiskAcknowledgementInteractive ch (sh_flags args) (create_refusal (sh_name args)))
                   (failing_with ''Failed to create share over SSH: '' (runCreate args)))"

definition shareEditHandler :: "bool \<Rightarrow> channel \<Rightarrow> share_args \<Rightarrow> tool_result prog" where
  "shareEditHandler shell ch args =
     with_shell shell
       (case validateShareName (sh_name args) of
          Some m \<Rightarrow> toolError (m @ '' No changes were made.'')
        | None \<Rightarrow>
            if \<not> hasChanges args
            then toolError (''Refusing to edit: nothing to change '' @ mdash @ '' pass at least one of comment, allocator, useCache, cachePool, smbExport, smbSecurity. No changes were made.'')
            else gated (requireRiskAcknowledgementInteractive ch (sh_flags args) (edit_refusal (sh_name args)))
                   (failing_with ''Failed to edit share over SSH: '' (runEdit args)))"

definition shareDeleteHandler :: "bool \<Rightarrow> channel \<Rightarrow> string \<Rightarrow> risk_flags \<Rightarrow> tool_result prog" where
  "shareDeleteHandler shell ch name flags =
     with_shell shell
       (case validateShareName name of
          Some m \<Rightarrow> toolError (m @ '' No changes were made.'')
        | None \<Rightarrow> gated (requireRiskAcknowledgementInteractive ch flags (delete_refusal name))
                   (failing_with ''Failed to delete share over SSH: '' (runDelete name)))"

section \<open>Form bodies decode to the settings\<close>

text \<open>
  The receiving side of a form body, as the HTML form encoding defines it: cut at the
  ampersands, cut each pair at its first equals sign, undo the percent escapes.
\<close>

definition hex_digit :: "char \<Rightarrow> nat" where
  "hex_digit c = (if is_digit c then of_char c - 48 else of_char c - 55)"

fun percent_decode :: "string \<Rightarrow> string" where
  "percent_decode [] = []"
| "percent_decode (c # s) =
     (if c = CHR ''%'' \<and> 2 \<le> length s
      then char_of (hex_digit (s ! 0) * 16 + hex_digit (s ! 1)) # percent_decode (drop 2 s)
      else c # percent_decode s)"

definition decode_pair :: "string \<Rightarrow> string \<times> string" where
  "decode_pair p = (takeWhile (\<lambda>c. c \<noteq> CHR ''='') p, percent_decode (drop 1 (dropWhile (\<lambda>c. c \<noteq> CHR ''='') p)))"

definition decode_form :: "string \<Rightarrow> (string \<times> string) list" where
  "decode_form body = map decode_pair (split_on ''&'' body)"

lemma hex_digit_upper: "n < 16 \<Longrightarrow> hex_digit (hex_upper n) = n"
proof -
  assume "n < 16"
  then have "n \<in> {0,1,2,3,4,5,6,7,8,9,10,11,12,13,14,15}" by simp presburger
  then show ?thesis by (elim insertE) (simp_all add: hex_digit_def hex_upper_def is_digit_def)
qed

lemma unreserved_plain: "unreserved c \<Longrightarrow> c \<noteq> CHR ''%'' \<and> c \<noteq> CHR ''&'' \<and> c \<noteq> CHR ''=''"
  by (auto simp: unreserved_def is_alnum_def is_digit_def is_upper_def is_lower_def)

lemma hex_upper_plain: "n < 16 \<Longrightarrow> hex_upper n \<noteq> CHR ''&'' \<and> hex_upper n \<noteq> CHR ''=''"
proof -
  assume "n < 16"
  then have "n \<in> {0,1,2,3,4,5,6,7,8,9,10,11,12,13,14,15}" by simp presburger
  then show ?thesis by (elim insertE) (simp_all add: hex_upper_def)
qed

lemma char_halves: "(of_char c :: nat) div 16 < 16" "(of_char c :: nat) mod 16 < 16"
  using nat_of_char_less_256 [of c] by (auto simp: less_mult_imp_div_less)

lemma percent_decode_char: "percent_decode (encode_char c @ s) = c # percent_decode s"
proof (cases "unreserved c")
  case True
  then show ?thesis by (simp add: encode_char_def unreserved_plain)
next
  case False
  have "char_of ((of_char c :: nat) div 16 * 16 + of_char c mod 16) = c"
    by (metis div_mult_mod_eq char_of_char)
  with False show ?thesis by (simp add: encode_char_def hex_digit_upper char_halves)
qed

lemma percent_decode_encode: "percent_decode (encodeURIComponent s) = s"
  by (induction s) (simp_all add: encodeURIComponent_def percent_decode_char)

lemma encodeURIComponent_plain: "c \<in> set (encodeURIComponent s) \<Longrightarrow> c \<noteq> CHR ''&''"
  by (auto simp: encodeURIComponent_def encode_char_def dest: unreserved_plain split: if_splits)
     (use hex_upper_plain char_halves in metis)+

definition plain_key :: "string \<Rightarrow> bool" where
  "plain_key k = (\<forall>c \<in> set k. c \<noteq> CHR ''&'' \<and> c \<noteq> CHR ''='')"

lemma decode_pair_encode: "plain_key k \<Longrightarrow> decode_pair (k @ ''='' @ encodeURIComponent v) = (k, v)"
  by (auto simp: decode_pair_def plain_key_def takeWhile_append dropWhile_append percent_decode_encode)

lemma decode_encodePairs:
  assumes "ps \<noteq> []" "\<forall>(k, v) \<in> set ps. plain_key k"
  shows "decode_form (encodePairs ps) = ps"
proof -
  let ?e = "\<lambda>(k, v). k @ ''='' @ encodeURIComponent v"
  have "\<forall>x \<in> set (map ?e ps). CHR ''&'' \<notin> set x"
    using assms(2) by (auto simp: plain_key_def dest: encodeURIComponent_plain)
  then have "decode_form (encodePairs ps) = map (decode_pair \<circ> ?e) ps"
    using assms(1) by (simp add: decode_form_def encodePairs_def split_on_join)
  also have "\<dots> = ps"
    using assms(2) by (induction ps) (auto simp: decode_pair_encode simp del: append_Cons)
  finally show ?thesis .
qed

text \<open>
  The body of an edit names every field of the form: the requested changes with their new
  values, everything else with the value the config file had.
\<close>

lemma edit_keys_plain: "\<forall>(k, v) \<in> set (edit_pairs inp). plain_key k"
  by (simp add: edit_pairs_def EDIT_FIELDS_def plain_key_def)

lemma decode_edit: "decode_form (buildEditQuery inp) = edit_pairs inp"
  unfolding buildEditQuery_def by (rule decode_encodePairs [OF _ edit_keys_plain]) (simp add: edit_pairs_def)

lemma smb_keys_plain: "\<forall>(k, v) \<in> set (smb_pairs n c ch). plain_key k"
  by (simp add: smb_pairs_def SMB_FIELDS_def plain_key_def)

lemma decode_smb: "decode_form (encodePairs (smb_pairs n c ch)) = smb_pairs n c ch"
  by (rule decode_encodePairs [OF _ smb_keys_plain]) (simp add: smb_pairs_def)

lemma map_of_edit_pairs: "f \<in> set EDIT_FIELDS \<Longrightarrow> map_of (edit_pairs inp) f = Some (merged_field (e_current inp) (e_changes inp) f)"
  by (auto simp: edit_pairs_def EDIT_FIELDS_def)

lemma map_of_smb_pairs: "f \<in> set SMB_FIELDS \<Longrightarrow> map_of (smb_pairs n c ch) f = Some (merged_field c ch f)"
  by (auto simp: smb_pairs_def SMB_FIELDS_def)

lemma merged_field_changed: "map_of (changedFields ch) f = Some v \<Longrightarrow> merged_field c ch f = v"
  by (simp add: merged_field_def)

lemma merged_field_kept: "map_of (changedFields ch) f = None \<Longrightarrow> map_of c f = Some v \<Longrightarrow> merged_field c ch f = v"
  by (simp add: merged_field_def)

text \<open>The delete form carries the identity of the share and nothing else.\<close>

lemma split_filter_join:
  assumes "ps \<noteq> []" "\<forall>x \<in> set ps. CHR ''&'' \<notin> set x"
  shows "split_on ''&'' (join ''&'' ps) = ps"
  using split_on_join [OF assms] .

lemma encode_pieces: "\<forall>x \<in> set (map (\<lambda>f. f @ ''='' @ encodeURIComponent (g f)) EDIT_FIELDS). CHR ''&'' \<notin> set x"
  by (auto simp: EDIT_FIELDS_def dest: encodeURIComponent_plain)

lemma delete_query_pairs:
  "delete_query name =
     encodePairs [(''shareName'', name), (''shareNameOrig'', name), (''cmdEditShare'', ''Delete'')]"
proof -
  let ?ps = "map (\<lambda>(k, v). k @ ''='' @ encodeURIComponent v) (edit_pairs (delete_input name))"
  have "\<forall>x \<in> set ?ps. CHR ''&'' \<notin> set x"
    using edit_keys_plain [of "delete_input name"] by (auto simp: plain_key_def dest: encodeURIComponent_plain)
  then have "split_on ''&'' (buildEditQuery (delete_input name)) = ?ps"
    unfolding buildEditQuery_def encodePairs_def by (intro split_on_join) (simp_all add: edit_pairs_def)
  then have "delete_query name = join ''&'' (filter delete_pair ?ps)"
    by (simp add: delete_query_def deleteQueryOnly_def)
  also have "filter delete_pair ?ps =
      map (\<lambda>(k, v). k @ ''='' @ encodeURIComponent v)
        [(''shareName'', name), (''shareNameOrig'', name), (''cmdEditShare'', ''Delete'')]"
    by (simp add: edit_pairs_def EDIT_FIELDS_def delete_input_def delete_pair_def starts_with_def share_command_text_def)
  finally show ?thesis by (simp add: encodePairs_def)
qed

section \<open>Share names\<close>

lemma validateShareName_chars:
  assumes "validateShareName name = None"
  shows "name \<noteq> []" "length name \<le> 40" "\<forall>c \<in> set name. share_char c" "hd name \<noteq> CHR ''.''"
proof -
  have test: "re_test SHARE_NAME_CHARACTERS name" and ne: "name \<noteq> []" and len: "length name \<le> 40"
    and dot: "\<not> starts_with name ''.''"
    using assms by (auto simp: validateShareName_def MAX_SHARE_NAME_LENGTH_def split: if_splits)
  show "name \<noteq> []" by (rule ne)
  show "length name \<le> 40" by (rule len)
  show "\<forall>c \<in> set name. share_char c"
    using re_test_chars [OF test [unfolded SHARE_NAME_CHARACTERS_def]] by simp
  show "hd name \<noteq> CHR ''.''" using dot ne by (cases name) (auto simp: starts_with_def)
qed

lemma share_char_no_slash: "share_char c \<Longrightarrow> c \<noteq> CHR ''/''"
  by (auto simp: share_char_def is_alnum_def is_digit_def is_upper_def is_lower_def)

section \<open>What the handlers may run\<close>

definition share_event_ok :: "(string \<Rightarrow> bool) \<Rightarrow> string \<Rightarrow> event \<Rightarrow> bool" where
  "share_event_ok ok name e =
     (case e of
        EShell c t \<Rightarrow> validateShareName name = None \<and> (c = cfg_command name \<or> ok c)
      | EElicit m b \<Rightarrow> True | _ \<Rightarrow> False)"

lemmas share_flow_defs =
  runCreate_def runEdit_def runDelete_def readShareCfg_def readHostContext_def checkAgainstHost_def unless_failed_def
  applyAndVerify_def submitToEmhttpd_def verify_outcome_def firstEntry_def Let_def

definition delete_ok :: "string \<Rightarrow> string \<Rightarrow> bool" where
  "delete_ok name c = (c = find_command name \<or> c = emcmdCommand (delete_query name))"

lemma share_delete_events: "emits (share_event_ok (delete_ok name) name) (shareDeleteHandler shell ch name flags)"
  unfolding shareDeleteHandler_def share_flow_defs
  by (intro emits_intros) (simp_all add: share_event_ok_def delete_ok_def)

definition write_ok :: "share_args \<Rightarrow> string \<Rightarrow> bool" where
  "write_ok args c =
     (c = host_command \<or>
      (\<exists>inp. e_name inp = sh_name args \<and> e_changes inp = sh_settings args \<and>
         (c = emcmdCommand (buildEditQuery inp) \<or>
          buildSmbQuery (sh_name args) (e_current inp) (sh_settings args) \<noteq> None \<and>
          c = emcmdCommand (encodePairs (smb_pairs (sh_name args) (e_current inp) (sh_settings args))))))"

lemma emits_submit: "P (EShell (emcmdCommand q) EMCMD_TIMEOUT_MS) \<Longrightarrow> emits P (submitToEmhttpd q)"
  unfolding submitToEmhttpd_def by (intro emits_intros) simp_all

lemma emits_readShareCfg: "P (EShell (cfg_command n) CFG_TIMEOUT_MS) \<Longrightarrow> emits P (readShareCfg n)"
  unfolding readShareCfg_def by (intro emits_intros) simp_all

lemma emits_unless_failed: "emits P c \<Longrightarrow> emits P p \<Longrightarrow> emits P (unless_failed c p)"
  unfolding unless_failed_def by (intro emits_intros)

lemma emits_applyAndVerify:
  assumes "e_name inp = sh_name args" "e_changes inp = sh_settings args" "validateShareName (sh_name args) = None"
  shows "emits (share_event_ok (write_ok args) (sh_name args)) (applyAndVerify inp)"
proof -
  have q: "write_ok args (emcmdCommand (buildEditQuery inp))"
    "buildSmbQuery (e_name inp) (e_current inp) (e_changes inp) = Some q \<Longrightarrow> write_ok args (emcmdCommand q)" for q
    using assms by (auto simp: write_ok_def buildSmbQuery_def split: if_splits)
  show ?thesis
    unfolding applyAndVerify_def Let_def verify_outcome_def using q assms
    by (intro emits_unless_failed emits_submit emits_intros emits_readShareCfg)
       (auto simp: share_event_ok_def intro!: emits_submit)
qed

lemma share_create_events: "emits (share_event_ok (write_ok args) (sh_name args)) (shareCreateHandler shell ch args)"
  unfolding shareCreateHandler_def runCreate_def readHostContext_def checkAgainstHost_def
  by (intro emits_intros emits_unless_failed emits_readShareCfg emits_applyAndVerify)
     (simp_all add: share_event_ok_def create_input_def write_ok_def)

lemma share_edit_events: "emits (share_event_ok (write_ok args) (sh_name args)) (shareEditHandler shell ch args)"
  unfolding shareEditHandler_def runEdit_def readHostContext_def checkAgainstHost_def
  by (intro emits_intros emits_unless_failed emits_readShareCfg emits_applyAndVerify)
     (simp_all add: share_event_ok_def edit_input_of_def write_ok_def)

section \<open>Success means verified\<close>

lemma run_readShareCfg:
  "run w tr (readShareCfg n) =
     (map_sum id (\<lambda>res. if exitCode res = 0 then Some (parseShareCfg (stdout res)) else None)
        (w_shell w tr (cfg_command n) CFG_TIMEOUT_MS), tr @ [EShell (cfg_command n) CFG_TIMEOUT_MS])"
  by (simp add: readShareCfg_def run_bind run_execute_shell split: sum.splits)

text \<open>In this world, at this point, the config file holds every requested setting.\<close>

definition cfg_verified :: "world \<Rightarrow> event list \<Rightarrow> string \<Rightarrow> share_settings \<Rightarrow> bool" where
  "cfg_verified w tr name changes =
     (case w_shell w tr (cfg_command name) CFG_TIMEOUT_MS of
        Inl e \<Rightarrow> False
      | Inr res \<Rightarrow> exitCode res = 0 \<and>
          (\<forall>(k, v) \<in> set (changedFields changes). map_of (parseShareCfg (stdout res)) k = Some v))"

lemma cfg_verified_iff:
  "cfg_verified w tr name changes \<longleftrightarrow>
     (\<exists>res. w_shell w tr (cfg_command name) CFG_TIMEOUT_MS = Inr res \<and> exitCode res = 0 \<and>
        (\<forall>(k, v) \<in> set (changedFields changes). map_of (parseShareCfg (stdout res)) k = Some v))"
  by (cases "w_shell w tr (cfg_command name) CFG_TIMEOUT_MS") (auto simp: cfg_verified_def)

lemma unverifiedKeys_empty:
  "unverifiedKeys ch c = [] \<longleftrightarrow> (\<forall>(k, v) \<in> set (changedFields ch). map_of c k = Some v)"
  by (auto simp: unverifiedKeys_def filter_empty_conv)

lemma verify_outcome_success:
  "run w tr (verify_outcome inp smb after) = (Inr r, tr') \<Longrightarrow> \<not> isError r \<Longrightarrow>
   \<exists>c. after = Some c \<and> unverifiedKeys (e_changes inp) c = []"
  by (auto simp: verify_outcome_def Let_def run_toolError split: option.splits if_splits)

text \<open>A check that stops a handler only by returning an error.\<close>

definition stops_with_error :: "tool_result option prog \<Rightarrow> bool" where
  "stops_with_error check = (\<forall>w tr r tr'. run w tr check = (Inr (Some r), tr') \<longrightarrow> isError r)"

lemma submit_stops: "stops_with_error (submitToEmhttpd q)"
  by (auto simp: stops_with_error_def submitToEmhttpd_def run_bind_returns run_refuse split: if_splits)

lemma smb_submit_stops: "stops_with_error (case smb of None \<Rightarrow> Ret None | Some q \<Rightarrow> submitToEmhttpd q)"
  using submit_stops by (cases smb) (auto simp: stops_with_error_def)

lemma host_check_stops: "stops_with_error (checkAgainstHost n ch h)"
  by (auto simp: stops_with_error_def checkAgainstHost_def run_refuse split: option.splits)

lemma risk_gate_stops: "stops_with_error (requireRiskAcknowledgementInteractive ch flags m)"
  by (auto simp: stops_with_error_def run_risk_gate split: if_splits)

lemma run_unless_failed:
  assumes "run w tr (unless_failed check work) = (Inr r, tr')" "\<not> isError r"
    and "stops_with_error check"
  shows "\<exists>tr1. run w tr1 work = (Inr r, tr')"
proof -
  obtain x tr1 where x: "run w tr check = (Inr x, tr1)"
    "run w tr1 (case x of Some r \<Rightarrow> Ret r | None \<Rightarrow> work) = (Inr r, tr')"
    using assms(1) by (auto simp: unless_failed_def run_bind_returns)
  have "x = None"
  proof (rule ccontr)
    assume "x \<noteq> None"
    then obtain r' where "x = Some r'" by blast
    with x assms(2) assms(3) [unfolded stops_with_error_def, rule_format, of w tr r' tr1] show False by simp
  qed
  with x show ?thesis by auto
qed

lemma applyAndVerify_success:
  assumes "run w tr (applyAndVerify inp) = (Inr r, tr')" "\<not> isError r"
  shows "\<exists>tr1. cfg_verified w tr1 (e_name inp) (e_changes inp)"
proof -
  let ?smb = "buildSmbQuery (e_name inp) (e_current inp) (e_changes inp)"
  let ?check = "bind (readShareCfg (e_name inp)) (\<lambda>after. verify_outcome inp (?smb \<noteq> None) after)"
  obtain tr1 where "run w tr1 (unless_failed (case ?smb of None \<Rightarrow> Ret None | Some q \<Rightarrow> submitToEmhttpd q) ?check) = (Inr r, tr')"
    using run_unless_failed [OF assms(1) [unfolded applyAndVerify_def Let_def] assms(2) submit_stops] by blast
  from run_unless_failed [OF this assms(2) smb_submit_stops] obtain tr2 where "run w tr2 ?check = (Inr r, tr')" by blast
  then obtain after tr3 where a: "run w tr2 (readShareCfg (e_name inp)) = (Inr after, tr3)"
    "run w tr3 (verify_outcome inp (?smb \<noteq> None) after) = (Inr r, tr')"
    by (auto simp: run_bind_returns)
  from verify_outcome_success [OF a(2) assms(2)] a(1) have "cfg_verified w tr2 (e_name inp) (e_changes inp)"
    by (auto simp: run_readShareCfg cfg_verified_def unverifiedKeys_empty split: sum.splits if_splits)
  then show ?thesis ..
qed

text \<open>The edit and the create go through the same checks before they are applied.\<close>

lemma checked_apply_success:
  assumes "run w tr (unless_failed (checkAgainstHost n ch h) (applyAndVerify inp)) = (Inr r, tr')" "\<not> isError r"
  shows "\<exists>tr1. cfg_verified w tr1 (e_name inp) (e_changes inp)"
  using run_unless_failed [OF assms host_check_stops] applyAndVerify_success assms(2) by blast

lemma runEdit_success:
  assumes "run w tr (runEdit args) = (Inr r, tr')" "\<not> isError r"
  shows "\<exists>tr1. cfg_verified w tr1 (sh_name args) (sh_settings args)"
proof -
  from assms obtain current h tr2 where
    "run w tr2 (unless_failed (checkAgainstHost (sh_name args) (sh_settings args) h) (applyAndVerify (edit_input_of args current))) = (Inr r, tr')"
    by (auto simp: runEdit_def run_bind_returns run_toolError split: option.splits)
  from checked_apply_success [OF this assms(2)] show ?thesis by (simp add: edit_input_of_def)
qed

lemma runCreate_success:
  assumes "run w tr (runCreate args) = (Inr r, tr')" "\<not> isError r"
  shows "\<exists>tr1. cfg_verified w tr1 (sh_name args) (sh_settings args)"
proof -
  from assms obtain h tr2 where
    "run w tr2 (unless_failed (checkAgainstHost (sh_name args) (sh_settings args) h) (applyAndVerify (create_input args))) = (Inr r, tr')"
    by (auto simp: runCreate_def run_bind_returns run_toolError split: option.splits)
  from checked_apply_success [OF this assms(2)] show ?thesis by (simp add: create_input_def)
qed

text \<open>A gated handler's success is a success of its work.\<close>

lemma gated_work_success:
  assumes "run w tr (with_shell sh (gated g (failing_with t work))) = (Inr r, tr')" "\<not> isError r"
    and "stops_with_error g"
  shows "\<exists>tr1. run w tr1 work = (Inr r, tr')"
proof -
  have sh: sh using assms(1,2) with_shell_off [of w tr "gated g (failing_with t work)"] by (cases sh) auto
  obtain tr1 where "run w tr1 (failing_with t work) = (Inr r, tr')"
    using run_unless_failed [of w tr g "failing_with t work" r tr'] assms sh
    by (auto simp: with_shell_def gated_def unless_failed_def)
  with assms(2) have "run w tr1 work = (Inr r, tr')"
    by (auto simp: run_failing_with split: prod.splits sum.splits)
  then show ?thesis ..
qed

lemma share_edit_success:
  assumes "run w tr (shareEditHandler shell ch args) = (Inr r, tr')" "\<not> isError r"
  shows "\<exists>tr1. cfg_verified w tr1 (sh_name args) (sh_settings args)"
proof -
  have v: "validateShareName (sh_name args) = None \<and> hasChanges args"
  proof (rule ccontr)
    assume "\<not> ?thesis"
    with assms show False
      by (cases shell) (auto simp: shareEditHandler_def with_shell_def run_toolError sshUnavailableError_def split: option.splits if_splits)
  qed
  then have "run w tr (with_shell shell (gated (requireRiskAcknowledgementInteractive ch (sh_flags args) (edit_refusal (sh_name args)))
      (failing_with ''Failed to edit share over SSH: '' (runEdit args)))) = (Inr r, tr')"
    using assms(1) by (simp add: shareEditHandler_def)
  from gated_work_success [OF this assms(2) risk_gate_stops] obtain tr1 where "run w tr1 (runEdit args) = (Inr r, tr')" by blast
  from runEdit_success [OF this assms(2)] show ?thesis .
qed

lemma share_create_success:
  assumes "run w tr (shareCreateHandler shell ch args) = (Inr r, tr')" "\<not> isError r"
  shows "\<exists>tr1. cfg_verified w tr1 (sh_name args) (sh_settings args)"
proof -
  have v: "validateShareName (sh_name args) = None"
  proof (rule ccontr)
    assume "\<not> ?thesis"
    with assms show False
      by (cases shell) (auto simp: shareCreateHandler_def with_shell_def run_toolError sshUnavailableError_def split: option.splits if_splits)
  qed
  then have "run w tr (with_shell shell (gated (requireRiskAcknowledgementInteractive ch (sh_flags args) (create_refusal (sh_name args)))
      (failing_with ''Failed to create share over SSH: '' (runCreate args)))) = (Inr r, tr')"
    using assms(1) by (simp add: shareCreateHandler_def)
  from gated_work_success [OF this assms(2) risk_gate_stops] obtain tr1 where "run w tr1 (runCreate args) = (Inr r, tr')" by blast
  from runCreate_success [OF this assms(2)] show ?thesis .
qed

section \<open>What a delete cannot see\<close>

text \<open>
  The two looks that frame a delete do not tell a failed command from a negative answer: when the
  search for the first entry and the final read of the config both lose their channel (exit code
  -1 and no output), the share counts as empty and its config as gone.
\<close>

lemma delete_trusts_failed_looks:
  assumes "w_shell w = (\<lambda>tr c t. Inr ([ok, lost, ok, lost] ! length tr))" "exitCode ok = 0" "exitCode lost = -1" "stdout lost = []"
  shows "\<exists>r. result_of w (runDelete name) = Inr r \<and> \<not> isError r"
proof -
  have "trim [] = []" by code_simp
  with assms show ?thesis
    by (simp add: result_of_def runDelete_def readShareCfg_def firstEntry_def submitToEmhttpd_def unless_failed_def run_bind
        run_execute_shell run_toolText)
qed

end
