(* ===== verification/ShellTools.thy ===== *)
theory ShellTools
  imports Payload Patterns
begin

text \<open>
  Host tools that run one command over SSH: \<open>shell_exec\<close>, \<open>file_read\<close>, \<open>user_script_run\<close>,
  \<open>user_script_list\<close>, \<open>mover_action\<close>, \<open>disk_spin\<close>, \<open>disk_smart_report\<close> and
  \<open>system_power\<close>. The lemmas say which commands each can run, and that the names and paths in
  them reach the shell as single words.
\<close>

section \<open>Shared pieces\<close>

text \<open>The text of the streams, or a fallback (\<open>a.trim() || b.trim() || fallback\<close>).\<close>

definition first_text :: "string list \<Rightarrow> string \<Rightarrow> string" where
  "first_text texts fallback = (case filter (\<lambda>t. t \<noteq> []) (map trim texts) of [] \<Rightarrow> fallback | t # _ \<Rightarrow> t)"

text \<open>One block of output under a heading, when it is not blank.\<close>

definition stream_block :: "string \<Rightarrow> string \<Rightarrow> string list" where
  "stream_block heading out = (if trim out \<noteq> [] then [heading, truncateOutput (trim_end out)] else [])"

section \<open>shell\_exec\<close>

record shell_exec_input =
  se_format :: response_format
  se_command :: string
  se_timeout_seconds :: int
  se_confirm :: "bool option"

definition shell_summarize :: "shell_result \<Rightarrow> string" where
  "shell_summarize res =
     join nl ([''Exit code '' @ show_int (exitCode res) @ ''.''] @
       stream_block ''--- stdout ---'' (stdout res) @ stream_block ''--- stderr ---'' (stderr res) @
       (if trim (stdout res) = [] \<and> trim (stderr res) = [] then [''(no output)''] else []))"

text \<open>\<open>beats\<close> is the number of heartbeat ticks before the reply.\<close>

definition shell_exec_work :: "handler_extra \<Rightarrow> nat \<Rightarrow> shell_exec_input \<Rightarrow> tool_result prog" where
  "shell_exec_work extra beats inp =
     failing_with ''Failed to run command over SSH: ''
       (bind (execute_shell_beating (progressContextFrom extra) (''Still running: '' @ se_command inp) beats
                (se_command inp) (se_timeout_seconds inp * 1000)) (\<lambda>res.
          formatResponse (se_format inp) (shell_summarize res)
            (JObj [(''command'', JStr (se_command inp)), (''exit_code'', JInt (exitCode res)),
                   (''stdout'', JStr (truncateOutput (stdout res))), (''stderr'', JStr (truncateOutput (stderr res)))])))"

definition shell_exec_description :: "shell_exec_input \<Rightarrow> string" where
  "shell_exec_description inp = ''run a shell command on the Unraid host as the SSH user: '' @ se_command inp"

definition shellExecHandler :: "bool \<Rightarrow> channel \<Rightarrow> handler_extra \<Rightarrow> nat \<Rightarrow> shell_exec_input \<Rightarrow> tool_result prog" where
  "shellExecHandler shell ch extra beats inp =
     with_shell shell
       (gated (requireConfirmationInteractive ch (se_confirm inp) (shell_exec_description inp))
          (shell_exec_work extra beats inp))"

section \<open>file\_read\<close>

record file_read_input =
  fr_format :: response_format
  fr_path :: string
  fr_lines :: nat
  fr_pattern :: "string option"

definition READ_TIMEOUT_MS :: int where "READ_TIMEOUT_MS = 60000"
definition GREP_NO_MATCH_EXIT :: int where "GREP_NO_MATCH_EXIT = 1"

text \<open>An empty pattern is falsy, like a missing one.\<close>

definition read_pattern :: "file_read_input \<Rightarrow> string option" where
  "read_pattern inp = (case fr_pattern inp of Some p \<Rightarrow> if p = [] then None else Some p | None \<Rightarrow> None)"

definition buildReadCommand :: "file_read_input \<Rightarrow> string" where
  "buildReadCommand inp =
     (case read_pattern inp of
        Some p \<Rightarrow> ''set -o pipefail; grep -E -e '' @ quoteForShell p @ '' -- '' @ quoteForShell (fr_path inp) @ '' | tail -n '' @ show_nat (fr_lines inp)
      | None \<Rightarrow> ''tail -n '' @ show_nat (fr_lines inp) @ '' -- '' @ quoteForShell (fr_path inp))"

definition strip_newline :: "string \<Rightarrow> string" where
  "strip_newline s = (if ends_with s nl then butlast s else s)"

definition file_payload :: "file_read_input \<Rightarrow> shell_result \<Rightarrow> string \<Rightarrow> jsval" where
  "file_payload inp res body =
     JObj [(''path'', JStr (fr_path inp)), (''exit_code'', JInt (exitCode res)), (''content'', JStr body)]"

definition renderResult :: "file_read_input \<Rightarrow> shell_result \<Rightarrow> tool_result prog" where
  "renderResult inp res =
     (let pat = (case read_pattern inp of None \<Rightarrow> [] | Some p \<Rightarrow> p);
          has_pat = (read_pattern inp \<noteq> None)
      in if has_pat \<and> exitCode res = GREP_NO_MATCH_EXIT \<and> trim (stderr res) = []
         then formatResponse (fr_format inp) (''No lines in '' @ fr_path inp @ '' match pattern '' @ pat @ ''.'') (file_payload inp res [])
         else if exitCode res \<noteq> 0
         then toolError (''Failed to read '' @ fr_path inp @ '' (exit '' @ show_int (exitCode res) @ ''): ''
                @ first_text [stderr res, stdout res] ''(no error output)'')
         else (let body = truncateOutput (strip_newline (stdout res));
                   summary = (if body = []
                     then fr_path inp @ '' is empty'' @ (if has_pat then '' (or nothing matched '' @ pat @ '')'' else []) @ ''.''
                     else fr_path inp @ '': last '' @ show_nat (fr_lines inp) @ '' lines''
                          @ (if has_pat then '' matching '' @ pat else []) @ '':'' @ nl @ nl @ body)
               in formatResponse (fr_format inp) summary (file_payload inp res body)))"

definition fileReadHandler :: "bool \<Rightarrow> file_read_input \<Rightarrow> tool_result prog" where
  "fileReadHandler shell inp =
     with_shell shell
       (if \<not> starts_with (fr_path inp) ''/''
        then toolError (''path must be absolute (start with '' @ dquote @ ''/'' @ dquote @ ''); got '' @ dquote @ fr_path inp @ dquote @ ''.'')
        else failing_with (''Failed to read '' @ fr_path inp @ '' over SSH: '')
               (bind (execute_shell (buildReadCommand inp) READ_TIMEOUT_MS) (\<lambda>res. renderResult inp res)))"

section \<open>user\_script\_run, user\_script\_list\<close>

definition USER_SCRIPTS_DIR :: string where "USER_SCRIPTS_DIR = ''/boot/config/plugins/user.scripts/scripts''"
definition SCRIPT_LIST_COMMAND :: string where "SCRIPT_LIST_COMMAND = ''ls -1 '' @ USER_SCRIPTS_DIR @ '' 2>/dev/null''"
definition SCRIPT_LIST_TIMEOUT_MS :: int where "SCRIPT_LIST_TIMEOUT_MS = 15000"

definition script_char :: "char \<Rightarrow> bool" where
  "script_char c = (is_alnum c \<or> c \<in> set '' ._-'')"

definition SCRIPT_NAME_PATTERN :: regex where "SCRIPT_NAME_PATTERN = anchored (rplus (RClass script_char))"
definition DOT_ONLY_PATTERN :: regex where "DOT_ONLY_PATTERN = anchored (rplus (rchar CHR ''.''))"

record script_args =
  us_format :: response_format
  us_name :: string
  us_timeout_seconds :: int
  us_flags :: risk_flags

definition buildRunner :: "string \<Rightarrow> string" where
  "buildRunner name =
     join ''; ''
       [''S='' @ quoteForShell (USER_SCRIPTS_DIR @ ''/'' @ name @ ''/script''),
        ''if [ ! -f '' @ dquote @ ''$S'' @ dquote @ '' ]; then echo '' @ dquote @ ''script not found: $S'' @ dquote @ '' >&2; exit 127; fi'',
        ''T=$(mktemp)'',
        ''tr -d '' @ squote @ bslash @ ''r'' @ squote @ '' < '' @ dquote @ ''$S'' @ dquote @ '' > '' @ dquote @ ''$T'' @ dquote,
        ''bash '' @ dquote @ ''$T'' @ dquote,
        ''RC=$?'',
        ''rm -f '' @ dquote @ ''$T'' @ dquote,
        ''exit $RC'']"

definition script_summarize :: "string \<Rightarrow> shell_result \<Rightarrow> string" where
  "script_summarize name res =
     join nl ([''Script '' @ dquote @ name @ dquote @ '' finished with exit code '' @ show_int (exitCode res) @ ''.''] @
       stream_block ''--- stdout ---'' (stdout res) @ stream_block ''--- stderr ---'' (stderr res))"

definition script_refusal :: "string \<Rightarrow> string" where
  \<open>script_refusal name = ''Refusing to run user script "'' @ name @ ''": user scripts are arbitrary code running as root on your server. Re-call with "confirm": true and "acknowledge_risk": true to proceed. No changes were made.''\<close>

definition script_work :: "script_args \<Rightarrow> tool_result prog" where
  "script_work args =
     failing_with (''Failed to run user script '' @ dquote @ us_name args @ dquote @ '' over SSH: '')
       (bind (execute_shell (buildRunner (us_name args)) (us_timeout_seconds args * 1000)) (\<lambda>res.
          formatResponse (us_format args) (script_summarize (us_name args) res)
            (JObj [(''name'', JStr (us_name args)), (''exit_code'', JInt (exitCode res)),
                   (''stdout'', JStr (truncateOutput (stdout res))), (''stderr'', JStr (truncateOutput (stderr res)))])))"

definition userScriptRunHandler :: "bool \<Rightarrow> channel \<Rightarrow> script_args \<Rightarrow> tool_result prog" where
  "userScriptRunHandler shell ch args =
     with_shell shell
       (if \<not> re_test SCRIPT_NAME_PATTERN (us_name args) \<or> re_test DOT_ONLY_PATTERN (us_name args)
        then toolError (''Invalid script name: '' @ us_name args @ ''. No changes were made.'')
        else gated (requireRiskAcknowledgementInteractive ch (us_flags args) (script_refusal (us_name args))) (script_work args))"

definition script_names :: "string \<Rightarrow> string list" where
  "script_names out = filter (\<lambda>l. length (trim l) > 0) (split_on nl out)"

definition userScriptListHandler :: "bool \<Rightarrow> response_format \<Rightarrow> tool_result prog" where
  "userScriptListHandler shell format =
     with_shell shell
       (failing_with ''Failed to list user scripts over SSH: ''
          (bind (execute_shell SCRIPT_LIST_COMMAND SCRIPT_LIST_TIMEOUT_MS) (\<lambda>res.
             let names = script_names (stdout res)
             in if exitCode res \<noteq> 0 \<or> length names = 0
                then toolError ''No User Scripts found: the User Scripts plugin is not installed (or has no scripts). Install it from Community Applications to use user_script_run.''
                else formatResponse format
                       (join nl ((show_nat (length names) @ '' user script(s):'') # map (\<lambda>n. ''- '' @ n) names))
                       (JObj [(''scripts'', JArr (map JStr names))]))))"

section \<open>mover\_action\<close>

datatype mover_action = MoverStart | MoverStop

definition mover_text :: "mover_action \<Rightarrow> string" where
  "mover_text a = (case a of MoverStart \<Rightarrow> ''start'' | MoverStop \<Rightarrow> ''stop'')"

definition MOVER_BINARY :: string where "MOVER_BINARY = ''/usr/local/sbin/mover''"
definition MOVER_TIMEOUT_MS :: int where "MOVER_TIMEOUT_MS = 30000"

definition SUCCESS_SUMMARY :: "mover_action \<Rightarrow> string" where
  "SUCCESS_SUMMARY a =
     (case a of
        MoverStart \<Rightarrow> ''Mover start requested. Progress appears in the syslog (log_read) and mover_status reports whether it is still running.''
      | MoverStop \<Rightarrow> ''Mover stop requested. Note: interrupting the mover can leave partial files on the destination; check the syslog for what was in flight.'')"

record mover_args =
  mv_format :: response_format
  mv_action :: mover_action
  mv_confirm :: "bool option"

definition mover_command :: "mover_action \<Rightarrow> string" where
  "mover_command a = MOVER_BINARY @ '' '' @ mover_text a"

definition mover_work :: "mover_args \<Rightarrow> tool_result prog" where
  "mover_work args =
     failing_with (''Failed to '' @ mover_text (mv_action args) @ '' the mover over SSH: '')
       (bind (execute_shell (mover_command (mv_action args)) MOVER_TIMEOUT_MS) (\<lambda>res.
          if exitCode res \<noteq> 0
          then toolError (''mover '' @ mover_text (mv_action args) @ '' failed (exit '' @ show_int (exitCode res) @ ''): ''
                 @ first_text [stderr res, stdout res] ''(no output)'')
          else formatResponse (mv_format args) (SUCCESS_SUMMARY (mv_action args))
                 (JObj [(''action'', JStr (mover_text (mv_action args))), (''exitCode'', JInt (exitCode res)), (''stdout'', JStr (stdout res))])))"

definition moverActionHandler :: "bool \<Rightarrow> channel \<Rightarrow> mover_args \<Rightarrow> tool_result prog" where
  "moverActionHandler shell ch args =
     with_shell shell
       (gated (requireConfirmationInteractive ch (mv_confirm args) (mover_text (mv_action args) @ '' the mover'')) (mover_work args))"

section \<open>disk\_spin\<close>

definition EMCMD_BINARY :: string where "EMCMD_BINARY = ''/usr/local/sbin/emcmd''"
definition SDSPIN_BINARY :: string where "SDSPIN_BINARY = ''/usr/local/sbin/sdspin''"
definition SPIN_TIMEOUT_MS :: int where "SPIN_TIMEOUT_MS = 30000"

definition DISK_NAME_PATTERN :: regex where
  "DISK_NAME_PATTERN =
     anchored (RGroup 1 (ralts [rseq [rstr ''disk'', rplus rdigit], rseq [rstr ''parity'', ropt rdigit], rseq [rstr ''cache'', RStar rdigit]]))"

definition SD_DEVICE_PATTERN :: regex where
  "SD_DEVICE_PATTERN = anchored (rseq [rstr ''/dev/sd'', rplus (RClass is_lower)])"

datatype spin_action = Up | Down

definition spin_text :: "spin_action \<Rightarrow> string" where
  "spin_text a = (case a of Up \<Rightarrow> ''up'' | Down \<Rightarrow> ''down'')"

record spin_args =
  sp_action :: spin_action
  sp_disk :: "string option"
  sp_device :: "string option"
  sp_confirm :: "bool option"

definition validateTarget :: "spin_args \<Rightarrow> string option" where
  "validateTarget args =
     (if (sp_disk args = None) = (sp_device args = None)
      then Some (''Pass exactly one of `disk` (array slot like disk1/parity/cache) or `device` (/dev/sdX for unassigned devices).'')
      else case sp_disk args of
        Some d \<Rightarrow> if re_test DISK_NAME_PATTERN d then None
                  else Some (''Invalid array disk name: '' @ d @ '' (expected disk1, parity, cache, ...).'')
      | None \<Rightarrow>
          (case sp_device args of
             Some d \<Rightarrow> if re_test SD_DEVICE_PATTERN d then None
                       else Some (''Invalid device: '' @ d @ '' (expected /dev/sdX; NVMe devices do not spin).'')
           | None \<Rightarrow> None))"

definition spin_command :: "spin_args \<Rightarrow> string" where
  "spin_command args =
     (case sp_disk args of
        Some d \<Rightarrow> EMCMD_BINARY @ '' '' @ (case sp_action args of Up \<Rightarrow> ''cmdSpinup'' | Down \<Rightarrow> ''cmdSpindown'') @ ''='' @ d
      | None \<Rightarrow> SDSPIN_BINARY @ '' '' @ (case sp_device args of Some d \<Rightarrow> d | None \<Rightarrow> ''undefined'') @ '' '' @ spin_text (sp_action args))"

definition spin_target :: "spin_args \<Rightarrow> string" where
  "spin_target args = (case sp_disk args of Some d \<Rightarrow> d | None \<Rightarrow> (case sp_device args of Some d \<Rightarrow> d | None \<Rightarrow> []))"

definition spin_work :: "spin_args \<Rightarrow> tool_result prog" where
  "spin_work args =
     failing_with (''Failed to spin '' @ spin_text (sp_action args) @ '' '' @ spin_target args @ '' over SSH: '')
       (bind (execute_shell (spin_command args) SPIN_TIMEOUT_MS) (\<lambda>res.
          if exitCode res \<noteq> 0
          then toolError (''disk_spin '' @ spin_text (sp_action args) @ '' failed (exit '' @ show_int (exitCode res) @ ''): ''
                 @ first_text [stderr res, stdout res] ''(no output)'')
          else toolText (''Spin '' @ spin_text (sp_action args) @ '' requested for '' @ spin_target args @ ''. Verify with disk_list.'')))"

definition diskSpinHandler :: "bool \<Rightarrow> channel \<Rightarrow> spin_args \<Rightarrow> tool_result prog" where
  "diskSpinHandler shell ch args =
     with_shell shell
       (case validateTarget args of
          Some m \<Rightarrow> toolError (m @ '' No changes were made.'')
        | None \<Rightarrow> gated (requireConfirmationInteractive ch (sp_confirm args)
                     (''spin '' @ spin_text (sp_action args) @ '' '' @ spin_target args)) (spin_work args))"

section \<open>disk\_smart\_report\<close>

definition SMART_DEVICE_PATTERN :: regex where
  "SMART_DEVICE_PATTERN =
     anchored (rseq [rstr ''/dev/'', RGroup 1 (ralts [rseq [rstr ''sd'', rplus (RClass is_lower)],
                                                     rseq [rstr ''nvme'', rplus rdigit, rstr ''n'', rplus rdigit]])])"

definition smart_probe_command :: string where "smart_probe_command = ''command -v smartctl''"
definition smart_command :: "string \<Rightarrow> string" where "smart_command device = ''smartctl -a '' @ device"
definition SMART_PROBE_TIMEOUT_MS :: int where "SMART_PROBE_TIMEOUT_MS = 10000"
definition SMART_TIMEOUT_MS :: int where "SMART_TIMEOUT_MS = 60000"

definition diskSmartReportHandler :: "bool \<Rightarrow> string \<Rightarrow> tool_result prog" where
  "diskSmartReportHandler shell device =
     with_shell shell
       (if \<not> re_test SMART_DEVICE_PATTERN device
        then toolError (''Invalid device: '' @ device @ '' (expected /dev/sdX or /dev/nvmeXnY).'')
        else failing_with ''Failed to read SMART report over SSH: ''
          (bind (execute_shell smart_probe_command SMART_PROBE_TIMEOUT_MS) (\<lambda>probe.
             if exitCode probe \<noteq> 0 then toolError ''smartctl is not available on this server.''
             else bind (execute_shell (smart_command device) SMART_TIMEOUT_MS) (\<lambda>res.
               if trim (stdout res) = []
               then toolError (''smartctl produced no output for '' @ device @ '' (exit '' @ show_int (exitCode res) @ ''): '' @ trim (stderr res))
               else toolText (truncateOutput (trim_end (stdout res)))))))"

section \<open>system\_power\<close>

datatype power_action = Reboot | Shutdown

definition power_text :: "power_action \<Rightarrow> string" where
  "power_text a = (case a of Reboot \<Rightarrow> ''reboot'' | Shutdown \<Rightarrow> ''shutdown'')"

definition POWER_COMMANDS :: "power_action \<Rightarrow> string" where
  "POWER_COMMANDS a = (case a of Reboot \<Rightarrow> ''/sbin/reboot'' | Shutdown \<Rightarrow> ''/sbin/poweroff'')"

definition POWER_TIMEOUT_MS :: int where "POWER_TIMEOUT_MS = 15000"

record power_args =
  pw_action :: power_action
  pw_flags :: risk_flags

definition power_refusalMessage :: "power_action \<Rightarrow> string" where
  \<open>power_refusalMessage a =
     ''Refusing to '' @ power_text a @ '' the server: this will ''
     @ (case a of Shutdown \<Rightarrow> ''power the server off until it is turned back on physically (or via wake-on-LAN)''
        | Reboot \<Rightarrow> ''take the server down for the duration of the reboot'')
     @ '' '' @ mdash @ '' every share, container, and VM goes offline. Unraid performs a clean array stop on the way down. Re-call with "confirm": true and "acknowledge_risk": true to proceed. No changes were made.''\<close>

definition EXEC_PHASE_MARKER :: string where "EXEC_PHASE_MARKER = ''run the command''"

definition mapPowerError :: "power_action \<Rightarrow> string \<Rightarrow> tool_result prog" where
  "mapPowerError a msg =
     (if js_includes msg EXEC_PHASE_MARKER
      then toolText (''The '' @ power_text a @ '' command was issued, then the SSH connection dropped '' @ mdash @ '' expected while the server goes down. Verify with connection_doctor once the server should be back.'')
      else toolError (''Failed to '' @ power_text a @ '': the command was never sent '' @ mdash @ '' SSH failed first: '' @ msg))"

definition power_work :: "power_action \<Rightarrow> tool_result prog" where
  "power_work a =
     catch (bind (execute_shell (POWER_COMMANDS a) POWER_TIMEOUT_MS) (\<lambda>res.
              if exitCode res \<noteq> 0
              then toolError (power_text a @ '' failed (exit '' @ show_int (exitCode res) @ ''): ''
                     @ first_text [stderr res] ''(no error output)'')
              else toolText ((case a of Reboot \<Rightarrow> ''Reboot'' | Shutdown \<Rightarrow> ''Shutdown'') @ '' initiated '' @ mdash
                     @ '' the server is going down now and this connection will drop. Unraid stops the array cleanly on the way down.'')))
       (\<lambda>msg. mapPowerError a msg)"

definition systemPowerHandler :: "bool \<Rightarrow> channel \<Rightarrow> power_args \<Rightarrow> tool_result prog" where
  "systemPowerHandler shell ch args =
     with_shell shell
       (gated (requireRiskAcknowledgementInteractive ch (pw_flags args) (power_refusalMessage (pw_action args)))
          (power_work (pw_action args)))"

section \<open>What the handlers may run\<close>

definition runs_command :: "string \<Rightarrow> event \<Rightarrow> bool" where
  "runs_command command e =
     (case e of EShell c t \<Rightarrow> c = command | EElicit m b \<Rightarrow> True | ENotify n \<Rightarrow> True | _ \<Rightarrow> False)"

lemma runs_command_simps [simp]:
  "runs_command c (EShell c' t) \<longleftrightarrow> c' = c" "runs_command c (EElicit m b)" "runs_command c (ENotify n)"
  "\<not> runs_command c (EGql d v)"
  by (auto simp: runs_command_def)

lemma shell_exec_events: "emits (runs_command (se_command inp)) (shellExecHandler shell ch extra beats inp)"
  unfolding shellExecHandler_def shell_exec_work_def by (intro emits_intros) simp_all

lemma file_read_events: "emits (runs_command (buildReadCommand inp)) (fileReadHandler shell inp)"
  unfolding fileReadHandler_def renderResult_def Let_def by (intro emits_intros) simp_all

lemma file_read_shell_only: "emits (\<lambda>e. \<exists>t. e = EShell (buildReadCommand inp) t) (fileReadHandler shell inp)"
  unfolding fileReadHandler_def renderResult_def Let_def by (intro emits_intros) simp_all

lemma script_run_events: "emits (runs_command (buildRunner (us_name args))) (userScriptRunHandler shell ch args)"
  unfolding userScriptRunHandler_def script_work_def by (intro emits_intros) simp_all

lemma script_list_events: "emits (runs_command SCRIPT_LIST_COMMAND) (userScriptListHandler shell format)"
  unfolding userScriptListHandler_def Let_def by (intro emits_intros) simp_all

lemma mover_events: "emits (runs_command (mover_command (mv_action args))) (moverActionHandler shell ch args)"
  unfolding moverActionHandler_def mover_work_def by (intro emits_intros) simp_all

lemma spin_events: "emits (runs_command (spin_command args)) (diskSpinHandler shell ch args)"
  unfolding diskSpinHandler_def spin_work_def by (intro emits_intros) simp_all

lemma smart_events:
  "emits (\<lambda>e. runs_command smart_probe_command e \<or> re_test SMART_DEVICE_PATTERN device \<and> runs_command (smart_command device) e)
     (diskSmartReportHandler shell device)"
  unfolding diskSmartReportHandler_def by (intro emits_intros) simp_all

lemma power_events: "emits (runs_command (POWER_COMMANDS (pw_action args))) (systemPowerHandler shell ch args)"
  unfolding systemPowerHandler_def power_work_def mapPowerError_def by (intro emits_intros) simp_all

section \<open>The words of the commands\<close>

lemma is_digit_plain: "is_digit c \<Longrightarrow> sh_plain c"
  by (rule char_cases_alnum) (simp add: is_alnum_def)

lemma nat_digits_plain: "\<forall>c \<in> set (show_nat n). sh_plain c"
  using nat_digits_digits [of n] by (auto simp: show_nat_def is_digit_plain)

text \<open>The path is one argument of tail, whatever it contains.\<close>

lemma tail_words:
  assumes "read_pattern inp = None"
  shows "sh_tokens (buildReadCommand inp) =
     Some [ShWord ''tail'', ShWord ''-n'', ShWord (show_nat (fr_lines inp)), ShWord ''--'', ShWord (fr_path inp)]"
proof -
  let ?as = "[Bare ''tail'', Bare ''-n'', Bare (show_nat (fr_lines inp)), Bare ''--'', Quoted (fr_path inp)]"
  have "\<forall>a \<in> set ?as. arg_ok a"
    using nat_digits_plain by (simp add: sh_plain_def sh_special_def sh_blank_def)
  from sh_tokens_args [OF this] assms show ?thesis by (simp add: command_line_def buildReadCommand_def)
qed

definition spin_tokens :: "spin_args \<Rightarrow> sh_token list" where
  "spin_tokens args =
     (case sp_disk args of
        Some d \<Rightarrow> [ShWord EMCMD_BINARY, ShWord (case sp_action args of Up \<Rightarrow> ''cmdSpinup'' | Down \<Rightarrow> ''cmdSpindown''), ShOper CHR ''='', ShWord d]
      | None \<Rightarrow> map ShWord [SDSPIN_BINARY, the (sp_device args), spin_text (sp_action args)])"

lemma disk_name_plain: "re_test DISK_NAME_PATTERN d \<Longrightarrow> \<forall>c \<in> set d. sh_plain c"
  by (auto dest!: re_test_chars simp: DISK_NAME_PATTERN_def is_digit_plain)
     (auto simp: sh_plain_def sh_special_def sh_blank_def)

lemma sd_device_plain: "re_test SD_DEVICE_PATTERN d \<Longrightarrow> \<forall>c \<in> set d. sh_plain c"
  by (auto dest!: re_test_chars simp: SD_DEVICE_PATTERN_def char_cases_alnum is_alnum_def)
     (auto simp: sh_plain_def sh_special_def sh_blank_def)

lemma spin_target_cases:
  assumes "validateTarget args = None"
  obtains (Disk) d where "sp_disk args = Some d" "sp_device args = None" "re_test DISK_NAME_PATTERN d"
    | (Device) d where "sp_disk args = None" "sp_device args = Some d" "re_test SD_DEVICE_PATTERN d"
  using assms by (auto simp: validateTarget_def split: if_splits option.splits)

text \<open>An assignment-like last word: the part after the equals sign is one word.\<close>

lemma sh_tokens_assign:
  assumes "\<forall>a \<in> set as. arg_ok a" "d \<noteq> []" "\<forall>c \<in> set d. sh_plain c"
  shows "sh_tokens (command_line as @ ''='' @ d) = Some (map (\<lambda>a. ShWord (arg_value a)) as @ [ShOper CHR ''='', ShWord d])"
proof -
  let ?s = "sh_run sh_start (command_line as)"
  have s: "sh_emit ?s = map (\<lambda>a. ShWord (arg_value a)) as" "sh_mode ?s = ShPlain"
    using sh_run_args [of sh_start as] assms(1) by (auto simp: sh_start_def)
  let ?t = "sh_break ?s [ShOper CHR ''='']"
  have "sh_step ?s CHR ''='' = ?t"
    using s(2) by (simp add: sh_step_def sh_blank_def sh_special_def)
  then have "sh_run sh_start (command_line as @ ''='' @ d) = sh_run ?t d"
    by (simp add: sh_run_append sh_run_Cons)
  also have "\<dots> = sh_add ?t d" using s(2) assms by (intro sh_run_plain) (auto simp: sh_break_def)
  finally show ?thesis using s by (simp add: sh_tokens_def) (simp add: sh_break_def sh_add_def sh_emit_def)
qed

lemma spin_patterns_nonempty: "\<not> re_test DISK_NAME_PATTERN []" "\<not> re_test SD_DEVICE_PATTERN []"
  by code_simp+

text \<open>A validated target reaches the spin binaries as one word.\<close>

lemma spin_command_words:
  assumes "validateTarget args = None"
  shows "sh_tokens (spin_command args) = Some (spin_tokens args)"
  using assms
proof (cases rule: spin_target_cases)
  case (Disk d)
  let ?as = "[Bare EMCMD_BINARY, Bare (case sp_action args of Up \<Rightarrow> ''cmdSpinup'' | Down \<Rightarrow> ''cmdSpindown'')]"
  have "\<forall>a \<in> set ?as. arg_ok a"
    by (cases "sp_action args") (simp_all add: EMCMD_BINARY_def sh_plain_def sh_special_def sh_blank_def)
  moreover have "d \<noteq> []" using Disk spin_patterns_nonempty by auto
  ultimately show ?thesis
    using sh_tokens_assign [OF _ _ disk_name_plain [OF Disk(3)], of ?as] Disk
    by (simp add: spin_command_def spin_tokens_def command_line_def)
next
  case (Device d)
  let ?as = "[Bare SDSPIN_BINARY, Bare d, Bare (spin_text (sp_action args))]"
  have "d \<noteq> []" using Device spin_patterns_nonempty by auto
  then have "\<forall>a \<in> set ?as. arg_ok a" using sd_device_plain [OF Device(3)]
    by (cases "sp_action args") (simp_all add: SDSPIN_BINARY_def spin_text_def sh_plain_def sh_special_def sh_blank_def)
  from sh_tokens_args [OF this] Device show ?thesis
    by (simp add: spin_command_def spin_tokens_def command_line_def)
qed

text \<open>A script name is one path segment, and not a reference to a parent directory.\<close>

lemma script_name_segment:
  assumes "re_test SCRIPT_NAME_PATTERN name" "\<not> re_test DOT_ONLY_PATTERN name"
  shows "CHR ''/'' \<notin> set name" "name \<noteq> ''.''" "name \<noteq> ''..''"
proof -
  show "CHR ''/'' \<notin> set name"
  proof
    assume "CHR ''/'' \<in> set name"
    from re_test_chars [OF assms(1) [unfolded SCRIPT_NAME_PATTERN_def] this] show False
      by (simp add: script_char_def is_alnum_def is_digit_def is_upper_def is_lower_def)
  qed
  have "re_test DOT_ONLY_PATTERN ''.''" "re_test DOT_ONLY_PATTERN ''..''" by code_simp+
  with assms(2) show "name \<noteq> ''.''" "name \<noteq> ''..''" by auto
qed

section \<open>system\_power\<close>

lemma run_power_work:
  "run w tr (power_work a) =
     (case w_shell w tr (POWER_COMMANDS a) POWER_TIMEOUT_MS of
        Inl e \<Rightarrow> run w (tr @ [EShell (POWER_COMMANDS a) POWER_TIMEOUT_MS]) (mapPowerError a e)
      | Inr res \<Rightarrow> run w (tr @ [EShell (POWER_COMMANDS a) POWER_TIMEOUT_MS])
          (if exitCode res \<noteq> 0
           then toolError (power_text a @ '' failed (exit '' @ show_int (exitCode res) @ ''): ''
                  @ first_text [stderr res] ''(no error output)'')
           else toolText ((case a of Reboot \<Rightarrow> ''Reboot'' | Shutdown \<Rightarrow> ''Shutdown'') @ '' initiated '' @ mdash
                  @ '' the server is going down now and this connection will drop. Unraid stops the array cleanly on the way down.'')))"
  by (simp add: power_work_def run_catch run_bind run_execute_shell run_toolError run_toolText split: sum.splits)

text \<open>A result that is not an error: the command exited with 0, or its deadline passed while it ran.\<close>

lemma power_success:
  assumes "run w tr (power_work a) = (Inr r, tr')" "\<not> isError r"
  shows "(\<exists>res. w_shell w tr (POWER_COMMANDS a) POWER_TIMEOUT_MS = Inr res \<and> exitCode res = 0) \<or>
    (\<exists>msg. w_shell w tr (POWER_COMMANDS a) POWER_TIMEOUT_MS = Inl msg \<and> js_includes msg EXEC_PHASE_MARKER)"
  using assms by (auto simp: run_power_work mapPowerError_def run_toolError run_toolText split: sum.splits if_splits)

end
