(* ===== verification/Reading.thy ===== *)
theory Reading
  imports Payload
begin

text \<open>
  What the handlers that render a payload share: lists of objects, joined fields, a computation
  that may throw, and two rules about handlers that make one call behind a gate.
\<close>

section \<open>Payload access\<close>

text \<open>An array whose elements are read as objects; a null element throws at the first read.\<close>

definition objects :: "jsval \<Rightarrow> jsval list prog" where
  "objects v = decode (case v of JArr xs \<Rightarrow> if list_all (\<lambda>x. \<not> nullish x) xs then Some xs else None | _ \<Rightarrow> None)"

text \<open>\<open>`${x.k}`\<close> and \<open>`${x.k ?? d}`\<close> for an object \<open>x\<close>.\<close>

definition shown :: "jsval \<Rightarrow> string \<Rightarrow> string" where
  "shown x k = display (getp x k)"

definition shown_or :: "jsval \<Rightarrow> string \<Rightarrow> string \<Rightarrow> string" where
  "shown_or x k d = display (coalesce (getp x k) (JStr d))"

text \<open>\<open>xs.join(sep)\<close> on an array of the payload.\<close>

definition join_values :: "string \<Rightarrow> jsval list \<Rightarrow> string" where
  "join_values sep xs = join sep (map (\<lambda>x. if nullish x then [] else display x) xs)"

definition joined :: "string \<Rightarrow> jsval \<Rightarrow> string prog" where
  "joined sep v = bind (as_list v) (\<lambda>xs. Ret (join_values sep xs))"

text \<open>\<open>xs.map(f)\<close> where \<open>f\<close> may throw.\<close>

fun map_prog :: "('a \<Rightarrow> 'b prog) \<Rightarrow> 'a list \<Rightarrow> 'b list prog" where
  "map_prog f [] = Ret []"
| "map_prog f (x # xs) = bind (f x) (\<lambda>y. bind (map_prog f xs) (\<lambda>ys. Ret (y # ys)))"

text \<open>A synchronous computation that returns or throws.\<close>

definition of_sum :: "string + 'a \<Rightarrow> 'a prog" where
  "of_sum x = (case x of Inl e \<Rightarrow> Throw e | Inr a \<Rightarrow> Ret a)"

text \<open>A query, a path into its answer, and the value there read at its declared type.\<close>

definition fetch :: "gql_document \<Rightarrow> jsval \<Rightarrow> string list \<Rightarrow> (jsval \<Rightarrow> 'a option) \<Rightarrow> 'a prog" where
  "fetch d v ks dec = bind (execute_gql d v) (\<lambda>data. bind (path data ks) (\<lambda>raw. decode (dec raw)))"

definition fetch_result :: "string list \<Rightarrow> (jsval \<Rightarrow> 'a option) \<Rightarrow> string + jsval \<Rightarrow> string + 'a" where
  "fetch_result ks dec reply =
     (case reply of
        Inl e \<Rightarrow> Inl e
      | Inr data \<Rightarrow>
          (case path_result data ks of
             Inl e \<Rightarrow> Inl e
           | Inr raw \<Rightarrow> (case dec raw of None \<Rightarrow> Inl ''TypeError: unexpected payload shape'' | Some a \<Rightarrow> Inr a)))"

text \<open>\<open>!s\<close> for an optional string.\<close>

definition no_text :: "string option \<Rightarrow> bool" where
  "no_text s = (s = None \<or> s = Some [])"

text \<open>A number of the payload.\<close>

definition dec_number :: "jsval \<Rightarrow> rat option" where
  "dec_number v = (case v of JNum q \<Rightarrow> Some q | _ \<Rightarrow> None)"

definition number_at :: "jsval \<Rightarrow> string \<Rightarrow> rat prog" where
  "number_at v k = bind (prop_of v k) (\<lambda>x. decode (dec_number x))"

text \<open>A call whose rejection is looked at later.\<close>

definition attempt :: "'a prog \<Rightarrow> (string + 'a) prog" where
  "attempt p = catch (bind p (\<lambda>x. Ret (Inr x))) (\<lambda>e. Ret (Inl e))"

section \<open>Texts\<close>

text \<open>\<open>s.toUpperCase()\<close> on ASCII letters.\<close>

definition upper_char :: "char \<Rightarrow> char" where
  "upper_char c = (if is_lower c then char_of (of_char c - 32 :: nat) else c)"

definition to_upper :: "string \<Rightarrow> string" where
  "to_upper s = map upper_char s"

text \<open>\<open>s.split(/\s+/)\<close>.\<close>

function split_spaces :: "string \<Rightarrow> string list" where
  "split_spaces s =
     (case dropWhile (\<lambda>c. \<not> is_space c) s of
        [] \<Rightarrow> [s]
      | c # r \<Rightarrow> takeWhile (\<lambda>c. \<not> is_space c) s # split_spaces (dropWhile is_space r))"
  by pat_completeness auto
termination
proof (relation "measure length")
  fix s c r assume "dropWhile (\<lambda>c. \<not> is_space c) s = c # r"
  then have "length (c # r) \<le> length s" by (metis length_dropWhile_le)
  moreover have "length (dropWhile is_space r) \<le> length r" by (rule length_dropWhile_le)
  ultimately show "(dropWhile is_space r, s) \<in> measure length" by simp
qed simp

declare split_spaces.simps [simp del]

section \<open>Rules\<close>

lemma emits_number_at [emits_intros]: "emits P (number_at v k)"
  by (simp add: number_at_def emits_bind emits_prop_of emits_decode)

lemma emits_attempt [emits_intros]: "emits P p \<Longrightarrow> emits P (attempt p)"
  by (simp add: attempt_def emits_catch emits_bind)

lemma run_attempt [prog_simps]: "run w tr (attempt p) = (Inr (fst (run w tr p)), snd (run w tr p))"
  by (simp add: attempt_def run_catch run_bind split: prod.splits sum.splits)

lemma emits_objects [emits_intros]: "emits P (objects v)"
  by (simp add: objects_def emits_decode)

lemma emits_joined [emits_intros]: "emits P (joined sep v)"
  by (simp add: joined_def emits_bind emits_as_list)

lemma emits_of_sum [emits_intros]: "emits P (of_sum x)"
  by (cases x) (simp_all add: of_sum_def)

lemma emits_map_prog [emits_intros]: "(\<And>x. emits P (f x)) \<Longrightarrow> emits P (map_prog f xs)"
  by (induction xs) (simp_all add: emits_bind)

lemma run_of_sum [prog_simps]: "run w tr (of_sum x) = (x, tr)"
  by (cases x) (simp_all add: of_sum_def)

lemma emits_fetch [emits_intros]: "P (EGql d v) \<Longrightarrow> emits P (fetch d v ks dec)"
  by (simp add: fetch_def emits_bind emits_gql emits_path emits_decode)

lemma run_fetch [prog_simps]: "run w tr (fetch d v ks dec) = (fetch_result ks dec (w_gql w tr d v), tr @ [EGql d v])"
  by (simp add: fetch_def fetch_result_def run_bind run_execute_gql run_path run_decode split: sum.splits option.splits)

section \<open>One call\<close>

text \<open>A handler that makes the call and then only looks at the answer.\<close>

lemma emits_one_gql:
  assumes "P (EGql d v)" "\<And>x. silent (k x)"
  shows "emits P (failing_with t (bind (execute_gql d v) k))"
proof (rule emits_failing_with, rule emits_bind)
  show "emits P (execute_gql d v)" using assms(1) by (rule emits_gql)
  show "emits P (k x)" for x using assms(2) by (rule silent_emits)
qed

lemma emits_one_shell:
  assumes "P (EShell c n)" "\<And>x. silent (k x)"
  shows "emits P (failing_with t (bind (execute_shell c n) k))"
proof (rule emits_failing_with, rule emits_bind)
  show "emits P (execute_shell c n)" using assms(1) by (rule emits_shell)
  show "emits P (k x)" for x using assms(2) by (rule silent_emits)
qed

context gate begin

lemma gated_emits:
  assumes "emits P body" "e \<in> set (events_of w (gated (guard a) body))" "touches_host e"
  shows "approved w [] a \<and> P e"
proof
  show "approved w [] a" using gated_events [OF assms(2,3)] .
  have "emits (\<lambda>e. is_elicit e \<or> P e) (gated (guard a) body)"
    by (intro emits_gated emits_mono [OF guard_asks] emits_mono [OF assms(1)]) simp_all
  from events_emits [OF this assms(2)] assms(3) show "P e" by (cases e) auto
qed

end

end
