(* ===== verification/GraphqlTools.thy ===== *)
theory GraphqlTools
  imports Reading
begin

text \<open>
  The raw GraphQL tools (\<open>src/tools/graphql/\<close>): one operation is parsed, checked against the
  vendored schema, and for a mutation gated by what it selects. \<open>graphql_lib\<close> stands for the
  \<open>graphql\<close> package: its parser and its validator against the schema text.
\<close>

record graphql_lib =
  lib_parse :: "string \<Rightarrow> string + gql_definition list"
  lib_validate :: "gql_definition list \<Rightarrow> string + string list"

section \<open>Shared\<close>

definition RISKY_MUTATION_FIELDS :: "string list" where
  "RISKY_MUTATION_FIELDS = [''setState'', ''forceStop'', ''reset'', ''configureUps'']"

definition op_text :: "op_type \<Rightarrow> string" where
  "op_text t = (case t of Query \<Rightarrow> ''query'' | Mutation \<Rightarrow> ''mutation'' | Subscription \<Rightarrow> ''subscription'')"

definition parseSingleOperation :: "graphql_lib \<Rightarrow> string \<Rightarrow> string + (gql_document \<times> op_type)" where
  "parseSingleOperation lib source =
     (case lib_parse lib source of
        Inl e \<Rightarrow> Inl e
      | Inr defs \<Rightarrow>
          (case filter is_operation defs of
             [OperationDefinition t s] \<Rightarrow> Inr (\<lparr>doc_name = source, definitions = defs\<rparr>, t)
           | ops \<Rightarrow> Inl (''Expected exactly one GraphQL operation, found '' @ show_nat (length ops) @ ''.'')))"

text \<open>The names \<open>visit\<close> meets at \<open>Field\<close> nodes, in document order.\<close>

fun selection_fields :: "selection \<Rightarrow> string list" where
  "selection_fields (Field n ss) = n # concat (map selection_fields ss)"
| "selection_fields (InlineFragment ss) = concat (map selection_fields ss)"
| "selection_fields (FragmentSpread n) = []"

fun definition_fields :: "gql_definition \<Rightarrow> string list" where
  "definition_fields (OperationDefinition t ss) = concat (map selection_fields ss)"
| "definition_fields (FragmentDefinition n ss) = concat (map selection_fields ss)"
| "definition_fields OtherDefinition = []"

definition document_fields :: "gql_document \<Rightarrow> string list" where
  "document_fields d = concat (map definition_fields (definitions d))"

definition findRiskyFields :: "gql_document \<Rightarrow> string list" where
  "findRiskyFields d = js_uniq (filter (\<lambda>n. n \<in> set RISKY_MUTATION_FIELDS) (document_fields d))"

definition renderJsonResult :: "jsval \<Rightarrow> tool_result prog" where
  "renderJsonResult data = toolText (truncateJsonPayload (stringify2 data))"

definition validateAgainstSchema :: "graphql_lib \<Rightarrow> gql_document \<Rightarrow> string list prog" where
  "validateAgainstSchema lib d = of_sum (lib_validate lib (definitions d))"

definition validationFailure :: "string list \<Rightarrow> string" where
  "validationFailure messages =
     ''GraphQL validation failed against the vendored Unraid schema (nothing was sent):'' @ nl @
     join nl (map (\<lambda>m. ''- '' @ m) messages)"

definition DRY_RUN_VALID_TEXT :: string where
  "DRY_RUN_VALID_TEXT = ''Valid against the vendored Unraid schema; not sent (dry_run). Re-call without dry_run to execute.''"

section \<open>graphql\_query\<close>

record graphql_query_input =
  gq_query :: string
  gq_variables :: jsval
  gq_dry_run :: "bool option"

definition graphqlQueryHandler :: "graphql_lib \<Rightarrow> graphql_query_input \<Rightarrow> tool_result prog" where
  "graphqlQueryHandler lib input =
     failing_with ''GraphQL query failed: ''
       (bind (of_sum (parseSingleOperation lib (gq_query input))) (\<lambda>parsed.
          if snd parsed \<noteq> Query
          then toolError (''graphql_query only runs query operations; got a '' @ op_text (snd parsed) @ ''. Use graphql_mutation for mutations (subscriptions are unsupported).'')
          else bind (validateAgainstSchema lib (fst parsed)) (\<lambda>problems.
            if problems \<noteq> [] then toolError (validationFailure problems)
            else if gq_dry_run input = Some True then toolText DRY_RUN_VALID_TEXT
            else bind (execute_gql (fst parsed) (gq_variables input)) renderJsonResult)))"

section \<open>graphql\_mutation\<close>

record graphql_mutation_input =
  gm_mutation :: string
  gm_variables :: jsval
  gm_flags :: risk_flags
  gm_dry_run :: "bool option"

definition riskyRefusalMessage :: "string list \<Rightarrow> string" where
  \<open>riskyRefusalMessage risky = ''Refusing to run this mutation: it selects '' @ join '', '' risky @ '', which can stop the array, hard-kill a VM, or rewrite the system shutdown configuration. Re-call with both "confirm": true and "acknowledge_risk": true to proceed. No changes were made.''\<close>

definition RAW_DESCRIPTION :: string where
  "RAW_DESCRIPTION = ''run a raw GraphQL mutation against the Unraid API''"

text \<open>The two gates, the first only for risky fields.\<close>

definition raw_gates :: "channel \<Rightarrow> risk_flags \<Rightarrow> string list \<Rightarrow> tool_result prog \<Rightarrow> tool_result prog" where
  "raw_gates ch flags riskyFields work =
     (let confirmed = gated (requireConfirmationInteractive ch (confirm flags) RAW_DESCRIPTION) work
      in if riskyFields \<noteq> []
         then gated (requireRiskAcknowledgementInteractive ch flags (riskyRefusalMessage riskyFields)) confirmed
         else confirmed)"

definition graphqlMutationHandler :: "graphql_lib \<Rightarrow> channel \<Rightarrow> graphql_mutation_input \<Rightarrow> tool_result prog" where
  "graphqlMutationHandler lib ch input =
     failing_with ''GraphQL mutation failed: ''
       (bind (of_sum (parseSingleOperation lib (gm_mutation input))) (\<lambda>parsed.
          if snd parsed \<noteq> Mutation
          then toolError (''graphql_mutation only runs mutation operations; got a '' @ op_text (snd parsed) @ ''. Use graphql_query for queries.'')
          else bind (validateAgainstSchema lib (fst parsed)) (\<lambda>problems.
            if problems \<noteq> [] then toolError (validationFailure problems)
            else if gm_dry_run input = Some True then toolText DRY_RUN_VALID_TEXT
            else raw_gates ch (gm_flags input) (findRiskyFields (fst parsed))
                   (bind (execute_gql (fst parsed) (gm_variables input)) renderJsonResult))))"

section \<open>Parsing and risk\<close>

lemma parseSingleOperation_Inr:
  assumes "parseSingleOperation lib source = Inr (d, t)"
  shows "\<exists>s. filter is_operation (definitions d) = [OperationDefinition t s]"
  using assms by (auto simp: parseSingleOperation_def split: sum.splits list.splits gql_definition.splits)

lemma is_mutation_operation: "is_mutation_def x \<Longrightarrow> is_operation x"
  by (cases x) auto

lemma single_operation_kind:
  assumes "parseSingleOperation lib source = Inr (d, t)"
  shows "has_mutation d \<longleftrightarrow> t = Mutation"
proof -
  from parseSingleOperation_Inr [OF assms] obtain s
    where f: "filter is_operation (definitions d) = [OperationDefinition t s]" by blast
  have "{x \<in> set (definitions d). is_operation x} = {OperationDefinition t s}"
    using arg_cong [OF f, of set] by simp
  moreover have "has_mutation d \<longleftrightarrow> (\<exists>x \<in> {x \<in> set (definitions d). is_operation x}. is_mutation_def x)"
    using is_mutation_operation by (auto simp: has_mutation_def)
  ultimately show ?thesis by simp
qed

text \<open>A field is selected somewhere below a selection.\<close>

inductive selects :: "string \<Rightarrow> selection \<Rightarrow> bool" where
  here: "selects n (Field n ss)"
| below: "s \<in> set ss \<Longrightarrow> selects n s \<Longrightarrow> selects n (Field m ss)"
| inline: "s \<in> set ss \<Longrightarrow> selects n s \<Longrightarrow> selects n (InlineFragment ss)"

inductive_simps selects_simps:
  "selects n (Field m ss)" "selects n (InlineFragment ss)" "selects n (FragmentSpread m)"

lemma selection_fields_iff: "n \<in> set (selection_fields s) \<longleftrightarrow> selects n s"
proof (induction s rule: selection_fields.induct)
  case (1 m ss)
  then show ?case unfolding selects_simps(1) by auto
next
  case (2 ss)
  then show ?case unfolding selects_simps(2) by auto
next
  case (3 m)
  show ?case by (simp add: selects_simps(3))
qed

definition selections_of :: "gql_definition \<Rightarrow> selection list" where
  "selections_of x = (case x of OperationDefinition t ss \<Rightarrow> ss | FragmentDefinition n ss \<Rightarrow> ss | OtherDefinition \<Rightarrow> [])"

lemma document_fields_iff:
  "n \<in> set (document_fields d) \<longleftrightarrow> (\<exists>x \<in> set (definitions d). \<exists>s \<in> set (selections_of x). selects n s)"
proof -
  have "n \<in> set (definition_fields x) \<longleftrightarrow> (\<exists>s \<in> set (selections_of x). selects n s)" for x
    by (cases x) (auto simp: selections_of_def selection_fields_iff)
  then show ?thesis by (auto simp: document_fields_def)
qed

section \<open>What is sent\<close>

lemma graphql_query_events:
  assumes "e \<in> set (events_of w (graphqlQueryHandler lib input))"
  shows "\<exists>d. parseSingleOperation lib (gq_query input) = Inr (d, Query) \<and> lib_validate lib (definitions d) = Inr []
    \<and> gq_dry_run input \<noteq> Some True \<and> e = EGql d (gq_variables input)"
proof (cases "parseSingleOperation lib (gq_query input)")
  case (Inl m)
  with assms show ?thesis by (simp add: graphqlQueryHandler_def events_of_def prog_simps)
next
  case (Inr p)
  obtain d t where p: "p = (d, t)" by (cases p)
  show ?thesis
    using assms Inr
    by (cases "w_gql w [] d (gq_variables input)")
       (auto simp: p graphqlQueryHandler_def events_of_def prog_simps validateAgainstSchema_def renderJsonResult_def
         split: if_splits sum.splits)
qed

lemma emits_renderJsonResult [emits_intros]: "emits P (renderJsonResult x)"
  by (simp add: renderJsonResult_def emits_toolText)

text \<open>Both gates, at the points of the run where they ask.\<close>

lemma raw_gates_events:
  assumes "e \<in> set (events_of w (raw_gates ch flags risky body))" "touches_host e" "emits P body"
  shows "P e \<and> (risky = [] \<or> risk_approved w [] (ch, flags, riskyRefusalMessage risky))
    \<and> (\<exists>es. (\<forall>x \<in> set es. is_elicit x) \<and> confirm_approved w es (ch, confirm flags, RAW_DESCRIPTION))"
proof -
  let ?g1 = "requireRiskAcknowledgementInteractive ch flags (riskyRefusalMessage risky)"
  let ?g2 = "requireConfirmationInteractive ch (confirm flags) RAW_DESCRIPTION"
  let ?a = "(ch, confirm flags, RAW_DESCRIPTION)"
  have em: "emits (\<lambda>x. is_elicit x \<or> P x) (gated ?g2 body)"
    by (intro emits_gated emits_confirm_gate emits_mono [OF assms(3)]) simp_all
  show ?thesis
  proof (cases "risky = []")
    case True
    with tier1.gated_emits [OF assms(3), of e w ?a] assms(1,2) show ?thesis
      by (intro conjI exI [of _ "[]"]) (simp_all add: raw_gates_def)
  next
    case False
    then have ev: "e \<in> set (events_of w (gated ?g1 (gated ?g2 body)))" using assms(1) by (simp add: raw_gates_def Let_def)
    from tier2.gated_emits [OF em, of e w "(ch, flags, riskyRefusalMessage risky)"] ev assms(2)
    have r: "risk_approved w [] (ch, flags, riskyRefusalMessage risky)" "is_elicit e \<or> P e" by simp_all
    from tier2.gated_pass [OF r(1), of "gated ?g2 body"] obtain es where
      es: "\<forall>x \<in> set es. is_elicit x" "run w [] (gated ?g1 (gated ?g2 body)) = run w es (gated ?g2 body)" by auto
    obtain es' where es': "snd (run w es (gated ?g2 body)) = es @ es'" using run_extends by blast
    have ne: "\<not> is_elicit e" using assms(2) by (cases e) auto
    with ev es es' have "e \<in> set es'" by (auto simp: events_of_def)
    with tier1.gated_safe [of w es ?a body es' e] es' assms(2)
    have "confirm_approved w es ?a" by simp
    with r ne es(1) show ?thesis by blast
  qed
qed

lemma graphql_mutation_events:
  assumes "e \<in> set (events_of w (graphqlMutationHandler lib ch input))" "touches_host e"
  shows "\<exists>d. parseSingleOperation lib (gm_mutation input) = Inr (d, Mutation) \<and> lib_validate lib (definitions d) = Inr []
    \<and> gm_dry_run input \<noteq> Some True \<and> e = EGql d (gm_variables input)
    \<and> (findRiskyFields d = [] \<or> risk_approved w [] (ch, gm_flags input, riskyRefusalMessage (findRiskyFields d)))
    \<and> (\<exists>es. (\<forall>x \<in> set es. is_elicit x) \<and> confirm_approved w es (ch, confirm (gm_flags input), RAW_DESCRIPTION))"
proof (cases "parseSingleOperation lib (gm_mutation input)")
  case (Inl m)
  with assms show ?thesis by (simp add: graphqlMutationHandler_def events_of_def prog_simps)
next
  case (Inr p)
  obtain d t where p: "p = (d, t)" by (cases p)
  let ?body = "bind (execute_gql d (gm_variables input)) renderJsonResult"
  have ok: "t = Mutation" "lib_validate lib (definitions d) = Inr []" "gm_dry_run input \<noteq> Some True"
    "e \<in> set (events_of w (raw_gates ch (gm_flags input) (findRiskyFields d) ?body))"
    using assms(1) Inr
    by (auto simp: p graphqlMutationHandler_def events_of_def prog_simps validateAgainstSchema_def
        split: if_splits sum.splits prod.splits)
  have "emits (\<lambda>x. x = EGql d (gm_variables input)) ?body" by (intro emits_intros) simp
  from raw_gates_events [OF ok(4) assms(2) this] ok Inr p show ?thesis by blast
qed

end
