(* ===== verification/ApiKeyTools.thy ===== *)
theory ApiKeyTools
  imports GraphqlTools
begin

text \<open>
  The API key tools (\<open>src/tools/apikey/\<close>): \<open>apikey_list\<close>, which never selects a key value, and
  \<open>apikey_manage\<close>, which checks the arguments of its action before it asks for approval.
\<close>

section \<open>apikey\_list\<close>

definition apikey_line :: "jsval \<Rightarrow> string prog" where
  "apikey_line key =
     bind (joined '', '' (getp key ''roles'')) (\<lambda>roles.
     Ret (''- '' @ shown key ''name'' @ '' (id '' @ shown key ''id'' @ ''): roles ['' @ roles @ ''], created '' @ shown key ''createdAt''))"

definition apikey_summarize :: "jsval list \<Rightarrow> string prog" where
  "apikey_summarize keys =
     (if keys = [] then Ret ''No API keys configured.''
      else bind (map_prog apikey_line keys) (\<lambda>lines.
           Ret (join nl ((show_nat (length keys) @ '' API key(s):'') # lines))))"

definition apiKeyListHandler :: "response_format \<Rightarrow> tool_result prog" where
  "apiKeyListHandler format =
     failing_with ''Failed to list API keys: ''
       (bind (execute_gql ApiKeyListDocument JUndef) (\<lambda>data.
        bind (path data [''apiKeys'']) (\<lambda>raw.
        bind (objects raw) (\<lambda>keys.
        bind (apikey_summarize keys) (\<lambda>summary.
        formatResponse format summary (JObj [(''keys'', raw)]))))))"

section \<open>apikey\_manage\<close>

datatype api_role = ADMIN | CONNECT | GUEST | VIEWER

definition role_text :: "api_role \<Rightarrow> string" where
  "role_text r = (case r of ADMIN \<Rightarrow> ''ADMIN'' | CONNECT \<Rightarrow> ''CONNECT'' | GUEST \<Rightarrow> ''GUEST'' | VIEWER \<Rightarrow> ''VIEWER'')"

datatype manage_action = KeyCreate | KeyUpdate | KeyAddRole | KeyRemoveRole | KeyDelete

definition manage_action_text :: "manage_action \<Rightarrow> string" where
  "manage_action_text a =
     (case a of KeyCreate \<Rightarrow> ''create'' | KeyUpdate \<Rightarrow> ''update'' | KeyAddRole \<Rightarrow> ''add_role''
      | KeyRemoveRole \<Rightarrow> ''remove_role'' | KeyDelete \<Rightarrow> ''delete'')"

record api_key_manage_args =
  ak_action :: manage_action
  ak_name :: "string option"
  ak_description :: "string option"
  ak_roles :: "api_role list option"
  ak_id :: "string option"
  ak_ids :: "string list option"
  ak_flags :: risk_flags

definition is_role_action :: "manage_action \<Rightarrow> bool" where
  "is_role_action a = (a = KeyAddRole \<or> a = KeyRemoveRole)"

definition apikey_validateArgs :: "api_key_manage_args \<Rightarrow> string option" where
  \<open>apikey_validateArgs args =
     (if ak_action args = KeyCreate \<and> no_text (ak_name args) then Some ''action "create" requires `name`.''
      else if ak_action args = KeyUpdate \<and> no_text (ak_id args) then Some ''action "update" requires `id`.''
      else if is_role_action (ak_action args) \<and> (no_text (ak_id args) \<or> map_option length (ak_roles args) \<noteq> Some 1)
      then Some (''action "'' @ manage_action_text (ak_action args) @ ''" requires `id` and exactly one role in `roles`.'')
      else if ak_action args = KeyDelete \<and> (ak_ids args = None \<or> ak_ids args = Some [])
      then Some ''action "delete" requires `ids` (one or more key ids).''
      else None)\<close>

definition apikey_refusalMessage :: "api_key_manage_args \<Rightarrow> string" where
  \<open>apikey_refusalMessage args =
     ''Refusing to '' @ manage_action_text (ak_action args) @ '' API key(s): this manages the credentials that control access to your Unraid server'' @
     (if ak_action args = KeyDelete then '', and deleting the key this MCP server itself uses would lock it out'' else []) @
     ''. Re-call with "confirm": true and "acknowledge_risk": true to proceed. No changes were made.''\<close>

definition js_roles :: "api_role list option \<Rightarrow> jsval" where
  "js_roles roles = (case roles of None \<Rightarrow> JUndef | Some rs \<Rightarrow> JArr (map (JStr \<circ> role_text) rs))"

text \<open>\<open>args.roles?.[0]\<close>.\<close>

definition first_role :: "api_key_manage_args \<Rightarrow> jsval" where
  "first_role args = (case ak_roles args of Some (r # rs) \<Rightarrow> JStr (role_text r) | _ \<Rightarrow> JUndef)"

definition or_empty :: "string option \<Rightarrow> string" where
  "or_empty s = (case s of None \<Rightarrow> [] | Some t \<Rightarrow> t)"

text \<open>\<open>{ input }\<close> of each mutation.\<close>

definition manage_input :: "api_key_manage_args \<Rightarrow> jsval" where
  "manage_input args =
     JObj [(''input'',
       case ak_action args of
         KeyCreate \<Rightarrow> JObj [(''name'', JStr (or_empty (ak_name args))), (''description'', js_string_opt (ak_description args)),
                           (''roles'', js_roles (ak_roles args))]
       | KeyUpdate \<Rightarrow> JObj [(''id'', JStr (or_empty (ak_id args))), (''name'', js_string_opt (ak_name args)),
                           (''description'', js_string_opt (ak_description args)), (''roles'', js_roles (ak_roles args))]
       | KeyAddRole \<Rightarrow> JObj [(''apiKeyId'', JStr (or_empty (ak_id args))), (''role'', first_role args)]
       | KeyRemoveRole \<Rightarrow> JObj [(''apiKeyId'', JStr (or_empty (ak_id args))), (''role'', first_role args)]
       | KeyDelete \<Rightarrow> JObj [(''ids'', JArr (map JStr (case ak_ids args of None \<Rightarrow> [] | Some ks \<Rightarrow> ks)))])]"

definition manage_document :: "manage_action \<Rightarrow> gql_document" where
  "manage_document a =
     (case a of KeyCreate \<Rightarrow> ApiKeyCreateDocument | KeyUpdate \<Rightarrow> ApiKeyUpdateDocument | KeyAddRole \<Rightarrow> ApiKeyAddRoleDocument
      | KeyRemoveRole \<Rightarrow> ApiKeyRemoveRoleDocument | KeyDelete \<Rightarrow> ApiKeyDeleteDocument)"

definition apikey_created :: "jsval \<Rightarrow> string prog" where
  \<open>apikey_created data =
     bind (path data [''apiKey'', ''create'']) (\<lambda>created.
     bind (path created [''roles'']) (\<lambda>rs.
     bind (joined '', '' rs) (\<lambda>roles.
     Ret (join nl
       [''Created API key "'' @ shown created ''name'' @ ''" (id '' @ shown created ''id'' @ '') with roles ['' @ roles @ ''].'',
        ''Key value (shown once '' @ mdash @ '' store it somewhere safe now): '' @ shown created ''key'']))))\<close>

definition apikey_updated :: "jsval \<Rightarrow> string prog" where
  \<open>apikey_updated data =
     bind (path data [''apiKey'', ''update'']) (\<lambda>updated.
     bind (path updated [''roles'']) (\<lambda>rs.
     bind (joined '', '' rs) (\<lambda>roles.
     Ret (''Updated API key "'' @ shown updated ''name'' @ ''" (id '' @ shown updated ''id'' @ ''); roles now ['' @ roles @ ''].''))))\<close>

definition runManageAction :: "api_key_manage_args \<Rightarrow> string prog" where
  "runManageAction args =
     bind (execute_gql (manage_document (ak_action args)) (manage_input args)) (\<lambda>data.
       case ak_action args of
         KeyCreate \<Rightarrow> apikey_created data
       | KeyUpdate \<Rightarrow> apikey_updated data
       | KeyAddRole \<Rightarrow> Ret (''Role '' @ display (first_role args) @ '' added to API key '' @ display (js_string_opt (ak_id args)) @ ''. Verify with apikey_list.'')
       | KeyRemoveRole \<Rightarrow> Ret (''Role '' @ display (first_role args) @ '' removed from API key '' @ display (js_string_opt (ak_id args)) @ ''. Verify with apikey_list.'')
       | KeyDelete \<Rightarrow> Ret (''Deleted API key(s) '' @ (case ak_ids args of None \<Rightarrow> ''undefined'' | Some ks \<Rightarrow> join '', '' ks) @ ''. Verify with apikey_list.''))"

definition apikey_work :: "api_key_manage_args \<Rightarrow> tool_result prog" where
  "apikey_work args =
     failing_with (''Failed to '' @ manage_action_text (ak_action args) @ '' API key(s): '')
       (bind (runManageAction args) toolText)"

definition apiKeyManageHandler :: "channel \<Rightarrow> api_key_manage_args \<Rightarrow> tool_result prog" where
  "apiKeyManageHandler ch args =
     (case apikey_validateArgs args of
        Some invalid \<Rightarrow> toolError (invalid @ '' No changes were made.'')
      | None \<Rightarrow> gated (requireRiskAcknowledgementInteractive ch (ak_flags args) (apikey_refusalMessage args)) (apikey_work args))"

section \<open>What is sent\<close>

lemma manage_document_mutates [simp]: "has_mutation (manage_document a)"
  by (cases a) (simp_all add: manage_document_def)

lemma emits_runManageAction:
  "P (EGql (manage_document (ak_action args)) (manage_input args)) \<Longrightarrow> emits P (runManageAction args)"
  by (cases "ak_action args")
     (auto simp: runManageAction_def apikey_created_def apikey_updated_def intro!: emits_intros)

lemma apikey_manage_events:
  assumes "e \<in> set (events_of w (apiKeyManageHandler ch args))" "touches_host e"
  shows "apikey_validateArgs args = None \<and> risk_approved w [] (ch, ak_flags args, apikey_refusalMessage args)
    \<and> e = EGql (manage_document (ak_action args)) (manage_input args)"
proof (cases "apikey_validateArgs args")
  case None
  have "emits (\<lambda>x. x = EGql (manage_document (ak_action args)) (manage_input args)) (apikey_work args)"
    unfolding apikey_work_def by (intro emits_failing_with emits_bind emits_runManageAction emits_toolText) simp
  from tier2.gated_emits [OF this, of e w "(ch, ak_flags args, apikey_refusalMessage args)"] assms None
  show ?thesis by (simp add: apiKeyManageHandler_def)
next
  case (Some m)
  with assms show ?thesis by (simp add: apiKeyManageHandler_def events_of_def prog_simps)
qed

text \<open>A role action names one key and one role, a deletion at least one key.\<close>

lemma validated_roles:
  assumes "apikey_validateArgs args = None" "is_role_action (ak_action args)"
  shows "\<exists>i r. ak_id args = Some i \<and> i \<noteq> [] \<and> ak_roles args = Some [r]"
  using assms
  by (auto simp: apikey_validateArgs_def is_role_action_def no_text_def length_Suc_conv split: if_splits)

lemma validated_delete:
  assumes "apikey_validateArgs args = None" "ak_action args = KeyDelete"
  shows "\<exists>ks. ak_ids args = Some ks \<and> ks \<noteq> []"
  using assms by (auto simp: apikey_validateArgs_def is_role_action_def split: if_splits)

lemma apikey_list_events: "e \<in> set (events_of w (apiKeyListHandler f)) \<Longrightarrow> e = EGql ApiKeyListDocument JUndef"
proof (erule events_emits [rotated])
  show "emits (\<lambda>e. e = EGql ApiKeyListDocument JUndef) (apiKeyListHandler f)"
    unfolding apiKeyListHandler_def apikey_summarize_def apikey_line_def by (intro emits_intros) simp
qed

lemma key_not_selected: "''key'' \<notin> set (document_fields ApiKeyListDocument)"
  by code_simp

end
