(* ===== verification/PluginTools.thy ===== *)
theory PluginTools
  imports Reading Patterns
begin

text \<open>
  The plugin tools (\<open>src/tools/plugin/\<close>): API plugins are npm packages whose names are checked
  against an allow-list pattern before the call is even offered for approval; a native plugin is
  installed from the URL of a \<open>.plg\<close> file.
\<close>

section \<open>Shared\<close>

definition npm_start :: "char \<Rightarrow> bool" where
  "npm_start c \<longleftrightarrow> is_lower c \<or> is_digit c"

definition npm_char :: "char \<Rightarrow> bool" where
  "npm_char c \<longleftrightarrow> npm_start c \<or> c \<in> set ''._-''"

definition npm_part :: regex where
  "npm_part = RSeq (RClass npm_start) (RStar (RClass npm_char))"

definition NAMES_SPEC :: regex where
  "NAMES_SPEC = anchored (rseq [ropt (RGroup 1 (rseq [rchar (CHR ''@''), npm_part, rchar (CHR ''/'')])), npm_part])"

record plugin_names_input =
  pn_format :: response_format
  pn_names :: "string list"
  pn_confirm :: "bool option"

definition firstInvalidName :: "string list \<Rightarrow> string option" where
  "firstInvalidName names = (case filter (\<lambda>n. \<not> re_test NAMES_SPEC n) names of [] \<Rightarrow> None | n # _ \<Rightarrow> Some n)"

definition buildInvalidNameError :: "string \<Rightarrow> string \<Rightarrow> string" where
  \<open>buildInvalidNameError action n = ''Refusing to '' @ action @ '' "'' @ n @ ''": only bare or scoped npm package names are allowed (no URLs, git refs, paths, or version suffixes). No changes were made.''\<close>

definition capitalize :: "string \<Rightarrow> string" where
  "capitalize word = map upper_char (take 1 word) @ drop 1 word"

definition buildRestartReport :: "string \<Rightarrow> string list \<Rightarrow> bool \<Rightarrow> string" where
  "buildRestartReport verb names manualRestartRequired =
     capitalize verb @ '' of '' @ join '', '' names @ '' submitted; '' @
     (if manualRestartRequired
      then ''a manual API restart is required to apply it. Verify with plugin_list after restarting.''
      else ''the Unraid API is restarting to apply it. Verify with plugin_list once it reconnects.'')"

definition names_variables :: "string list \<Rightarrow> bool \<Rightarrow> bool \<Rightarrow> jsval" where
  "names_variables names bundled restart =
     JObj [(''input'', JObj [(''names'', JArr (map JStr names)), (''bundled'', JBool bundled), (''restart'', JBool restart)])]"

section \<open>plugin\_add and plugin\_remove\<close>

definition BUNDLED :: bool where "BUNDLED = False"
definition RESTART :: bool where "RESTART = True"

definition plugin_add_work :: "plugin_names_input \<Rightarrow> tool_result prog" where
  "plugin_add_work input =
     failing_with (''Failed to add plugin(s) '' @ join '', '' (pn_names input) @ '': '')
       (bind (execute_gql PluginAddDocument (names_variables (pn_names input) BUNDLED RESTART)) (\<lambda>data.
        bind (path data [''addPlugin'']) (\<lambda>v.
        formatResponse (pn_format input) (buildRestartReport ''add'' (pn_names input) (truthy v)) data)))"

definition pluginAddHandler :: "channel \<Rightarrow> plugin_names_input \<Rightarrow> tool_result prog" where
  "pluginAddHandler ch input =
     (case firstInvalidName (pn_names input) of
        Some invalid \<Rightarrow> toolError (buildInvalidNameError ''add'' invalid)
      | None \<Rightarrow> gated (requireConfirmationInteractive ch (pn_confirm input) (''add plugin(s) '' @ join '', '' (pn_names input)))
                  (plugin_add_work input))"

definition plugin_remove_work :: "plugin_names_input \<Rightarrow> tool_result prog" where
  "plugin_remove_work input =
     failing_with (''Failed to remove plugin(s) '' @ join '', '' (pn_names input) @ '': '')
       (bind (execute_gql PluginRemoveDocument (names_variables (pn_names input) BUNDLED RESTART)) (\<lambda>data.
        bind (path data [''removePlugin'']) (\<lambda>v.
        formatResponse (pn_format input) (buildRestartReport ''remove'' (pn_names input) (truthy v)) data)))"

definition pluginRemoveHandler :: "channel \<Rightarrow> plugin_names_input \<Rightarrow> tool_result prog" where
  "pluginRemoveHandler ch input =
     (case firstInvalidName (pn_names input) of
        Some invalid \<Rightarrow> toolError (buildInvalidNameError ''remove'' invalid)
      | None \<Rightarrow> gated (requireConfirmationInteractive ch (pn_confirm input) (''remove plugin(s) '' @ join '', '' (pn_names input)))
                  (plugin_remove_work input))"

section \<open>plugin\_install\_plg\<close>

definition PLG_SUFFIX :: string where "PLG_SUFFIX = ''.plg''"

record plugin_install_plg_args =
  pi_url :: string
  pi_name :: "string option"
  pi_forced :: "bool option"
  pi_flags :: risk_flags

definition plg_refusalMessage :: "string \<Rightarrow> string" where
  \<open>plg_refusalMessage url = ''Refusing to install the Unraid plugin at '' @ url @ '': a .plg installer runs arbitrary code as root on your server '' @ mdash @ '' only install plugins from sources you trust. Re-call with "confirm": true and "acknowledge_risk": true to proceed. No changes were made.''\<close>

definition plg_variables :: "plugin_install_plg_args \<Rightarrow> jsval" where
  "plg_variables args =
     JObj [(''input'', JObj [(''url'', JStr (pi_url args)), (''name'', js_string_opt (pi_name args)),
                             (''forced'', case pi_forced args of None \<Rightarrow> JUndef | Some b \<Rightarrow> JBool b)])]"

definition plg_work :: "plugin_install_plg_args \<Rightarrow> tool_result prog" where
  "plg_work args =
     failing_with (''Failed to install plugin from '' @ pi_url args @ '': '')
       (bind (execute_gql PluginInstallPlgDocument (plg_variables args)) (\<lambda>data.
        bind (path data [''unraidPlugins'', ''installPlugin'']) (\<lambda>operation.
        bind (path operation [''status'']) (\<lambda>status.
        toolText (''Plugin install '' @ display status @ '' (operation '' @ shown operation ''id'' @ '') for '' @
          display (coalesce (getp operation ''name'') (getp operation ''url'')) @
          ''. Installation continues on the server '' @ mdash @ '' check plugin_list and the syslog (log_read) for completion.'')))))"

definition pluginInstallPlgHandler :: "channel \<Rightarrow> plugin_install_plg_args \<Rightarrow> tool_result prog" where
  "pluginInstallPlgHandler ch args =
     (if \<not> ends_with (pi_url args) PLG_SUFFIX
      then toolError (''Not a .plg URL: '' @ pi_url args @ ''. Native Unraid plugins are installed from a .plg file URL (for API plugins use plugin_add). No changes were made.'')
      else gated (requireRiskAcknowledgementInteractive ch (pi_flags args) (plg_refusalMessage (pi_url args))) (plg_work args))"

section \<open>plugin\_list\<close>

definition summarizeApi :: "jsval list \<Rightarrow> string" where
  "summarizeApi plugins =
     (if plugins = [] then ''0 api plugins reported (may also indicate safe mode or a load failure)''
      else show_nat (length plugins) @ '' api plugin(s): '' @ join_values '', '' (map (\<lambda>p. getp p ''name'') plugins))"

definition summarizeOsPlugins :: "jsval list \<Rightarrow> string" where
  "summarizeOsPlugins filenames =
     (if filenames = [] then ''0 OS .plg reported (may also indicate an unreadable plugin directory)''
      else show_nat (length filenames) @ '' OS .plg: '' @ join_values '', '' filenames)"

definition plugin_summarize :: "jsval list \<Rightarrow> jsval list \<Rightarrow> string" where
  "plugin_summarize plugins filenames = summarizeApi plugins @ ''. '' @ summarizeOsPlugins filenames @ ''.''"

definition pluginListHandler :: "response_format \<Rightarrow> tool_result prog" where
  "pluginListHandler format =
     failing_with ''Failed to list plugins: ''
       (bind (execute_gql PluginListDocument JUndef) (\<lambda>data.
        bind (path data [''plugins'']) (\<lambda>raw.
        bind (objects raw) (\<lambda>plugins.
        bind (as_list (getp data ''installedUnraidPlugins'')) (\<lambda>filenames.
        formatResponse format (plugin_summarize plugins filenames) data)))))"

section \<open>What is sent\<close>

lemma plugin_add_events:
  assumes "e \<in> set (events_of w (pluginAddHandler ch input))" "touches_host e"
  shows "firstInvalidName (pn_names input) = None
    \<and> confirm_approved w [] (ch, pn_confirm input, ''add plugin(s) '' @ join '', '' (pn_names input))
    \<and> e = EGql PluginAddDocument (names_variables (pn_names input) False True)"
proof (cases "firstInvalidName (pn_names input)")
  case None
  have "emits (\<lambda>x. x = EGql PluginAddDocument (names_variables (pn_names input) False True)) (plugin_add_work input)"
    unfolding plugin_add_work_def BUNDLED_def RESTART_def by (rule emits_one_gql) (auto intro!: emits_intros)
  from tier1.gated_emits [OF this, of e w "(ch, pn_confirm input, ''add plugin(s) '' @ join '', '' (pn_names input))"] assms None
  show ?thesis by (simp add: pluginAddHandler_def)
next
  case (Some m)
  with assms show ?thesis by (simp add: pluginAddHandler_def events_of_def prog_simps)
qed

lemma plugin_remove_events:
  assumes "e \<in> set (events_of w (pluginRemoveHandler ch input))" "touches_host e"
  shows "firstInvalidName (pn_names input) = None
    \<and> confirm_approved w [] (ch, pn_confirm input, ''remove plugin(s) '' @ join '', '' (pn_names input))
    \<and> e = EGql PluginRemoveDocument (names_variables (pn_names input) False True)"
proof (cases "firstInvalidName (pn_names input)")
  case None
  have "emits (\<lambda>x. x = EGql PluginRemoveDocument (names_variables (pn_names input) False True)) (plugin_remove_work input)"
    unfolding plugin_remove_work_def BUNDLED_def RESTART_def by (rule emits_one_gql) (auto intro!: emits_intros)
  from tier1.gated_emits [OF this, of e w "(ch, pn_confirm input, ''remove plugin(s) '' @ join '', '' (pn_names input))"] assms None
  show ?thesis by (simp add: pluginRemoveHandler_def)
next
  case (Some m)
  with assms show ?thesis by (simp add: pluginRemoveHandler_def events_of_def prog_simps)
qed

lemma plg_events:
  assumes "e \<in> set (events_of w (pluginInstallPlgHandler ch args))" "touches_host e"
  shows "ends_with (pi_url args) ''.plg'' \<and> risk_approved w [] (ch, pi_flags args, plg_refusalMessage (pi_url args))
    \<and> e = EGql PluginInstallPlgDocument (plg_variables args)"
proof (cases "ends_with (pi_url args) PLG_SUFFIX")
  case True
  have "emits (\<lambda>x. x = EGql PluginInstallPlgDocument (plg_variables args)) (plg_work args)"
    unfolding plg_work_def by (rule emits_one_gql) (auto intro!: emits_intros)
  from tier2.gated_emits [OF this, of e w "(ch, pi_flags args, plg_refusalMessage (pi_url args))"] assms True
  show ?thesis by (simp add: pluginInstallPlgHandler_def PLG_SUFFIX_def)
next
  case False
  with assms show ?thesis by (simp add: pluginInstallPlgHandler_def events_of_def prog_simps)
qed

lemma plugin_list_events: "e \<in> set (events_of w (pluginListHandler f)) \<Longrightarrow> e = EGql PluginListDocument JUndef"
proof (erule events_emits [rotated])
  show "emits (\<lambda>e. e = EGql PluginListDocument JUndef) (pluginListHandler f)"
    unfolding pluginListHandler_def by (intro emits_intros) simp
qed

text \<open>An accepted name has the characters of a package name only: no colon, blank, or second slash-free scheme.\<close>

lemma firstInvalidName_None: "firstInvalidName names = None \<longleftrightarrow> (\<forall>n \<in> set names. re_test NAMES_SPEC n)"
  by (auto simp: firstInvalidName_def filter_empty_conv split: list.splits) (metis filter_empty_conv list.distinct(1))

lemma package_name_chars:
  assumes "re_test NAMES_SPEC n" "c \<in> set n"
  shows "npm_char c \<or> c = CHR ''@'' \<or> c = CHR ''/''"
proof -
  have "regex_chars (rseq [ropt (RGroup 1 (rseq [rchar (CHR ''@''), npm_part, rchar (CHR ''/'')])), npm_part]) c"
    by (rule re_test_chars [OF _ assms(2)]) (use assms(1) in \<open>simp add: NAMES_SPEC_def\<close>)
  then show ?thesis by (auto simp: npm_part_def npm_char_def ropt_def)
qed

end
