(* ===== verification/NotificationTools.thy ===== *)
theory NotificationTools
  imports Reading
begin

text \<open>
  The notification tools (\<open>src/tools/notification/\<close>). Reads and the harmless writes (archive,
  create, recalculate, mark unread) run at once; deleting needs confirmation. The lemmas say
  which documents each handler can send, and that invalid targets send nothing.
\<close>

section \<open>Shared\<close>

datatype type_input = TUnread | TArchive
datatype importance_input = IAlert | IWarning | IInfo

definition TYPE_TO_API :: "type_input \<Rightarrow> string" where
  "TYPE_TO_API t = (case t of TUnread \<Rightarrow> ''UNREAD'' | TArchive \<Rightarrow> ''ARCHIVE'')"

definition type_text :: "type_input \<Rightarrow> string" where
  "type_text t = (case t of TUnread \<Rightarrow> ''unread'' | TArchive \<Rightarrow> ''archive'')"

definition IMPORTANCE_TO_API :: "importance_input \<Rightarrow> string" where
  "IMPORTANCE_TO_API i = (case i of IAlert \<Rightarrow> ''ALERT'' | IWarning \<Rightarrow> ''WARNING'' | IInfo \<Rightarrow> ''INFO'')"

definition importance_text :: "importance_input \<Rightarrow> string" where
  "importance_text i = (case i of IAlert \<Rightarrow> ''alert'' | IWarning \<Rightarrow> ''warning'' | IInfo \<Rightarrow> ''info'')"

definition formatCounts :: "jsval \<Rightarrow> string" where
  "formatCounts counts =
     shown counts ''total'' @ '' ('' @ shown counts ''alert'' @ '' alert / '' @ shown counts ''warning'' @ '' warning / '' @
     shown counts ''info'' @ '' info)''"

text \<open>A missing bucket throws.\<close>

definition bucket_of :: "jsval \<Rightarrow> string \<Rightarrow> jsval prog" where
  "bucket_of overview k = bind (path overview [k]) (\<lambda>b. bind (path b [''total'']) (\<lambda>_. Ret b))"

definition summarizeOverview :: "jsval \<Rightarrow> string prog" where
  "summarizeOverview overview =
     bind (bucket_of overview ''unread'') (\<lambda>unread.
     bind (bucket_of overview ''archive'') (\<lambda>archive.
     Ret (''Unread: '' @ formatCounts unread @ ''. Archived: '' @ formatCounts archive @ ''.'')))"

definition summarizeLine :: "jsval \<Rightarrow> string" where
  "summarizeLine n =
     ''['' @ shown n ''importance'' @ ''] '' @ shown n ''title'' @ '' '' @ mdash @ '' '' @ shown n ''subject'' @ '' ('' @
     display (coalesce (getp n ''formattedTimestamp'') (coalesce (getp n ''timestamp'') (JStr ''no timestamp''))) @ '')''"

section \<open>Reads\<close>

definition notificationAlertsHandler :: "response_format \<Rightarrow> tool_result prog" where
  "notificationAlertsHandler format =
     failing_with ''Failed to fetch warnings and alerts: ''
       (bind (execute_gql NotificationAlertsDocument JUndef) (\<lambda>data.
        bind (path data [''notifications'', ''warningsAndAlerts'']) (\<lambda>raw.
        bind (objects raw) (\<lambda>items.
        formatResponse format
          (if items = [] then ''No unread warnings or alerts.'' else join nl (map summarizeLine items)) raw))))"

definition notificationOverviewHandler :: "response_format \<Rightarrow> tool_result prog" where
  "notificationOverviewHandler format =
     failing_with ''Failed to fetch notification overview: ''
       (bind (execute_gql NotificationOverviewDocument JUndef) (\<lambda>data.
        bind (path data [''notifications'', ''overview'']) (\<lambda>overview.
        bind (summarizeOverview overview) (\<lambda>summary.
        formatResponse format summary overview))))"

definition DEFAULT_OFFSET :: int where "DEFAULT_OFFSET = 0"
definition DEFAULT_LIMIT :: int where "DEFAULT_LIMIT = 25"

record notification_list_args =
  nl_format :: response_format
  nl_type :: type_input
  nl_importance :: "importance_input option"
  nl_offset :: "int option"
  nl_limit :: "int option"

definition emptyMessage :: "notification_list_args \<Rightarrow> string" where
  "emptyMessage args =
     (case nl_importance args of
        Some i \<Rightarrow> ''No '' @ type_text (nl_type args) @ '' notifications match importance '' @ IMPORTANCE_TO_API i @ ''.''
      | None \<Rightarrow> ''No '' @ type_text (nl_type args) @ '' notifications.'')"

definition notification_list_summarize :: "jsval list \<Rightarrow> notification_list_args \<Rightarrow> string" where
  "notification_list_summarize items args =
     (if items = [] then emptyMessage args else join nl (map summarizeLine items))"

definition notification_filter :: "notification_list_args \<Rightarrow> jsval" where
  "notification_filter args =
     JObj ([(''type'', JStr (TYPE_TO_API (nl_type args)))] @
           opt_prop ''importance'' (map_option (JStr \<circ> IMPORTANCE_TO_API) (nl_importance args)) @
           [(''offset'', JInt (case nl_offset args of None \<Rightarrow> DEFAULT_OFFSET | Some n \<Rightarrow> n)),
            (''limit'', JInt (case nl_limit args of None \<Rightarrow> DEFAULT_LIMIT | Some n \<Rightarrow> n))])"

definition notificationListHandler :: "notification_list_args \<Rightarrow> tool_result prog" where
  "notificationListHandler args =
     failing_with ''Failed to list notifications: ''
       (bind (execute_gql NotificationListDocument (JObj [(''filter'', notification_filter args)])) (\<lambda>data.
        bind (path data [''notifications'', ''list'']) (\<lambda>raw.
        bind (objects raw) (\<lambda>items.
        formatResponse (nl_format args) (notification_list_summarize items args) raw))))"

section \<open>notification\_archive\<close>

datatype direction = DArchive | DUnarchive

definition direction_text :: "direction \<Rightarrow> string" where
  "direction_text d = (case d of DArchive \<Rightarrow> ''archive'' | DUnarchive \<Rightarrow> ''unarchive'')"

record archive_args =
  na_format :: response_format
  na_direction :: direction
  na_ids :: "string list option"
  na_all :: "bool option"
  na_importance :: "importance_input option"

definition archive_validateTarget :: "archive_args \<Rightarrow> string option" where
  "archive_validateTarget args =
     (let hasIds = (case na_ids args of None \<Rightarrow> False | Some ks \<Rightarrow> length ks > 0)
      in if hasIds = (na_all args = Some True)
         then Some ''Specify exactly one of `ids` (non-empty) or `all: true`. No changes were made.''
         else if na_importance args \<noteq> None \<and> na_all args \<noteq> Some True
         then Some ''`importance` is only valid with `all: true`. No changes were made.''
         else None)"

definition runIds :: "direction \<Rightarrow> string list \<Rightarrow> jsval prog" where
  "runIds d ids =
     (if d = DArchive
      then bind (execute_gql ArchiveNotificationsDocument (JObj [(''ids'', JArr (map JStr ids))])) (\<lambda>data.
           path data [''archiveNotifications''])
      else bind (execute_gql UnarchiveNotificationsDocument (JObj [(''ids'', JArr (map JStr ids))])) (\<lambda>data.
           path data [''unarchiveNotifications'']))"

definition all_variables :: "importance_input option \<Rightarrow> jsval" where
  "all_variables imp = JObj [(''importance'', case imp of None \<Rightarrow> JUndef | Some i \<Rightarrow> JStr (IMPORTANCE_TO_API i))]"

definition runAll :: "direction \<Rightarrow> importance_input option \<Rightarrow> jsval prog" where
  "runAll d imp =
     (if d = DArchive
      then bind (execute_gql ArchiveAllDocument (all_variables imp)) (\<lambda>data. path data [''archiveAll''])
      else bind (execute_gql UnarchiveAllDocument (all_variables imp)) (\<lambda>data. path data [''unarchiveAll'']))"

definition PER_ID_CAVEAT :: string where
  "PER_ID_CAVEAT = ''The API does not report per-id outcomes (an unknown or wrong-bucket id silently succeeds), so check notification_list.''"

definition archive_summarize :: "archive_args \<Rightarrow> string" where
  "archive_summarize args =
     (case na_ids args of
        Some ids \<Rightarrow> ''Requested '' @ direction_text (na_direction args) @ '' of '' @ show_nat (length ids) @ '' notification(s). '' @ PER_ID_CAVEAT
      | None \<Rightarrow> ''Requested '' @ direction_text (na_direction args) @ '' of all'' @
                (case na_importance args of None \<Rightarrow> [] | Some i \<Rightarrow> '' '' @ IMPORTANCE_TO_API i) @
                '' notifications; verify with notification_list.'')"

definition archive_requested :: "archive_args \<Rightarrow> jsval" where
  "archive_requested args =
     JObj [(''direction'', JStr (direction_text (na_direction args))),
           (''ids'', case na_ids args of None \<Rightarrow> JNull | Some ids \<Rightarrow> JArr (map JStr ids)),
           (''all'', JBool (na_all args = Some True)),
           (''importance'', case na_importance args of None \<Rightarrow> JNull | Some i \<Rightarrow> JStr (importance_text i))]"

definition notificationArchiveHandler :: "archive_args \<Rightarrow> tool_result prog" where
  "notificationArchiveHandler args =
     (case archive_validateTarget args of
        Some invalid \<Rightarrow> toolError invalid
      | None \<Rightarrow>
          failing_with (''Failed to '' @ direction_text (na_direction args) @ '' notifications: '')
            (bind (case na_ids args of
                     Some ids \<Rightarrow> runIds (na_direction args) ids
                   | None \<Rightarrow> runAll (na_direction args) (na_importance args)) (\<lambda>serverOverview.
             formatResponse (na_format args) (archive_summarize args)
               (JObj [(''requested'', archive_requested args), (''serverOverview'', serverOverview)]))))"

section \<open>notification\_create\<close>

datatype create_mode = Always | IfUnique

record notification_create_args =
  nc_format :: response_format
  nc_mode :: create_mode
  nc_title :: string
  nc_subject :: string
  nc_description :: string
  nc_importance :: importance_input
  nc_link :: "string option"

definition create_variables :: "notification_create_args \<Rightarrow> jsval" where
  "create_variables args =
     JObj [(''input'', JObj [(''title'', JStr (nc_title args)), (''subject'', JStr (nc_subject args)),
       (''description'', JStr (nc_description args)), (''importance'', JStr (IMPORTANCE_TO_API (nc_importance args))),
       (''link'', js_string_opt (nc_link args))])]"

definition notification_runCreate :: "notification_create_args \<Rightarrow> jsval prog" where
  "notification_runCreate args =
     (if nc_mode args = IfUnique
      then bind (execute_gql NotifyIfUniqueDocument (create_variables args)) (\<lambda>data. path data [''notifyIfUnique''])
      else bind (execute_gql CreateNotificationDocument (create_variables args)) (\<lambda>data. path data [''createNotification'']))"

definition notificationCreateHandler :: "notification_create_args \<Rightarrow> tool_result prog" where
  "notificationCreateHandler args =
     failing_with ''Failed to create notification: ''
       (bind (notification_runCreate args) (\<lambda>notification.
          if \<not> truthy notification
          then formatResponse (nc_format args) ''An equivalent unread notification already exists; not created.''
                 (JObj [(''created'', JBool False), (''notification'', JNull)])
          else formatResponse (nc_format args)
                 (''Created notification '' @ squote @ shown notification ''title'' @ squote @ '' ('' @ shown notification ''importance'' @ '').'')
                 (JObj [(''created'', JBool True), (''notification'', notification)])))"

section \<open>notification\_delete\<close>

datatype delete_scope = ScopeOne | ScopeAllArchived

definition scope_text :: "delete_scope \<Rightarrow> string" where
  "scope_text s = (case s of ScopeOne \<Rightarrow> ''one'' | ScopeAllArchived \<Rightarrow> ''all_archived'')"

record notification_delete_args =
  nd_format :: response_format
  nd_scope :: delete_scope
  nd_id :: "string option"
  nd_type :: "type_input option"
  nd_confirm :: "bool option"

definition validateScope :: "notification_delete_args \<Rightarrow> string option" where
  "validateScope args =
     (if nd_scope args = ScopeOne \<and> (no_text (nd_id args) \<or> nd_type args = None)
      then Some ''`scope: one` requires both `id` and `type`. No changes were made.''
      else if nd_scope args = ScopeAllArchived \<and> (\<not> no_text (nd_id args) \<or> nd_type args \<noteq> None)
      then Some ''`scope: all_archived` takes no `id`/`type`. No changes were made.''
      else None)"

definition delete_one_variables :: "notification_delete_args \<Rightarrow> jsval" where
  "delete_one_variables args =
     JObj [(''id'', js_string_opt (nd_id args)),
           (''type'', case nd_type args of None \<Rightarrow> JUndef | Some t \<Rightarrow> JStr (TYPE_TO_API t))]"

definition notification_runDelete :: "notification_delete_args \<Rightarrow> jsval prog" where
  "notification_runDelete args =
     (if nd_scope args = ScopeAllArchived
      then bind (execute_gql DeleteArchivedNotificationsDocument JUndef) (\<lambda>data. path data [''deleteArchivedNotifications''])
      else bind (execute_gql DeleteNotificationDocument (delete_one_variables args)) (\<lambda>data. path data [''deleteNotification'']))"

definition delete_summarize :: "delete_scope \<Rightarrow> jsval \<Rightarrow> string prog" where
  "delete_summarize s overview =
     bind (path overview [''unread'', ''total'']) (\<lambda>unread.
     bind (path overview [''archive'', ''total'']) (\<lambda>archived.
     Ret (''Deleted '' @ (if s = ScopeAllArchived then ''all archived notifications'' else ''1 notification'') @
          ''; now '' @ display unread @ '' unread / '' @ display archived @ '' archived.'')))"

definition notification_delete_work :: "notification_delete_args \<Rightarrow> tool_result prog" where
  "notification_delete_work args =
     (case validateScope args of
        Some invalid \<Rightarrow> toolError invalid
      | None \<Rightarrow>
          failing_with ''Failed to delete notifications: ''
            (bind (notification_runDelete args) (\<lambda>overview.
             bind (delete_summarize (nd_scope args) overview) (\<lambda>summary.
             formatResponse (nd_format args) summary (JObj [(''overview'', overview)])))))"

definition notificationDeleteHandler :: "channel \<Rightarrow> notification_delete_args \<Rightarrow> tool_result prog" where
  "notificationDeleteHandler ch args =
     gated (requireConfirmationInteractive ch (nd_confirm args) (''delete notifications ('' @ scope_text (nd_scope args) @ '')''))
       (notification_delete_work args)"

section \<open>notification\_recalculate and notification\_unread\<close>

definition notificationRecalculateHandler :: "response_format \<Rightarrow> tool_result prog" where
  "notificationRecalculateHandler format =
     failing_with ''Failed to recalculate notification overview: ''
       (bind (execute_gql RecalculateOverviewDocument JUndef) (\<lambda>data.
        bind (path data [''recalculateOverview'']) (\<lambda>overview.
        bind (path overview [''unread'', ''total'']) (\<lambda>unread.
        bind (path overview [''archive'', ''total'']) (\<lambda>archived.
        formatResponse format
          (''Overview re-synced from disk: '' @ display unread @ '' unread / '' @ display archived @ '' archived.'') overview)))))"

definition notificationUnreadHandler :: "string \<Rightarrow> tool_result prog" where
  \<open>notificationUnreadHandler i =
     failing_with (''Failed to mark notification '' @ i @ '' unread: '')
       (bind (execute_gql NotificationUnreadDocument (JObj [(''id'', JStr i)])) (\<lambda>data.
        bind (path data [''unreadNotification'']) (\<lambda>notification.
        bind (path notification [''title'']) (\<lambda>title.
        toolText (''Marked "'' @ display title @ ''" ('' @ shown notification ''importance'' @ '', id '' @ shown notification ''id'' @ '') as unread.'')))))\<close>

section \<open>What is sent\<close>

text \<open>The calls that each archive request may make.\<close>

definition archive_event :: "archive_args \<Rightarrow> event" where
  "archive_event args =
     (case na_ids args of
        Some ids \<Rightarrow> EGql (if na_direction args = DArchive then ArchiveNotificationsDocument else UnarchiveNotificationsDocument)
                       (JObj [(''ids'', JArr (map JStr ids))])
      | None \<Rightarrow> EGql (if na_direction args = DArchive then ArchiveAllDocument else UnarchiveAllDocument)
                  (all_variables (na_importance args)))"

lemma archive_events:
  assumes "e \<in> set (events_of w (notificationArchiveHandler args))"
  shows "archive_validateTarget args = None \<and> e = archive_event args"
proof (cases "archive_validateTarget args")
  case None
  have "emits (\<lambda>x. x = archive_event args) (notificationArchiveHandler args)"
    unfolding notificationArchiveHandler_def None option.case runIds_def runAll_def
    by (intro emits_intros) (simp_all add: archive_event_def)
  from events_emits [OF this assms] None show ?thesis by simp
next
  case (Some m)
  with assms show ?thesis by (simp add: notificationArchiveHandler_def events_of_def prog_simps)
qed

text \<open>A valid target is exactly one of a non-empty list of ids and everything.\<close>

lemma validateTarget_None:
  assumes "archive_validateTarget args = None"
  shows "(\<exists>k ks. na_ids args = Some (k # ks)) \<noteq> (na_all args = Some True)"
  using assms by (auto simp: archive_validateTarget_def Let_def split: if_splits option.splits list.splits)
     (metis list.exhaust)

lemma create_events:
  "e \<in> set (events_of w (notificationCreateHandler args)) \<Longrightarrow>
   e = EGql (if nc_mode args = IfUnique then NotifyIfUniqueDocument else CreateNotificationDocument) (create_variables args)"
proof (erule events_emits [rotated])
  show "emits (\<lambda>e. e = EGql (if nc_mode args = IfUnique then NotifyIfUniqueDocument else CreateNotificationDocument) (create_variables args))
      (notificationCreateHandler args)"
    unfolding notificationCreateHandler_def notification_runCreate_def by (intro emits_intros) simp_all
qed

definition delete_event :: "notification_delete_args \<Rightarrow> event" where
  "delete_event args =
     (if nd_scope args = ScopeAllArchived then EGql DeleteArchivedNotificationsDocument JUndef
      else EGql DeleteNotificationDocument (delete_one_variables args))"

lemma delete_events:
  assumes "e \<in> set (events_of w (notificationDeleteHandler ch args))" "touches_host e"
  shows "validateScope args = None \<and> e = delete_event args
    \<and> confirm_approved w [] (ch, nd_confirm args, ''delete notifications ('' @ scope_text (nd_scope args) @ '')'')"
proof -
  have "emits (\<lambda>x. validateScope args = None \<and> x = delete_event args) (notification_delete_work args)"
    unfolding notification_delete_work_def notification_runDelete_def delete_summarize_def
    by (intro emits_intros) (simp_all add: delete_event_def)
  from tier1.gated_emits [OF this, of e w "(ch, nd_confirm args, ''delete notifications ('' @ scope_text (nd_scope args) @ '')'')"] assms
  show ?thesis by (simp add: notificationDeleteHandler_def)
qed

lemma validateScope_one:
  assumes "validateScope args = None" "nd_scope args = ScopeOne"
  shows "\<exists>i t. nd_id args = Some i \<and> i \<noteq> [] \<and> nd_type args = Some t"
  using assms by (auto simp: validateScope_def no_text_def split: if_splits)

lemma notification_reads:
  "emits reads_only (notificationAlertsHandler f)" "emits reads_only (notificationOverviewHandler f)"
  "emits reads_only (notificationListHandler args)"
  unfolding notificationAlertsHandler_def notificationOverviewHandler_def notificationListHandler_def
    summarizeOverview_def bucket_of_def
  by (intro emits_intros; simp)+

end
