(* ===== verification/LogTools.thy ===== *)
theory LogTools
  imports Reading ShellTools
begin

text \<open>
  Log files (\<open>src/tools/log/\<close>) and container logs (\<open>src/tools/docker/container/container-logs.ts\<close>):
  a log file is read only after its path was found in the list of the server, a container that
  the API reports no lines for is read again with \<open>docker logs\<close>. \<open>String.localeCompare\<close> depends
  on the locale of the process and is a parameter.
\<close>

section \<open>log\_list\<close>

definition size_number :: "jsval \<Rightarrow> js_num" where
  "size_number v = (case v of JNum q \<Rightarrow> Finite q | _ \<Rightarrow> NonFinite)"

record log_file =
  lf_raw :: jsval
  lf_name :: string
  lf_modifiedAt :: string

definition dec_log_file :: "jsval \<Rightarrow> log_file option" where
  "dec_log_file v =
     (case (dec_str (getp v ''name''), dec_str (getp v ''modifiedAt'')) of
        (Some n, Some m) \<Rightarrow> Some \<lparr>lf_raw = v, lf_name = n, lf_modifiedAt = m\<rparr> | _ \<Rightarrow> None)"

definition sortNewestFirst :: "(string \<Rightarrow> string \<Rightarrow> int) \<Rightarrow> log_file list \<Rightarrow> log_file list" where
  "sortNewestFirst localeCompare files = js_sort (\<lambda>a b. localeCompare (lf_modifiedAt b) (lf_modifiedAt a)) files"

definition log_list_summarize :: "log_file list \<Rightarrow> string" where
  "log_list_summarize files =
     (if files = [] then ''No log files listed (the API also returns an empty list when the log directory is unreadable).''
      else join nl (map (\<lambda>f. lf_name f @ '' '' @ mdash @ '' '' @ humanizeBytes (size_number (getp (lf_raw f) ''size''))
                             @ '', modified '' @ lf_modifiedAt f) files))"

definition logListHandler :: "(string \<Rightarrow> string \<Rightarrow> int) \<Rightarrow> response_format \<Rightarrow> tool_result prog" where
  "logListHandler localeCompare format =
     failing_with ''Failed to list log files: ''
       (bind (execute_gql LogListDocument JUndef) (\<lambda>data.
        bind (path data [''logFiles'']) (\<lambda>raw.
        bind (decode (dec_list dec_log_file raw)) (\<lambda>listed.
        (let files = sortNewestFirst localeCompare listed
         in formatResponse format (log_list_summarize files) (JArr (map lf_raw files)))))))"

section \<open>log\_read\<close>

definition DEFAULT_LINES :: nat where "DEFAULT_LINES = 100"
definition MAX_LINES :: nat where "MAX_LINES = 2000"
definition MAX_NAMES_IN_ERROR :: nat where "MAX_NAMES_IN_ERROR = 25"

record log_read_input =
  lr_format :: response_format
  lr_path :: string
  lr_lines :: int
  lr_start_line :: "int option"

record allowed_file =
  al_name :: string
  al_path :: string

definition dec_allowed :: "jsval \<Rightarrow> allowed_file option" where
  "dec_allowed v =
     (case (dec_str (getp v ''name''), dec_str (getp v ''path'')) of
        (Some n, Some p) \<Rightarrow> Some \<lparr>al_name = n, al_path = p\<rparr> | _ \<Rightarrow> None)"

fun findAllowed :: "allowed_file list \<Rightarrow> string \<Rightarrow> allowed_file option" where
  "findAllowed [] p = None"
| "findAllowed (f # fs) p = (if al_path f = p \<or> al_name f = p then Some f else findAllowed fs p)"

definition unknownFileError :: "allowed_file list \<Rightarrow> string \<Rightarrow> string" where
  \<open>unknownFileError files p =
     (let names = join '', '' (take MAX_NAMES_IN_ERROR (map al_name files))
      in ''Unknown log file "'' @ p @ ''". Valid files (from log_list): '' @ (if names = [] then ''(none listed)'' else names) @ ''.'')\<close>

definition countLines :: "string \<Rightarrow> nat" where
  "countLines s = (if s = [] then 0 else length (split_on nl (strip_newline s)))"

record log_content =
  lc_path :: string
  lc_content :: string
  lc_totalLines :: int
  lc_startLine :: "int option"

definition dec_log_content :: "jsval \<Rightarrow> log_content option" where
  "dec_log_content v =
     (case (dec_str (getp v ''path''), dec_str (getp v ''content''), dec_int (getp v ''totalLines''),
            nullable dec_int (getp v ''startLine'')) of
        (Some p, Some c, Some t, Some s) \<Rightarrow> Some \<lparr>lc_path = p, lc_content = c, lc_totalLines = t, lc_startLine = s\<rparr>
      | _ \<Rightarrow> None)"

definition first_line :: "log_content \<Rightarrow> int" where
  "first_line f = (case lc_startLine f of None \<Rightarrow> 1 | Some n \<Rightarrow> n)"

definition last_line :: "log_content \<Rightarrow> int" where
  "last_line f = first_line f + int (countLines (lc_content f)) - 1"

definition log_read_summarize :: "log_content \<Rightarrow> int \<Rightarrow> string" where
  "log_read_summarize f n =
     (if lc_totalLines f = 0 then lc_path f @ '' is empty (0 lines).''
      else if countLines (lc_content f) = 0
      then lc_path f @ '': no lines at or after start_line='' @ show_int (first_line f) @ '' (file has '' @ show_int (lc_totalLines f) @ '' lines).''
      else join nl
        ([lc_path f @ '' '' @ mdash @ '' lines '' @ show_int (first_line f) @ ndash @ show_int (last_line f) @ '' of '' @ show_int (lc_totalLines f)] @
         (if first_line f > 1 then [mdash @ '' earlier: re-call with start_line='' @ show_int (max 1 (first_line f - n))] else []) @
         (if last_line f < lc_totalLines f then [mdash @ '' later: re-call with start_line='' @ show_int (last_line f + 1)] else []) @
         [[], strip_newline (lc_content f)]))"

definition content_variables :: "allowed_file \<Rightarrow> log_read_input \<Rightarrow> jsval" where
  "content_variables allowed inp =
     JObj [(''path'', JStr (al_path allowed)), (''lines'', JInt (lr_lines inp)), (''startLine'', js_opt_int (lr_start_line inp))]"

definition read_allowed :: "allowed_file list \<Rightarrow> log_read_input \<Rightarrow> tool_result prog" where
  "read_allowed files inp =
     (case findAllowed files (lr_path inp) of
        None \<Rightarrow> toolError (unknownFileError files (lr_path inp))
      | Some allowed \<Rightarrow>
          bind (execute_gql LogReadContentDocument (content_variables allowed inp)) (\<lambda>data.
          bind (path data [''logFile'']) (\<lambda>logFile.
          bind (decode (dec_log_content logFile)) (\<lambda>f.
          formatResponse (lr_format inp) (log_read_summarize f (lr_lines inp)) logFile))))"

definition logReadHandler :: "log_read_input \<Rightarrow> tool_result prog" where
  "logReadHandler inp =
     failing_with (''Failed to read log file '' @ lr_path inp @ '': '')
       (bind (fetch LogReadAllowlistDocument JUndef [''logFiles''] (dec_list dec_allowed)) (\<lambda>files. read_allowed files inp))"

section \<open>docker\_container\_logs\<close>

definition DEFAULT_TAIL :: nat where "DEFAULT_TAIL = 200"
definition MAX_TAIL :: nat where "MAX_TAIL = 2000"
definition FALLBACK_TIMEOUT_MS :: int where "FALLBACK_TIMEOUT_MS = 30000"

record container_logs_input =
  cl_format :: response_format
  cl_id :: string
  cl_since :: "string option"
  cl_tail :: nat

definition TIMESTAMP_ONLY_MESSAGE :: regex where
  "TIMESTAMP_ONLY_MESSAGE =
     anchored (rseq
       [rtimes 4 rdigit, rchar (CHR ''-''), rtimes 2 rdigit, rchar (CHR ''-''), rtimes 2 rdigit, rchar (CHR ''T''),
        rtimes 2 rdigit, rchar (CHR '':''), rtimes 2 rdigit, rchar (CHR '':''), rtimes 2 rdigit,
        ropt (rseq [rchar (CHR ''.''), rplus rdigit]),
        ropt (ralts [rchar (CHR ''Z''), rseq [rone_of ''+-'', rtimes 2 rdigit, rchar (CHR '':''), rtimes 2 rdigit]])])"

record log_line =
  ll_timestamp :: string
  ll_message :: string

definition dec_log_line :: "jsval \<Rightarrow> log_line option" where
  "dec_log_line v =
     (case (dec_str (getp v ''timestamp''), dec_str (getp v ''message'')) of
        (Some t, Some m) \<Rightarrow> Some \<lparr>ll_timestamp = t, ll_message = m\<rparr> | _ \<Rightarrow> None)"

definition renderLine :: "log_line \<Rightarrow> string" where
  "renderLine l =
     trim_end (''['' @ ll_timestamp l @ ''] '' @ (if re_test TIMESTAMP_ONLY_MESSAGE (trim (ll_message l)) then [] else ll_message l))"

definition logs_summarize :: "log_line list \<Rightarrow> jsval \<Rightarrow> string" where
  \<open>logs_summarize ls cursor =
     (if ls = [] then ''No log lines.''
      else join nl (map renderLine ls) @
           (if truthy cursor
            then nl @ mdash @ '' more available: re-call with since="'' @ display cursor @ ''" (the boundary line repeats; de-dupe).''
            else []))\<close>

definition buildFallbackCommand :: "container_logs_input \<Rightarrow> string" where
  "buildFallbackCommand inp =
     ''docker logs --timestamps --tail '' @ show_nat (cl_tail inp) @
     (case cl_since inp of None \<Rightarrow> [] | Some s \<Rightarrow> if s = [] then [] else '' --since '' @ quoteForShell s) @
     '' '' @ quoteForShell (cl_id inp) @ '' 2>&1''"

definition fallbackOverSsh :: "container_logs_input \<Rightarrow> tool_result option prog" where
  "fallbackOverSsh inp =
     bind (execute_shell (buildFallbackCommand inp) FALLBACK_TIMEOUT_MS) (\<lambda>res.
       if exitCode res \<noteq> 0 then Ret None
       else (let merged = trim_end (stdout res)
             in if merged = [] then Ret None
                else bind (toolText (''Log lines via docker logs over SSH (the API returned none; it can miss stderr-only containers):'' @ nl @ truncateOutput merged))
                       (\<lambda>r. Ret (Some r))))"

definition logs_variables :: "container_logs_input \<Rightarrow> jsval" where
  "logs_variables inp =
     JObj [(''id'', JStr (cl_id inp)), (''since'', js_string_opt (cl_since inp)), (''tail'', JInt (int (cl_tail inp)))]"

definition dockerContainerLogsHandler :: "bool \<Rightarrow> container_logs_input \<Rightarrow> tool_result prog" where
  "dockerContainerLogsHandler shell inp =
     failing_with (''Failed to fetch logs for '' @ cl_id inp @ '': '')
       (bind (execute_gql DockerContainerLogsDocument (logs_variables inp)) (\<lambda>data.
        bind (path data [''docker'', ''logs'']) (\<lambda>logs.
        bind (path logs [''lines'']) (\<lambda>raw.
        bind (decode (dec_list dec_log_line raw)) (\<lambda>ls.
        bind (if ls = [] \<and> shell then catch (fallbackOverSsh inp) (\<lambda>_. Ret None) else Ret None) (\<lambda>fallback.
          case fallback of
            Some r \<Rightarrow> Ret r
          | None \<Rightarrow> formatResponse (cl_format inp) (logs_summarize ls (getp logs ''cursor'')) logs))))))"

section \<open>What is read\<close>

lemma log_list_reads: "emits reads_only (logListHandler lc f)"
  unfolding logListHandler_def Let_def by (intro emits_intros) simp

lemma findAllowed_Some: "findAllowed fs p = Some f \<Longrightarrow> f \<in> set fs \<and> (al_path f = p \<or> al_name f = p)"
  by (induction fs) (auto split: if_splits)

text \<open>What the server listed in answer to the preflight.\<close>

definition listed_logs :: "world \<Rightarrow> allowed_file list" where
  "listed_logs w =
     (case fetch_result [''logFiles''] (dec_list dec_allowed) (w_gql w [] LogReadAllowlistDocument JUndef) of
        Inl e \<Rightarrow> [] | Inr fs \<Rightarrow> fs)"

text \<open>The content of a file is asked for only if the server listed the file.\<close>

lemma emits_read_allowed:
  "emits (\<lambda>e. \<exists>f. findAllowed files (lr_path inp) = Some f \<and> e = EGql LogReadContentDocument (content_variables f inp))
     (read_allowed files inp)"
  unfolding read_allowed_def by (intro emits_intros) simp

lemma log_read_allowed:
  assumes "e \<in> set (events_of w (logReadHandler inp))" "e \<noteq> EGql LogReadAllowlistDocument JUndef"
  shows "\<exists>f \<in> set (listed_logs w). (al_path f = lr_path inp \<or> al_name f = lr_path inp)
    \<and> e = EGql LogReadContentDocument (content_variables f inp)"
proof (cases "fetch_result [''logFiles''] (dec_list dec_allowed) (w_gql w [] LogReadAllowlistDocument JUndef)")
  case (Inl m)
  with assms show ?thesis by (simp add: logReadHandler_def events_of_def prog_simps)
next
  case (Inr fs)
  let ?tr = "[EGql LogReadAllowlistDocument JUndef]"
  obtain es where es: "snd (run w ?tr (read_allowed fs inp)) = ?tr @ es" using run_extends by blast
  then have "e \<in> set es"
    using assms Inr by (auto simp: logReadHandler_def events_of_def prog_simps split: prod.splits sum.splits)
  from run_emits [OF emits_read_allowed es this] findAllowed_Some Inr show ?thesis
    by (auto simp: listed_logs_def)
qed

lemma container_logs_events:
  assumes "e \<in> set (events_of w (dockerContainerLogsHandler shell inp))"
  shows "e = EGql DockerContainerLogsDocument (logs_variables inp)
    \<or> shell \<and> e = EShell (buildFallbackCommand inp) FALLBACK_TIMEOUT_MS"
proof (rule events_emits [OF _ assms])
  show "emits (\<lambda>e. e = EGql DockerContainerLogsDocument (logs_variables inp)
      \<or> shell \<and> e = EShell (buildFallbackCommand inp) FALLBACK_TIMEOUT_MS) (dockerContainerLogsHandler shell inp)"
    unfolding dockerContainerLogsHandler_def fallbackOverSsh_def Let_def by (intro emits_intros) simp_all
qed

text \<open>Redirecting stderr after plain or quoted arguments.\<close>

lemma sh_tokens_redirect:
  assumes "\<forall>a \<in> set as. arg_ok a"
  shows "sh_tokens (command_line as @ '' 2>&1'') =
     Some (map (\<lambda>a. ShWord (arg_value a)) as @ [ShWord ''2'', ShOper CHR ''>'', ShOper CHR ''&'', ShWord ''1''])"
proof -
  let ?s = "sh_run sh_start (command_line as)"
  have s: "sh_emit ?s = map (\<lambda>a. ShWord (arg_value a)) as" "sh_mode ?s = ShPlain"
    using sh_run_args [of sh_start as] assms by (simp_all add: sh_start_def)
  then show ?thesis
    by (simp add: sh_tokens_def sh_run_append sh_run_Cons sh_run_Nil sh_step_def sh_blank_def sh_special_def
        sh_break_def sh_add_def)
       (simp add: sh_emit_def)
qed

definition fallback_args :: "container_logs_input \<Rightarrow> sh_arg list" where
  "fallback_args inp =
     [Bare ''docker'', Bare ''logs'', Bare ''--timestamps'', Bare ''--tail'', Bare (show_nat (cl_tail inp))] @
     (case cl_since inp of None \<Rightarrow> [] | Some s \<Rightarrow> if s = [] then [] else [Bare ''--since'', Quoted s]) @ [Quoted (cl_id inp)]"

lemma fallback_command_words:
  "sh_tokens (buildFallbackCommand inp) =
     Some (map (\<lambda>a. ShWord (arg_value a)) (fallback_args inp) @ [ShWord ''2'', ShOper CHR ''>'', ShOper CHR ''&'', ShWord ''1''])"
proof -
  have lit: "arg_ok (Bare ''docker'')" "arg_ok (Bare ''logs'')" "arg_ok (Bare ''--timestamps'')" "arg_ok (Bare ''--tail'')"
    "arg_ok (Bare ''--since'')" by (simp_all add: sh_plain_def sh_special_def sh_blank_def)
  moreover have "arg_ok (Bare (show_nat (cl_tail inp)))" using nat_digits_plain by simp
  ultimately have "\<forall>a \<in> set (fallback_args inp). arg_ok a"
    by (auto simp: fallback_args_def simp del: arg_ok.simps(2) split: option.splits)
  moreover have "buildFallbackCommand inp = command_line (fallback_args inp) @ '' 2>&1''"
    by (simp add: buildFallbackCommand_def fallback_args_def command_line_def split: option.splits)
  ultimately show ?thesis using sh_tokens_redirect by simp
qed

end
