(* ===== verification/BackupTools.thy ===== *)
theory BackupTools
  imports Reading ShellTools
begin

text \<open>
  \<open>flash_backup\<close> (\<open>src/tools/backup/flash-backup.ts\<close>): the flash device is archived into a
  share, the archive is listed to verify it, and older archives may be pruned. The clock is an
  argument (the UTC fields of the date), the heartbeat ticks \<open>beats i\<close> times during the \<open>i\<close>-th
  command.
\<close>

section \<open>Names and commands\<close>

definition USER_SHARES_ROOT :: string where "USER_SHARES_ROOT = ''/mnt/user''"
definition BACKUP_SUBDIR :: string where "BACKUP_SUBDIR = ''flash-backups''"
definition FLASH_ROOT :: string where "FLASH_ROOT = ''/boot''"
definition CONFIG_SUBDIR :: string where "CONFIG_SUBDIR = ''config''"
definition ARCHIVE_PREFIX :: string where "ARCHIVE_PREFIX = ''flash-backup''"
definition ARCHIVE_SUFFIX :: string where "ARCHIVE_SUFFIX = ''.tar.gz''"

definition share_name_char :: "char \<Rightarrow> bool" where
  "share_name_char c \<longleftrightarrow> is_alnum c \<or> c \<in> set ''._-''"

definition SHARE_NAME_PATTERN :: regex where
  "SHARE_NAME_PATTERN = anchored (rplus (RClass share_name_char))"

definition backup_PROBE_TIMEOUT_MS :: int where "backup_PROBE_TIMEOUT_MS = 10000"
definition ARCHIVE_TIMEOUT_MS :: int where "ARCHIVE_TIMEOUT_MS = 900000"
definition VERIFY_TIMEOUT_MS :: int where "VERIFY_TIMEOUT_MS = 300000"
definition PRUNE_TIMEOUT_MS :: int where "PRUNE_TIMEOUT_MS = 30000"
definition TAR_WARNING_EXIT_CODE :: int where "TAR_WARNING_EXIT_CODE = 1"
definition TAIL_OFFSET :: int where "TAIL_OFFSET = 1"
definition TWO_DIGITS :: nat where "TWO_DIGITS = 2"

definition warning_sign :: string where "warning_sign = [CHR 0xE2, CHR 0x9A, CHR 0xA0]"

definition SECRETS_WARNING :: string where
  "SECRETS_WARNING = warning_sign @ '' The archive contains your Unraid license key, API keys, passwords, and network configuration '' @ mdash @ '' keep it on the array or encrypt it before copying it anywhere.''"

datatype backup_scope = ScopeConfig | ScopeFull

definition backup_scope_text :: "backup_scope \<Rightarrow> string" where
  "backup_scope_text s = (case s of ScopeConfig \<Rightarrow> ''config'' | ScopeFull \<Rightarrow> ''full'')"

record flash_backup_args =
  fb_format :: response_format
  fb_share :: string
  fb_full :: "bool option"
  fb_keep :: "int option"
  fb_flags :: risk_flags

record utc_date =
  utc_year :: nat
  utc_month :: nat   \<comment> \<open>from 0\<close>
  utc_day :: nat
  utc_hours :: nat
  utc_minutes :: nat
  utc_seconds :: nat

record backup_target =
  bt_scope :: backup_scope
  bt_directory :: string
  bt_file :: string

record backup_outcome =
  bo_path :: string
  bo_scope :: backup_scope
  bo_entries :: int
  bo_bytes :: int
  bo_pruned :: "string list"
  bo_warnings :: "string option"

definition pad_two :: "nat \<Rightarrow> string" where
  "pad_two n = pad_left TWO_DIGITS (CHR ''0'') (show_nat n)"

definition archiveNameFor :: "backup_scope \<Rightarrow> utc_date \<Rightarrow> string" where
  "archiveNameFor scope now =
     ARCHIVE_PREFIX @ ''-'' @ backup_scope_text scope @ ''-'' @
     show_nat (utc_year now) @ pad_two (utc_month now + 1) @ pad_two (utc_day now) @ ''-'' @
     pad_two (utc_hours now) @ pad_two (utc_minutes now) @ pad_two (utc_seconds now) @ ARCHIVE_SUFFIX"

definition targetFor :: "flash_backup_args \<Rightarrow> utc_date \<Rightarrow> backup_target" where
  "targetFor args now =
     (let scope = (if fb_full args = Some True then ScopeFull else ScopeConfig);
          directory = USER_SHARES_ROOT @ ''/'' @ fb_share args @ ''/'' @ BACKUP_SUBDIR
      in \<lparr>bt_scope = scope, bt_directory = directory, bt_file = directory @ ''/'' @ archiveNameFor scope now\<rparr>)"

definition backup_refusalMessage :: "flash_backup_args \<Rightarrow> string" where
  \<open>backup_refusalMessage args = ''Refusing to back up the flash device: this writes an archive containing your license key, API keys, passwords, and network configuration to '' @ USER_SHARES_ROOT @ ''/'' @ fb_share args @ ''/'' @ BACKUP_SUBDIR @ ''/. Re-call with "confirm": true and "acknowledge_risk": true to proceed. No changes were made.''\<close>

definition backup_probe_command :: "flash_backup_args \<Rightarrow> string" where
  "backup_probe_command args = ''test -d '' @ quoteForShell (USER_SHARES_ROOT @ ''/'' @ fb_share args)"

definition buildArchiveCommand :: "backup_target \<Rightarrow> string" where
  "buildArchiveCommand target =
     ''mkdir -p '' @ quoteForShell (bt_directory target) @ '' && tar -czf '' @ quoteForShell (bt_file target) @ '' -C '' @
     quoteForShell FLASH_ROOT @ '' '' @ (if bt_scope target = ScopeConfig then quoteForShell CONFIG_SUBDIR else ''.'')"

definition buildVerifyCommand :: "backup_target \<Rightarrow> string" where
  "buildVerifyCommand target =
     ''tar -tzf '' @ quoteForShell (bt_file target) @ '' | wc -l && stat -c %s '' @ quoteForShell (bt_file target)"

definition js_integer :: "js_num \<Rightarrow> int option" where
  "js_integer x = (case x of NonFinite \<Rightarrow> None | Finite q \<Rightarrow> if of_int \<lfloor>q\<rfloor> = q then Some \<lfloor>q\<rfloor> else None)"

definition parseVerification :: "string \<Rightarrow> (int \<times> int) option" where
  "parseVerification out =
     (case map (js_integer \<circ> js_number) (split_on nl (trim out)) of
        Some entries # Some bytes # _ \<Rightarrow> Some (entries, bytes)
      | _ \<Rightarrow> None)"

definition isTarWarningOnly :: "shell_result \<Rightarrow> bool" where
  "isTarWarningOnly r = (exitCode r = TAR_WARNING_EXIT_CODE)"

section \<open>Commands under the heartbeat\<close>

text \<open>The heartbeat after \<open>n\<close> ticks, and one command during which it ticks.\<close>

definition heartbeat_after :: "nat \<Rightarrow> heartbeat \<Rightarrow> heartbeat" where
  "heartbeat_after n h = (case h of Beating b \<Rightarrow> Beating (b + n) | _ \<Rightarrow> h)"

definition beating_shell :: "progress_context \<Rightarrow> string \<Rightarrow> (nat \<Rightarrow> nat) \<Rightarrow> nat \<Rightarrow> string \<Rightarrow> int \<Rightarrow> shell_result prog" where
  "beating_shell ctx msg beats i command timeoutMs =
     Shell command timeoutMs (\<lambda>reply.
       seq (heartbeat_ticks ctx msg (beats i)
              (heartbeat_after (sum_list (map beats [0..<i])) (startProgressHeartbeat ctx)))
         (of_sum reply))"

section \<open>The handler\<close>

definition prune_list_command :: "backup_target \<Rightarrow> int \<Rightarrow> string" where
  "prune_list_command target keep =
     ''ls -1t '' @ quoteForShell (bt_directory target) @ ''/'' @ ARCHIVE_PREFIX @ ''-*'' @ ARCHIVE_SUFFIX @
     '' | tail -n +'' @ show_int (keep + TAIL_OFFSET)"

definition prune_victims :: "backup_target \<Rightarrow> string \<Rightarrow> string list" where
  "prune_victims target listing =
     filter (\<lambda>l. starts_with l (bt_directory target @ ''/'' @ ARCHIVE_PREFIX @ ''-'') \<and> ends_with l ARCHIVE_SUFFIX)
       (map trim (split_on nl listing))"

definition prune_command :: "string list \<Rightarrow> string" where
  "prune_command victims = ''rm -f '' @ join '' '' (map quoteForShell victims)"

definition pruneOlder ::
  "(nat \<Rightarrow> string \<Rightarrow> int \<Rightarrow> shell_result prog) \<Rightarrow> backup_target \<Rightarrow> int \<Rightarrow> string list prog" where
  "pruneOlder sh target keep =
     bind (sh 3 (prune_list_command target keep) PRUNE_TIMEOUT_MS) (\<lambda>listing.
       (let victims = prune_victims target (stdout listing)
        in if victims = [] then Ret []
           else bind (sh 4 (prune_command victims) PRUNE_TIMEOUT_MS) (\<lambda>_. Ret victims)))"

definition backup_renderSuccess :: "backup_outcome \<Rightarrow> string" where
  "backup_renderSuccess o1 =
     join nl
       ([''Flash backup written: '' @ bo_path o1 @ '' ('' @ show_int (bo_entries o1) @ '' entries, '' @
           humanizeBytes (Finite (of_int (bo_bytes o1))) @ ''). Verified with tar -tzf.'', SECRETS_WARNING] @
        (case bo_warnings o1 of Some w \<Rightarrow> if w = [] then [] else [''tar warning (archive verified complete): '' @ w] | None \<Rightarrow> []) @
        (if bo_pruned o1 \<noteq> []
         then [''Pruned '' @ show_nat (length (bo_pruned o1)) @ '' older archive(s): '' @ join '', '' (bo_pruned o1)] else []))"

definition backup_json :: "backup_outcome \<Rightarrow> jsval" where
  "backup_json o1 =
     JObj [(''path'', JStr (bo_path o1)), (''scope'', JStr (backup_scope_text (bo_scope o1))), (''entries'', JInt (bo_entries o1)),
           (''bytes'', JInt (bo_bytes o1)), (''pruned'', JArr (map JStr (bo_pruned o1))), (''warnings'', js_null_str (bo_warnings o1))]"

text \<open>\<open>Inl\<close>: a tool error at the first hard failure.\<close>

definition hard_failure :: "string \<Rightarrow> (tool_result + backup_outcome) prog" where
  "hard_failure message = bind (toolError message) (\<lambda>r. Ret (Inl r))"

definition runBackup ::
  "(nat \<Rightarrow> string \<Rightarrow> int \<Rightarrow> shell_result prog) \<Rightarrow> flash_backup_args \<Rightarrow> backup_target \<Rightarrow> (tool_result + backup_outcome) prog" where
  \<open>runBackup sh args target =
     bind (sh 0 (backup_probe_command args) backup_PROBE_TIMEOUT_MS) (\<lambda>probe.
       if exitCode probe \<noteq> 0
       then hard_failure (''Share "'' @ fb_share args @ ''" does not exist under '' @ USER_SHARES_ROOT @ '' '' @ mdash @ '' see share_list. No changes were made.'')
       else bind (sh 1 (buildArchiveCommand target) ARCHIVE_TIMEOUT_MS) (\<lambda>archived.
         if exitCode archived \<noteq> 0 \<and> \<not> isTarWarningOnly archived
         then hard_failure (''tar failed (exit '' @ show_int (exitCode archived) @ ''): '' @ trim (stderr archived))
         else bind (sh 2 (buildVerifyCommand target) VERIFY_TIMEOUT_MS) (\<lambda>verified.
           case (if exitCode verified = 0 then parseVerification (stdout verified) else None) of
             None \<Rightarrow> hard_failure (''Archive verification failed for '' @ bt_file target @ '' (exit '' @ show_int (exitCode verified) @ ''): '' @
                       trim (stderr verified) @ '' '' @ mdash @ '' do not rely on this backup.'')
           | Some (entries, bytes) \<Rightarrow>
               bind (case fb_keep args of None \<Rightarrow> Ret [] | Some keep \<Rightarrow> pruneOlder sh target keep) (\<lambda>pruned.
               Ret (Inr \<lparr>bo_path = bt_file target, bo_scope = bt_scope target, bo_entries = entries, bo_bytes = bytes,
                         bo_pruned = pruned,
                         bo_warnings = (if isTarWarningOnly archived then Some (trim (stderr archived)) else None)\<rparr>)))))\<close>

definition backup_message :: "backup_target \<Rightarrow> string" where
  "backup_message target =
     ''Still archiving '' @ (if bt_scope target = ScopeFull then FLASH_ROOT else FLASH_ROOT @ ''/'' @ CONFIG_SUBDIR) @ '' to '' @ bt_file target"

definition backup_work :: "flash_backup_args \<Rightarrow> handler_extra \<Rightarrow> (nat \<Rightarrow> nat) \<Rightarrow> utc_date \<Rightarrow> tool_result prog" where
  "backup_work args extra beats now =
     (let target = targetFor args now
      in failing_with ''Failed to back up the flash device over SSH: ''
           (bind (runBackup (beating_shell (progressContextFrom extra) (backup_message target) beats) args target) (\<lambda>outcome.
              case outcome of
                Inl r \<Rightarrow> Ret r
              | Inr o1 \<Rightarrow> formatResponse (fb_format args) (backup_renderSuccess o1) (backup_json o1))))"

definition flashBackupHandler ::
  "bool \<Rightarrow> channel \<Rightarrow> flash_backup_args \<Rightarrow> handler_extra \<Rightarrow> (nat \<Rightarrow> nat) \<Rightarrow> utc_date \<Rightarrow> tool_result prog" where
  \<open>flashBackupHandler shell ch args extra beats now =
     with_shell shell
       (if \<not> re_test SHARE_NAME_PATTERN (fb_share args)
        then toolError (''Invalid share name "'' @ fb_share args @ ''": use the plain share name from share_list. No changes were made.'')
        else gated (requireRiskAcknowledgementInteractive ch (fb_flags args) (backup_refusalMessage args))
               (backup_work args extra beats now))\<close>

section \<open>What is sent\<close>

lemma emits_beating_shell:
  "P (EShell c t) \<Longrightarrow> (\<And>n. P (ENotify n)) \<Longrightarrow> emits P (beating_shell ctx msg beats i c t)"
  by (auto simp: beating_shell_def intro!: emits_seq emits_heartbeat_ticks emits_of_sum)

text \<open>The commands of one call, and those that only pruning runs.\<close>

definition backup_event_ok :: "flash_backup_args \<Rightarrow> utc_date \<Rightarrow> event \<Rightarrow> bool" where
  "backup_event_ok args now e =
     (let target = targetFor args now in
      case e of
        EShell c t \<Rightarrow>
          c \<in> {backup_probe_command args, buildArchiveCommand target, buildVerifyCommand target} \<or>
          (\<exists>keep. fb_keep args = Some keep \<and>
             (c = prune_list_command target keep \<or>
              (\<exists>out. prune_victims target out \<noteq> [] \<and> c = prune_command (prune_victims target out))))
      | ENotify n \<Rightarrow> True
      | _ \<Rightarrow> False)"

lemma emits_backup_work: "emits (backup_event_ok args now) (backup_work args extra beats now)"
  unfolding backup_work_def runBackup_def pruneOlder_def hard_failure_def Let_def prod.case_distrib
  by (intro emits_intros emits_beating_shell) (auto simp: backup_event_ok_def Let_def split: prod.splits intro!: emits_intros emits_beating_shell)

lemma flash_backup_events:
  assumes "e \<in> set (events_of w (flashBackupHandler shell ch args extra beats now))" "touches_host e"
  shows "shell \<and> re_test SHARE_NAME_PATTERN (fb_share args) \<and> backup_event_ok args now e
    \<and> risk_approved w [] (ch, fb_flags args, backup_refusalMessage args)"
proof (cases "shell \<and> re_test SHARE_NAME_PATTERN (fb_share args)")
  case True
  with assms tier2.gated_emits [OF emits_backup_work, of e w "(ch, fb_flags args, backup_refusalMessage args)" args extra beats now]
  show ?thesis by (simp add: flashBackupHandler_def with_shell_def)
next
  case False
  then have "silent (flashBackupHandler shell ch args extra beats now)"
    by (auto simp: flashBackupHandler_def with_shell_def intro!: emits_intros)
  then have "events_of w (flashBackupHandler shell ch args extra beats now) = []"
    by (simp add: events_of_def run_silent)
  with assms(1) show ?thesis by simp
qed

text \<open>Pruning removes only archives of the backup directory, as the shell reads the command.\<close>

lemma prune_command_words:
  "sh_tokens (prune_command victims) = Some (ShWord ''rm'' # ShWord ''-f'' # map ShWord victims)" if "victims \<noteq> []"
proof -
  let ?as = "[Bare ''rm'', Bare ''-f''] @ map Quoted victims"
  have "\<forall>a \<in> set ?as. arg_ok a" by (auto simp: sh_plain_def sh_special_def sh_blank_def)
  moreover have "command_line ?as = prune_command victims"
    using that by (cases victims) (simp_all add: command_line_def prune_command_def comp_def)
  ultimately show ?thesis using sh_tokens_args [of ?as] by (simp add: comp_def)
qed

lemma prune_victims_archives:
  "v \<in> set (prune_victims target out) \<Longrightarrow>
   \<exists>u. v = bt_directory target @ ''/flash-backup-'' @ u \<and> suffix ''.tar.gz'' v"
  by (auto simp: prune_victims_def starts_with_def ends_with_def prefix_def ARCHIVE_PREFIX_def ARCHIVE_SUFFIX_def)

lemma share_name_no_slash: "re_test SHARE_NAME_PATTERN s \<Longrightarrow> CHR ''/'' \<notin> set s"
  by (auto dest!: re_test_chars simp: SHARE_NAME_PATTERN_def share_name_char_def is_alnum_def is_digit_def is_upper_def is_lower_def)

section \<open>Success\<close>

lemma run_heartbeat_any: "\<exists>es. run w tr (heartbeat_ticks c msg n h) = (Inr (), tr @ es)"
proof (induction n arbitrary: tr h)
  case (Suc n)
  have "\<exists>es. run w tr (fst (heartbeat_tick c msg h)) = (Inr (), tr @ es)"
    by (cases h) (simp_all add: heartbeat_tick_def prog_simps)
  then obtain es where "run w tr (fst (heartbeat_tick c msg h)) = (Inr (), tr @ es)" ..
  moreover obtain es' where "run w (tr @ es) (heartbeat_ticks c msg n (snd (heartbeat_tick c msg h))) = (Inr (), (tr @ es) @ es')"
    using Suc by blast
  ultimately show ?case by (cases "heartbeat_tick c msg h") (simp add: prog_simps)
qed simp

lemma run_beating_shell:
  "\<exists>es. run w tr (beating_shell ctx msg beats i c t) = (w_shell w tr c t, tr @ [EShell c t] @ es)"
proof -
  obtain es where "run w (tr @ [EShell c t]) (heartbeat_ticks ctx msg (beats i)
      (heartbeat_after (sum_list (map beats [0..<i])) (startProgressHeartbeat ctx))) = (Inr (), (tr @ [EShell c t]) @ es)"
    using run_heartbeat_any by blast
  then show ?thesis by (simp add: beating_shell_def prog_simps)
qed

lemma beating_shell_returns:
  "run w tr (beating_shell ctx msg beats i c t) = (Inr r, tr') \<Longrightarrow> w_shell w tr c t = Inr r"
  using run_beating_shell [of w tr ctx msg beats i c t] by auto

lemma hard_failure_returns: "run w tr (hard_failure m) \<noteq> (Inr (Inr x), tr')"
  by (simp add: hard_failure_def prog_simps)

text \<open>A reported backup was written by tar and listed by the verification command.\<close>

lemma runBackup_success:
  assumes "run w tr (runBackup (beating_shell ctx msg beats) args target) = (Inr (Inr o1), tr')"
  shows "bo_path o1 = bt_file target
    \<and> (\<exists>tr1 r. w_shell w tr1 (buildArchiveCommand target) ARCHIVE_TIMEOUT_MS = Inr r \<and> exitCode r \<in> {0, 1})
    \<and> (\<exists>tr2 r. w_shell w tr2 (buildVerifyCommand target) VERIFY_TIMEOUT_MS = Inr r \<and> exitCode r = 0
         \<and> parseVerification (stdout r) = Some (bo_entries o1, bo_bytes o1))"
  using assms
  by (auto simp: runBackup_def run_bind_returns hard_failure_returns isTarWarningOnly_def TAR_WARNING_EXIT_CODE_def
      dest!: beating_shell_returns split: if_splits option.splits prod.splits) blast+

section \<open>Share names\<close>

text \<open>The pattern admits the parent directory, and the archive then leaves the root of the shares.\<close>

lemma parent_share_accepted: "re_test SHARE_NAME_PATTERN ''..''"
  by code_simp

lemma parent_share_directory: "bt_directory (targetFor (args\<lparr>fb_share := ''..''\<rparr>) now) = ''/mnt/user/../flash-backups''"
  by (simp add: targetFor_def Let_def USER_SHARES_ROOT_def BACKUP_SUBDIR_def)

end
