(* ===== verification/ListTools.thy ===== *)
theory ListTools
  imports Reading DockerTools Patterns
begin

text \<open>
  The read-only tools that render one GraphQL query: \<open>parity_history\<close>, \<open>disk_list\<close>,
  \<open>share_list\<close>, \<open>docker_container_list\<close>, \<open>docker_network_list\<close>, \<open>docker_port_conflicts\<close>,
  \<open>vm_list\<close> and \<open>mover_status\<close>. \<open>String.localeCompare\<close> and the age the snapshot cache stamps
  on a payload are parameters.
\<close>

text \<open>A case-insensitive substring filter; an absent or empty needle keeps everything.\<close>

definition filter_named :: "('a \<Rightarrow> string list) \<Rightarrow> string option \<Rightarrow> 'a list \<Rightarrow> 'a list" where
  "filter_named names needle xs =
     (if no_text needle then xs
      else filter (\<lambda>x. \<exists>n \<in> set (names x). js_includes (to_lower n) (to_lower (the needle))) xs)"

section \<open>parity\_history\<close>

record parity_row =
  pr_raw :: jsval
  pr_date :: "string option"
  pr_speed :: "string option"

definition dec_parity_row :: "jsval \<Rightarrow> parity_row option" where
  "dec_parity_row v =
     (case (nullable dec_str (getp v ''date''), nullable dec_str (getp v ''speed'')) of
        (Some d, Some s) \<Rightarrow> if nullish v then None else Some \<lparr>pr_raw = v, pr_date = d, pr_speed = s\<rparr> | _ \<Rightarrow> None)"

definition date_or_empty :: "parity_row \<Rightarrow> string" where
  "date_or_empty r = (case pr_date r of None \<Rightarrow> [] | Some d \<Rightarrow> d)"

definition parity_sortNewestFirst :: "(string \<Rightarrow> string \<Rightarrow> int) \<Rightarrow> parity_row list \<Rightarrow> parity_row list" where
  "parity_sortNewestFirst localeCompare checks =
     js_sort (\<lambda>a b. localeCompare (date_or_empty b) (date_or_empty a)) checks"

definition HAS_UNIT :: regex where
  "HAS_UNIT = RClass (\<lambda>c. is_lower c \<or> is_upper c)"

definition renderSpeed :: "string option \<Rightarrow> string" where
  "renderSpeed speed =
     (case speed of
        None \<Rightarrow> ''unknown speed''
      | Some s \<Rightarrow> if s = [] then ''unknown speed'' else if re_test HAS_UNIT s then s else s @ '' MB/s'')"

definition parity_line :: "parity_row \<Rightarrow> string" where
  "parity_line r =
     ''- '' @ shown (pr_raw r) ''status'' @ '' on '' @ (case pr_date r of None \<Rightarrow> ''unknown'' | Some d \<Rightarrow> d) @ '': '' @
     display (coalesce (getp (pr_raw r) ''errors'') (JInt 0)) @ '' errors, '' @ renderSpeed (pr_speed r)"

definition parity_history_summarize :: "parity_row list \<Rightarrow> string" where
  "parity_history_summarize checks =
     (if checks = [] then ''No parity checks recorded.''
      else join nl ((''Recent parity checks ('' @ show_nat (length checks) @ ''):'') # map parity_line checks))"

definition parityHistoryHandler :: "(string \<Rightarrow> string \<Rightarrow> int) \<Rightarrow> response_format \<Rightarrow> nat \<Rightarrow> tool_result prog" where
  "parityHistoryHandler localeCompare format limit =
     failing_with ''Failed to fetch parity history: ''
       (bind (fetch ParityHistoryDocument JUndef [''parityHistory''] (dec_list dec_parity_row)) (\<lambda>rows.
         (let checks = take limit (parity_sortNewestFirst localeCompare rows)
          in formatResponse format (parity_history_summarize checks) (JArr (map pr_raw checks)))))"

section \<open>disk\_list\<close>

text \<open>
  The pattern is built from the device name with its metacharacters escaped, so the name is
  matched literally.
\<close>

definition device_base :: "string \<Rightarrow> string" where
  "device_base device = (if starts_with device ''/dev/'' then drop 5 device else device)"

definition partition_pattern :: "string \<Rightarrow> regex" where
  "partition_pattern device = anchored (rseq [rstr (device_base device), ropt (rchar (CHR ''p'')), rplus rdigit])"

definition partitionsOfDevice :: "string \<Rightarrow> (string \<times> jsval) list \<Rightarrow> (string \<times> jsval) list" where
  "partitionsOfDevice device partitions = filter (\<lambda>(n, p). re_test (partition_pattern device) n) partitions"

record disk_row =
  dk_raw :: jsval
  dk_device :: string
  dk_partitions :: "(string \<times> jsval) list"

definition dec_named :: "jsval \<Rightarrow> (string \<times> jsval) option" where
  "dec_named v = map_option (\<lambda>n. (n, v)) (dec_str (getp v ''name''))"

definition dec_disk_row :: "jsval \<Rightarrow> disk_row option" where
  "dec_disk_row v =
     (case (dec_str (getp v ''device''), dec_list dec_named (getp v ''partitions'')) of
        (Some d, Some ps) \<Rightarrow> Some \<lparr>dk_raw = v, dk_device = d, dk_partitions = ps\<rparr> | _ \<Rightarrow> None)"

definition withOwnPartitions :: "disk_row list \<Rightarrow> disk_row list" where
  "withOwnPartitions disks = map (\<lambda>d. d\<lparr>dk_partitions := partitionsOfDevice (dk_device d) (dk_partitions d)\<rparr>) disks"

text \<open>\<open>{ ...disk, partitions }\<close>.\<close>

definition disk_json :: "disk_row \<Rightarrow> jsval" where
  "disk_json d =
     (case dk_raw d of
        JObj ms \<Rightarrow> JObj (upsert ''partitions'' (JArr (map snd (dk_partitions d))) ms)
      | v \<Rightarrow> JObj [(''partitions'', JArr (map snd (dk_partitions d)))])"

definition value_size :: "jsval \<Rightarrow> js_num" where
  "value_size v = (case v of JNum q \<Rightarrow> Finite q | _ \<Rightarrow> NonFinite)"

definition disk_line :: "disk_row \<Rightarrow> string" where
  "disk_line d =
     (let v = dk_raw d;
          temp = (if nullish (getp v ''temperature'') then [] else '', '' @ shown v ''temperature'' @ degree @ ''C'')
      in shown v ''name'' @ '' ('' @ humanizeBytes (value_size (getp v ''size'')) @ '') '' @ mdash @ '' SMART '' @ shown v ''smartStatus'' @ temp)"

definition disk_list_summarize :: "disk_row list \<Rightarrow> string" where
  "disk_list_summarize disks = (if disks = [] then ''No physical disks detected.'' else join nl (map disk_line disks))"

definition diskListHandler :: "response_format \<Rightarrow> tool_result prog" where
  "diskListHandler format =
     failing_with ''Failed to fetch disks: ''
       (bind (fetch DiskListDocument JUndef [''disks''] (dec_list dec_disk_row)) (\<lambda>rows.
         (let disks = withOwnPartitions rows
          in formatResponse format (disk_list_summarize disks) (JArr (map disk_json disks)))))"

section \<open>share\_list\<close>

text \<open>\<open>toNumber\<close> of a payload value (a BigInt scalar: a number or its text).\<close>

definition value_number :: "jsval \<Rightarrow> rat" where
  "value_number v = (case v of JNum q \<Rightarrow> q | JStr s \<Rightarrow> toNumber (Some s) | _ \<Rightarrow> 0)"

record share_row =
  sr_raw :: jsval
  sr_name :: "string option"

definition dec_share_row :: "jsval \<Rightarrow> share_row option" where
  "dec_share_row v =
     (case nullable dec_str (getp v ''name'') of
        Some n \<Rightarrow> if nullish v then None else Some \<lparr>sr_raw = v, sr_name = n\<rparr> | None \<Rightarrow> None)"

definition share_line :: "share_row \<Rightarrow> string" where
  "share_line s =
     (let used = value_number (getp (sr_raw s) ''used''); free = value_number (getp (sr_raw s) ''free'')
      in (case sr_name s of None \<Rightarrow> ''(unnamed)'' | Some n \<Rightarrow> n) @ '' '' @ mdash @ '' '' @ humanizeKilobytes (Finite used) @
         '' used of '' @ humanizeKilobytes (Finite (used + free)) @ '' ('' @ humanizeKilobytes (Finite free) @ '' free)'')"

definition share_list_summarize :: "share_row list \<Rightarrow> string" where
  "share_list_summarize shares = (if shares = [] then ''No shares found.'' else join nl (map share_line shares))"

definition share_filterByName :: "share_row list \<Rightarrow> string option \<Rightarrow> share_row list" where
  "share_filterByName shares name = filter_named (\<lambda>s. [case sr_name s of None \<Rightarrow> [] | Some n \<Rightarrow> n]) name shares"

definition shareListHandler :: "response_format \<Rightarrow> string option \<Rightarrow> tool_result prog" where
  "shareListHandler format name =
     failing_with ''Failed to fetch shares: ''
       (bind (fetch ShareListDocument JUndef [''shares''] (dec_list dec_share_row)) (\<lambda>rows.
         (let shares = share_filterByName rows name
          in formatResponse format (share_list_summarize shares) (JArr (map sr_raw shares)))))"

section \<open>docker\_container\_list\<close>

record container_row =
  cr_raw :: jsval
  cr_names :: "string list"

definition dec_container_row :: "jsval \<Rightarrow> container_row option" where
  "dec_container_row v = map_option (\<lambda>ns. \<lparr>cr_raw = v, cr_names = ns\<rparr>) (dec_list dec_str (getp v ''names''))"

definition container_filterByName :: "container_row list \<Rightarrow> string option \<Rightarrow> container_row list" where
  "container_filterByName cs name = filter_named (\<lambda>c. map (\<lambda>raw. stripLeadingSlash (Some raw) []) (cr_names c)) name cs"

definition up_arrow :: string where "up_arrow = [CHR 0xE2, CHR 0xAC, CHR 0x86]"

definition container_line :: "container_row \<Rightarrow> string" where
  "container_line c =
     stripLeadingSlash (case cr_names c of [] \<Rightarrow> None | n # _ \<Rightarrow> Some n) ''(unnamed)'' @ '' '' @ mdash @ '' '' @
     shown (cr_raw c) ''state'' @ '' '' @ mdash @ '' '' @ shown (cr_raw c) ''image'' @
     (if truthy (getp (cr_raw c) ''isUpdateAvailable'') then '' '' @ mdash @ '' '' @ up_arrow @ '' update available'' else [])"

definition container_list_summarize :: "container_row list \<Rightarrow> string" where
  "container_list_summarize cs = (if cs = [] then ''No Docker containers found.'' else join nl (map container_line cs))"

definition dockerContainerListHandler :: "(jsval \<Rightarrow> int option) \<Rightarrow> response_format \<Rightarrow> string option \<Rightarrow> tool_result prog" where
  "dockerContainerListHandler cacheAgeMs format name =
     failing_with ''Failed to fetch Docker containers: ''
       (bind (execute_gql DockerContainerListDocument JUndef) (\<lambda>data.
        bind (path data [''docker'', ''containers'']) (\<lambda>raw.
        bind (decode (dec_list dec_container_row raw)) (\<lambda>rows.
         (let containers = container_filterByName rows name
          in formatStructuredResponse format (container_list_summarize containers)
               (JObj [(''containers'', JArr (map cr_raw containers)),
                      (''data_age_ms'', JInt (case cacheAgeMs data of None \<Rightarrow> 0 | Some a \<Rightarrow> a))]))))))"

section \<open>docker\_network\_list\<close>

definition formatNetwork :: "jsval \<Rightarrow> string" where
  "formatNetwork network =
     (let flags = (if truthy (getp network ''enableIPv6'') then [''IPv6''] else []) @
                  (if truthy (getp network ''internal'') then [''internal''] else [])
      in shown network ''name'' @ '' '' @ mdash @ '' '' @ shown network ''driver'' @ '' ('' @ shown network ''scope'' @ '')'' @
         (if flags \<noteq> [] then '', '' @ join '', '' flags else []))"

definition network_summarize :: "jsval list \<Rightarrow> string" where
  "network_summarize networks = (if networks = [] then ''No Docker networks.'' else join nl (map formatNetwork networks))"

definition dockerNetworkListHandler :: "response_format \<Rightarrow> tool_result prog" where
  "dockerNetworkListHandler format =
     failing_with ''Failed to fetch Docker networks: ''
       (bind (execute_gql DockerNetworkListDocument JUndef) (\<lambda>data.
        bind (path data [''docker'', ''networks'']) (\<lambda>raw.
        bind (objects raw) (\<lambda>networks.
        formatResponse format (network_summarize networks) raw))))"

section \<open>docker\_port\_conflicts\<close>

definition formatConflictNames :: "jsval list \<Rightarrow> string" where
  "formatConflictNames containers =
     join '', '' (map (\<lambda>c. stripLeadingSlash (case getp c ''name'' of JUndef \<Rightarrow> None | v \<Rightarrow> Some (display v)) []) containers)"

definition formatContainerPort :: "jsval \<Rightarrow> string prog" where
  "formatContainerPort conflict =
     bind (objects (getp conflict ''containers'')) (\<lambda>cs.
     Ret (shown conflict ''privatePort'' @ ''/'' @ shown conflict ''type'' @ '' ('' @ formatConflictNames cs @ '')''))"

definition formatLanPort :: "jsval \<Rightarrow> string prog" where
  "formatLanPort conflict =
     bind (objects (getp conflict ''containers'')) (\<lambda>cs.
     Ret (shown conflict ''lanIpPort'' @ '' ('' @ formatConflictNames cs @ '')''))"

definition conflicts_summarize :: "jsval list \<Rightarrow> jsval list \<Rightarrow> string prog" where
  "conflicts_summarize containerPorts lanPorts =
     (if containerPorts = [] \<and> lanPorts = [] then Ret ''No port conflicts.''
      else bind (map_prog formatContainerPort containerPorts) (\<lambda>cps.
           bind (map_prog formatLanPort lanPorts) (\<lambda>lps.
           Ret (join nl
             ((if containerPorts \<noteq> []
               then [''Containers sharing an internal port (often harmless when the containers sit on different Docker networks; not host-port collisions): '' @ join ''; '' cps] else []) @
              (if lanPorts \<noteq> [] then [''LAN/host port conflicts (real collisions): '' @ join ''; '' lps] else []))))))"

definition dockerPortConflictsHandler :: "response_format \<Rightarrow> tool_result prog" where
  "dockerPortConflictsHandler format =
     failing_with ''Failed to fetch Docker port conflicts: ''
       (bind (execute_gql DockerPortConflictsDocument JUndef) (\<lambda>data.
        bind (path data [''docker'', ''portConflicts'']) (\<lambda>conflicts.
        bind (path conflicts [''containerPorts'']) (\<lambda>cpRaw.
        bind (objects cpRaw) (\<lambda>cps.
        bind (objects (getp conflicts ''lanPorts'')) (\<lambda>lps.
        bind (conflicts_summarize cps lps) (\<lambda>summary.
        formatResponse format summary conflicts)))))))"

section \<open>vm\_list\<close>

record vm_row =
  vr_raw :: jsval
  vr_name :: "string option"

definition dec_vm_row :: "jsval \<Rightarrow> vm_row option" where
  "dec_vm_row v =
     (case nullable dec_str (getp v ''name'') of
        Some n \<Rightarrow> if nullish v then None else Some \<lparr>vr_raw = v, vr_name = n\<rparr> | None \<Rightarrow> None)"

definition vm_filterByName :: "vm_row list \<Rightarrow> string option \<Rightarrow> vm_row list" where
  "vm_filterByName domains name = filter_named (\<lambda>d. case vr_name d of None \<Rightarrow> [] | Some n \<Rightarrow> [n]) name domains"

definition vm_list_summarize :: "vm_row list \<Rightarrow> string option \<Rightarrow> string" where
  "vm_list_summarize domains name =
     (if domains = []
      then (if no_text name then ''No VMs found.'' else ''No VMs match '' @ squote @ the name @ squote @ ''.'')
      else join nl (map (\<lambda>d. (case vr_name d of Some n \<Rightarrow> n | None \<Rightarrow> ''('' @ shown (vr_raw d) ''id'' @ '')'') @
                             '' '' @ mdash @ '' '' @ shown (vr_raw d) ''state'') domains))"

definition vmListHandler :: "response_format \<Rightarrow> string option \<Rightarrow> tool_result prog" where
  "vmListHandler format name =
     failing_with ''Failed to fetch VMs: ''
       (bind (fetch VmListDocument JUndef [''vms'', ''domains'']
                (\<lambda>v. if nullish v then Some [] else dec_list dec_vm_row v)) (\<lambda>rows.
         (let domains = vm_filterByName rows name
          in formatResponse format (vm_list_summarize domains name) (JArr (map vr_raw domains)))))"

section \<open>mover\_status\<close>

definition mover_summarize :: "jsval \<Rightarrow> string" where
  "mover_summarize vars =
     join nl
       ([if nullish (getp vars ''shareMoverActive'') then ''Mover state not reported by the API.''
         else if truthy (getp vars ''shareMoverActive'') then ''Mover is currently running.'' else ''Mover is not running.''] @
        (if truthy (getp vars ''shareMoverSchedule'') then [''Schedule (cron): '' @ shown vars ''shareMoverSchedule''] else []) @
        (if nullish (getp vars ''shareMoverLogging'') then []
         else [''Mover logging: '' @ (if truthy (getp vars ''shareMoverLogging'') then ''enabled'' else ''disabled'')]))"

definition moverStatusHandler :: "response_format \<Rightarrow> tool_result prog" where
  "moverStatusHandler format =
     failing_with ''Failed to read mover status: ''
       (bind (execute_gql MoverStatusDocument JUndef) (\<lambda>data.
        bind (path data [''vars'']) (\<lambda>vars.
        bind (path vars [''shareMoverActive'']) (\<lambda>_.
        formatResponse format (mover_summarize vars) vars))))"

section \<open>Reads only\<close>

lemma list_tools_read:
  "emits reads_only (parityHistoryHandler lc f n)" "emits reads_only (diskListHandler f)"
  "emits reads_only (shareListHandler f name)" "emits reads_only (dockerContainerListHandler age f name)"
  "emits reads_only (dockerNetworkListHandler f)" "emits reads_only (dockerPortConflictsHandler f)"
  "emits reads_only (vmListHandler f name)" "emits reads_only (moverStatusHandler f)"
  unfolding parityHistoryHandler_def diskListHandler_def shareListHandler_def dockerContainerListHandler_def
    dockerNetworkListHandler_def dockerPortConflictsHandler_def vmListHandler_def moverStatusHandler_def
    conflicts_summarize_def formatContainerPort_def formatLanPort_def Let_def
  by (intro emits_intros; simp)+

section \<open>Partitions of a device\<close>

text \<open>Some way of matching consumes the whole input.\<close>

definition to_end :: "mstate list \<Rightarrow> bool" where
  "to_end xs = (\<exists>st \<in> set xs. rest_of st = [])"

lemma to_end_simps [simp]:
  "to_end [] = False" "to_end ((p, s, cs) # xs) \<longleftrightarrow> s = [] \<or> to_end xs" "to_end (xs @ ys) \<longleftrightarrow> to_end xs \<or> to_end ys"
  by (auto simp: to_end_def)

lemma class_step:
  "matches (RClass P) (p, c # s, cs) = (if P c then [(Some c, s, cs)] else [])" "matches (RClass P) (p, [], cs) = []"
  by simp_all

lemma star_class_step:
  "star_results (matches (RClass P)) (p, c # s, cs) =
     (if P c then star_results (matches (RClass P)) (Some c, s, cs) else []) @ [(p, c # s, cs)]"
  by (subst star_results.simps) (simp del: matches.simps add: class_step)

lemma star_class_to_end: "to_end (star_results (matches (RClass P)) (p, s, cs)) \<longleftrightarrow> (\<forall>c \<in> set s. P c)"
proof (induction s arbitrary: p)
  case Nil
  show ?case by (subst star_results.simps) (simp del: matches.simps add: class_step)
next
  case (Cons c s)
  show ?case by (simp del: matches.simps add: star_class_step Cons.IH)
qed

lemma plus_class_to_end:
  "to_end (matches (rplus (RClass P)) (p, s, cs)) \<longleftrightarrow> s \<noteq> [] \<and> (\<forall>c \<in> set s. P c)"
proof (cases s)
  case Nil
  then show ?thesis by (simp add: rplus_def class_step del: matches.simps(2))
next
  case (Cons c s')
  then show ?thesis using star_class_to_end [of P "Some c" s' cs]
    by (simp add: rplus_def class_step del: matches.simps(2))
qed

lemma concat_empty [simp]: "concat (map (matches REmpty) xs) = xs"
  by (induction xs) simp_all

text \<open>A literal before the rest of a pattern.\<close>

lemma matches_rstr:
  "matches (rstr u) (p, s, cs) = (if prefix u s then [(if u = [] then p else Some (last u), drop (length u) s, cs)] else [])"
  by (induction u arbitrary: p s) (auto simp: rstr_def rchar_def split: list.splits)

lemma anchored_matches: "matches (anchored r) (None, s, []) \<noteq> [] \<longleftrightarrow> to_end (matches r (None, s, []))"
  by (auto simp: anchored_def to_end_def)

text \<open>
  The partitions kept are those whose name is the device name, an optional \<open>p\<close>, and a number:
  \<open>sdaa1\<close> is none of \<open>/dev/sda\<close>.
\<close>

lemma partition_name_iff:
  "re_test (partition_pattern device) n \<longleftrightarrow>
     (\<exists>ds. ds \<noteq> [] \<and> (\<forall>c \<in> set ds. is_digit c) \<and> (n = device_base device @ ds \<or> n = device_base device @ ''p'' @ ds))"
proof -
  let ?b = "device_base device"
  define digits where "digits = (\<lambda>ds. ds \<noteq> [] \<and> (\<forall>c \<in> set ds. is_digit c))"
  have plus: "to_end (matches (rplus rdigit) (p, s, cs)) \<longleftrightarrow> digits s" for p s cs
    unfolding rdigit_def digits_def by (rule plus_class_to_end)
  have opt: "to_end (matches (rseq [ropt (rchar (CHR ''p'')), rplus rdigit]) (p, s, cs)) \<longleftrightarrow>
      digits s \<or> (\<exists>t. s = CHR ''p'' # t \<and> digits t)" for p s cs
    by (cases s) (auto simp: rseq_def ropt_def rchar_def plus)
  have "re_test (partition_pattern device) n \<longleftrightarrow> to_end (matches (rseq [rstr ?b, ropt (rchar (CHR ''p'')), rplus rdigit]) (None, n, []))"
    by (simp add: partition_pattern_def re_test_anchored match_here_def anchored_matches [symmetric] split: list.splits)
  also have "\<dots> \<longleftrightarrow> prefix ?b n \<and> (let r = drop (length ?b) n in digits r \<or> (\<exists>t. r = CHR ''p'' # t \<and> digits t))"
    using opt by (simp add: rseq_def matches_rstr Let_def)
  also have "\<dots> \<longleftrightarrow> (\<exists>ds. digits ds \<and> (n = ?b @ ds \<or> n = ?b @ ''p'' @ ds))"
    by (auto simp: prefix_def Let_def)
  finally show ?thesis by (simp add: digits_def)
qed

end
