(* ===== verification/MetricsTools.thy ===== *)
theory MetricsTools
  imports MetricsHistory Reading "HOL-Library.While_Combinator"
begin

text \<open>
  The \<open>metrics_history\<close> tool (\<open>src/tools/metrics/metrics-history.ts\<close>): a window of the recorder,
  folded into at most 24 rows for the concise text and written out point by point for the
  detailed one. The folding loop is a \<open>while_option\<close>; that it ends, and with how many rows, is
  proved here.
\<close>

section \<open>Dates\<close>

text \<open>
  \<open>new Date(ms).toISOString()\<close> for a time since the epoch, in the proleptic Gregorian calendar
  of the standard library. Days are counted in eras of 400 years that start on March 1st.
\<close>

definition MS_PER_DAY :: nat where "MS_PER_DAY = 86400000"

text \<open>Year, month and day of a number of days since 1970-01-01.\<close>

definition civil_from_days :: "nat \<Rightarrow> nat \<times> nat \<times> nat" where
  "civil_from_days days =
     (let z = days + 719468;
          era = z div 146097;
          doe = z mod 146097;
          yoe = (doe - doe div 1460 + doe div 36524 - doe div 146096) div 365;
          doy = doe - (365 * yoe + yoe div 4 - yoe div 100);
          mp = (5 * doy + 2) div 153;
          day = doy - (153 * mp + 2) div 5 + 1;
          month = (if mp < 10 then mp + 3 else mp - 9);
          year = yoe + era * 400 + (if month \<le> 2 then 1 else 0)
      in (year, month, day))"

definition digits_padded :: "nat \<Rightarrow> nat \<Rightarrow> string" where
  "digits_padded n v = pad_left n (CHR ''0'') (show_nat v)"

definition iso_string :: "nat \<Rightarrow> string" where
  "iso_string ms =
     (let (y, m, d) = civil_from_days (ms div MS_PER_DAY);
          t = ms mod MS_PER_DAY
      in digits_padded 4 y @ ''-'' @ digits_padded 2 m @ ''-'' @ digits_padded 2 d @ ''T'' @
         digits_padded 2 (t div 3600000) @ '':'' @ digits_padded 2 (t div 60000 mod 60) @ '':'' @
         digits_padded 2 (t div 1000 mod 60) @ ''.'' @ digits_padded 3 (t mod 1000) @ ''Z'')"

definition hhmmss :: "nat \<Rightarrow> string" where
  "hhmmss epochMs = drop (length ''YYYY-MM-DDT'') (take (length ''YYYY-MM-DDTHH:MM:SS'') (iso_string epochMs))"

section \<open>Folding a window into rows\<close>

definition CONCISE_ROWS :: nat where "CONCISE_ROWS = 24"
definition ONE_DECIMAL :: nat where "ONE_DECIMAL = 1"
definition MS_PER_SECOND :: nat where "MS_PER_SECOND = 1000"
definition DEFAULT_WINDOW_MINUTES :: nat where "DEFAULT_WINDOW_MINUTES = 60"
definition MAX_WINDOW_MINUTES :: nat where "MAX_WINDOW_MINUTES = 1440"

definition merge_stats :: "accumulator option \<Rightarrow> series_stats \<Rightarrow> accumulator" where
  "merge_stats old stats =
     (let acc = (case old of None \<Rightarrow> \<lparr>acc_min = st_min stats, acc_max = st_max stats, acc_sum = 0, acc_count = 0\<rparr> | Some a \<Rightarrow> a)
      in \<lparr>acc_min = min (acc_min acc) (st_min stats), acc_max = max (acc_max acc) (st_max stats),
          acc_sum = acc_sum acc + st_avg stats * of_nat (st_count stats), acc_count = acc_count acc + st_count stats\<rparr>)"

definition merge_point :: "(string \<times> accumulator) list \<Rightarrow> history_point \<Rightarrow> (string \<times> accumulator) list" where
  "merge_point accs p = foldl (\<lambda>as (n, stats). upsert n (merge_stats (map_of as n) stats) as) accs (point_series p)"

text \<open>The row of a non-empty block of points.\<close>

definition mergePoints :: "history_point list \<Rightarrow> history_point" where
  "mergePoints ps =
     \<lparr>bucketStartMs = bucketStartMs (hd ps),
      point_series = map (\<lambda>(n, a). (n, \<lparr>st_min = acc_min a, st_max = acc_max a,
                                        st_avg = acc_sum a / of_nat (acc_count a), st_count = acc_count a\<rparr>))
                         (foldl merge_point [] ps)\<rparr>"

definition per_row :: "nat \<Rightarrow> nat" where
  "per_row n = max 1 ((n + CONCISE_ROWS - 1) div CONCISE_ROWS)"

definition fold_step :: "history_point list \<Rightarrow> nat \<times> history_point list \<Rightarrow> nat \<times> history_point list" where
  "fold_step ps = (\<lambda>(start, rows). (start + per_row (length ps),
                                   rows @ [mergePoints (take (per_row (length ps)) (drop start ps))]))"

definition foldRows :: "history_point list \<Rightarrow> history_point list option" where
  "foldRows ps = map_option snd (while_option (\<lambda>(start, rows). start < length ps) (fold_step ps) (0, []))"

section \<open>The handler\<close>

definition topic_text :: "metric_topic \<Rightarrow> string" where
  "topic_text t = (case t of Cpu \<Rightarrow> ''cpu'' | Memory \<Rightarrow> ''memory'' | Network \<Rightarrow> ''network'')"

record metrics_input =
  m_topic :: metric_topic
  m_window_minutes :: nat
  m_format :: response_format

definition HISTORY_OFF_TEXT :: string where
  "HISTORY_OFF_TEXT = ''Metric history is off. Start the server with MCP_METRICS_HISTORY=true to record CPU, memory, and network at 30-second resolution for 24 hours (in memory only; cleared on restart).''"

definition series_cell :: "string \<times> series_stats \<Rightarrow> string" where
  "series_cell = (\<lambda>(n, s). n @ '' '' @ to_fixed ONE_DECIMAL (st_min s) @ ''/'' @ to_fixed ONE_DECIMAL (st_avg s) @ ''/'' @ to_fixed ONE_DECIMAL (st_max s))"

definition metrics_renderRow :: "history_point \<Rightarrow> string" where
  "metrics_renderRow p = hhmmss (bucketStartMs p) @ ''  '' @ join ''  '' (map series_cell (point_series p))"

text \<open>\<open>None\<close>: the folding loop does not return.\<close>

definition renderConcise :: "metrics_input \<Rightarrow> history_point list \<Rightarrow> int \<Rightarrow> string option" where
  "renderConcise input ps missing =
     map_option (\<lambda>rows.
       join nl ((topic_text (m_topic input) @ '' '' @ mdash @ '' last '' @ show_nat (m_window_minutes input) @ '' min: '' @
                 show_nat (length ps) @ '' points, '' @ show_int missing @ '' gaps ('' @ show_nat (BUCKET_MS div MS_PER_SECOND) @
                 '' s buckets; columns are min/avg/max, times UTC)'') # map metrics_renderRow rows)) (foldRows ps)"

definition stats_json :: "series_stats \<Rightarrow> jsval" where
  "stats_json s = JObj [(''min'', JNum (st_min s)), (''max'', JNum (st_max s)), (''avg'', JNum (st_avg s)), (''count'', JInt (int (st_count s)))]"

definition series_json :: "(string \<times> series_stats) list \<Rightarrow> jsval" where
  "series_json xs = JObj (map (\<lambda>(n, s). (n, stats_json s)) xs)"

definition point_json :: "history_point \<Rightarrow> jsval" where
  "point_json p = JObj [(''time'', JStr (iso_string (bucketStartMs p))), (''series'', series_json (point_series p))]"

definition metrics_json :: "metrics_input \<Rightarrow> history_point list \<Rightarrow> int \<Rightarrow> string \<Rightarrow> jsval" where
  "metrics_json input ps missing since =
     JObj [(''topic'', JStr (topic_text (m_topic input))), (''window_minutes'', JInt (int (m_window_minutes input))),
           (''bucket_ms'', JInt (int BUCKET_MS)), (''points'', JArr (map point_json ps)), (''gaps'', JInt missing),
           (''recording_since'', JStr since)]"

definition recording_since :: "nat \<Rightarrow> recorder \<Rightarrow> string" where
  "recording_since nowMs r = iso_string (case startedAt r of None \<Rightarrow> nowMs | Some t \<Rightarrow> t)"

text \<open>The handler; \<open>None\<close> for the result: it does not return.\<close>

definition metricsHistoryHandler :: "nat \<Rightarrow> recorder option \<Rightarrow> metrics_input \<Rightarrow> tool_result prog option" where
  "metricsHistoryHandler nowMs history input =
     (case history of
        None \<Rightarrow> Some (toolText HISTORY_OFF_TEXT)
      | Some r \<Rightarrow>
          (let h = recorder_window nowMs (m_topic input) (m_window_minutes input) r;
               since = recording_since nowMs r
           in if points h = []
              then Some (toolText (''Recording since '' @ since @ ''; no '' @ topic_text (m_topic input) @
                     '' samples yet (the WebSocket feed delivers the first sample within a few seconds).''))
              else map_option (\<lambda>t. formatResponse (m_format input) t (metrics_json input (points h) (gaps h) since))
                     (renderConcise input (points h) (gaps h))))"

section \<open>The loop ends with the blocks in order\<close>

text \<open>Consecutive blocks of a given length, the last one shorter.\<close>

fun blocks :: "nat \<Rightarrow> 'a list \<Rightarrow> 'a list list" where
  "blocks n [] = []"
| "blocks n (x # xs) = (x # take (n - 1) xs) # blocks n (drop (n - 1) xs)"

lemma concat_blocks: "concat (blocks n xs) = xs"
  by (induction n xs rule: blocks.induct) simp_all

lemma blocks_nonempty: "b \<in> set (blocks n xs) \<Longrightarrow> b \<noteq> []"
  by (induction n xs rule: blocks.induct) auto

lemma blocks_step: "0 < n \<Longrightarrow> xs \<noteq> [] \<Longrightarrow> blocks n xs = take n xs # blocks n (drop n xs)"
  by (cases xs; cases n) simp_all

lemma length_blocks: "0 < n \<Longrightarrow> length (blocks n xs) = (length xs + n - 1) div n"
proof (induction n xs rule: blocks.induct)
  case (2 n x xs)
  show ?case
  proof (cases "length xs < n")
    case True
    with 2 show ?thesis by (simp add: div_if)
  next
    case False
    with 2 have "length (blocks n (x # xs)) = Suc ((length xs - (n - 1) + n - 1) div n)" by simp
    also have "length xs - (n - 1) + n - 1 = length xs" using False 2(2) by simp
    also have "Suc (length xs div n) = (length (x # xs) + n - 1) div n" using 2(2) by simp
    finally show ?thesis .
  qed
qed simp

lemma per_row_pos [simp]: "0 < per_row n"
  by (simp add: per_row_def)

text \<open>Enough points per row for 24 rows.\<close>

lemma per_row_enough: "n \<le> CONCISE_ROWS * per_row n"
  by (simp add: per_row_def CONCISE_ROWS_def)

lemma blocks_at_most_rows: "length (blocks (per_row (length ps)) ps) \<le> CONCISE_ROWS"
proof -
  have "(length ps + per_row (length ps) - 1) div per_row (length ps) \<le> CONCISE_ROWS"
  proof (rule less_Suc_eq_le [THEN iffD1], rule less_mult_imp_div_less)
    show "length ps + per_row (length ps) - 1 < Suc CONCISE_ROWS * per_row (length ps)"
    proof -
      have "0 < per_row (length ps)" by simp
      with per_row_enough [of "length ps"] show ?thesis unfolding mult_Suc by linarith
    qed
  qed
  then show ?thesis by (simp add: length_blocks)
qed

lemma fold_loop_ends:
  "\<exists>t. while_option (\<lambda>(start, rows). start < length ps) (fold_step ps) (0, []) = Some t"
  by (rule measure_while_option_Some [where P = "\<lambda>_. True" and f = "\<lambda>(start, rows). length ps - start"])
     (auto simp: fold_step_def diff_less_mono2)

lemma foldRows_blocks: "foldRows ps = Some (map mergePoints (blocks (per_row (length ps)) ps))"
proof -
  let ?n = "per_row (length ps)"
  let ?inv = "\<lambda>(start, rows). rows @ map mergePoints (blocks ?n (drop start ps)) = map mergePoints (blocks ?n ps)"
  obtain t where t: "while_option (\<lambda>(start, rows). start < length ps) (fold_step ps) (0, []) = Some t"
    using fold_loop_ends by blast
  have "?inv t"
  proof (rule while_option_rule [OF _ t])
    fix s assume "?inv s" "case s of (start, rows) \<Rightarrow> start < length ps"
    then show "?inv (fold_step ps s)"
      by (cases s) (simp add: fold_step_def blocks_step [of ?n "drop _ ps"] add.commute)
  qed simp
  moreover have "\<not> fst t < length ps" using while_option_stop [OF t] by (simp add: case_prod_beta)
  ultimately have "snd t = map mergePoints (blocks ?n ps)" by (simp add: case_prod_beta)
  with t show ?thesis by (simp add: foldRows_def)
qed

section \<open>What a row says\<close>

text \<open>The statistics of a series in a block, in order.\<close>

definition stats_of :: "string \<Rightarrow> history_point list \<Rightarrow> series_stats list" where
  "stats_of n ps = concat (map (\<lambda>p. map snd (filter (\<lambda>(m, s). m = n) (point_series p))) ps)"

definition merged :: "accumulator option \<Rightarrow> series_stats list \<Rightarrow> accumulator option" where
  "merged a ss = foldl (\<lambda>a s. Some (merge_stats a s)) a ss"

lemma merged_simps [simp]:
  "merged a [] = a" "merged a (s # ss) = merged (Some (merge_stats a s)) ss" "merged a (ss @ us) = merged (merged a ss) us"
  by (simp_all add: merged_def)

lemma merge_entries_lookup:
  "map_of (foldl (\<lambda>as (m, s). upsert m (merge_stats (map_of as m) s) as) accs es) n =
     merged (map_of accs n) (map snd (filter (\<lambda>(m, s). m = n) es))"
  by (induction es arbitrary: accs) (auto simp: map_of_upsert)

lemma merge_points_lookup: "map_of (foldl merge_point accs ps) n = merged (map_of accs n) (stats_of n ps)"
  by (induction ps arbitrary: accs) (simp_all add: stats_of_def merge_point_def merge_entries_lookup)

lemma merged_spec:
  "ss \<noteq> [] \<Longrightarrow> \<exists>a. merged None ss = Some a \<and> acc_min a = Min (st_min ` set ss) \<and> acc_max a = Max (st_max ` set ss) \<and>
     acc_sum a = (\<Sum>s\<leftarrow>ss. st_avg s * of_nat (st_count s)) \<and> acc_count a = (\<Sum>s\<leftarrow>ss. st_count s)"
proof (induction ss rule: rev_induct)
  case (snoc s ss)
  show ?case
  proof (cases "ss = []")
    case True
    then show ?thesis by (simp add: merge_stats_def)
  next
    case False
    with snoc.IH obtain a where a: "merged None ss = Some a" "acc_min a = Min (st_min ` set ss)" "acc_max a = Max (st_max ` set ss)"
        "acc_sum a = (\<Sum>s\<leftarrow>ss. st_avg s * of_nat (st_count s))" "acc_count a = (\<Sum>s\<leftarrow>ss. st_count s)"
      by blast
    have "Min (st_min ` set (ss @ [s])) = min (Min (st_min ` set ss)) (st_min s)"
        "Max (st_max ` set (ss @ [s])) = max (Max (st_max ` set ss)) (st_max s)"
      using False by (simp_all add: min.commute max.commute)
    with a show ?thesis by (simp add: merge_stats_def)
  qed
qed simp

lemma row_spec:
  assumes "stats_of n ps \<noteq> []"
  shows "\<exists>s. map_of (point_series (mergePoints ps)) n = Some s \<and>
     st_min s = Min (st_min ` set (stats_of n ps)) \<and> st_max s = Max (st_max ` set (stats_of n ps)) \<and>
     st_count s = (\<Sum>x\<leftarrow>stats_of n ps. st_count x) \<and>
     st_avg s = (\<Sum>x\<leftarrow>stats_of n ps. st_avg x * of_nat (st_count x)) / of_nat (\<Sum>x\<leftarrow>stats_of n ps. st_count x)"
proof -
  obtain a where a: "merged None (stats_of n ps) = Some a" "acc_min a = Min (st_min ` set (stats_of n ps))"
      "acc_max a = Max (st_max ` set (stats_of n ps))" "acc_count a = (\<Sum>x\<leftarrow>stats_of n ps. st_count x)"
      "acc_sum a = (\<Sum>x\<leftarrow>stats_of n ps. st_avg x * of_nat (st_count x))"
    using merged_spec [OF assms] by blast
  have "map_of (point_series (mergePoints ps)) n =
      Some \<lparr>st_min = acc_min a, st_max = acc_max a, st_avg = acc_sum a / of_nat (acc_count a), st_count = acc_count a\<rparr>"
    using merge_points_lookup [of "[]" ps n] a(1) by (simp add: mergePoints_def map_of_map)
  then show ?thesis by (simp add: a(2-5))
qed

end
