(* ===== verification/VmSnapshotTools.thy ===== *)
theory VmSnapshotTools
  imports Reading Patterns
begin

text \<open>
  Virtual machine snapshots over SSH (\<open>src/tools/vm/vm-snapshot-list.ts\<close>,
  \<open>vm-snapshot-create.ts\<close>): both first look for virsh; a snapshot is created behind both flags,
  under a name that passes a pattern.
\<close>

section \<open>The probe\<close>

definition vs_PROBE_TIMEOUT_MS :: int where "vs_PROBE_TIMEOUT_MS = 10000"
definition vs_list_TIMEOUT_MS :: int where "vs_list_TIMEOUT_MS = 30000"
definition vs_create_TIMEOUT_MS :: int where "vs_create_TIMEOUT_MS = 120000"

text \<open>\<open>None\<close>: virsh is there.\<close>

definition probeVirsh :: "tool_result option prog" where
  "probeVirsh =
     bind (execute_shell ''command -v virsh'' vs_PROBE_TIMEOUT_MS) (\<lambda>probe.
       if exitCode probe \<noteq> 0
       then refuse (''virsh is not available on this server '' @ mdash @ '' the VM service appears to be disabled (Settings '' @ rarrow @ '' VM Manager).'')
       else Ret None)"

definition after_virsh :: "tool_result prog \<Rightarrow> tool_result prog" where
  "after_virsh work = bind probeVirsh (\<lambda>missing. case missing of Some r \<Rightarrow> Ret r | None \<Rightarrow> work)"

section \<open>vm\_snapshot\_list\<close>

definition snapshot_names :: "string \<Rightarrow> string list" where
  "snapshot_names out = filter (\<lambda>line. length (trim line) > 0) (split_on nl out)"

definition vm_snapshot_list_command :: "string \<Rightarrow> string" where
  "vm_snapshot_list_command vm = ''virsh snapshot-list '' @ quoteForShell vm @ '' --name''"

definition vm_snapshot_summary :: "string \<Rightarrow> string list \<Rightarrow> string" where
  "vm_snapshot_summary vm names =
     (if length names = 0 then ''VM '' @ vm @ '' has no snapshots.''
      else join nl ((show_nat (length names) @ '' snapshot(s) for '' @ vm @ '':'') # map (\<lambda>n. ''- '' @ n) names))"

definition vmSnapshotListHandler :: "bool \<Rightarrow> response_format \<Rightarrow> string \<Rightarrow> tool_result prog" where
  "vmSnapshotListHandler shell format vm =
     with_shell shell
       (failing_with ''Failed to list VM snapshots over SSH: ''
         (after_virsh
           (bind (execute_shell (vm_snapshot_list_command vm) vs_list_TIMEOUT_MS) (\<lambda>res.
              if exitCode res \<noteq> 0
              then toolError (''virsh snapshot-list failed for '' @ vm @ '' (exit '' @ show_int (exitCode res) @ ''): '' @ trim (stderr res))
              else formatResponse format (vm_snapshot_summary vm (snapshot_names (stdout res)))
                     (JObj [(''vm'', JStr vm), (''snapshots'', JArr (map JStr (snapshot_names (stdout res))))])))))"

section \<open>vm\_snapshot\_create\<close>

definition vs_name_char :: "char \<Rightarrow> bool" where
  "vs_name_char c = (is_alnum c \<or> c \<in> set ''._-'')"

definition vs_SNAPSHOT_NAME_PATTERN :: regex where
  "vs_SNAPSHOT_NAME_PATTERN = anchored (rplus (RClass vs_name_char))"

record vm_snapshot_args =
  vs_vm :: string
  vs_name :: string
  vs_flags :: risk_flags

definition vs_buildCommand :: "vm_snapshot_args \<Rightarrow> string" where
  "vs_buildCommand args = ''virsh snapshot-create-as '' @ quoteForShell (vs_vm args) @ '' '' @ quoteForShell (vs_name args) @ '' --atomic --disk-only''"

definition vs_refusalMessage :: "vm_snapshot_args \<Rightarrow> string" where
  \<open>vs_refusalMessage args =
     ''Refusing to snapshot VM '' @ vs_vm args @ '': this creates external overlay disk files that become part of the VM\'s storage chain '' @ mdash @ '' every later write lands in the overlay until the snapshot is merged away in the Unraid UI. Re-call with "confirm": true and "acknowledge_risk": true to proceed. No changes were made.''\<close>

definition vs_success :: "vm_snapshot_args \<Rightarrow> string" where
  \<open>vs_success args =
     ''External snapshot "'' @ vs_name args @ ''" created for VM '' @ vs_vm args @ ''. Verify with vm_snapshot_list. Reverting/deleting snapshots is deliberately not offered here (external-chain corruption risk) '' @ mdash @ '' manage those from the Unraid VM UI.''\<close>

definition vs_create :: "vm_snapshot_args \<Rightarrow> tool_result prog" where
  "vs_create args =
     bind (execute_shell (vs_buildCommand args) vs_create_TIMEOUT_MS) (\<lambda>res.
       if exitCode res \<noteq> 0
       then toolError (''virsh snapshot-create-as failed for '' @ vs_vm args @ '' (exit '' @ show_int (exitCode res) @ ''): '' @ trim (stderr res))
       else toolText (vs_success args))"

definition vs_work :: "vm_snapshot_args \<Rightarrow> tool_result prog" where
  "vs_work args = failing_with ''Failed to create VM snapshot over SSH: '' (after_virsh (vs_create args))"

definition vmSnapshotCreateHandler :: "bool \<Rightarrow> channel \<Rightarrow> vm_snapshot_args \<Rightarrow> tool_result prog" where
  "vmSnapshotCreateHandler shell ch args =
     with_shell shell
       (if \<not> re_test vs_SNAPSHOT_NAME_PATTERN (vs_name args)
        then toolError (''Invalid snapshot name: '' @ vs_name args @ ''. No changes were made.'')
        else gated (requireRiskAcknowledgementInteractive ch (vs_flags args) (vs_refusalMessage args)) (vs_work args))"

section \<open>What the tools may run\<close>

lemma emits_after_virsh [emits_intros]:
  "P (EShell ''command -v virsh'' vs_PROBE_TIMEOUT_MS) \<Longrightarrow> emits P work \<Longrightarrow> emits P (after_virsh work)"
  by (auto simp: after_virsh_def probeVirsh_def intro!: emits_intros)

lemma vm_snapshot_list_events:
  "emits (runs_only (\<lambda>c. c = ''command -v virsh'' \<or> c = vm_snapshot_list_command vm)) (vmSnapshotListHandler shell format vm)"
  unfolding vmSnapshotListHandler_def by (intro emits_intros; simp)

definition vs_event :: "vm_snapshot_args \<Rightarrow> event \<Rightarrow> bool" where
  "vs_event args e \<longleftrightarrow> e = EShell ''command -v virsh'' vs_PROBE_TIMEOUT_MS \<or> e = EShell (vs_buildCommand args) vs_create_TIMEOUT_MS"

lemma emits_vs_work: "emits (vs_event args) (vs_work args)"
  unfolding vs_work_def vs_create_def by (intro emits_intros; simp add: vs_event_def)

text \<open>Only an approved call with a valid name reaches the host, and only with the two commands.\<close>

lemma vm_snapshot_create_events:
  assumes "e \<in> set (events_of w (vmSnapshotCreateHandler shell ch args))" "touches_host e"
  shows "shell \<and> re_test vs_SNAPSHOT_NAME_PATTERN (vs_name args)
    \<and> risk_approved w [] (ch, vs_flags args, vs_refusalMessage args) \<and> vs_event args e"
proof (cases "shell \<and> re_test vs_SNAPSHOT_NAME_PATTERN (vs_name args)")
  case True
  with assms tier2.gated_emits [OF emits_vs_work, of e w "(ch, vs_flags args, vs_refusalMessage args)"]
  show ?thesis by (simp add: vmSnapshotCreateHandler_def with_shell_def)
next
  case False
  with assms(1) show ?thesis
    by (auto simp: vmSnapshotCreateHandler_def with_shell_def sshUnavailableError_def events_of_def run_toolError split: if_splits)
qed

lemma vs_command_words:
  "sh_tokens (vs_buildCommand args) =
     Some [ShWord ''virsh'', ShWord ''snapshot-create-as'', ShWord (vs_vm args), ShWord (vs_name args), ShWord ''--atomic'', ShWord ''--disk-only'']"
proof -
  let ?as = "[Bare ''virsh'', Bare ''snapshot-create-as'', Quoted (vs_vm args), Quoted (vs_name args), Bare ''--atomic'', Bare ''--disk-only'']"
  have "\<forall>a \<in> set ?as. arg_ok a" by (simp add: sh_plain_def sh_special_def sh_blank_def)
  from sh_tokens_args [OF this] show ?thesis by (simp add: command_line_def vs_buildCommand_def)
qed

lemma vs_name_chars: "re_test vs_SNAPSHOT_NAME_PATTERN n \<Longrightarrow> c \<in> set n \<Longrightarrow> vs_name_char c"
  unfolding vs_SNAPSHOT_NAME_PATTERN_def using re_test_chars by (fastforce simp: rplus_def)

end
