(* ===== verification/HostReads.thy ===== *)
theory HostReads
  imports Reading ZfsTools UnassignedTools LiveStore
begin

text \<open>
  Read-only tools over SSH that parse what a command printed: \<open>unassigned_list\<close>, \<open>zfs_status\<close>
  and \<open>docker_stats\<close> (which prefers a fresh sample of the live store).
\<close>

section \<open>unassigned\_list\<close>

definition renderPartition :: "partition \<Rightarrow> string" where
  \<open>renderPartition p =
     (let mount = (if truthy (p_mountpoint p) then ''mounted at '' @ display (p_mountpoint p) else ''not mounted'');
          label = (if truthy (p_label p) then '' "'' @ display (p_label p) @ ''"'' else [])
      in ''  - '' @ p_device p @ label @ '': '' @ display (coalesce (p_fstype p) (JStr ''no filesystem'')) @ '', '' @ display (p_size p) @ '', '' @ mount)\<close>

definition renderDisk :: "unassigned_disk \<Rightarrow> string" where
  "renderDisk d =
     (let known = join '' / '' (map display (filter truthy [u_model d, u_serial d]));
          identity = (if known = [] then ''unknown model'' else known);
          transport = (if truthy (u_transport d) then '' ('' @ display (u_transport d) @ '')'' else []);
          header = u_device d @ '' '' @ mdash @ '' '' @ identity @ '', '' @ display (u_size d) @ transport;
          partitions = (if length (u_partitions d) = 0 then [''  (no partitions)''] else map renderPartition (u_partitions d))
      in join nl (header # partitions))"

definition unassigned_summarize :: "unassigned_disk list \<Rightarrow> string" where
  "unassigned_summarize ds =
     (if length ds = 0 then ''No unassigned disks (every block device belongs to the array, a pool, or the flash).''
      else join nl ((show_nat (length ds) @ '' unassigned disk(s):'') # map renderDisk ds))"

definition partition_json :: "partition \<Rightarrow> jsval" where
  "partition_json p =
     JObj [(''device'', JStr (p_device p)), (''fstype'', p_fstype p), (''mountpoint'', p_mountpoint p),
           (''label'', p_label p), (''size'', p_size p)]"

definition unassigned_json :: "unassigned_disk \<Rightarrow> jsval" where
  "unassigned_json d =
     JObj [(''device'', JStr (u_device d)), (''model'', u_model d), (''serial'', u_serial d), (''size'', u_size d),
           (''transport'', u_transport d), (''partitions'', JArr (map partition_json (u_partitions d)))]"


definition unassignedListHandler :: "bool \<Rightarrow> response_format \<Rightarrow> tool_result prog" where
  "unassignedListHandler shell format =
     with_shell shell
       (failing_with ''Failed to list unassigned devices over SSH: ''
         (bind (execute_shell disks_ini_command LIST_TIMEOUT_MS) (\<lambda>disksIni.
          bind (execute_shell LSBLK_COMMAND LIST_TIMEOUT_MS) (\<lambda>lsblk.
            (let ds = selectUnassigned (stdout lsblk) (parseAssignedDevices (stdout disksIni))
             in formatResponse format (unassigned_summarize ds) (JObj [(''disks'', JArr (map unassigned_json ds))]))))))"

section \<open>zfs\_status\<close>

definition POOL_LIST_COMMAND :: string where "POOL_LIST_COMMAND = ''zpool list -H -o name,size,alloc,free,cap,health''"
definition ARCSTATS_COMMAND :: string where "ARCSTATS_COMMAND = ''cat /proc/spl/kstat/zfs/arcstats 2>/dev/null''"

record pool_status =
  ps_name :: "string option"
  ps_size :: "string option"
  ps_allocated :: "string option"
  ps_free :: "string option"
  ps_capacity :: "string option"
  ps_health :: "string option"

definition parsePools :: "string \<Rightarrow> pool_status list" where
  "parsePools out =
     map (\<lambda>line. let cols = split_on tab line
                 in \<lparr>ps_name = column cols 0, ps_size = column cols 1, ps_allocated = column cols 2,
                    ps_free = column cols 3, ps_capacity = column cols 4, ps_health = column cols 5\<rparr>) (content_lines out)"

text \<open>\<open>new RegExp(`^${field}\s+\d+\s+(\d+)`, "m")\<close>, for a field name without metacharacters.\<close>

definition arc_pattern :: "string \<Rightarrow> regex" where
  "arc_pattern name = rseq [RLineStart, rstr name, rplus rspace, rplus rdigit, rplus rspace, RGroup 1 (rplus rdigit)]"

definition arcField :: "string \<Rightarrow> string \<Rightarrow> nat option" where
  "arcField out name = map_option (\<lambda>cs. digits_val (group cs 1)) (re_match (arc_pattern name) out)"

record arc_info =
  arc_text :: string
  sizeBytes :: "nat option"
  maxBytes :: "nat option"

definition arcSummary :: "string \<Rightarrow> arc_info" where
  "arcSummary out =
     (let s = arcField out ''size''; m = arcField out ''c_max''
      in case (s, m) of
           (Some a, Some b) \<Rightarrow>
             if b = 0 then \<lparr>arc_text = ''ARC stats unavailable.'', sizeBytes = s, maxBytes = m\<rparr>
             else \<lparr>arc_text = ''ARC: '' @ to_fixed 1 (of_nat a / BYTES_PER_GIB) @ '' GiB of '' @ to_fixed 1 (of_nat b / BYTES_PER_GIB) @
                              '' GiB max ('' @ show_int (math_round (of_nat a / of_nat b * 100)) @ ''%).'',
                   sizeBytes = s, maxBytes = m\<rparr>
         | _ \<Rightarrow> \<lparr>arc_text = ''ARC stats unavailable.'', sizeBytes = s, maxBytes = m\<rparr>)"

definition pool_line :: "pool_status \<Rightarrow> string" where
  "pool_line p =
     ''- '' @ show_opt (ps_name p) @ '': '' @ show_opt (ps_health p) @ '', '' @ show_opt (ps_allocated p) @ '' used of '' @
     show_opt (ps_size p) @ '' ('' @ show_opt (ps_capacity p) @ '' full)''"

definition zfs_summarize :: "pool_status list \<Rightarrow> string \<Rightarrow> string" where
  "zfs_summarize pools arc =
     (if length pools = 0 then ''No ZFS pools imported. '' @ arc
      else join nl ((show_nat (length pools) @ '' ZFS pool(s):'') # map pool_line pools @ [arc]))"

definition pool_json :: "pool_status \<Rightarrow> jsval" where
  "pool_json p =
     JObj [(''name'', js_string_opt (ps_name p)), (''size'', js_string_opt (ps_size p)), (''allocated'', js_string_opt (ps_allocated p)),
           (''free'', js_string_opt (ps_free p)), (''capacity'', js_string_opt (ps_capacity p)), (''health'', js_string_opt (ps_health p))]"

definition nat_or_null :: "nat option \<Rightarrow> jsval" where
  "nat_or_null n = (case n of None \<Rightarrow> JNull | Some k \<Rightarrow> JInt (int k))"

definition zfs_json :: "pool_status list \<Rightarrow> arc_info \<Rightarrow> jsval" where
  "zfs_json pools arc =
     JObj [(''pools'', JArr (map pool_json pools)),
           (''arc'', JObj [(''sizeBytes'', nat_or_null (sizeBytes arc)), (''maxBytes'', nat_or_null (maxBytes arc))])]"

definition zfsStatusHandler :: "bool \<Rightarrow> response_format \<Rightarrow> tool_result prog" where
  "zfsStatusHandler shell format =
     with_shell shell
       (failing_with ''Failed to read ZFS status over SSH: ''
         (after_probe
           (bind (execute_shell POOL_LIST_COMMAND ZFS_COMMAND_TIMEOUT_MS) (\<lambda>res.
              if exitCode res \<noteq> 0
              then toolError (''zpool list failed (exit '' @ show_int (exitCode res) @ ''): '' @ trim (stderr res))
              else bind (execute_shell ARCSTATS_COMMAND zfs_PROBE_TIMEOUT_MS) (\<lambda>arc.
                (let pools = parsePools (stdout res); info = arcSummary (stdout arc)
                 in formatResponse format (zfs_summarize pools (arc_text info)) (zfs_json pools info)))))))"

section \<open>docker\_stats\<close>

definition STATS_COMMAND :: string where
  "STATS_COMMAND = ''docker stats --no-stream --format '' @ squote @ ''{{json .}}'' @ squote"

definition STATS_TIMEOUT_MS :: int where "STATS_TIMEOUT_MS = 30000"
definition LIVE_FRESHNESS_MS :: int where "LIVE_FRESHNESS_MS = 10000"

definition rat_sign :: "rat \<Rightarrow> int" where
  "rat_sign q = (if q < 0 then - 1 else if q = 0 then 0 else 1)"

definition live_line :: "timestamped_stats \<Rightarrow> string" where
  "live_line row =
     (let s = fst row
      in stat_id s @ '': CPU '' @ num_text (cpuPercent s) @ ''%, MEM '' @ memUsage s @ '' ('' @ num_text (memPercent s) @ ''%), NET '' @ netIO s @ '', IO '' @ blockIO s)"

definition by_cpu :: "timestamped_stats \<Rightarrow> timestamped_stats \<Rightarrow> int" where
  "by_cpu a b = rat_sign (cpuPercent (fst b) - cpuPercent (fst a))"

definition summarizeLive :: "timestamped_stats list \<Rightarrow> int \<Rightarrow> string" where
  "summarizeLive cs ageMs =
     join nl ((''Per-container usage ('' @ show_nat (length cs) @ '' containers, source: live subscription, age '' @ show_int ageMs @ '' ms):'') #
              map live_line (js_sort by_cpu cs))"

text \<open>The sample of the store is an aggregate, or some other value (\<open>None\<close>).\<close>

definition liveContainers :: "docker_aggregate option \<Rightarrow> timestamped_stats list option" where
  "liveContainers data =
     (case data of None \<Rightarrow> None | Some agg \<Rightarrow> if length agg = 0 then None else Some (map snd agg))"

text \<open>\<open>JSON.parse\<close> of a line; noise that is no object is dropped.\<close>

definition parseRow :: "string \<Rightarrow> jsval option" where
  "parseRow line =
     (case json_parse line of
        Some (JObj ms) \<Rightarrow> Some (JObj ms) | Some (JArr xs) \<Rightarrow> Some (JArr xs) | _ \<Rightarrow> None)"

text \<open>\<open>Number.parseFloat\<close>: the longest numeric prefix.\<close>

datatype js_float = FNum rat | PosInf | NegInf | NaN

definition parse_float :: "string \<Rightarrow> js_float" where
  "parse_float s =
     (let t = trim_start s;
          neg = starts_with t ''-'';
          u = (if neg \<or> starts_with t ''+'' then drop 1 t else t);
          ds = takeWhile is_digit u; r = dropWhile is_digit u;
          fs = (case r of c # q \<Rightarrow> if c = CHR ''.'' then takeWhile is_digit q else [] | [] \<Rightarrow> []);
          r' = (case r of c # q \<Rightarrow> if c = CHR ''.'' then dropWhile is_digit q else r | [] \<Rightarrow> r);
          e = (case parse_exp r' of None \<Rightarrow> 1 | Some (f, q) \<Rightarrow> f)
      in if starts_with u ''Infinity'' then (if neg then NegInf else PosInf)
         else if ds = [] \<and> fs = [] then NaN
         else FNum ((if neg then - 1 else 1) * (of_nat (digits_val ds) + of_nat (digits_val fs) / 10 ^ length fs) * e))"

definition percentValue :: "jsval \<Rightarrow> js_float" where
  "percentValue percent =
     (case parse_float (display (coalesce percent (JStr []))) of NaN \<Rightarrow> FNum 0 | v \<Rightarrow> v)"

text \<open>The sign of \<open>b - a\<close>; a NaN difference counts as 0 for \<open>sort\<close>.\<close>

fun float_diff :: "js_float \<Rightarrow> js_float \<Rightarrow> int" where
  "float_diff (FNum b) (FNum a) = rat_sign (b - a)"
| "float_diff PosInf PosInf = 0"
| "float_diff NegInf NegInf = 0"
| "float_diff NaN a = 0"
| "float_diff b NaN = 0"
| "float_diff PosInf a = 1"
| "float_diff b PosInf = - 1"
| "float_diff NegInf a = - 1"
| "float_diff b NegInf = 1"

definition by_cpu_text :: "jsval \<Rightarrow> jsval \<Rightarrow> int" where
  "by_cpu_text a b = float_diff (percentValue (getp b ''CPUPerc'')) (percentValue (getp a ''CPUPerc''))"

definition parseRows :: "string \<Rightarrow> jsval list" where
  "parseRows out = js_sort by_cpu_text (List.map_filter parseRow (filter (\<lambda>line. trim line \<noteq> []) (split_on nl out)))"

definition stats_line :: "jsval \<Rightarrow> string" where
  "stats_line row =
     shown_or row ''Name'' ''(unnamed)'' @ '': CPU '' @ shown_or row ''CPUPerc'' ''?'' @ '', MEM '' @ shown_or row ''MemUsage'' ''?'' @
     '' ('' @ shown_or row ''MemPerc'' ''?'' @ ''), NET '' @ shown_or row ''NetIO'' ''?'' @ '', IO '' @ shown_or row ''BlockIO'' ''?'' @
     '', PIDs '' @ shown_or row ''PIDs'' ''?''"

definition docker_stats_summarize :: "jsval list \<Rightarrow> string" where
  "docker_stats_summarize rows =
     (if length rows = 0 then ''No running containers reported by docker stats.''
      else join nl ((''Per-container usage ('' @ show_nat (length rows) @ '' running, sorted by CPU):'') # map stats_line rows))"

definition live_json :: "timestamped_stats \<Rightarrow> jsval" where
  "live_json row =
     (let s = fst row
      in JObj [(''id'', JStr (stat_id s)), (''cpuPercent'', JNum (cpuPercent s)), (''memUsage'', JStr (memUsage s)),
               (''memPercent'', JNum (memPercent s)), (''netIO'', JStr (netIO s)), (''blockIO'', JStr (blockIO s)), (''seenAtMs'', JInt (snd row))])"

definition docker_stats_ssh :: "response_format \<Rightarrow> tool_result prog" where
  "docker_stats_ssh format =
     failing_with ''Failed to collect docker stats over SSH: ''
       (bind (execute_shell STATS_COMMAND STATS_TIMEOUT_MS) (\<lambda>res.
          if exitCode res \<noteq> 0
          then toolError (''docker stats failed (exit '' @ show_int (exitCode res) @ ''): '' @ or_text (trim (stderr res)) ''(no error output)'')
          else (let rows = parseRows (stdout res)
                in formatResponse format (docker_stats_summarize rows @ nl @ ''(source: ssh)'')
                     (JObj [(''source'', JStr ''ssh''), (''containers'', JArr rows)]))))"

definition fresh_live :: "(docker_aggregate option \<times> int) option \<Rightarrow> (timestamped_stats list \<times> int) option" where
  "fresh_live live =
     (case live of
        None \<Rightarrow> None
      | Some (data, ageMs) \<Rightarrow>
          if ageMs \<le> LIVE_FRESHNESS_MS then map_option (\<lambda>cs. (cs, ageMs)) (liveContainers data) else None)"

text \<open>The handler, given what the live store answers for the container topic.\<close>

definition dockerStatsHandler :: "(docker_aggregate option \<times> int) option \<Rightarrow> bool \<Rightarrow> response_format \<Rightarrow> tool_result prog" where
  "dockerStatsHandler live shell format =
     (case fresh_live live of
        Some (cs, ageMs) \<Rightarrow>
          formatResponse format (summarizeLive cs ageMs)
            (JObj [(''source'', JStr ''live-subscription''), (''age_ms'', JInt ageMs), (''containers'', JArr (map live_json cs))])
      | None \<Rightarrow> with_shell shell (docker_stats_ssh format))"

section \<open>What the tools may run\<close>

lemma unassigned_list_events:
  "emits (runs_only (\<lambda>c. c = disks_ini_command \<or> c = LSBLK_COMMAND)) (unassignedListHandler shell format)"
  unfolding unassignedListHandler_def by (intro emits_intros; simp)

lemma zfs_status_events:
  "emits (runs_only (\<lambda>c. c \<in> {''command -v zpool'', POOL_LIST_COMMAND, ARCSTATS_COMMAND})) (zfsStatusHandler shell format)"
  unfolding zfsStatusHandler_def by (intro emits_intros; simp)

lemma docker_stats_events: "emits (runs_only (\<lambda>c. c = STATS_COMMAND)) (dockerStatsHandler live shell format)"
  unfolding dockerStatsHandler_def docker_stats_ssh_def
  by (cases "fresh_live live") (auto intro!: emits_intros)

text \<open>A fresh non-empty sample is answered without touching the host.\<close>

lemma docker_stats_live:
  assumes "live = Some (Some agg, age)" "age \<le> LIVE_FRESHNESS_MS" "agg \<noteq> []"
  shows "snd (run w tr (dockerStatsHandler live shell Concise)) = tr
    \<and> fst (run w tr (dockerStatsHandler live shell Concise)) = Inr (mk_text (w_secrets w) (summarizeLive (map snd agg) age))"
  using assms by (simp add: dockerStatsHandler_def fresh_live_def liveContainers_def run_formatResponse)

section \<open>Order of the rows\<close>

lemma rat_sign_le: "rat_sign (b - a) \<le> 0 \<longleftrightarrow> b \<le> a"
  by (simp add: rat_sign_def)

interpretation cpu_order: comparator by_cpu
  by unfold_locales (auto simp: by_cpu_def rat_sign_le)

lemma live_rows_sorted:
  "sorted_wrt (\<lambda>a b. cpuPercent (fst a) \<ge> cpuPercent (fst b)) (js_sort by_cpu cs) \<and> mset (js_sort by_cpu cs) = mset cs"
  using cpu_order.sorted_js_sort [of cs] by (simp add: by_cpu_def rat_sign_le)

lemma percentValue_number: "percentValue v \<noteq> NaN"
  by (simp add: percentValue_def split: js_float.splits)

lemma float_diff_le:
  "a \<noteq> NaN \<Longrightarrow> b \<noteq> NaN \<Longrightarrow> c \<noteq> NaN \<Longrightarrow> float_diff b a \<le> 0 \<or> float_diff a b \<le> 0"
  "a \<noteq> NaN \<Longrightarrow> b \<noteq> NaN \<Longrightarrow> c \<noteq> NaN \<Longrightarrow> float_diff b a \<le> 0 \<Longrightarrow> float_diff c b \<le> 0 \<Longrightarrow> float_diff c a \<le> 0"
  by (cases a; cases b; cases c; auto simp: rat_sign_le)+

interpretation text_order: comparator by_cpu_text
proof
  show "by_cpu_text x y \<le> 0 \<or> by_cpu_text y x \<le> 0" for x y
    unfolding by_cpu_text_def by (rule float_diff_le(1)) (rule percentValue_number)+
  show "by_cpu_text x z \<le> 0" if "by_cpu_text x y \<le> 0" "by_cpu_text y z \<le> 0" for x y z
    using that unfolding by_cpu_text_def by (rule float_diff_le(2) [OF percentValue_number percentValue_number percentValue_number])
qed

text \<open>The rows are exactly the objects of the output, hungriest first.\<close>

lemma parseRows_spec:
  "sorted_wrt (\<lambda>a b. by_cpu_text a b \<le> 0) (parseRows out)
   \<and> mset (parseRows out) = mset (List.map_filter parseRow (filter (\<lambda>line. trim line \<noteq> []) (split_on nl out)))"
  unfolding parseRows_def using text_order.sorted_js_sort by simp

end
