(* ===== verification/UpsTools.thy ===== *)
theory UpsTools
  imports Reading JsNumber
begin

text \<open>
  The \<open>ups_status\<close> tool (\<open>src/tools/ups/ups-status.ts\<close>): the API fills missing readings with
  placeholders, and the tool reports them as no data, unless the status is not the default.
\<close>

section \<open>Constants\<close>

definition SECONDS_PER_MINUTE :: rat where "SECONDS_PER_MINUTE = 60"
definition MINUTES_PER_HOUR :: int where "MINUTES_PER_HOUR = 60"
definition PLACEHOLDER_NAME :: string where "PLACEHOLDER_NAME = ''My UPS''"
definition PLACEHOLDER_MODEL :: string where "PLACEHOLDER_MODEL = ''APC Back-UPS Pro 1500''"
definition DEFAULT_STATUS :: string where "DEFAULT_STATUS = ''Online''"

definition NO_DATA_NOTE :: string where
  "NO_DATA_NOTE = ''No live UPS data '' @ mdash @ '' apcupsd may be stopped or no UPS is attached (the Unraid API returned placeholder values).''"

definition NO_IDENTITY_CAVEAT :: string where
  "NO_IDENTITY_CAVEAT = [CHR 0xE2, CHR 0x9A, CHR 0xA0] @ '' apcaccess reported no device identity; model/name and unchanged battery/power values may be upstream defaults '' @ mdash @ '' verify the UPS connection.''"

definition APCACCESS_EMPTY_MARKER :: string where
  "APCACCESS_EMPTY_MARKER = ''No UPS data returned from apcaccess''"

definition APCACCESS_EMPTY_NOTE :: string where
  \<open>APCACCESS_EMPTY_NOTE = ''No live UPS data '' @ mdash @ '' apcaccess returned nothing (apcupsd is not running or no UPS is attached). The Unraid API only reads apcupsd; a NUT-managed UPS is invisible here '' @ mdash @ '' check the NUT plugin\'s UI instead.''\<close>

section \<open>Rendering\<close>

definition humanizeRuntime :: "rat \<Rightarrow> string" where
  "humanizeRuntime seconds =
     (let totalMinutes = math_round (seconds / SECONDS_PER_MINUTE)
      in if totalMinutes < MINUTES_PER_HOUR then show_int totalMinutes @ ''m''
         else show_int (totalMinutes div MINUTES_PER_HOUR) @ ''h '' @ show_int (totalMinutes mod MINUTES_PER_HOUR) @ ''m'')"

text \<open>Only \<open>null\<close> suppresses the note (\<open>===\<close>).\<close>

definition renderWattsNote :: "jsval \<Rightarrow> string" where
  "renderWattsNote pw =
     (if getp pw ''nominalPower'' = JNull \<or> getp pw ''currentPower'' = JNull then []
      else '' ('' @ shown pw ''currentPower'' @ ''W / '' @ shown pw ''nominalPower'' @ ''W)'')"

definition middle_dot :: string where "middle_dot = [CHR 0xC2, CHR 0xB7]"

definition device_text :: "jsval \<Rightarrow> jsval \<Rightarrow> jsval \<Rightarrow> rat \<Rightarrow> string" where
  "device_text device battery pw runtime =
     shown device ''name'' @ '' ('' @ shown device ''model'' @ '') '' @ mdash @ '' '' @ shown device ''status'' @ '' '' @ middle_dot @
     '' battery '' @ shown battery ''chargeLevel'' @ ''% '' @ middle_dot @ '' ~'' @ humanizeRuntime runtime @ '' left '' @ middle_dot @
     '' load '' @ shown pw ''loadPercentage'' @ ''%'' @ renderWattsNote pw"

text \<open>The charge, the load and the watts are read off \<open>battery\<close> and \<open>power\<close>, which must be objects.\<close>

definition renderDeviceLine :: "jsval \<Rightarrow> string prog" where
  "renderDeviceLine device =
     bind (path device [''battery'', ''estimatedRuntime'']) (\<lambda>seconds.
     bind (decode (dec_number seconds)) (\<lambda>runtime.
     bind (path device [''power'', ''loadPercentage'']) (\<lambda>load.
       Ret (device_text device (getp device ''battery'') (getp device ''power'') runtime))))"

definition ups_summarize :: "jsval list \<Rightarrow> string prog" where
  "ups_summarize devices = bind (map_prog renderDeviceLine devices) (\<lambda>ls. Ret (join nl ls))"

definition hasPlaceholderIdentity :: "jsval \<Rightarrow> bool" where
  "hasPlaceholderIdentity device =
     (getp device ''name'' = JStr PLACEHOLDER_NAME \<and> getp device ''model'' = JStr PLACEHOLDER_MODEL)"

definition suppressed :: "jsval \<Rightarrow> bool" where
  "suppressed device = (hasPlaceholderIdentity device \<and> getp device ''status'' = JStr DEFAULT_STATUS)"

text \<open>The concise text for the devices.\<close>

definition ups_concise :: "jsval list \<Rightarrow> string prog" where
  "ups_concise devices =
     (case devices of
        [] \<Rightarrow> Ret ''No UPS devices reported.''
      | device # others \<Rightarrow>
          if suppressed device then Ret NO_DATA_NOTE
          else if hasPlaceholderIdentity device
               then bind (renderDeviceLine device) (\<lambda>l. Ret (l @ nl @ NO_IDENTITY_CAVEAT))
               else ups_summarize devices)"

definition ups_detailed :: "jsval \<Rightarrow> jsval list \<Rightarrow> jsval" where
  "ups_detailed data devices =
     (case devices of
        [] \<Rightarrow> data
      | device # others \<Rightarrow>
          if suppressed device
          then JObj [(''upsDetected'', JBool False), (''note'', JStr NO_DATA_NOTE), (''placeholderPayload'', data)]
          else data)"

definition ups_renderStatus :: "response_format \<Rightarrow> jsval \<Rightarrow> tool_result prog" where
  "ups_renderStatus format data =
     bind (bind (path data [''upsDevices'']) objects) (\<lambda>devices.
     bind (ups_concise devices) (\<lambda>concise. formatResponse format concise (ups_detailed data devices)))"

definition isApcaccessEmpty :: "string \<Rightarrow> bool" where
  "isApcaccessEmpty message = js_includes message APCACCESS_EMPTY_MARKER"

definition renderApcaccessEmpty :: "response_format \<Rightarrow> tool_result prog" where
  "renderApcaccessEmpty format =
     formatResponse format APCACCESS_EMPTY_NOTE
       (JObj [(''upsDetected'', JBool False), (''note'', JStr APCACCESS_EMPTY_NOTE)])"

definition upsStatusHandler :: "response_format \<Rightarrow> tool_result prog" where
  "upsStatusHandler format =
     catch (bind (execute_gql UpsStatusDocument JUndef) (ups_renderStatus format))
       (\<lambda>message. if isApcaccessEmpty message then renderApcaccessEmpty format
                  else toolError (''Failed to fetch UPS status: '' @ message))"

section \<open>What it reads and reports\<close>

lemma emits_renderDeviceLine [emits_intros]: "emits P (renderDeviceLine d)"
  unfolding renderDeviceLine_def by (intro emits_intros)

lemma emits_ups_concise [emits_intros]: "emits P (ups_concise ds)"
  unfolding ups_concise_def ups_summarize_def by (cases ds) (auto intro!: emits_intros)

lemma ups_status_reads: "emits reads_only (upsStatusHandler format)"
  unfolding upsStatusHandler_def ups_renderStatus_def renderApcaccessEmpty_def by (intro emits_intros) simp

lemma run_renderDeviceLine_status:
  "run w tr (renderDeviceLine d) = (Inr t, tr') \<Longrightarrow> \<exists>a b. t = a @ shown d ''status'' @ b"
proof -
  assume "run w tr (renderDeviceLine d) = (Inr t, tr')"
  then obtain r where "t = device_text d (getp d ''battery'') (getp d ''power'') r"
    by (auto simp: renderDeviceLine_def run_bind_returns run_path run_decode)
  then have "t = (shown d ''name'' @ '' ('' @ shown d ''model'' @ '') '' @ mdash @ '' '') @ shown d ''status'' @
      ('' '' @ middle_dot @ '' battery '' @ shown (getp d ''battery'') ''chargeLevel'' @ ''% '' @ middle_dot @ '' ~'' @ humanizeRuntime r @ '' left '' @ middle_dot @
       '' load '' @ shown (getp d ''power'') ''loadPercentage'' @ ''%'' @ renderWattsNote (getp d ''power''))"
    by (simp only: device_text_def append_assoc)
  then show ?thesis by blast
qed

text \<open>The text for a first device that is not a placeholder at the default status shows its status.\<close>

lemma first_status_shown:
  assumes "run w tr (ups_concise (d # ds)) = (Inr t, tr')" "\<not> suppressed d"
  shows "\<exists>a b. t = a @ shown d ''status'' @ b"
proof (cases "hasPlaceholderIdentity d")
  case True
  with assms obtain l tr1 where "run w tr (renderDeviceLine d) = (Inr l, tr1)" "t = l @ nl @ NO_IDENTITY_CAVEAT"
    by (auto simp: ups_concise_def run_bind_returns)
  with run_renderDeviceLine_status [OF this(1)] show ?thesis by (metis append_assoc)
next
  case False
  with assms obtain l ls tr1 where l: "run w tr (renderDeviceLine d) = (Inr l, tr1)" "t = join nl (l # ls)"
    by (auto simp: ups_concise_def ups_summarize_def run_bind_returns)
  then obtain c where "t = l @ c" by (cases ls) auto
  with run_renderDeviceLine_status [OF l(1)] show ?thesis by (metis append_assoc)
qed

end
