(* ===== verification/HealthTools.thy ===== *)
theory HealthTools
  imports Reading
begin

text \<open>
  The \<open>system_health\<close> rollup (\<open>src/tools/system/system-health.ts\<close>): seven subsystem checks over
  one query and a separate UPS reading whose failure does not sink the report; the verdict is the
  worst severity.
\<close>

section \<open>Severities\<close>

datatype severity = SevOk | SevWarning | SevCritical

definition severity_text :: "severity \<Rightarrow> string" where
  "severity_text s = (case s of SevOk \<Rightarrow> ''ok'' | SevWarning \<Rightarrow> ''warning'' | SevCritical \<Rightarrow> ''critical'')"

definition SEVERITY_RANK :: "severity \<Rightarrow> nat" where
  "SEVERITY_RANK s = (case s of SevOk \<Rightarrow> 0 | SevWarning \<Rightarrow> 1 | SevCritical \<Rightarrow> 2)"

text \<open>The order of the ranks, so that the verdict can be compared with a maximum.\<close>

instantiation severity :: linorder
begin

definition less_eq_severity :: "severity \<Rightarrow> severity \<Rightarrow> bool" where
  "less_eq_severity a b = (SEVERITY_RANK a \<le> SEVERITY_RANK b)"

definition less_severity :: "severity \<Rightarrow> severity \<Rightarrow> bool" where
  "less_severity a b = (SEVERITY_RANK a < SEVERITY_RANK b)"

instance
  by standard (auto simp: less_eq_severity_def less_severity_def SEVERITY_RANK_def split: severity.splits)

end

definition CAPACITY_WARNING_PERCENT :: int where "CAPACITY_WARNING_PERCENT = 90"
definition CAPACITY_CRITICAL_PERCENT :: int where "CAPACITY_CRITICAL_PERCENT = 95"
definition DISK_TEMP_WARNING_CELSIUS :: rat where "DISK_TEMP_WARNING_CELSIUS = 50"
definition DISK_TEMP_CRITICAL_CELSIUS :: rat where "DISK_TEMP_CRITICAL_CELSIUS = 60"
definition HEALTHY_DISK_STATUSES :: "string list" where "HEALTHY_DISK_STATUSES = [''DISK_OK'', ''DISK_NP'']"
definition UPS_ONLINE_STATUS :: string where "UPS_ONLINE_STATUS = ''ONLINE''"

record subsystem_health =
  subsystem :: string
  severity :: severity
  detail :: string

definition report :: "string \<Rightarrow> severity \<Rightarrow> string \<Rightarrow> subsystem_health" where
  "report n s t = \<lparr>subsystem = n, severity = s, detail = t\<rparr>"

lemma report_simps [simp]: "subsystem (report n s t) = n" "severity (report n s t) = s" "detail (report n s t) = t"
  by (simp_all add: report_def)

text \<open>
  \<open>toNumber\<close> of this file: \<open>Number(value)\<close>, with NaN read as 0. The numerals of the API are
  finite, so no infinite value arises.
\<close>

definition health_number :: "jsval \<Rightarrow> rat" where
  "health_number v =
     (case v of
        JNum q \<Rightarrow> q
      | JStr s \<Rightarrow> (case js_number s of Finite q \<Rightarrow> q | NonFinite \<Rightarrow> 0)
      | JBool b \<Rightarrow> if b then 1 else 0
      | _ \<Rightarrow> 0)"

section \<open>The checks\<close>

definition checkArrayState :: "jsval \<Rightarrow> subsystem_health prog" where
  "checkArrayState array =
     bind (prop_of array ''state'') (\<lambda>state.
       Ret (if state = JStr ''STARTED'' then report ''array'' SevOk ''Array is started.''
            else report ''array'' SevWarning (''Array state is '' @ display state @ '' '' @ mdash @ '' shares, containers, and VMs are offline while stopped.'')))"

definition capacity_report :: "rat \<Rightarrow> rat \<Rightarrow> subsystem_health" where
  "capacity_report tot used =
     (if tot \<le> 0 then report ''capacity'' SevOk ''Capacity not reported.''
      else (let percent = math_round (used / tot * 100);
                full = ''Array is '' @ show_int percent @ ''% full.''
            in if percent \<ge> CAPACITY_CRITICAL_PERCENT then report ''capacity'' SevCritical full
               else if percent \<ge> CAPACITY_WARNING_PERCENT then report ''capacity'' SevWarning full
               else report ''capacity'' SevOk full))"

definition checkCapacity :: "jsval \<Rightarrow> subsystem_health prog" where
  "checkCapacity array =
     bind (path array [''capacity'', ''kilobytes'', ''total'']) (\<lambda>tot.
     bind (path array [''capacity'', ''kilobytes'', ''used'']) (\<lambda>used.
       Ret (capacity_report (health_number tot) (health_number used))))"

definition diskSeverity :: "jsval \<Rightarrow> severity" where
  "diskSeverity disk =
     (let status = coalesce (getp disk ''status'') (JStr ''DISK_NP'');
          temp = health_number (coalesce (getp disk ''temp'') (JInt 0))
      in if status \<notin> JStr ` set HEALTHY_DISK_STATUSES then SevCritical
         else if temp \<ge> DISK_TEMP_CRITICAL_CELSIUS then SevCritical
         else if temp \<ge> DISK_TEMP_WARNING_CELSIUS then SevWarning else SevOk)"

definition disk_problems :: "jsval list \<Rightarrow> (string \<times> severity) list" where
  "disk_problems disks =
     filter (\<lambda>(n, s). s \<noteq> SevOk) (map (\<lambda>disk. (shown_or disk ''name'' ''(unnamed)'', diskSeverity disk)) disks)"

definition disks_report :: "jsval list \<Rightarrow> subsystem_health" where
  "disks_report disks =
     (let problems = disk_problems disks
      in if length problems = 0 then report ''disks'' SevOk (show_nat (length disks) @ '' disks healthy.'')
         else report ''disks'' (if \<exists>p \<in> set problems. snd p = SevCritical then SevCritical else SevWarning)
                (''Disk problems: '' @ join '', '' (map (\<lambda>(n, s). n @ '' ('' @ severity_text s @ '')'') problems) @ ''.''))"

definition checkDisks :: "jsval \<Rightarrow> subsystem_health prog" where
  "checkDisks array =
     bind (bind (prop_of array ''parities'') objects) (\<lambda>parities.
     bind (bind (prop_of array ''disks'') objects) (\<lambda>disks.
     bind (bind (prop_of array ''caches'') objects) (\<lambda>caches.
       Ret (disks_report (parities @ disks @ caches)))))"

definition parity_report :: "rat \<Rightarrow> jsval \<Rightarrow> subsystem_health" where
  "parity_report errors running =
     (if errors > 0 then report ''parity'' SevWarning (''Last parity check reported '' @ num_text errors @ '' error(s).'')
      else report ''parity'' SevOk (''No parity errors reported.'' @ (if truthy running then '' A parity check is running.'' else [])))"

definition checkParity :: "jsval \<Rightarrow> subsystem_health prog" where
  "checkParity array =
     bind (path array [''parityCheckStatus'', ''errors'']) (\<lambda>errors.
     bind (path array [''parityCheckStatus'', ''running'']) (\<lambda>running.
       Ret (parity_report (health_number errors) running)))"

definition notifications_report :: "jsval \<Rightarrow> jsval \<Rightarrow> subsystem_health" where
  "notifications_report alerts warnings =
     (if health_number alerts > 0
      then report ''notifications'' SevCritical (display alerts @ '' unread alert(s) '' @ mdash @ '' read notification_alerts.'')
      else if health_number warnings > 0
      then report ''notifications'' SevWarning (display warnings @ '' unread warning(s).'')
      else report ''notifications'' SevOk ''No unread warnings or alerts.'')"

definition checkNotifications :: "jsval \<Rightarrow> subsystem_health prog" where
  "checkNotifications data =
     bind (path data [''notifications'', ''overview'', ''unread'', ''alert'']) (\<lambda>alerts.
     bind (path data [''notifications'', ''overview'', ''unread'', ''warning'']) (\<lambda>warnings.
       Ret (notifications_report alerts warnings)))"

definition UPS_UNAVAILABLE_DETAIL :: string where
  "UPS_UNAVAILABLE_DETAIL = ''UPS data unavailable '' @ mdash @ '' the Unraid API reads apcupsd only; NUT-managed or absent UPSes report nothing here''"

text \<open>The devices, or the failure message (left).\<close>

definition readUps :: "(string + jsval) prog" where
  "readUps = attempt (bind (execute_gql UpsStatusDocument JUndef) (\<lambda>data. path data [''upsDevices'']))"

definition statusTokens :: "string \<Rightarrow> string list" where
  "statusTokens status = split_spaces (to_upper (trim status))"

text \<open>A device: what \<open>`${ups.name}`\<close> shows, and the status.\<close>

definition dec_ups :: "jsval \<Rightarrow> (string \<times> string option) option" where
  "dec_ups v = (if nullish v then None else map_option (\<lambda>s. (shown v ''name'', s)) (nullable dec_str (getp v ''status'')))"

definition reporting_ups :: "(string \<times> string option) list \<Rightarrow> (string \<times> string) list" where
  "reporting_ups devices =
     List.map_filter (\<lambda>(n, s). case s of None \<Rightarrow> None | Some t \<Rightarrow> if length (trim t) > 0 then Some (n, t) else None) devices"

definition ups_lines :: "(string \<times> string) list \<Rightarrow> string" where
  "ups_lines us = join '', '' (map (\<lambda>(n, t). n @ '': '' @ t) us)"

definition ups_report :: "(string \<times> string) list \<Rightarrow> subsystem_health" where
  "ups_report reporting =
     (if length reporting = 0 then report ''ups'' SevOk ''No UPS reporting live data.''
      else (let offline = filter (\<lambda>(n, t). UPS_ONLINE_STATUS \<notin> set (statusTokens t)) reporting;
                onBattery = (\<exists>u \<in> set reporting. ''ONBATT'' \<in> set (statusTokens (snd u)))
            in if onBattery then report ''ups'' SevCritical (ups_lines reporting)
               else if length offline = 0 then report ''ups'' SevOk ''UPS online.''
               else report ''ups'' SevWarning (ups_lines offline)))"

definition checkUps :: "string + jsval \<Rightarrow> subsystem_health prog" where
  "checkUps reading =
     (case reading of
        Inl failure \<Rightarrow> Ret (report ''ups'' SevOk (UPS_UNAVAILABLE_DETAIL @ '' ('' @ failure @ '').''))
      | Inr devices \<Rightarrow> bind (decode (dec_list dec_ups devices)) (\<lambda>ds. Ret (ups_report (reporting_ups ds))))"

definition updates_report :: "jsval list \<Rightarrow> subsystem_health" where
  "updates_report containers =
     (let pending = length (filter (\<lambda>c. getp c ''isUpdateAvailable'' = JBool True) containers)
      in if pending = 0 then report ''docker'' SevOk ''All container images current.''
         else report ''docker'' SevWarning (show_nat pending @ '' container update(s) available (docker_container_update).''))"

definition checkDockerUpdates :: "jsval \<Rightarrow> subsystem_health prog" where
  "checkDockerUpdates data =
     bind (bind (path data [''docker'', ''containers'']) objects) (\<lambda>containers. Ret (updates_report containers))"

section \<open>The rollup\<close>

definition worstSeverity :: "subsystem_health list \<Rightarrow> severity" where
  "worstSeverity reports =
     foldl (\<lambda>worst r. if SEVERITY_RANK (severity r) > SEVERITY_RANK worst then severity r else worst) SevOk reports"

definition check_mark :: string where "check_mark = [CHR 0xE2, CHR 0x9C, CHR 0x93]"
definition warn_mark :: string where "warn_mark = [CHR 0xE2, CHR 0x9A, CHR 0xA0]"

definition health_summarize :: "severity \<Rightarrow> subsystem_health list \<Rightarrow> string" where
  "health_summarize overall reports =
     join nl ((''OVERALL: '' @ to_upper (severity_text overall)) #
       map (\<lambda>r. (if severity r = SevOk then check_mark else warn_mark) @ '' '' @ subsystem r @ '': '' @ detail r) reports)"

text \<open>The checks in the order of the literal; the first that throws ends the rollup.\<close>

definition health_checks :: "jsval \<Rightarrow> string + jsval \<Rightarrow> subsystem_health list prog" where
  "health_checks data ups =
     bind (prop_of data ''array'') (\<lambda>array.
       map_prog (\<lambda>c. c) [checkArrayState array, checkCapacity array, checkDisks array, checkParity array,
                         checkNotifications data, checkUps ups, checkDockerUpdates data])"

text \<open>
  \<open>Promise.all\<close> starts both reads before it waits for either; when the first one fails the
  report does.
\<close>

definition runSystemHealth :: "(severity \<times> subsystem_health list) prog" where
  "runSystemHealth =
     bind (attempt (execute_gql SystemHealthDocument JUndef)) (\<lambda>reply.
     bind readUps (\<lambda>ups.
     bind (of_sum reply) (\<lambda>data.
     bind (health_checks data ups) (\<lambda>reports. Ret (worstSeverity reports, reports)))))"

definition report_json :: "subsystem_health \<Rightarrow> jsval" where
  "report_json r = JObj [(''subsystem'', JStr (subsystem r)), (''severity'', JStr (severity_text (severity r))), (''detail'', JStr (detail r))]"

definition health_json :: "severity \<Rightarrow> subsystem_health list \<Rightarrow> jsval" where
  "health_json overall reports = JObj [(''overall'', JStr (severity_text overall)), (''subsystems'', JArr (map report_json reports))]"

definition systemHealthHandler :: "response_format \<Rightarrow> tool_result prog" where
  "systemHealthHandler format =
     failing_with ''Failed to compute system health: ''
       (bind runSystemHealth (\<lambda>(overall, reports).
          formatStructuredResponse format (health_summarize overall reports) (health_json overall reports)))"

section \<open>The verdict\<close>

text \<open>The reduction is the maximum of the severities.\<close>

lemma worst_fold:
  "foldl (\<lambda>worst r. if SEVERITY_RANK (severity r) > SEVERITY_RANK worst then severity r else worst) s rs =
     Max (insert s (severity ` set rs))"
proof (induction rs arbitrary: s)
  case (Cons r rs)
  have "(if SEVERITY_RANK (severity r) > SEVERITY_RANK s then severity r else s) = max s (severity r)"
    by (auto simp: max_def less_eq_severity_def SEVERITY_RANK_def split: severity.splits)
  with Cons [of "max s (severity r)"] show ?case
    by (cases "rs = []") (simp_all add: max.assoc)
qed simp

lemma worstSeverity_Max: "worstSeverity rs = Max (insert SevOk (severity ` set rs))"
  unfolding worstSeverity_def by (rule worst_fold)

lemma worstSeverity_upper: "r \<in> set rs \<Longrightarrow> severity r \<le> worstSeverity rs"
  by (simp add: worstSeverity_Max)

lemma worstSeverity_reached: "worstSeverity rs = SevOk \<or> (\<exists>r \<in> set rs. severity r = worstSeverity rs)"
proof -
  have "worstSeverity rs \<in> insert SevOk (severity ` set rs)"
    unfolding worstSeverity_Max by (rule Max_in) auto
  then show ?thesis by (metis imageE insertE)
qed

lemma severity_bounds: "SevOk \<le> s" "s \<le> SevCritical" "SevCritical \<le> s \<longleftrightarrow> s = SevCritical" "s \<le> SevOk \<longleftrightarrow> s = SevOk"
  by (cases s; simp add: less_eq_severity_def SEVERITY_RANK_def)+

text \<open>A reading that fails leaves the report to the other subsystems.\<close>

lemma ups_failure_ok: "checkUps (Inl failure) = Ret (report ''ups'' SevOk (UPS_UNAVAILABLE_DETAIL @ '' ('' @ failure @ '').''))"
  by (simp add: checkUps_def)

lemma disks_report_critical:
  "severity (disks_report disks) = SevCritical \<longleftrightarrow> (\<exists>d \<in> set disks. diskSeverity d = SevCritical)"
  by (auto simp: disks_report_def disk_problems_def Let_def image_iff filter_empty_conv) (metis severity.distinct(3))+

lemma disks_report_ok: "severity (disks_report disks) = SevOk \<longleftrightarrow> (\<forall>d \<in> set disks. diskSeverity d = SevOk)"
  by (auto simp: disks_report_def disk_problems_def Let_def filter_empty_conv)

lemma disks_report_upper:
  assumes "d \<in> set disks"
  shows "diskSeverity d \<le> severity (disks_report disks)"
proof (cases "severity (disks_report disks)")
  case SevOk
  with assms disks_report_ok [of disks] show ?thesis by simp
next
  case SevWarning
  with assms disks_report_critical [of disks] have "diskSeverity d \<noteq> SevCritical" by auto
  with SevWarning show ?thesis by (cases "diskSeverity d") (simp_all add: less_eq_severity_def SEVERITY_RANK_def)
next
  case SevCritical
  then show ?thesis by (simp add: severity_bounds(2))
qed

lemma map_prog_returns:
  "run w tr (map_prog (\<lambda>c. c) (c # cs)) = (Inr xs, tr') \<longleftrightarrow>
     (\<exists>y ys tr1. run w tr c = (Inr y, tr1) \<and> run w tr1 (map_prog (\<lambda>c. c) cs) = (Inr ys, tr') \<and> xs = y # ys)"
  by (auto simp: run_bind_returns)

lemma emits_checks [emits_intros]:
  "emits P (checkArrayState a)" "emits P (checkCapacity a)" "emits P (checkDisks a)" "emits P (checkParity a)"
  "emits P (checkNotifications a)" "emits P (checkUps u)" "emits P (checkDockerUpdates a)"
  unfolding checkArrayState_def checkCapacity_def checkDisks_def checkParity_def checkNotifications_def checkUps_def checkDockerUpdates_def
  by (intro emits_intros)+

lemma emits_health_checks [emits_intros]: "emits P (health_checks data ups)"
  unfolding health_checks_def map_prog.simps by (intro emits_intros)

lemma health_reads: "emits reads_only (systemHealthHandler format)"
  unfolding systemHealthHandler_def runSystemHealth_def readUps_def case_prod_beta by (intro emits_intros; simp)

text \<open>The disks of an answer, when it has the declared shape.\<close>

definition answer_disks :: "jsval \<Rightarrow> jsval list" where
  "answer_disks data =
     concat (map (\<lambda>k. case getp (getp data ''array'') k of JArr xs \<Rightarrow> xs | _ \<Rightarrow> []) [''parities'', ''disks'', ''caches''])"

lemma run_objects: "run w tr (objects v) = (Inr xs, tr') \<Longrightarrow> v = JArr xs \<and> tr' = tr"
  by (auto simp: objects_def run_decode split: jsval.splits if_splits)

lemma run_checkDisks:
  "run w tr (checkDisks a) = (Inr r, tr') \<Longrightarrow> r = disks_report (concat (map (\<lambda>k. case getp a k of JArr xs \<Rightarrow> xs | _ \<Rightarrow> []) [''parities'', ''disks'', ''caches'']))"
  by (auto simp: checkDisks_def run_bind_returns run_prop_of dest!: run_objects split: if_splits)

lemma health_checks_disks:
  assumes "run w tr (health_checks data ups) = (Inr rs, tr')"
  shows "disks_report (answer_disks data) \<in> set rs"
  using assms unfolding health_checks_def run_bind_returns map_prog_returns
  by (auto simp: run_prop_of answer_disks_def dest!: run_checkDisks split: if_splits)

text \<open>No disk is worse than the verdict.\<close>

lemma health_covers_disks:
  assumes "run w tr runSystemHealth = (Inr (overall, rs), tr')" "w_gql w tr SystemHealthDocument JUndef = Inr data"
    and "d \<in> set (answer_disks data)"
  shows "overall = worstSeverity rs \<and> diskSeverity d \<le> overall"
proof -
  from assms(1,2) obtain ups tr1 where "run w tr1 (health_checks data ups) = (Inr rs, tr')" "overall = worstSeverity rs"
    by (auto simp: runSystemHealth_def run_bind_returns run_attempt run_execute_gql run_of_sum)
  with worstSeverity_upper [OF health_checks_disks [OF this(1)]] disks_report_upper [OF assms(3)]
  show ?thesis by (simp add: order_trans)
qed

end
