(* ===== verification/SystemTools.thy ===== *)
theory SystemTools
  imports ListTools ZfsTools RateLimit
begin

text \<open>
  The remaining reports of \<open>src/tools/system/\<close>: \<open>system_info\<close>, \<open>system_metrics\<close>, \<open>process_list\<close> and
  \<open>connection_doctor\<close>. The clock and the age the snapshot cache stamps on a payload are arguments.
\<close>

section \<open>system\_info\<close>

definition first_present :: "jsval \<Rightarrow> string list \<Rightarrow> string \<Rightarrow> string" where
  "first_present v ks d = display (foldr (\<lambda>k r. coalesce (getp v k) r) ks (JStr d))"

definition system_info_summarize :: "jsval \<Rightarrow> jsval \<Rightarrow> string" where
  "system_info_summarize os cpu =
     (let osPart = trim (shown_or os ''distro'' ''Unraid'' @ '' '' @ shown_or os ''release'' []);
          cpuPart = first_present cpu [''brand'', ''manufacturer''] ''CPU'' @ '' ('' @ shown_or cpu ''cores'' ''?'' @ ''C/'' @ shown_or cpu ''threads'' ''?'' @ ''T)''
      in osPart @ '', kernel '' @ shown_or os ''kernel'' ''?'' @ '', host '' @ shown_or os ''hostname'' ''?'' @ ''. '' @ cpuPart @ ''.'')"

text \<open>A value whose properties are read: not null, not undefined.\<close>

definition readable :: "jsval \<Rightarrow> jsval prog" where
  "readable v = decode (if nullish v then None else Some v)"

definition systemInfoHandler :: "response_format \<Rightarrow> tool_result prog" where
  "systemInfoHandler format =
     failing_with ''Failed to fetch system info: ''
       (bind (execute_gql SystemInfoDocument JUndef) (\<lambda>data.
        bind (bind (path data [''info'', ''os'']) readable) (\<lambda>os.
        bind (bind (path data [''info'', ''cpu'']) readable) (\<lambda>cpu.
          formatResponse format (system_info_summarize os cpu) data))))"

section \<open>system\_metrics\<close>

definition TEMPERATURE_DECIMALS :: nat where "TEMPERATURE_DECIMALS = 1"
definition PERCENT_DECIMALS :: nat where "PERCENT_DECIMALS = 0"
definition OPERSTATE_UP :: string where "OPERSTATE_UP = ''up''"
definition UNKNOWN_UNIT_SUFFIX :: string where "UNKNOWN_UNIT_SUFFIX = ''?''"

definition UNIT_SUFFIXES :: "(string \<times> string) list" where
  "UNIT_SUFFIXES = [(''CELSIUS'', ''C''), (''FAHRENHEIT'', ''F''), (''KELVIN'', ''K''), (''RANKINE'', ''R'')]"

definition unitSuffix :: "string \<Rightarrow> string" where
  "unitSuffix unit = (case map_of UNIT_SUFFIXES unit of None \<Rightarrow> UNKNOWN_UNIT_SUFFIX | Some s \<Rightarrow> s)"

definition timeLine :: "jsval \<Rightarrow> string prog" where
  "timeLine time =
     bind (readable time) (\<lambda>t.
       Ret (''As of '' @ shown t ''currentTime'' @ '' ('' @ shown t ''timeZone'' @ '', NTP '' @ (if truthy (getp t ''useNtp'') then ''on'' else ''off'') @ ''):''))"

definition cpuLine :: "jsval \<Rightarrow> string prog" where
  "cpuLine cpu =
     (if \<not> truthy cpu then Ret ''CPU: unavailable''
      else bind (decode (dec_list (\<lambda>core. dec_number (getp core ''percentTotal'')) (getp cpu ''cpus''))) (\<lambda>loads.
           bind (number_at cpu ''percentTotal'') (\<lambda>load.
             (let threads = length loads;
                  busiestNote = (if threads > 0 then '' (busiest '' @ to_fixed PERCENT_DECIMALS (foldr max loads (hd loads)) @ ''%)'' else [])
              in Ret (''CPU: '' @ to_fixed PERCENT_DECIMALS load @ ''% total, '' @ show_nat threads @ '' threads'' @ busiestNote)))))"

definition memoryLine :: "jsval \<Rightarrow> string prog" where
  "memoryLine memory =
     (if \<not> truthy memory then Ret ''Memory: unavailable''
      else bind (number_at memory ''percentSwapTotal'') (\<lambda>swap.
           bind (number_at memory ''percentTotal'') (\<lambda>percent.
             Ret (''Memory: '' @ to_fixed PERCENT_DECIMALS percent @ ''% used '' @ mdash @ '' '' @
                  humanizeBytes (Finite (value_number (getp memory ''available''))) @ '' available of '' @
                  humanizeBytes (Finite (value_number (getp memory ''total''))) @ '' (swap '' @ to_fixed PERCENT_DECIMALS swap @ ''%)''))))"

definition PLAUSIBLE_RANGES :: "(string \<times> rat \<times> rat) list" where
  "PLAUSIBLE_RANGES = [(''CELSIUS'', - 60, 150), (''FAHRENHEIT'', - 76, 302), (''KELVIN'', 213, 423), (''RANKINE'', 383, 762)]"

record sensor =
  sn_name :: string
  sn_value :: rat
  sn_unit :: string
  sn_status :: jsval

definition dec_sensor :: "jsval \<Rightarrow> sensor option" where
  "dec_sensor v =
     (let c = getp v ''current''
      in case (dec_number (getp c ''value''), dec_str (getp c ''unit'')) of
           (Some q, Some u) \<Rightarrow> Some \<lparr>sn_name = shown v ''name'', sn_value = q, sn_unit = u, sn_status = getp c ''status''\<rparr>
         | _ \<Rightarrow> None)"

definition isPlausibleTemperature :: "sensor \<Rightarrow> bool" where
  "isPlausibleTemperature s =
     (case map_of PLAUSIBLE_RANGES (sn_unit s) of
        None \<Rightarrow> True
      | Some (low, high) \<Rightarrow> low \<le> sn_value s \<and> sn_value s \<le> high)"

definition hottest_of :: "sensor list \<Rightarrow> sensor" where
  "hottest_of ss = foldl (\<lambda>a b. if sn_value b > sn_value a then b else a) (hd ss) (tl ss)"

definition count_status :: "string \<Rightarrow> sensor list \<Rightarrow> nat" where
  "count_status t ss = length (filter (\<lambda>s. sn_status s = JStr t) ss)"

definition renderTemperatureSummary :: "sensor list \<Rightarrow> nat \<Rightarrow> string" where
  "renderTemperatureSummary plausible ignored =
     (let hottest = hottest_of plausible;
          unit = unitSuffix (sn_unit hottest);
          note = (if ignored > 0 then '' ('' @ show_nat ignored @ '' non-temperature sensor(s) ignored)'' else [])
      in ''Temperature: avg '' @ to_fixed TEMPERATURE_DECIMALS ((\<Sum>s\<leftarrow>plausible. sn_value s) / of_nat (length plausible)) @ degree @ unit @
         '' '' @ mdash @ '' '' @ show_nat (count_status ''WARNING'' plausible) @ '' warning, '' @ show_nat (count_status ''CRITICAL'' plausible) @
         '' critical (hottest: '' @ sn_name hottest @ '' '' @ to_fixed TEMPERATURE_DECIMALS (sn_value hottest) @ degree @ unit @ '')'' @ note)"

definition temperatures_text :: "sensor list \<Rightarrow> string" where
  "temperatures_text sensors =
     (let plausible = filter isPlausibleTemperature sensors
      in if length plausible = 0
         then ''Temperature: no plausible readings ('' @ show_nat (length sensors) @ '' sensor(s) reported out-of-range values, likely energy or power meters).''
         else renderTemperatureSummary plausible (length sensors - length plausible))"

text \<open>\<open>None\<close>: the section was not requested.\<close>

definition temperatureLine :: "jsval \<Rightarrow> bool \<Rightarrow> string option prog" where
  "temperatureLine metrics included =
     (if \<not> included then Ret None
      else bind (prop_of metrics ''temperature'') (\<lambda>temperature.
        if \<not> truthy temperature then Ret (Some ''Temperature: unavailable (no sensors or collection disabled)'')
        else bind (decode (dec_list dec_sensor (getp temperature ''sensors''))) (\<lambda>sensors. Ret (Some (temperatures_text sensors)))))"

definition interfaceSummary :: "jsval \<Rightarrow> string" where
  "interfaceSummary iface =
     (let errors = value_number (getp iface ''receiveErrors'') + value_number (getp iface ''transmitErrors'')
      in shown iface ''name'' @ '' up '' @ mdash @ '' rx '' @ humanizeBytes (value_size (getp iface ''rxSec'')) @ ''/s, tx '' @
         humanizeBytes (value_size (getp iface ''txSec'')) @ ''/s, '' @ num_text errors @ '' errors'')"

definition network_text :: "jsval list \<Rightarrow> string" where
  "network_text network =
     (if length network = 0 then ''Network: no interfaces reported''
      else (let up = filter (\<lambda>i. getp i ''operstate'' = JStr OPERSTATE_UP) network;
                others = length network - length up
            in if length up = 0 then ''Network: no interfaces up ('' @ show_nat (length network) @ '' reported)''
               else ''Network: '' @ join ''; '' (map interfaceSummary up) @
                    (if others > 0 then '' ('' @ show_nat others @ '' not up omitted)'' else [])))"

definition metrics_summarize :: "jsval \<Rightarrow> bool \<Rightarrow> string prog" where
  "metrics_summarize data includeTemperature =
     bind (bind (prop_of data ''systemTime'') timeLine) (\<lambda>l1.
     bind (bind (path data [''metrics'', ''cpu'']) cpuLine) (\<lambda>l2.
     bind (bind (path data [''metrics'', ''memory'']) memoryLine) (\<lambda>l3.
     bind (temperatureLine (getp data ''metrics'') includeTemperature) (\<lambda>l4.
     bind (bind (path data [''metrics'', ''network'']) objects) (\<lambda>network.
       Ret (join nl ([l1, l2, l3] @ (case l4 of None \<Rightarrow> [] | Some l \<Rightarrow> [l]) @ [network_text network])))))))"

text \<open>\<open>{ ...data, data_age_ms }\<close>.\<close>

definition with_age :: "jsval \<Rightarrow> int \<Rightarrow> jsval" where
  "with_age data age = (case data of JObj ms \<Rightarrow> JObj (upsert ''data_age_ms'' (JInt age) ms) | _ \<Rightarrow> JObj [(''data_age_ms'', JInt age)])"

definition metrics_variables :: "bool \<Rightarrow> jsval" where
  "metrics_variables includeTemperature = JObj [(''includeTemperature'', JBool includeTemperature)]"

definition systemMetricsHandler :: "(jsval \<Rightarrow> int option) \<Rightarrow> response_format \<Rightarrow> bool \<Rightarrow> tool_result prog" where
  "systemMetricsHandler cacheAgeMs format includeTemperature =
     failing_with ''Failed to fetch system metrics: ''
       (bind (execute_gql SystemMetricsDocument (metrics_variables includeTemperature)) (\<lambda>data.
        bind (metrics_summarize data includeTemperature) (\<lambda>summary.
          formatStructuredResponse format summary
            (with_age data (case cacheAgeMs data of None \<Rightarrow> 0 | Some a \<Rightarrow> a)))))"

section \<open>process\_list\<close>

definition process_TIMEOUT_MS :: int where "process_TIMEOUT_MS = 20000"

datatype process_sort = SortCpu | SortMemory

definition sort_text :: "process_sort \<Rightarrow> string" where
  "sort_text s = (case s of SortCpu \<Rightarrow> ''cpu'' | SortMemory \<Rightarrow> ''memory'')"

definition SORT_KEYS :: "process_sort \<Rightarrow> string" where
  "SORT_KEYS s = (case s of SortCpu \<Rightarrow> ''-pcpu'' | SortMemory \<Rightarrow> ''-pmem'')"

record process_row =
  pw_pid :: js_num
  pw_cpu :: js_num
  pw_memory :: js_num
  pw_resident :: js_num
  pw_elapsed :: "string option"
  pw_command :: string

definition parseProcess :: "string \<Rightarrow> process_row" where
  "parseProcess line =
     (let cols = split_spaces (trim line)
      in \<lparr>pw_pid = column_number cols 0, pw_cpu = column_number cols 1, pw_memory = column_number cols 2,
          pw_resident = column_number cols 3, pw_elapsed = column cols 4, pw_command = join '' '' (drop 5 cols)\<rparr>)"

definition parseProcesses :: "string \<Rightarrow> process_row list" where
  "parseProcesses out = map parseProcess (filter (\<lambda>line. length (trim line) > 0) (drop 1 (split_on nl out)))"

definition show_num :: "js_num \<Rightarrow> string" where
  "show_num n = (case n of Finite q \<Rightarrow> num_text q | NonFinite \<Rightarrow> ''NaN'')"

definition process_summarize :: "process_row list \<Rightarrow> process_sort \<Rightarrow> string" where
  "process_summarize ps sortBy =
     join nl ((''Top '' @ show_nat (length ps) @ '' processes by '' @ sort_text sortBy @ '':'') #
       map (\<lambda>p. ''- '' @ pw_command p @ '' (pid '' @ show_num (pw_pid p) @ ''): '' @ show_num (pw_cpu p) @ ''% CPU, '' @
                show_num (pw_memory p) @ ''% mem, up '' @ show_opt (pw_elapsed p)) ps)"

definition process_json :: "process_row \<Rightarrow> jsval" where
  "process_json p =
     JObj [(''pid'', js_num_json (pw_pid p)), (''cpuPercent'', js_num_json (pw_cpu p)), (''memoryPercent'', js_num_json (pw_memory p)),
           (''residentKib'', js_num_json (pw_resident p)), (''elapsed'', js_string_opt (pw_elapsed p)), (''command'', JStr (pw_command p))]"

definition process_command :: "process_sort \<Rightarrow> nat \<Rightarrow> string" where
  "process_command sortBy rows = ''ps axo pid,pcpu,pmem,rss,etime,comm --sort='' @ SORT_KEYS sortBy @ '' | head -n '' @ show_nat (rows + 1)"

definition processListHandler :: "bool \<Rightarrow> response_format \<Rightarrow> process_sort \<Rightarrow> nat \<Rightarrow> tool_result prog" where
  "processListHandler shell format sortBy rows =
     with_shell shell
       (failing_with ''Failed to list processes over SSH: ''
         (bind (execute_shell (process_command sortBy rows) process_TIMEOUT_MS) (\<lambda>res.
            if exitCode res \<noteq> 0
            then toolError (''ps failed (exit '' @ show_int (exitCode res) @ ''): '' @ trim (stderr res))
            else (let ps = parseProcesses (stdout res)
                  in formatResponse format (process_summarize ps sortBy)
                       (JObj [(''sort_by'', JStr (sort_text sortBy)), (''processes'', JArr (map process_json ps))])))))"

section \<open>What these read\<close>

lemma emits_readable [emits_intros]: "emits P (readable v)"
  by (simp add: readable_def emits_decode)

lemma emits_metrics_summarize [emits_intros]: "emits P (metrics_summarize data t)"
  unfolding metrics_summarize_def timeLine_def cpuLine_def memoryLine_def temperatureLine_def Let_def
  by (intro emits_intros)

lemma system_reads:
  "emits reads_only (systemInfoHandler f)" "emits reads_only (systemMetricsHandler age f t)"
  "emits (runs_only (\<lambda>c. c = process_command s n)) (processListHandler shell f s n)"
  unfolding systemInfoHandler_def systemMetricsHandler_def processListHandler_def Let_def
  by (intro emits_intros; simp)+

section \<open>Temperatures\<close>

lemma hottest_fold:
  "(let h = foldl (\<lambda>a b. if sn_value b > sn_value a then b else a) a ss
    in h \<in> insert a (set ss) \<and> (\<forall>s \<in> insert a (set ss). sn_value s \<le> sn_value h))"
proof (induction ss arbitrary: a)
  case (Cons b ss)
  show ?case
    using Cons [of "if sn_value b > sn_value a then b else a"] by (auto simp: Let_def split: if_splits)
qed simp

lemma hottest_of_max:
  assumes "ss \<noteq> []"
  shows "hottest_of ss \<in> set ss \<and> (\<forall>s \<in> set ss. sn_value s \<le> sn_value (hottest_of ss))"
  using assms hottest_fold [of "hd ss" "tl ss"] by (cases ss) (simp_all add: hottest_of_def Let_def)

lemma plausible_within:
  "isPlausibleTemperature s \<Longrightarrow> sn_unit s = ''CELSIUS'' \<Longrightarrow> - 60 \<le> sn_value s \<and> sn_value s \<le> 150"
  by (simp add: isPlausibleTemperature_def PLAUSIBLE_RANGES_def)

end
