(* ===== verification/GpuTools.thy ===== *)
theory GpuTools
  imports Reading ZfsTools SystemTools
begin

text \<open>
  The \<open>gpu_metrics\<close> tool (\<open>src/tools/system/gpu-metrics.ts\<close>): nvidia-smi rows, or the last complete
  object of an intel_gpu_top stream that was cut off, sliced out by a scan over the braces.
\<close>

section \<open>Commands\<close>

definition gpu_PROBE_TIMEOUT_MS :: int where "gpu_PROBE_TIMEOUT_MS = 10000"
definition QUERY_TIMEOUT_MS :: int where "QUERY_TIMEOUT_MS = 20000"

definition NVIDIA_QUERY :: string where
  "NVIDIA_QUERY = ''nvidia-smi --query-gpu=name,utilization.gpu,memory.used,memory.total,temperature.gpu,power.draw --format=csv,noheader,nounits''"

definition INTEL_SAMPLE :: string where "INTEL_SAMPLE = ''timeout 3 intel_gpu_top -J 2>/dev/null''"

definition probe_command :: "string \<Rightarrow> string" where "probe_command binary = ''command -v '' @ binary"

definition hasCommand :: "string \<Rightarrow> bool prog" where
  "hasCommand binary = bind (execute_shell (probe_command binary) gpu_PROBE_TIMEOUT_MS) (\<lambda>probe. Ret (exitCode probe = 0))"

section \<open>NVIDIA\<close>

record nvidia_gpu =
  nv_name :: string
  nv_utilization :: js_num
  nv_memory_used :: js_num
  nv_memory_total :: js_num
  nv_temperature :: js_num
  nv_power_draw :: js_num

definition parseNvidia :: "string \<Rightarrow> nvidia_gpu list" where
  "parseNvidia out =
     map (\<lambda>line. let cols = map trim (split_on '','' line)
                 in \<lparr>nv_name = hd cols, nv_utilization = column_number cols 1, nv_memory_used = column_number cols 2,
                    nv_memory_total = column_number cols 3, nv_temperature = column_number cols 4, nv_power_draw = column_number cols 5\<rparr>)
         (content_lines out)"

definition summarizeNvidia :: "nvidia_gpu list \<Rightarrow> string" where
  "summarizeNvidia gpus =
     join nl ((show_nat (length gpus) @ '' NVIDIA GPU(s):'') #
       map (\<lambda>g. ''- '' @ nv_name g @ '': '' @ show_num (nv_utilization g) @ ''% util, '' @ show_num (nv_memory_used g) @ ''/'' @
                show_num (nv_memory_total g) @ '' MiB VRAM, '' @ show_num (nv_temperature g) @ degree @ ''C, '' @ show_num (nv_power_draw g) @ '' W'') gpus)"

definition nvidia_json :: "nvidia_gpu \<Rightarrow> jsval" where
  "nvidia_json g =
     JObj [(''name'', JStr (nv_name g)), (''utilizationPercent'', js_num_json (nv_utilization g)), (''memoryUsedMib'', js_num_json (nv_memory_used g)),
           (''memoryTotalMib'', js_num_json (nv_memory_total g)), (''temperatureCelsius'', js_num_json (nv_temperature g)),
           (''powerDrawWatts'', js_num_json (nv_power_draw g))]"

definition readNvidia :: "response_format \<Rightarrow> tool_result prog" where
  "readNvidia format =
     bind (execute_shell NVIDIA_QUERY QUERY_TIMEOUT_MS) (\<lambda>res.
       if exitCode res \<noteq> 0
       then toolError (''nvidia-smi failed (exit '' @ show_int (exitCode res) @ ''): '' @ trim (stderr res))
       else (let gpus = parseNvidia (stdout res)
             in formatResponse format (summarizeNvidia gpus) (JObj [(''vendor'', JStr ''nvidia''), (''gpus'', JArr (map nvidia_json gpus))])))"

section \<open>The brace scan\<close>

record brace_scan =
  depth :: nat
  inString :: bool
  escaped :: bool
  objectStart :: nat

definition scan_start :: brace_scan where
  "scan_start = \<lparr>depth = 0, inString = False, escaped = False, objectStart = 0\<rparr>"

text \<open>\<open>True\<close>: a top-level object (or a stray brace) closes here.\<close>

definition closeBrace :: "brace_scan \<Rightarrow> brace_scan \<times> bool" where
  "closeBrace s = (let d = depth s - 1 in (s\<lparr>depth := d\<rparr>, d = 0))"

definition scanCharacter :: "brace_scan \<Rightarrow> char \<Rightarrow> nat \<Rightarrow> brace_scan \<times> bool" where
  "scanCharacter s c index =
     (if inString s then
        (let esc = (\<not> escaped s \<and> c = CHR 0x5C)
         in (s\<lparr>escaped := esc, inString := \<not> (c = CHR 0x22 \<and> \<not> esc)\<rparr>, False))
      else if c = CHR 0x22 then (s\<lparr>inString := True\<rparr>, False)
      else if c = CHR ''{'' then
        (s\<lparr>objectStart := (if depth s = 0 then index else objectStart s), depth := depth s + 1\<rparr>, False)
      else if c = CHR ''}'' then closeBrace s
      else (s, False))"

text \<open>\<open>raw.slice(from, to)\<close>.\<close>

definition slice :: "string \<Rightarrow> nat \<Rightarrow> nat \<Rightarrow> string" where
  "slice raw i j = drop i (take j raw)"

text \<open>The loop over the rest of the text from a position; the texts sliced out.\<close>

fun scan_from :: "string \<Rightarrow> brace_scan \<Rightarrow> nat \<Rightarrow> string \<Rightarrow> string list" where
  "scan_from raw s i [] = []"
| "scan_from raw s i (c # cs) =
     (case scanCharacter s c i of
        (s', done_here) \<Rightarrow> (if done_here then [slice raw (objectStart s') (i + 1)] else []) @ scan_from raw s' (i + 1) cs)"

definition parseJsonOrNull :: "string \<Rightarrow> jsval" where
  "parseJsonOrNull t = (case json_parse t of None \<Rightarrow> JNull | Some v \<Rightarrow> v)"

definition parseIntelObjects :: "string \<Rightarrow> jsval list" where
  "parseIntelObjects raw = filter (\<lambda>v. v \<noteq> JNull) (map parseJsonOrNull (scan_from raw scan_start 0 raw))"

section \<open>Intel\<close>

record intel_sample =
  frequencyMhz :: "rat option"
  rc6Percent :: "rat option"
  engines :: "(string \<times> rat) list"
  gpu_clients :: "(string \<times> string) list"

definition gpu_isRecord :: "jsval \<Rightarrow> bool" where
  "gpu_isRecord v = (case v of JObj ms \<Rightarrow> True | _ \<Rightarrow> False)"

text \<open>\<open>Number(v)\<close> of a payload value; arrays and objects other than the plain ones give NaN here.\<close>

definition number_of :: "jsval \<Rightarrow> js_num" where
  "number_of v =
     (case v of
        JNum q \<Rightarrow> Finite q | JStr s \<Rightarrow> js_number s | JBool b \<Rightarrow> Finite (if b then 1 else 0)
      | JNull \<Rightarrow> Finite 0 | JUndef \<Rightarrow> NonFinite | JArr xs \<Rightarrow> js_number (display (JArr xs)) | JObj ms \<Rightarrow> NonFinite)"

definition nestedNumber :: "jsval \<Rightarrow> string \<Rightarrow> string \<Rightarrow> rat option" where
  "nestedNumber v k name =
     (if gpu_isRecord (getp v k)
      then (case number_of (getp (getp v k) name) of Finite q \<Rightarrow> Some q | NonFinite \<Rightarrow> None) else None)"

definition parseEngines :: "jsval \<Rightarrow> (string \<times> rat) list" where
  "parseEngines v =
     (case v of
        JObj ms \<Rightarrow> map (\<lambda>(n, e). (n, if gpu_isRecord e then (case number_of (getp e ''busy'') of Finite q \<Rightarrow> q | NonFinite \<Rightarrow> 0) else 0)) ms
      | _ \<Rightarrow> [])"

definition parseClients :: "jsval \<Rightarrow> (string \<times> string) list" where
  "parseClients v =
     (case v of
        JObj ms \<Rightarrow> map (\<lambda>c. (shown_or c ''name'' ''?'', shown_or c ''pid'' ''?'')) (filter gpu_isRecord (map snd ms))
      | _ \<Rightarrow> [])"

definition parseIntelSample :: "string \<Rightarrow> intel_sample option" where
  "parseIntelSample raw =
     (case rev (parseIntelObjects raw) of
        [] \<Rightarrow> None
      | last_object # older \<Rightarrow>
          if \<not> gpu_isRecord last_object then None
          else Some \<lparr>frequencyMhz = nestedNumber last_object ''frequency'' ''actual'', rc6Percent = nestedNumber last_object ''rc6'' ''value'',
                     engines = parseEngines (getp last_object ''engines''), gpu_clients = parseClients (getp last_object ''clients'')\<rparr>)"

definition or_else_text :: "string \<Rightarrow> string \<Rightarrow> string" where
  "or_else_text a b = (if a = [] then b else a)"

definition summarizeIntel :: "intel_sample \<Rightarrow> string" where
  "summarizeIntel s =
     (let frequency = (case frequencyMhz s of None \<Rightarrow> ''? MHz'' | Some q \<Rightarrow> show_int (math_round q) @ '' MHz'');
          rc6 = (case rc6Percent s of None \<Rightarrow> [] | Some q \<Rightarrow> '', rc6 '' @ show_int (math_round q) @ ''% idle'');
          es = join '', '' (map (\<lambda>(n, b). n @ '' '' @ to_fixed 1 b @ ''% busy'') (engines s));
          cs = join '', '' (map (\<lambda>(n, p). n @ '' (pid '' @ p @ '')'') (gpu_clients s))
      in ''Intel GPU (intel_gpu_top): '' @ frequency @ '' actual'' @ rc6 @ ''; engines: '' @ or_else_text es ''none reported'' @
         ''; clients: '' @ or_else_text cs ''none'')"

definition js_null_rat :: "rat option \<Rightarrow> jsval" where
  "js_null_rat q = (case q of None \<Rightarrow> JNull | Some x \<Rightarrow> JNum x)"

definition sample_json :: "intel_sample \<Rightarrow> jsval" where
  "sample_json s =
     JObj [(''frequencyMhz'', js_null_rat (frequencyMhz s)), (''rc6Percent'', js_null_rat (rc6Percent s)),
           (''engines'', JArr (map (\<lambda>(n, b). JObj [(''name'', JStr n), (''busyPercent'', JNum b)]) (engines s))),
           (''clients'', JArr (map (\<lambda>(n, p). JObj [(''name'', JStr n), (''pid'', JStr p)]) (gpu_clients s)))]"

definition intel_result :: "response_format \<Rightarrow> string \<Rightarrow> tool_result prog" where
  "intel_result format rawSample =
     (case parseIntelSample rawSample of
        Some s \<Rightarrow> formatResponse format (summarizeIntel s)
          (JObj [(''vendor'', JStr ''intel''), (''sample'', sample_json s), (''rawSample'', JStr rawSample)])
      | None \<Rightarrow> formatResponse format
          (if rawSample \<noteq> [] then ''Intel GPU tooling detected (intel_gpu_top). Raw 3-second sample:'' @ nl @ rawSample
           else ''Intel GPU tooling detected (intel_gpu_top), but the sample returned no data (the tool may need a busier GPU or root).'')
          (JObj [(''vendor'', JStr ''intel''), (''sample'', JNull), (''rawSample'', if rawSample = [] then JNull else JStr rawSample)]))"

definition readIntel :: "response_format \<Rightarrow> tool_result prog" where
  "readIntel format =
     bind (execute_shell INTEL_SAMPLE QUERY_TIMEOUT_MS) (\<lambda>res. intel_result format (truncateOutput (trim (stdout res))))"

definition gpuMetricsHandler :: "bool \<Rightarrow> response_format \<Rightarrow> tool_result prog" where
  "gpuMetricsHandler shell format =
     with_shell shell
       (failing_with ''Failed to read GPU metrics over SSH: ''
         (bind (hasCommand ''nvidia-smi'') (\<lambda>nvidia.
            if nvidia then readNvidia format
            else bind (hasCommand ''intel_gpu_top'') (\<lambda>intel.
              if intel then readIntel format
              else toolError ''No GPU tooling found on this server: neither nvidia-smi nor intel_gpu_top is installed. Each ships with its vendor driver plugin (e.g. Nvidia-Driver / Intel-GPU-TOP from Community Applications).''))))"

lemma gpu_events:
  "emits (runs_only (\<lambda>c. c \<in> {probe_command ''nvidia-smi'', probe_command ''intel_gpu_top'', NVIDIA_QUERY, INTEL_SAMPLE})) (gpuMetricsHandler shell f)"
  unfolding gpuMetricsHandler_def hasCommand_def readNvidia_def readIntel_def intel_result_def Let_def
  by (intro emits_intros; simp)

section \<open>An escaped quote ends the string\<close>

text \<open>
  The flag is recomputed before the quote is tested, so at a quote it is always off: the scan
  leaves the string at an escaped quote too.
\<close>

lemma quote_always_closes: "inString s \<Longrightarrow> inString (fst (scanCharacter s (CHR 0x22) i)) = False"
  by (simp add: scanCharacter_def Let_def)

text \<open>So an object the JSON parser accepts can be lost: \<open>{"n":"\"}"}\<close>.\<close>

definition escaped_example :: string where
  "escaped_example = [CHR ''{'', CHR 0x22, CHR ''n'', CHR 0x22, CHR '':'', CHR 0x22, CHR 0x5C, CHR 0x22, CHR ''}'', CHR 0x22, CHR ''}'']"

lemma escaped_quote_loses_object: "json_parse escaped_example \<noteq> None \<and> parseIntelObjects escaped_example = []"
  by code_simp

section \<open>What the scan slices out of a stream\<close>

text \<open>
  Balanced text: plain characters, strings without escapes, and balanced text in braces. A cut
  text is balanced text followed by an unfinished string or an unfinished object.
\<close>

definition plain_char :: "char \<Rightarrow> bool" where
  "plain_char c = (c \<noteq> CHR 0x22 \<and> c \<noteq> CHR ''{'' \<and> c \<noteq> CHR ''}'')"

definition string_char :: "char \<Rightarrow> bool" where
  "string_char c = (c \<noteq> CHR 0x22 \<and> c \<noteq> CHR 0x5C)"

inductive balanced :: "string \<Rightarrow> bool" where
  balanced_Nil: "balanced []"
| balanced_plain: "plain_char c \<Longrightarrow> balanced t \<Longrightarrow> balanced (c # t)"
| balanced_string: "list_all string_char u \<Longrightarrow> balanced t \<Longrightarrow> balanced (CHR 0x22 # u @ CHR 0x22 # t)"
| balanced_object: "balanced a \<Longrightarrow> balanced b \<Longrightarrow> balanced (CHR ''{'' # a @ CHR ''}'' # b)"

inductive cut_text :: "string \<Rightarrow> bool" where
  cut_plain: "balanced t \<Longrightarrow> cut_text t"
| cut_string: "balanced t \<Longrightarrow> list_all string_char u \<Longrightarrow> cut_text (t @ CHR 0x22 # u)"
| cut_object: "balanced t \<Longrightarrow> cut_text a \<Longrightarrow> cut_text (t @ CHR ''{'' # a)"

text \<open>The state while scanning inside an object.\<close>

definition inside :: "nat \<Rightarrow> nat \<Rightarrow> brace_scan" where
  "inside d start = \<lparr>depth = d, inString = False, escaped = False, objectStart = start\<rparr>"

lemma scan_plain: "plain_char c \<Longrightarrow> scan_from raw (inside d st) i (c # t) = scan_from raw (inside d st) (i + 1) t"
  by (simp add: scanCharacter_def plain_char_def inside_def)

lemma scan_string_body:
  "list_all string_char u \<Longrightarrow>
   scan_from raw ((inside d st)\<lparr>inString := True\<rparr>) i (u @ t) = scan_from raw ((inside d st)\<lparr>inString := True\<rparr>) (i + length u) t"
proof (induction u arbitrary: i)
  case (Cons c u)
  then show ?case using Cons.IH [of "i + 1"]
    by (simp add: scanCharacter_def string_char_def inside_def Let_def)
qed simp

lemma scan_string:
  "list_all string_char u \<Longrightarrow>
   scan_from raw (inside d st) i (CHR 0x22 # u @ CHR 0x22 # t) = scan_from raw (inside d st) (i + length u + 2) t"
  using scan_string_body [of u raw d st "i + 1" "CHR 0x22 # t"]
  by (simp add: scanCharacter_def inside_def Let_def)

lemma scan_open: "scan_from raw (inside d st) i (CHR ''{'' # t) = scan_from raw (inside (d + 1) (if d = 0 then i else st)) (i + 1) t"
  by (simp add: scanCharacter_def inside_def)

lemma scan_close:
  "scan_from raw (inside (Suc d) st) i (CHR ''}'' # t) =
     (if d = 0 then [slice raw st (i + 1)] else []) @ scan_from raw (inside d st) (i + 1) t"
  by (simp add: scanCharacter_def closeBrace_def inside_def Let_def)

lemma scan_balanced:
  "balanced t \<Longrightarrow> 0 < d \<Longrightarrow> scan_from raw (inside d st) i (t @ rest) = scan_from raw (inside d st) (i + length t) rest"
proof (induction t arbitrary: d i rest rule: balanced.induct)
  case (balanced_object a b)
  then obtain e where d: "d = Suc e" by (cases d) auto
  have "scan_from raw (inside d st) i ((CHR ''{'' # a @ CHR ''}'' # b) @ rest) =
      scan_from raw (inside (Suc d) st) (i + 1) (a @ CHR ''}'' # b @ rest)"
    using balanced_object.prems by (simp add: scan_open del: scan_from.simps)
  also have "\<dots> = scan_from raw (inside (Suc d) st) (i + 1 + length a) (CHR ''}'' # b @ rest)"
    by (rule balanced_object.IH(1)) simp
  also have "\<dots> = scan_from raw (inside d st) (i + 1 + length a + 1) (b @ rest)"
    by (simp add: scan_close d del: scan_from.simps)
  also have "\<dots> = scan_from raw (inside d st) (i + 1 + length a + 1 + length b) rest"
    using balanced_object.prems by (rule balanced_object.IH(2))
  finally show ?case by (simp add: add.commute add.left_commute)
qed (simp_all add: scan_plain scan_string add.commute add.left_commute del: scan_from.simps)

lemma scan_cut: "cut_text t \<Longrightarrow> 0 < d \<Longrightarrow> scan_from raw (inside d st) i t = []"
proof (induction t arbitrary: d i rule: cut_text.induct)
  case (cut_plain t)
  then show ?case using scan_balanced [of t d raw st i "[]"] by simp
next
  case (cut_string t u)
  have "scan_from raw (inside d st) i (t @ CHR 0x22 # u) = scan_from raw (inside d st) (i + length t) (CHR 0x22 # u)"
    using cut_string by (intro scan_balanced)
  also have "\<dots> = scan_from raw ((inside d st)\<lparr>inString := True\<rparr>) (i + length t + 1) (u @ [])"
    by (simp add: scanCharacter_def inside_def)
  also have "\<dots> = []" unfolding scan_string_body [OF cut_string(2)] by simp
  finally show ?case .
next
  case (cut_object t a)
  have "scan_from raw (inside d st) i (t @ CHR ''{'' # a) = scan_from raw (inside d st) (i + length t) (CHR ''{'' # a)"
    using cut_object by (intro scan_balanced)
  also have "\<dots> = scan_from raw (inside (d + 1) st) (i + length t + 1) a"
    using cut_object by (simp add: scan_open del: scan_from.simps)
  also have "\<dots> = []" by (rule cut_object.IH) simp
  finally show ?case .
qed

lemma scan_separator:
  "list_all plain_char sep \<Longrightarrow> scan_from raw (inside 0 st) i (sep @ t) = scan_from raw (inside 0 st) (i + length sep) t"
proof (induction sep arbitrary: i)
  case (Cons c sep)
  then show ?case using Cons.IH [of "i + 1"] by (simp add: scan_plain del: scan_from.simps)
qed simp

text \<open>A stream: separators and objects, then a separator and a cut object (or nothing).\<close>

definition object_text :: "string \<Rightarrow> string" where "object_text a = ''{'' @ a @ ''}''"

definition stream_text :: "(string \<times> string) list \<Rightarrow> string" where
  "stream_text parts = concat (map (\<lambda>(sep, a). sep @ object_text a) parts)"

definition stream_end :: "string \<Rightarrow> string option \<Rightarrow> string" where
  "stream_end sep rem = sep @ (case rem of None \<Rightarrow> [] | Some a \<Rightarrow> ''{'' @ a)"

lemma scan_object:
  assumes "balanced a" "raw = pre @ object_text a @ rest"
  shows "scan_from raw (inside 0 st) (length pre) (object_text a @ rest) =
    object_text a # scan_from raw (inside 0 (length pre)) (length (pre @ object_text a)) rest"
proof -
  have "scan_from raw (inside 0 st) (length pre) (object_text a @ rest) =
      scan_from raw (inside 1 (length pre)) (length pre + 1) (a @ CHR ''}'' # rest)"
    by (simp add: object_text_def scan_open del: scan_from.simps)
  also have "\<dots> = scan_from raw (inside 1 (length pre)) (length pre + 1 + length a) (CHR ''}'' # rest)"
    by (rule scan_balanced [OF assms(1)]) simp
  also have "\<dots> = slice raw (length pre) (length pre + 1 + length a + 1) #
      scan_from raw (inside 0 (length pre)) (length pre + 1 + length a + 1) rest"
    using scan_close [of raw 0] by (simp del: scan_from.simps)
  finally show ?thesis by (simp add: slice_def object_text_def assms(2) add.commute add.left_commute)
qed

lemma scan_stream:
  assumes "\<forall>(sep, a) \<in> set parts. list_all plain_char sep \<and> balanced a" "list_all plain_char sep" "\<forall>a. rem = Some a \<longrightarrow> cut_text a"
    "raw = pre @ stream_text parts @ stream_end sep rem"
  shows "scan_from raw (inside 0 st) (length pre) (stream_text parts @ stream_end sep rem) = map (object_text \<circ> snd) parts"
  using assms
proof (induction parts arbitrary: pre st)
  case Nil
  have "scan_from raw (inside 0 st) (length pre) (sep @ (case rem of None \<Rightarrow> [] | Some a \<Rightarrow> ''{'' @ a)) =
      scan_from raw (inside 0 st) (length pre + length sep) (case rem of None \<Rightarrow> [] | Some a \<Rightarrow> ''{'' @ a)"
    by (rule scan_separator [OF assms(2)])
  also have "\<dots> = []"
    using Nil(3) by (cases rem) (simp_all add: scan_open scan_cut del: scan_from.simps(2))
  finally show ?case by (simp add: stream_text_def stream_end_def)
next
  case (Cons p parts)
  obtain u a where p: "p = (u, a)" by (cases p)
  let ?rest = "stream_text parts @ stream_end sep rem"
  have ua: "list_all plain_char u" "balanced a" using Cons.prems(1) p by auto
  have raw: "raw = (pre @ u) @ object_text a @ ?rest" using Cons.prems(4) p by (simp add: stream_text_def)
  have "scan_from raw (inside 0 st) (length pre) (u @ object_text a @ ?rest) =
      scan_from raw (inside 0 st) (length (pre @ u)) (object_text a @ ?rest)"
    using scan_separator [OF ua(1)] by simp
  also have "\<dots> = object_text a # scan_from raw (inside 0 (length (pre @ u))) (length ((pre @ u) @ object_text a)) ?rest"
    by (rule scan_object [OF ua(2) raw])
  also have "\<dots> = object_text a # map (object_text \<circ> snd) parts"
    using Cons.IH [of "(pre @ u) @ object_text a"] Cons.prems raw by simp
  finally show ?case by (simp add: p stream_text_def)
qed

lemma stream_objects:
  assumes "\<forall>(sep, a) \<in> set parts. list_all plain_char sep \<and> balanced a" "list_all plain_char sep" "\<forall>a. rem = Some a \<longrightarrow> cut_text a"
  shows "scan_from (stream_text parts @ stream_end sep rem) scan_start 0 (stream_text parts @ stream_end sep rem) = map (object_text \<circ> snd) parts"
  using scan_stream [OF assms, of _ "[]" 0] by (simp add: scan_start_def inside_def)

end
