(* ===== verification/LiveResources.thy ===== *)
theory LiveResources
  imports SubscriptionFeed LiveStore MetricsHistory ToolSupport ShareTools
begin

text \<open>
  The subscribable resources (\<open>src/resources/live-resources.ts\<close>). Each MCP server keeps a map from
  the URIs its client subscribed to the upstream subscriptions behind them; the feed and the store
  are shared with the other servers and the metrics recorder. Shown here: the map and the feed stay
  in step, so nothing leaks when a transport closes, and nobody else's subscription is touched.
\<close>

section \<open>Topics\<close>

definition LOGS_URI_PREFIX :: string where "LOGS_URI_PREFIX = ''unraid://logs/''"

record live_spec =
  ls_topic :: string
  ls_query :: string
  ls_variables :: jsval

definition spec_of :: "string \<Rightarrow> string \<Rightarrow> live_spec" where
  "spec_of topic q = \<lparr>ls_topic = topic, ls_query = q, ls_variables = JUndef\<rparr>"

definition metric_specs :: "live_spec list" where
  "metric_specs = map (\<lambda>t. spec_of (feedTopic (METRIC_SUBSCRIPTIONS t)) (query (METRIC_SUBSCRIPTIONS t))) [Cpu, Memory, Network]"

definition LIVE_TOPICS :: "(string \<times> live_spec list) list" where
  "LIVE_TOPICS =
     [(''unraid://live/parity'',
       [spec_of ''parityHistorySubscription'' ''subscription { parityHistorySubscription { date duration speed status errors progress correcting paused running } }'']),
      (''unraid://live/docker-stats'',
       [spec_of ''dockerContainerStats'' ''subscription { dockerContainerStats { id cpuPercent memUsage memPercent netIO blockIO } }'']),
      (''unraid://live/metrics'',
       metric_specs @
       [spec_of ''systemMetricsTemperature'' ''subscription { systemMetricsTemperature { sensors { name current { value unit } } summary { average warningCount criticalCount } } }'']),
      (''unraid://live/ups'',
       [spec_of ''upsUpdates'' ''subscription { upsUpdates { id name model status battery { chargeLevel } } }'']),
      (''unraid://live/array'',
       [spec_of ''arraySubscription'' ''subscription { arraySubscription { state capacity { kilobytes { used total } } } }'']),
      (''unraid://live/notifications'',
       [spec_of ''notificationAdded'' ''subscription { notificationAdded { id title subject importance timestamp } }''])]"

definition LOG_QUERY :: string where
  "LOG_QUERY = ''subscription LogFollow($path: String!) { logFile(path: $path) { path content totalLines startLine } }''"

text \<open>
  The standard library's \<open>decodeURIComponent\<close> on bytes: escapes must be complete and decode to
  well-formed UTF-8 (\<open>None\<close>: it throws a URIError).
\<close>

definition escape_byte :: "string \<Rightarrow> (nat \<times> string) option" where
  "escape_byte s =
     (case s of
        p # a # b # r \<Rightarrow>
          if p \<noteq> CHR ''%'' then None
          else (case (hex_val a, hex_val b) of (Some x, Some y) \<Rightarrow> Some (x * 16 + y, r) | _ \<Rightarrow> None)
      | _ \<Rightarrow> None)"

fun continuation_bytes :: "nat \<Rightarrow> string \<Rightarrow> (nat list \<times> string) option" where
  "continuation_bytes 0 s = Some ([], s)"
| "continuation_bytes (Suc n) s =
     (case escape_byte s of
        None \<Rightarrow> None
      | Some (b, r) \<Rightarrow>
          if b < 128 \<or> b \<ge> 192 then None
          else (case continuation_bytes n r of None \<Rightarrow> None | Some (bs, r') \<Rightarrow> Some (b # bs, r')))"

definition utf8_extra :: "nat \<Rightarrow> nat" where
  "utf8_extra b = (if 194 \<le> b \<and> b < 224 then 1 else if 224 \<le> b \<and> b < 240 then 2 else if 240 \<le> b \<and> b < 245 then 3 else 0)"

definition utf8_second_ok :: "nat \<Rightarrow> nat list \<Rightarrow> bool" where
  "utf8_second_ok b bs =
     (case bs of
        [] \<Rightarrow> True
      | c # _ \<Rightarrow> (b = 224 \<longrightarrow> 160 \<le> c) \<and> (b = 237 \<longrightarrow> c < 160) \<and> (b = 240 \<longrightarrow> 144 \<le> c) \<and> (b = 244 \<longrightarrow> c < 144))"

lemma escape_byte_shorter: "escape_byte s = Some (b, r) \<Longrightarrow> length r < length s"
  by (auto simp: escape_byte_def split: list.splits option.splits if_splits)

lemma continuation_shorter: "continuation_bytes n s = Some (bs, r) \<Longrightarrow> length r \<le> length s"
proof (induction n arbitrary: s bs r)
  case (Suc n)
  then obtain b r1 bs1 where "escape_byte s = Some (b, r1)" "continuation_bytes n r1 = Some (bs1, r)"
    by (auto split: option.splits if_splits)
  with escape_byte_shorter [of s b r1] Suc.IH [of r1 bs1 r] show ?case by simp
qed simp

function decodeURIComponent :: "string \<Rightarrow> string option" where
  "decodeURIComponent [] = Some []"
| "decodeURIComponent (c # s) =
     (if c \<noteq> CHR ''%'' then map_option (\<lambda>t. c # t) (decodeURIComponent s)
      else (case escape_byte (c # s) of
              None \<Rightarrow> None
            | Some (b, r) \<Rightarrow>
                if b < 128 then map_option (\<lambda>t. char_of b # t) (decodeURIComponent r)
                else if utf8_extra b = 0 then None
                else (case continuation_bytes (utf8_extra b) r of
                        None \<Rightarrow> None
                      | Some (bs, r') \<Rightarrow>
                          if utf8_second_ok b bs
                          then map_option (\<lambda>t. map char_of (b # bs) @ t) (decodeURIComponent r') else None)))"
  by pat_completeness auto
termination
  by (relation "measure length") (auto dest!: escape_byte_shorter continuation_shorter)

text \<open>The subscriptions behind a URI; an error message when it has none.\<close>

definition resolveSubscriptions :: "string \<Rightarrow> string + live_spec list" where
  "resolveSubscriptions uri =
     (case map_of LIVE_TOPICS uri of
        Some specs \<Rightarrow> Inr specs
      | None \<Rightarrow>
          if starts_with uri LOGS_URI_PREFIX
          then (case decodeURIComponent (drop (length LOGS_URI_PREFIX) uri) of
                  None \<Rightarrow> Inl ''URIError: URI malformed''
                | Some p \<Rightarrow> Inr [\<lparr>ls_topic = uri, ls_query = LOG_QUERY, ls_variables = JObj [(''path'', JStr p)]\<rparr>])
          else Inl (''Resource '' @ uri @ '' does not support subscriptions''))"

section \<open>Samples\<close>

datatype live_data = Raw jsval | Aggregate docker_aggregate

definition DOCKER_STATS_TOPIC :: string where "DOCKER_STATS_TOPIC = ''dockerContainerStats''"

text \<open>A container event read at the type its document declares.\<close>

definition dec_live_stats :: "jsval \<Rightarrow> LiveContainerStats option" where
  "dec_live_stats v =
     (case (dec_str (getp v ''id''), finiteNumber (getp v ''cpuPercent''), dec_str (getp v ''memUsage''),
            finiteNumber (getp v ''memPercent''), dec_str (getp v ''netIO''), dec_str (getp v ''blockIO'')) of
        (Some i, Some c, Some m, Some mp, Some n, Some b) \<Rightarrow>
          Some \<lparr>stat_id = i, cpuPercent = c, memUsage = m, memPercent = mp, netIO = n, blockIO = b\<rparr>
      | _ \<Rightarrow> None)"

definition reduceSample :: "string \<Rightarrow> live_data option \<Rightarrow> jsval \<Rightarrow> int \<Rightarrow> live_data" where
  "reduceSample storeKey previous incoming nowMs =
     (if storeKey \<noteq> DOCKER_STATS_TOPIC then Raw incoming
      else Aggregate (mergeDockerStatsSample (case previous of Some (Aggregate a) \<Rightarrow> Some a | _ \<Rightarrow> None)
                        (dec_live_stats (getp incoming ''dockerContainerStats'')) nowMs))"

definition aggregate_json :: "docker_aggregate \<Rightarrow> jsval" where
  "aggregate_json agg =
     JObj [(''containers'', JObj (map (\<lambda>(i, s, t).
        (i, JObj [(''id'', JStr (stat_id s)), (''cpuPercent'', JNum (cpuPercent s)), (''memUsage'', JStr (memUsage s)),
                  (''memPercent'', JNum (memPercent s)), (''netIO'', JStr (netIO s)), (''blockIO'', JStr (blockIO s)), (''seenAtMs'', JInt t)])) agg))]"

definition live_data_json :: "live_data \<Rightarrow> jsval" where
  "live_data_json d = (case d of Raw v \<Rightarrow> v | Aggregate a \<Rightarrow> aggregate_json a)"

definition WAITING_ENVELOPE :: jsval where
  "WAITING_ENVELOPE =
     JObj [(''waiting'', JBool True),
           (''hint'', JStr (''No live sample yet '' @ mdash @ '' subscribe to this resource (stdio or session-mode HTTP); samples arrive over the WebSocket subscription.''))]"

definition sample_body :: "live_data \<times> int \<Rightarrow> jsval" where
  "sample_body = (\<lambda>(d, age). JObj [(''data'', live_data_json d), (''age_ms'', JInt age)])"

definition renderResource :: "int \<Rightarrow> live_data live_store \<Rightarrow> string list \<Rightarrow> string" where
  "renderResource nowMs store topics =
     stringify2
       (if length topics = 1
        then (case store_get nowMs (hd topics) store of Some x \<Rightarrow> sample_body x | None \<Rightarrow> WAITING_ENVELOPE)
        else (let parts = foldl (\<lambda>ps t. upsert t (case store_get nowMs t store of Some x \<Rightarrow> sample_body x | None \<Rightarrow> JNull) ps) [] topics
              in if \<exists>t \<in> set topics. store_get nowMs t store \<noteq> None then JObj [(''parts'', JObj parts)] else WAITING_ENVELOPE))"

section \<open>The subscriptions of one server\<close>

text \<open>
  \<open>owner\<close> is what the callbacks of a subscription close over: the URI and the store key.
\<close>

record live_state =
  lv_feed :: feed
  lv_store :: "live_data live_store"
  lv_active :: "(string \<times> nat list) list"
  lv_owner :: "(nat \<times> string \<times> string) list"

fun open_all :: "string \<Rightarrow> live_spec list \<Rightarrow> live_state \<Rightarrow> nat list \<times> live_state" where
  "open_all uri [] st = ([], st)"
| "open_all uri (x # xs) st =
     (let (i, f) = feed_subscribe (ls_query x) (ls_variables x) (lv_feed st);
          (is, st') = open_all uri xs (st\<lparr>lv_feed := f, lv_owner := (i, uri, ls_topic x) # lv_owner st\<rparr>)
      in (i # is, st'))"

definition stop_all :: "nat list \<Rightarrow> feed \<Rightarrow> feed" where
  "stop_all ids f = foldl (\<lambda>g i. feed_unsubscribe i g) f ids"

definition active_ids :: "string \<Rightarrow> live_state \<Rightarrow> nat list" where
  "active_ids uri st = (case map_of (lv_active st) uri of None \<Rightarrow> [] | Some is \<Rightarrow> is)"

definition remove_key :: "'k \<Rightarrow> ('k \<times> 'v) list \<Rightarrow> ('k \<times> 'v) list" where
  "remove_key k xs = filter (\<lambda>(k', v). k' \<noteq> k) xs"

definition startLiveSubscription :: "string \<Rightarrow> live_state \<Rightarrow> string + live_state" where
  "startLiveSubscription uri st =
     (if uri \<in> fst ` set (lv_active st) then Inr st
      else (case resolveSubscriptions uri of
              Inl e \<Rightarrow> Inl e
            | Inr specs \<Rightarrow> (let (ids, st') = open_all uri specs st in Inr (st'\<lparr>lv_active := lv_active st' @ [(uri, ids)]\<rparr>))))"

definition live_unsubscribe :: "string \<Rightarrow> live_state \<Rightarrow> live_state" where
  "live_unsubscribe uri st =
     st\<lparr>lv_feed := stop_all (active_ids uri st) (lv_feed st), lv_active := remove_key uri (lv_active st)\<rparr>"

text \<open>The teardown when the transport closes.\<close>

definition live_close :: "live_state \<Rightarrow> live_state" where
  "live_close st =
     st\<lparr>lv_feed := stop_all (concat (map snd (lv_active st))) (lv_feed st), lv_active := []\<rparr>"

text \<open>
  The feed ends a subscription with an error: it is gone, and its callback drops the active entry
  and stops the siblings.
\<close>

definition live_error :: "nat \<Rightarrow> live_state \<Rightarrow> live_state" where
  "live_error i st =
     (case map_of (lv_owner st) i of
        None \<Rightarrow> st\<lparr>lv_feed := feed_unsubscribe i (lv_feed st)\<rparr>
      | Some (uri, topic) \<Rightarrow> live_unsubscribe uri (st\<lparr>lv_feed := feed_unsubscribe i (lv_feed st)\<rparr>))"

text \<open>The server completes a subscription: it is gone, and the callback does nothing.\<close>

definition live_complete :: "nat \<Rightarrow> live_state \<Rightarrow> live_state" where
  "live_complete i st = st\<lparr>lv_feed := feed_unsubscribe i (lv_feed st)\<rparr>"

text \<open>A sample; the notification of the client is not part of the state.\<close>

definition live_data_in :: "nat \<Rightarrow> jsval \<Rightarrow> int \<Rightarrow> live_state \<Rightarrow> live_state" where
  "live_data_in i data nowMs st =
     (case map_of (lv_owner st) i of
        None \<Rightarrow> st
      | Some (uri, topic) \<Rightarrow>
          st\<lparr>lv_store := store_set nowMs topic
               (reduceSample topic (map_option fst (store_get nowMs topic (lv_store st))) data nowMs) (lv_store st)\<rparr>)"

datatype live_op =
    LSubscribe string
  | LUnsubscribe string
  | LClose
  | LError nat
  | LComplete nat
  | LData nat jsval int
  | ForeignSubscribe string jsval
  | ForeignUnsubscribe nat

text \<open>
  Errors, completions and samples arrive for open subscriptions only; others unsubscribe only what
  is theirs. A subscribe request that is refused changes nothing.
\<close>

definition open_ids :: "live_state \<Rightarrow> nat set" where
  "open_ids st = sub_id ` set (subs (lv_feed st))"

definition own_ids :: "live_state \<Rightarrow> nat set" where
  "own_ids st = fst ` set (lv_owner st)"

definition live_step :: "live_state \<Rightarrow> live_op \<Rightarrow> live_state" where
  "live_step st opn =
     (case opn of
        LSubscribe uri \<Rightarrow> (case startLiveSubscription uri st of Inl e \<Rightarrow> st | Inr st' \<Rightarrow> st')
      | LUnsubscribe uri \<Rightarrow> live_unsubscribe uri st
      | LClose \<Rightarrow> live_close st
      | LError i \<Rightarrow> if i \<in> open_ids st then live_error i st else st
      | LComplete i \<Rightarrow> if i \<in> open_ids st then live_complete i st else st
      | LData i data nowMs \<Rightarrow> if i \<in> open_ids st then live_data_in i data nowMs st else st
      | ForeignSubscribe q v \<Rightarrow> st\<lparr>lv_feed := snd (feed_subscribe q v (lv_feed st))\<rparr>
      | ForeignUnsubscribe i \<Rightarrow> if i \<in> own_ids st then st else st\<lparr>lv_feed := feed_unsubscribe i (lv_feed st)\<rparr>)"

definition live_start :: "feed \<Rightarrow> live_data live_store \<Rightarrow> live_state" where
  "live_start f store = \<lparr>lv_feed = f, lv_store = store, lv_active = [], lv_owner = []\<rparr>"

section \<open>The map and the feed stay in step\<close>

text \<open>
  Every open subscription of this server is behind an active URI, every identifier behind a URI was
  opened for it, and no identifier is used twice.
\<close>

definition live_ok :: "live_state \<Rightarrow> bool" where
  "live_ok st \<longleftrightarrow> feed_ok (lv_feed st) \<and> distinct (map fst (lv_active st))
     \<and> (\<forall>i \<in> own_ids st. i < sub_count (lv_feed st))
     \<and> (\<forall>uri ids. (uri, ids) \<in> set (lv_active st) \<longrightarrow> (\<forall>i \<in> set ids. \<exists>t. map_of (lv_owner st) i = Some (uri, t)))
     \<and> (\<forall>i uri t. i \<in> open_ids st \<longrightarrow> map_of (lv_owner st) i = Some (uri, t) \<longrightarrow> i \<in> set (active_ids uri st))"

lemma own_ids_map: "i \<in> own_ids st \<longleftrightarrow> map_of (lv_owner st) i \<noteq> None"
  by (simp add: own_ids_def map_of_eq_None_iff)

lemma subscribe_effect:
  assumes "feed_ok f" "feed_subscribe q v f = (i, f')"
  shows "i = sub_count f" "feed_ok f'" "sub_count f' = Suc i" "sub_id ` set (subs f') = insert i (sub_id ` set (subs f))"
proof -
  show "feed_ok f'" using feed_step_ok [OF assms(1), of "Subscribe q v"] assms(2) by (simp add: feed_step_def)
  show "i = sub_count f" "sub_count f' = Suc i" "sub_id ` set (subs f') = insert i (sub_id ` set (subs f))"
    using assms(2) by (auto simp: feed_subscribe_def ensure_client_def Let_def split: option.splits)
qed

lemma unsubscribe_effect:
  "feed_ok f \<Longrightarrow> feed_ok (feed_unsubscribe i f)"
  "sub_count (feed_unsubscribe i f) = sub_count f"
  "sub_id ` set (subs (feed_unsubscribe i f)) = sub_id ` set (subs f) - {i}"
  using feed_step_ok [of f "Unsubscribe i"] by (auto simp: feed_step_def feed_unsubscribe_def)

lemma stop_all_effect:
  "feed_ok f \<Longrightarrow> feed_ok (stop_all ids f)"
  "sub_count (stop_all ids f) = sub_count f"
  "sub_id ` set (subs (stop_all ids f)) = sub_id ` set (subs f) - set ids"
  by (induction ids arbitrary: f) (auto simp: stop_all_def unsubscribe_effect)

lemma open_all_effect:
  assumes "open_all uri specs st = (ids, st')" "feed_ok (lv_feed st)"
  shows "feed_ok (lv_feed st') \<and> sub_count (lv_feed st') = sub_count (lv_feed st) + length specs
    \<and> set ids = {sub_count (lv_feed st)..<sub_count (lv_feed st')}
    \<and> open_ids st' = open_ids st \<union> set ids \<and> lv_active st' = lv_active st \<and> lv_store st' = lv_store st
    \<and> own_ids st' = own_ids st \<union> set ids
    \<and> (\<forall>i. if i \<in> set ids then \<exists>t. map_of (lv_owner st') i = Some (uri, t) else map_of (lv_owner st') i = map_of (lv_owner st) i)"
  using assms
proof (induction specs arbitrary: st ids)
  case (Cons x xs)
  obtain i f where sub: "feed_subscribe (ls_query x) (ls_variables x) (lv_feed st) = (i, f)" by fastforce
  let ?st = "st\<lparr>lv_feed := f, lv_owner := (i, uri, ls_topic x) # lv_owner st\<rparr>"
  obtain js where js: "open_all uri xs ?st = (js, st')" "ids = i # js"
    using Cons.prems(1) sub by (auto simp: Let_def split: prod.splits)
  note eff = subscribe_effect [OF Cons.prems(2) sub]
  have "feed_ok (lv_feed ?st)" using eff(2) by simp
  note IH = Cons.IH [OF js(1) this]
  have less: "i < sub_count (lv_feed st')" using IH eff(3) by simp
  have own: "map_of (lv_owner ?st) i = Some (uri, ls_topic x)" by simp
  show ?case
    using IH eff less own unfolding js(2) by (auto simp: open_ids_def own_ids_def split: if_splits)
qed auto

lemma live_ok_start: "feed_ok f \<Longrightarrow> live_ok (live_start f store)"
  by (simp add: live_ok_def live_start_def own_ids_def active_ids_def)

lemma live_ok_subscribe:
  assumes ok: "live_ok st" and start: "startLiveSubscription uri st = Inr st'"
  shows "live_ok st'"
proof (cases "uri \<in> fst ` set (lv_active st)")
  case True
  with start ok show ?thesis by (simp add: startLiveSubscription_def)
next
  case False
  from start False obtain specs ids st1 where o: "open_all uri specs st = (ids, st1)"
      "st' = st1\<lparr>lv_active := lv_active st1 @ [(uri, ids)]\<rparr>"
    by (auto simp: startLiveSubscription_def Let_def split: sum.splits prod.splits)
  have feed: "feed_ok (lv_feed st)" using ok by (simp add: live_ok_def)
  note eff = open_all_effect [OF o(1) feed]
  have fresh: "i \<notin> set ids" if "i \<in> own_ids st" for i
    using that ok eff by (fastforce simp: live_ok_def)
  have fresh_open: "i \<notin> set ids" if "i \<in> open_ids st" for i
    using that feed eff by (fastforce simp: feed_ok_def open_ids_def)
  have none: "map_of (lv_active st) uri = None" using False by (simp add: map_of_eq_None_iff)
  have act: "map_of (lv_active st') u = (if u = uri then Some ids else map_of (lv_active st) u)" for u
    using o(2) eff none by (auto simp: map_add_def split: option.splits)
  have own: "map_of (lv_owner st') i = (if i \<in> set ids then map_of (lv_owner st1) i else map_of (lv_owner st) i)" for i
    using o(2) eff by auto
  have own_new: "\<exists>t. map_of (lv_owner st') i = Some (uri, t)" if "i \<in> set ids" for i
    using that o(2) eff by auto
  show ?thesis
    unfolding live_ok_def
  proof (intro conjI ballI allI impI)
    show "feed_ok (lv_feed st')" using eff o(2) by simp
    show "distinct (map fst (lv_active st'))" using ok False eff o(2) by (auto simp: live_ok_def)
  next
    fix i assume "i \<in> own_ids st'"
    then have "i \<in> own_ids st \<union> set ids" using eff o(2) by (auto simp: own_ids_def)
    then show "i < sub_count (lv_feed st')" using ok eff o(2) by (fastforce simp: live_ok_def)
  next
    fix u us i assume "(u, us) \<in> set (lv_active st')" "i \<in> set us"
    then consider "(u, us) \<in> set (lv_active st)" | "u = uri" "us = ids" using o(2) eff by auto
    then show "\<exists>t. map_of (lv_owner st') i = Some (u, t)"
    proof cases
      case 1
      with ok \<open>i \<in> set us\<close> obtain t where t: "map_of (lv_owner st) i = Some (u, t)" unfolding live_ok_def by blast
      then have "i \<in> own_ids st" by (simp add: own_ids_map)
      with fresh own t show ?thesis by auto
    next
      case 2
      with own_new \<open>i \<in> set us\<close> show ?thesis by simp
    qed
  next
    fix i u t assume i: "i \<in> open_ids st'" "map_of (lv_owner st') i = Some (u, t)"
    show "i \<in> set (active_ids u st')"
    proof (cases "i \<in> set ids")
      case True
      with own_new i(2) have "u = uri" by fastforce
      with True show ?thesis by (simp add: active_ids_def act)
    next
      case False
      with i own have "map_of (lv_owner st) i = Some (u, t)" by simp
      moreover have "i \<in> open_ids st" using i(1) False eff o(2) by (auto simp: open_ids_def)
      ultimately have "i \<in> set (active_ids u st)" using ok unfolding live_ok_def by blast
      with none show ?thesis by (auto simp: active_ids_def act)
    qed
  qed
qed

lemma remove_key_simps [simp]:
  "map_of (remove_key k xs) k' = (if k' = k then None else map_of xs k')"
  "(u, v) \<in> set (remove_key k xs) \<longleftrightarrow> u \<noteq> k \<and> (u, v) \<in> set xs"
  by (induction xs) (auto simp: remove_key_def)

lemma distinct_remove_key: "distinct (map fst xs) \<Longrightarrow> distinct (map fst (remove_key k xs))"
  by (simp add: remove_key_def distinct_map_filter)

lemma live_unsubscribe_simps:
  "active_ids u (live_unsubscribe uri st) = (if u = uri then [] else active_ids u st)"
  "open_ids (live_unsubscribe uri st) = open_ids st - set (active_ids uri st)"
  "own_ids (live_unsubscribe uri st) = own_ids st" "lv_owner (live_unsubscribe uri st) = lv_owner st"
  "lv_active (live_unsubscribe uri st) = remove_key uri (lv_active st)"
  "sub_count (lv_feed (live_unsubscribe uri st)) = sub_count (lv_feed st)"
  by (simp_all add: live_unsubscribe_def active_ids_def open_ids_def own_ids_def stop_all_effect)

lemma live_ok_unsubscribe: "live_ok st \<Longrightarrow> live_ok (live_unsubscribe uri st)"
  unfolding live_ok_def live_unsubscribe_simps
  by (auto simp: live_unsubscribe_def stop_all_effect distinct_remove_key)

lemma live_ok_drop: "live_ok st \<Longrightarrow> live_ok (st\<lparr>lv_feed := feed_unsubscribe i (lv_feed st)\<rparr>)"
  by (auto simp: live_ok_def unsubscribe_effect own_ids_def open_ids_def active_ids_def)

lemma active_ids_in: "i \<in> set (active_ids uri st) \<Longrightarrow> i \<in> set (concat (map snd (lv_active st)))"
  by (cases "map_of (lv_active st) uri") (auto simp: active_ids_def dest!: map_of_SomeD intro!: bexI)

lemma live_close_simps:
  "open_ids (live_close st) = open_ids st - set (concat (map snd (lv_active st)))"
  "own_ids (live_close st) = own_ids st" "lv_owner (live_close st) = lv_owner st" "lv_active (live_close st) = []"
  "sub_count (lv_feed (live_close st)) = sub_count (lv_feed st)"
  by (simp_all add: live_close_def open_ids_def own_ids_def stop_all_effect)

text \<open>After the teardown none of this server's subscriptions is open.\<close>

lemma own_open_active:
  assumes "live_ok st"
  shows "open_ids st \<inter> own_ids st \<subseteq> set (concat (map snd (lv_active st)))"
proof
  fix i
  assume mem: "i \<in> open_ids st \<inter> own_ids st"
  then obtain u t where "map_of (lv_owner st) i = Some (u, t)" by (auto simp: own_ids_map)
  with assms mem have "i \<in> set (active_ids u st)" unfolding live_ok_def by blast
  then show "i \<in> set (concat (map snd (lv_active st)))" by (rule active_ids_in)
qed

lemma close_leaves_nothing:
  assumes "live_ok st"
  shows "open_ids (live_close st) \<inter> own_ids (live_close st) = {}"
  using own_open_active [OF assms] unfolding live_close_simps by blast

lemma live_ok_close:
  assumes "live_ok st"
  shows "live_ok (live_close st)"
proof -
  have "i \<in> set (active_ids u (live_close st))" if "i \<in> open_ids (live_close st)" "map_of (lv_owner (live_close st)) i = Some (u, t)" for i u t
    using close_leaves_nothing [OF assms] that own_ids_map [of i "live_close st"] by auto
  moreover have "feed_ok (lv_feed (live_close st))"
    using assms by (simp add: live_ok_def live_close_def stop_all_effect)
  ultimately show ?thesis using assms unfolding live_ok_def live_close_simps by simp
qed

lemma live_ok_step: "live_ok st \<Longrightarrow> live_ok (live_step st opn)"
proof (cases opn)
  case (LSubscribe uri)
  assume "live_ok st"
  with LSubscribe show ?thesis by (auto simp: live_step_def intro: live_ok_subscribe split: sum.splits)
next
  case (LData i d n)
  assume "live_ok st"
  with LData show ?thesis
    by (auto simp: live_step_def live_data_in_def live_ok_def own_ids_def open_ids_def active_ids_def split: option.splits)
next
  case (ForeignSubscribe q v)
  assume ok: "live_ok st"
  obtain i f where sub: "feed_subscribe q v (lv_feed st) = (i, f)" by fastforce
  have feed: "feed_ok (lv_feed st)" using ok by (simp add: live_ok_def)
  note eff = subscribe_effect [OF feed sub]
  have "map_of (lv_owner st) i = None" using ok eff(1) unfolding live_ok_def by (metis own_ids_map less_irrefl)
  with ok eff ForeignSubscribe sub show ?thesis
    by (auto simp: live_step_def live_ok_def own_ids_def open_ids_def active_ids_def less_Suc_eq)
qed (auto simp: live_step_def live_error_def live_complete_def live_ok_unsubscribe live_ok_drop live_ok_close split: option.splits)

lemma live_reach_ok: "feed_ok f \<Longrightarrow> live_ok (foldl live_step (live_start f store) ops)"
  by (induction ops rule: rev_induct) (simp_all add: live_ok_start live_ok_step)

text \<open>Nobody else's subscription is ended by this server's operations.\<close>

lemma stops_own: "live_ok st \<Longrightarrow> i \<in> set (concat (map snd (lv_active st))) \<Longrightarrow> i \<in> own_ids st"
  by (auto simp: live_ok_def own_ids_map) fastforce

lemma foreign_kept:
  assumes "live_ok st" "i \<in> open_ids st" "i \<notin> own_ids st" "opn \<notin> {LError i, LComplete i, ForeignUnsubscribe i}"
  shows "i \<in> open_ids (live_step st opn)"
proof -
  have keep: "i \<notin> set (active_ids uri st)" "i \<notin> set (concat (map snd (lv_active st)))" for uri
    using assms(1,3) stops_own active_ids_in by blast+
  show ?thesis
  proof (cases opn)
    case (LSubscribe uri)
    with assms show ?thesis
      using open_all_effect [of uri _ st]
      by (auto simp: live_step_def startLiveSubscription_def live_ok_def open_ids_def Let_def split: sum.splits prod.splits)
  next
    case (ForeignSubscribe q v)
    obtain j f where sub: "feed_subscribe q v (lv_feed st) = (j, f)" by fastforce
    have "feed_ok (lv_feed st)" using assms(1) by (simp add: live_ok_def)
    from subscribe_effect(4) [OF this sub] ForeignSubscribe sub assms(2) show ?thesis
      by (simp add: live_step_def open_ids_def)
  next
    case (LError j)
    have "active_ids uri (st\<lparr>lv_feed := g\<rparr>) = active_ids uri st" for uri g by (simp add: active_ids_def)
    with LError assms keep show ?thesis
      by (auto simp: live_step_def live_error_def live_unsubscribe_def open_ids_def stop_all_effect unsubscribe_effect split: option.splits)
  next
    case (LData j d n)
    with assms show ?thesis by (auto simp: live_step_def live_data_in_def open_ids_def split: option.splits)
  qed (use assms keep in \<open>auto simp: live_step_def live_unsubscribe_def live_close_def live_complete_def open_ids_def stop_all_effect unsubscribe_effect\<close>)
qed

lemma close_ends_own:
  assumes "live_ok st"
  shows "open_ids (live_step st LClose) = open_ids st - own_ids st"
proof -
  have "open_ids (live_close st) \<subseteq> open_ids st" "own_ids (live_close st) = own_ids st" unfolding live_close_simps by auto
  moreover have "i \<in> open_ids (live_close st)" if "i \<in> open_ids st" "i \<notin> own_ids st" for i
    using foreign_kept [OF assms that, of LClose] by (simp add: live_step_def)
  ultimately show ?thesis using close_leaves_nothing [OF assms] by (auto simp: live_step_def)
qed

text \<open>After an error the URI can be subscribed again; after a completion by the server it cannot.\<close>

lemma error_allows_revival:
  assumes "live_ok st" "i \<in> open_ids st" "map_of (lv_owner st) i = Some (uri, t)"
  shows "uri \<notin> fst ` set (lv_active (live_step st (LError i)))"
  using assms by (auto simp: live_step_def live_error_def live_unsubscribe_def remove_key_def)

lemma completion_blocks_revival:
  assumes "map_of (lv_active st) uri = Some [i]" "i \<in> open_ids st"
  shows "live_step (live_step st (LComplete i)) (LSubscribe uri) = live_step st (LComplete i)
    \<and> open_ids (live_step st (LComplete i)) \<inter> set (active_ids uri st) = {}"
proof -
  have "uri \<in> fst ` set (lv_active st)" using assms(1) by (metis map_of_eq_None_iff option.distinct(1))
  with assms show ?thesis
    by (simp add: live_step_def live_complete_def startLiveSubscription_def open_ids_def unsubscribe_effect active_ids_def)
qed

end
