(* ===== verification/DoctorTools.thy ===== *)
theory DoctorTools
  imports SystemTools
begin

text \<open>
  The self-test: the \<open>connection_doctor\<close> tool (\<open>src/tools/system/connection-doctor.ts\<close>), the
  \<open>doctor\<close> command line (\<open>src/cli/doctor.ts\<close>) and the loading of the vendored schema and its
  recorded version (\<open>src/resources/schema-sdl.ts\<close>). The measured latency and the file reader
  are arguments.
\<close>

section \<open>Checks\<close>

definition SSH_PROBE_COMMAND :: string where "SSH_PROBE_COMMAND = ''echo ok''"
definition SSH_PROBE_TIMEOUT_MS :: int where "SSH_PROBE_TIMEOUT_MS = 10000"
definition CONTRACT_SEGMENTS :: nat where "CONTRACT_SEGMENTS = 2"

datatype check_status = StOk | StWarn | StFail

definition status_text :: "check_status \<Rightarrow> string" where
  "status_text s = (case s of StOk \<Rightarrow> ''ok'' | StWarn \<Rightarrow> ''warn'' | StFail \<Rightarrow> ''fail'')"

record doctor_check =
  dc_check :: string
  dc_status :: check_status
  dc_detail :: string

definition mk_check :: "string \<Rightarrow> check_status \<Rightarrow> string \<Rightarrow> doctor_check" where
  "mk_check n s t = \<lparr>dc_check = n, dc_status = s, dc_detail = t\<rparr>"

lemma mk_check_simps [simp]: "dc_check (mk_check n s t) = n" "dc_status (mk_check n s t) = s" "dc_detail (mk_check n s t) = t"
  by (simp_all add: mk_check_def)

definition classifyGraphqlFailure :: "string \<Rightarrow> doctor_check" where
  "classifyGraphqlFailure message =
     (if js_includes message ''401'' \<or> js_includes message ''403'' \<or> js_includes message ''Unauthorized''
      then mk_check ''graphql'' StFail
             (''API key rejected ('' @ message @ ''). Regenerate the key in Unraid Settings '' @ rarrow @ '' Management Access '' @ rarrow @ '' API Keys and update UNRAID_API_KEY.'')
      else mk_check ''graphql'' StFail
             (''Endpoint unreachable ('' @ message @ ''). Check UNRAID_API_URL (must end in /graphql), the server being up, and TLS (UNRAID_ALLOW_SELF_SIGNED for self-signed certs).''))"

text \<open>The probe; the version is what \<open>core.api ?? null\<close> gives, read as a string.\<close>

record graphql_probe =
  gp_check :: doctor_check
  gp_version :: "string option"

definition reachable_check :: "int \<Rightarrow> jsval \<Rightarrow> jsval \<Rightarrow> doctor_check" where
  "reachable_check latencyMs core online =
     mk_check ''graphql'' StOk
       (''Reachable in '' @ show_int latencyMs @ '' ms '' @ mdash @ '' Unraid '' @ shown_or core ''unraid'' ''?'' @ '', API '' @
        shown_or core ''api'' ''?'' @ '', online='' @ display online @ ''.'')"

definition checkGraphql :: "int \<Rightarrow> graphql_probe prog" where
  "checkGraphql latencyMs =
     catch
       (bind (execute_gql ConnectionDoctorDocument JUndef) (\<lambda>data.
        bind (bind (path data [''info'', ''versions'', ''core'']) readable) (\<lambda>core.
        bind (decode (nullable dec_str (getp core ''api''))) (\<lambda>version.
          Ret \<lparr>gp_check = reachable_check latencyMs core (getp data ''online''), gp_version = version\<rparr>))))
       (\<lambda>message. Ret \<lparr>gp_check = classifyGraphqlFailure message, gp_version = None\<rparr>)"

definition contractVersion :: "string \<Rightarrow> string" where
  "contractVersion version = join ''.'' (take CONTRACT_SEGMENTS (split_on ''.'' (hd (split_on ''+'' version))))"

definition compareApiVersions :: "string option \<Rightarrow> string option \<Rightarrow> doctor_check" where
  "compareApiVersions serverVersion schemaVersion =
     (case schemaVersion of
        None \<Rightarrow> mk_check ''schema'' StWarn (''Vendored schema version unrecorded '' @ mdash @ '' run npm run schema:update in a checkout to record it.'')
      | Some schema \<Rightarrow>
          (case serverVersion of
             None \<Rightarrow> mk_check ''schema'' StWarn
               (''Server API version unknown (GraphQL check failed?), so schema skew vs vendored '' @ schema @ '' cannot be assessed.'')
           | Some server \<Rightarrow>
               if contractVersion server = contractVersion schema
               then mk_check ''schema'' StOk (''Vendored schema matches the server API ('' @ schema @ '' vs '' @ server @ '').'')
               else mk_check ''schema'' StWarn
                 (''Schema skew: server API '' @ server @ '' vs vendored schema '' @ schema @ '' '' @ mdash @
                  '' fields may be missing or renamed; update better-unraid-mcp (or run npm run schema:update in a checkout).'')))"

definition checkSsh :: "bool \<Rightarrow> doctor_check prog" where
  "checkSsh shell =
     (if \<not> shell
      then Ret (mk_check ''ssh'' StWarn ''SSH: not configured (optional). Host tools (shell_exec, file_read, docker_stats, mover_action, system_power) are unavailable; set UNRAID_SSH_* to enable them.'')
      else catch
        (bind (execute_shell SSH_PROBE_COMMAND SSH_PROBE_TIMEOUT_MS) (\<lambda>res.
           Ret (if exitCode res = 0 then mk_check ''ssh'' StOk ''SSH: connected.''
                else mk_check ''ssh'' StFail (''SSH: failed (exit '' @ show_int (exitCode res) @ '').''))))
        (\<lambda>message. Ret (mk_check ''ssh'' StFail (''SSH: failed '' @ mdash @ '' '' @ message))))"

definition configChecks :: "bool \<Rightarrow> doctor_check list" where
  "configChecks readOnly =
     [mk_check ''rate-limit'' StOk (''Client-side rate limiting active: '' @ num_text RateLimit.BUCKET_CAPACITY @ '' request burst, '' @ num_text REFILL_PER_SECOND @ ''/s refill.''),
      mk_check ''read-only'' StOk
        (if readOnly then ''read-only mode: enabled '' @ mdash @ '' mutating tools are hidden from the listing.''
         else ''read-only mode: disabled '' @ mdash @ '' mutating tools are registered (each behind its confirm gate).'')]"

definition STATUS_MARKS :: "check_status \<Rightarrow> string" where
  "STATUS_MARKS s =
     (case s of StOk \<Rightarrow> [CHR 0xE2, CHR 0x9C, CHR 0x93] | StWarn \<Rightarrow> [CHR 0xE2, CHR 0x9A, CHR 0xA0] | StFail \<Rightarrow> [CHR 0xE2, CHR 0x9C, CHR 0x97])"

definition check_line :: "doctor_check \<Rightarrow> string" where
  "check_line c = STATUS_MARKS (dc_status c) @ '' '' @ dc_detail c"

definition doctor_summarize :: "doctor_check list \<Rightarrow> string" where
  "doctor_summarize checks = join nl (map check_line checks)"

record doctor_deps =
  dd_shell :: bool
  dd_readOnly :: bool
  dd_schemaApiVersion :: "string option"

definition runConnectionDoctor :: "int \<Rightarrow> doctor_deps \<Rightarrow> doctor_check list prog" where
  "runConnectionDoctor latencyMs deps =
     bind (checkGraphql latencyMs) (\<lambda>graphql.
     bind (checkSsh (dd_shell deps)) (\<lambda>ssh.
       Ret ([gp_check graphql, compareApiVersions (gp_version graphql) (dd_schemaApiVersion deps), ssh] @ configChecks (dd_readOnly deps))))"

definition check_json :: "doctor_check \<Rightarrow> jsval" where
  "check_json c = JObj [(''check'', JStr (dc_check c)), (''status'', JStr (status_text (dc_status c))), (''detail'', JStr (dc_detail c))]"

definition doctor_json :: "doctor_check list \<Rightarrow> jsval" where
  "doctor_json checks = JObj [(''checks'', JArr (map check_json checks))]"

definition connectionDoctorHandler :: "int \<Rightarrow> doctor_deps \<Rightarrow> response_format \<Rightarrow> tool_result prog" where
  "connectionDoctorHandler latencyMs deps format =
     failing_with ''connection_doctor failed unexpectedly: ''
       (bind (runConnectionDoctor latencyMs deps) (\<lambda>checks. formatResponse format (doctor_summarize checks) (doctor_json checks)))"

section \<open>The command line\<close>

definition DOCTOR_COMMAND :: string where "DOCTOR_COMMAND = ''doctor''"
definition FIRST_ARGUMENT_INDEX :: nat where "FIRST_ARGUMENT_INDEX = 2"
definition EXIT_SUCCESS :: nat where "EXIT_SUCCESS = 0"
definition EXIT_FAILURE :: nat where "EXIT_FAILURE = 1"

definition isDoctorInvocation :: "string list \<Rightarrow> bool" where
  "isDoctorInvocation argv = (FIRST_ARGUMENT_INDEX < length argv \<and> argv ! FIRST_ARGUMENT_INDEX = DOCTOR_COMMAND)"

definition verdictLine :: "nat \<Rightarrow> string" where
  "verdictLine failed = (if failed = 0 then ''doctor: OK'' else ''doctor: FAILED ('' @ show_nat failed @ '' check(s) failed)'')"

text \<open>The lines written and the exit code, for the outcome of the run.\<close>

definition runDoctorCli :: "string + doctor_check list \<Rightarrow> string list \<times> nat" where
  "runDoctorCli outcome =
     (case outcome of
        Inr checks \<Rightarrow>
          (let failed = length (filter (\<lambda>c. dc_status c = StFail) checks)
           in (map check_line checks @ [verdictLine failed], if failed = 0 then EXIT_SUCCESS else EXIT_FAILURE))
      | Inl message \<Rightarrow>
          ([STATUS_MARKS StFail @ '' doctor crashed: '' @ message, verdictLine 1], EXIT_FAILURE))"

section \<open>The vendored schema\<close>

definition SCHEMA_CANDIDATES :: "string list" where
  "SCHEMA_CANDIDATES = [''../schema/unraid.graphql'', ''../../schema/unraid.graphql'']"

definition VERSION_CANDIDATES :: "string list" where
  "VERSION_CANDIDATES = [''../schema/schema-version.json'', ''../../schema/schema-version.json'']"

text \<open>The reader throws (\<open>None\<close>) or returns the contents.\<close>

fun readFirst :: "string list \<Rightarrow> (string \<Rightarrow> string option) \<Rightarrow> string option" where
  "readFirst [] readFile = None"
| "readFirst (c # cs) readFile = (case readFile c of Some t \<Rightarrow> Some t | None \<Rightarrow> readFirst cs readFile)"

definition loadSchemaSdl :: "(string \<Rightarrow> string option) \<Rightarrow> string + string" where
  "loadSchemaSdl readFile =
     (case readFirst SCHEMA_CANDIDATES readFile of
        None \<Rightarrow> Inl (''Vendored schema/unraid.graphql not found next to the package '' @ mdash @ '' the install may be corrupted.'')
      | Some sdl \<Rightarrow> Inr sdl)"

definition parseApiVersion :: "string \<Rightarrow> string option" where
  "parseApiVersion raw =
     (case json_parse raw of None \<Rightarrow> None | Some v \<Rightarrow> dec_str (getp v ''apiVersion''))"

definition loadSchemaVersion :: "(string \<Rightarrow> string option) \<Rightarrow> string option" where
  "loadSchemaVersion readFile =
     (case readFirst VERSION_CANDIDATES readFile of None \<Rightarrow> None | Some raw \<Rightarrow> parseApiVersion raw)"

section \<open>Facts\<close>

lemma emits_checkGraphql [emits_intros]: "P (EGql ConnectionDoctorDocument JUndef) \<Longrightarrow> emits P (checkGraphql n)"
  unfolding checkGraphql_def by (intro emits_intros) simp

lemma emits_checkSsh [emits_intros]: "P (EShell SSH_PROBE_COMMAND SSH_PROBE_TIMEOUT_MS) \<Longrightarrow> emits P (checkSsh b)"
  unfolding checkSsh_def by (intro emits_intros) simp

lemma doctor_events: "emits (runs_only (\<lambda>c. c = SSH_PROBE_COMMAND)) (connectionDoctorHandler n deps f)"
  unfolding connectionDoctorHandler_def runConnectionDoctor_def by (intro emits_intros; simp)

text \<open>Every failure becomes a check: the run never throws.\<close>

lemma checkGraphql_total: "\<exists>g tr'. run w tr (checkGraphql n) = (Inr g, tr')"
  unfolding checkGraphql_def run_catch by (auto split: prod.splits sum.splits)

lemma checkSsh_total: "\<exists>c tr'. run w tr (checkSsh b) = (Inr c, tr')"
  unfolding checkSsh_def by (auto simp: run_catch split: prod.splits sum.splits)

lemma doctor_total:
  "\<exists>cs tr'. run w tr (runConnectionDoctor n deps) = (Inr cs, tr') \<and> length cs = 5 \<and> map dc_check cs = [''graphql'', ''schema'', ''ssh'', ''rate-limit'', ''read-only'']"
proof -
  obtain g tr1 where g: "run w tr (checkGraphql n) = (Inr g, tr1)" using checkGraphql_total by blast
  obtain s tr2 where s: "run w tr1 (checkSsh (dd_shell deps)) = (Inr s, tr2)" using checkSsh_total by blast
  have "dc_check (gp_check g) = ''graphql''"
    using g by (auto simp: checkGraphql_def run_catch run_bind run_execute_gql run_path run_decode readable_def
        reachable_check_def classifyGraphqlFailure_def simp del: path.simps path_result.simps split: prod.splits sum.splits option.splits if_splits)
  moreover have "dc_check s = ''ssh''"
    using s by (auto simp: checkSsh_def run_catch run_bind run_execute_shell split: prod.splits sum.splits if_splits)
  moreover have "dc_check (compareApiVersions v u) = ''schema''" for v u
    by (simp add: compareApiVersions_def split: option.splits)
  ultimately show ?thesis
    using g s by (simp add: runConnectionDoctor_def run_bind configChecks_def)
qed

lemma cli_exit_code: "snd (runDoctorCli outcome) = 0 \<longleftrightarrow> (\<exists>cs. outcome = Inr cs \<and> (\<forall>c \<in> set cs. dc_status c \<noteq> StFail))"
  by (cases outcome) (auto simp: runDoctorCli_def Let_def EXIT_SUCCESS_def EXIT_FAILURE_def filter_empty_conv)

lemma readFirst_Some: "readFirst cs r = Some t \<Longrightarrow> \<exists>c \<in> set cs. r c = Some t"
  by (induction cs) (auto split: option.splits)

end
