(* ===== verification/Resources.thy ===== *)
theory Resources
  imports DoctorTools HealthTools MetricsTools
begin

text \<open>
  The readable resources (\<open>src/resources/registry.ts\<close>, \<open>history-resource.ts\<close>) and the guided prompts
  (\<open>src/prompts/registry.ts\<close>). A resource is a URI, a media type and the text its handler computes;
  a handler that throws rejects the read.
\<close>

section \<open>Resources\<close>

definition SCHEMA_URI :: string where "SCHEMA_URI = ''unraid://schema''"
definition HEALTH_URI :: string where "HEALTH_URI = ''unraid://health''"
definition DOCTOR_URI :: string where "DOCTOR_URI = ''unraid://doctor''"
definition HISTORY_URI :: string where "HISTORY_URI = ''unraid://live/history''"

record resource_content =
  rc_uri :: string
  rc_mimeType :: string
  rc_text :: string

definition schemaResource :: "(string \<Rightarrow> string option) \<Rightarrow> resource_content prog" where
  "schemaResource readFile =
     bind (of_sum (loadSchemaSdl readFile)) (\<lambda>sdl.
       Ret \<lparr>rc_uri = SCHEMA_URI, rc_mimeType = ''application/graphql'', rc_text = sdl\<rparr>)"

definition healthResource :: "resource_content prog" where
  "healthResource =
     bind runSystemHealth (\<lambda>(overall, reports).
       Ret \<lparr>rc_uri = HEALTH_URI, rc_mimeType = ''application/json'', rc_text = stringify2 (health_json overall reports)\<rparr>)"

definition doctorResource :: "int \<Rightarrow> doctor_deps \<Rightarrow> resource_content prog" where
  "doctorResource latencyMs deps =
     bind (runConnectionDoctor latencyMs deps) (\<lambda>checks.
       Ret \<lparr>rc_uri = DOCTOR_URI, rc_mimeType = ''application/json'', rc_text = stringify2 (doctor_json checks)\<rparr>)"

definition topic_json :: "nat \<Rightarrow> recorder \<Rightarrow> metric_topic \<Rightarrow> jsval" where
  "topic_json nowMs r t =
     (let h = recorder_window nowMs t DEFAULT_WINDOW_MINUTES r
      in JObj [(''points'', JArr (map point_json (points h))), (''gaps'', JInt (gaps h))])"

definition history_json :: "nat \<Rightarrow> recorder option \<Rightarrow> jsval" where
  "history_json nowMs history =
     (case history of
        None \<Rightarrow> JObj [(''enabled'', JBool False), (''hint'', JStr HISTORY_OFF_TEXT)]
      | Some r \<Rightarrow>
          JObj [(''enabled'', JBool True), (''window_minutes'', JInt (int DEFAULT_WINDOW_MINUTES)), (''bucket_ms'', JInt (int BUCKET_MS)),
                (''recording_since'', case startedAt r of None \<Rightarrow> JNull | Some t \<Rightarrow> JStr (iso_string t)),
                (''topics'', JObj (map (\<lambda>t. (topic_text t, topic_json nowMs r t)) [Cpu, Memory, Network]))])"

definition renderHistory :: "nat \<Rightarrow> recorder option \<Rightarrow> string" where
  "renderHistory nowMs history = stringify2 (history_json nowMs history)"

definition historyResource :: "nat \<Rightarrow> recorder option \<Rightarrow> resource_content prog" where
  "historyResource nowMs history =
     Ret \<lparr>rc_uri = HISTORY_URI, rc_mimeType = ''application/json'', rc_text = renderHistory nowMs history\<rparr>"

section \<open>Prompts\<close>

record guided_workflow =
  gw_name :: string
  gw_title :: string
  gw_description :: string
  gw_text :: string

definition TRIAGE_ARRAY_PROBLEM :: guided_workflow where
  \<open>TRIAGE_ARRAY_PROBLEM =
     \<lparr>gw_name = ''triage-array-problem'', gw_title = ''Triage an Array Problem'',
      gw_description = ''Systematically diagnose an unhealthy array, worst signal first.'',
      gw_text = join nl
       [''Triage a suspected Unraid array problem, in this order:'',
        ''1. Run system_health '' @ mdash @ '' it scores every subsystem; start from the worst.'',
        ''2. Run array_status (detailed) for array state, capacity, and per-disk status/temps.'',
        ''3. Run disk_list to check SMART status and temperatures of the physical disks.'',
        ''4. Run notification_alerts for unread warnings/alerts the server already raised.'',
        ''5. Run parity_history to see whether recent parity checks found errors.'',
        ''6. If a disk looks failed or disabled: do NOT take corrective action automatically.'',
        ''   Summarize the evidence, explain the risk, and let the owner decide next steps.'',
        ''Any fix (array stop, parity check) is gated '' @ mdash @ '' present the plan before confirming.'']\<rparr>\<close>

definition FIND_RESOURCE_HOG :: guided_workflow where
  \<open>FIND_RESOURCE_HOG =
     \<lparr>gw_name = ''find-resource-hog'', gw_title = ''Find the Resource Hog'',
      gw_description = ''Track down what is eating CPU, memory, or network.'',
      gw_text = join nl
       [''Find what is consuming this Unraid server\'s resources:'',
        ''1. Run system_metrics '' @ mdash @ '' establish overall CPU, memory, and network pressure.'',
        ''2. Run docker_stats (needs SSH) '' @ mdash @ '' per-container CPU/memory/IO, hungriest first.'',
        ''3. If no container explains the load, run shell_exec with `ps axo pid,pcpu,pmem,comm --sort=-pcpu | head -n 15` for host processes.'',
        ''4. Cross-check the suspect with docker_container_logs for error loops or restarts.'',
        ''5. Report the culprit with numbers; suggest (but do not perform) remediation '' @ mdash,
        ''   restarting or stopping a container is gated behind docker_container_action.'']\<rparr>\<close>

definition SAFE_CONTAINER_UPDATE :: guided_workflow where
  \<open>SAFE_CONTAINER_UPDATE =
     \<lparr>gw_name = ''safe-container-update'', gw_title = ''Safely Update a Container'',
      gw_description = ''Update one container (or all updatable) with pre- and post-checks.'',
      gw_text = join nl
       [''Safely update Docker container(s) '' @ mdash @ '' target: {{container}} (empty = ask, or all updatable):'',
        ''1. Run docker_container_list '' @ mdash @ '' confirm the target exists and an update is available.'',
        ''2. Note the container\'s current state; warn the owner it will restart during update.'',
        ''3. Run docker_container_update (gated: confirm) for the target id(s).'',
        ''4. Afterwards run docker_container_list again to confirm the container came back up.'',
        ''5. Run docker_container_logs on it to check the new image started cleanly.'',
        ''6. Report old vs new state and anything suspicious in the logs.'']\<rparr>\<close>

definition HEALTH_REPORT :: guided_workflow where
  \<open>HEALTH_REPORT =
     \<lparr>gw_name = ''health-report'', gw_title = ''Owner Health Report'',
      gw_description = ''A readable status report an owner can skim.'',
      gw_text = join nl
       [''Produce a readable health report for this Unraid server:'',
        ''1. Run system_health (detailed) for the scored rollup.'',
        ''2. Run system_metrics for current CPU/memory/network numbers.'',
        ''3. Run ups_status for power protection state (skip gracefully if none).'',
        ''4. Run parity_history for the last parity check date and result.'',
        ''5. Compose a short report: an overall verdict line, a table of subsystems with'',
        ''   status, and a \'needs attention\' list with concrete next steps. No fixes '' @ mdash,
        ''   this is a read-only report.'']\<rparr>\<close>

definition WORKFLOWS :: "guided_workflow list" where
  "WORKFLOWS = [TRIAGE_ARRAY_PROBLEM, FIND_RESOURCE_HOG, SAFE_CONTAINER_UPDATE, HEALTH_REPORT]"

text \<open>
  \<open>text.replace("{{container}}", value)\<close> replaces the first occurrence; in the replacement the
  standard library expands \<open>$$\<close>, \<open>$&\<close>, the text before and the text after the match.
\<close>

fun expand_dollars :: "string \<Rightarrow> string \<Rightarrow> string \<Rightarrow> string \<Rightarrow> string" where
  "expand_dollars before found after (c # d # s) =
     (if c = CHR ''$'' \<and> d = CHR ''$'' then c # expand_dollars before found after s
      else if c = CHR ''$'' \<and> d = CHR ''&'' then found @ expand_dollars before found after s
      else if c = CHR ''$'' \<and> d = CHR 0x60 then before @ expand_dollars before found after s
      else if c = CHR ''$'' \<and> d = CHR 0x27 then after @ expand_dollars before found after s
      else c # expand_dollars before found after (d # s))"
| "expand_dollars before found after s = s"

fun replace_in :: "string \<Rightarrow> string \<Rightarrow> string \<Rightarrow> string \<Rightarrow> string" where
  "replace_in seen needle value [] = (if needle = [] then expand_dollars seen [] [] value else [])"
| "replace_in seen needle value (c # s) =
     (if starts_with (c # s) needle
      then expand_dollars seen needle (drop (length needle) (c # s)) value @ drop (length needle) (c # s)
      else c # replace_in (seen @ [c]) needle value s)"

definition replace_text :: "string \<Rightarrow> string \<Rightarrow> string \<Rightarrow> string" where
  "replace_text needle value t = replace_in [] needle value t"

record prompt_entry =
  pe_name :: string
  pe_title :: string
  pe_description :: string
  pe_messages :: "string option \<Rightarrow> string"

definition container_messages :: "guided_workflow \<Rightarrow> string option \<Rightarrow> string" where
  "container_messages gw container =
     replace_text ''{{container}}'' (case container of None \<Rightarrow> ''(not specified)'' | Some c \<Rightarrow> c) (gw_text gw)"

definition registerAllPrompts :: "prompt_entry list" where
  "registerAllPrompts =
     map (\<lambda>gw. \<lparr>pe_name = gw_name gw, pe_title = gw_title gw, pe_description = gw_description gw,
                pe_messages = (if gw_name gw = ''safe-container-update'' then container_messages gw else (\<lambda>_. gw_text gw))\<rparr>) WORKFLOWS"

section \<open>Resources only read\<close>

lemma resources_read:
  "emits reads_only (schemaResource rf)" "emits reads_only healthResource" "emits reads_only (historyResource n h)"
  "emits (runs_only (\<lambda>c. c = SSH_PROBE_COMMAND)) (doctorResource l deps)"
  unfolding schemaResource_def healthResource_def historyResource_def doctorResource_def runSystemHealth_def readUps_def
    runConnectionDoctor_def case_prod_beta
  by (intro emits_intros; simp)+

lemma prompts_distinct: "distinct (map pe_name registerAllPrompts)"
  by (simp add: registerAllPrompts_def WORKFLOWS_def TRIAGE_ARRAY_PROBLEM_def FIND_RESOURCE_HOG_def SAFE_CONTAINER_UPDATE_def HEALTH_REPORT_def)

end
