(* ===== verification/Registry.thy ===== *)
theory Registry
  imports ArrayTools DockerTools VmTools ServiceTools ZfsTools UnassignedTools ShareTools ShellTools
    GraphqlTools ApiKeyTools PluginTools NotificationTools LogTools BackupTools ListTools MetricsTools
    VmSnapshotTools HostReads UpsTools HealthTools SystemTools DoctorTools GpuTools
begin

text \<open>
  The tool registry (\<open>tools/registry.ts\<close>) and the registration of each tool: its name, title and
  annotations, and the handler with the parts of the options it gets. A call is a value of
  \<open>tool_call\<close>, the arguments as the tool's schema admits them; the descriptions and the schemas
  themselves are data of the SDK. \<open>callTool\<close> is a call as the server answers it: the tool must be
  in the listing that \<open>registerAllTools\<close> builds.

  The lemmas of the last part show that a tool registered as not mutating only reads, whatever its
  arguments and whatever the server answers: it sends no mutation, and over SSH it runs only the
  commands of \<open>read_commands\<close>.
\<close>

section \<open>The calls a client can make\<close>

text \<open>One constructor per tool with the arguments its schema admits, grouped by directory.\<close>

datatype system_call =
    CSystemInfo response_format
  | CSystemMetrics response_format bool
  | CMetricsHistory metrics_input
  | CSystemPower power_args
  | CSystemHealth response_format
  | CGpuMetrics response_format
  | CProcessList response_format process_sort nat
  | CConnectionDoctor response_format

datatype log_call =
    CLogList response_format
  | CLogRead log_read_input

datatype array_call =
    CArrayStatus response_format
  | CArrayAction array_action_args
  | CArrayDiskAction disk_action_arg array_disk_args
  | CParityHistory response_format nat
  | CParityCheck parity_args

datatype disk_call =
    CDiskList response_format
  | CDiskSpin spin_args
  | CDiskSmartReport "string"

datatype share_call =
    CShareList response_format "string option"
  | CShareCreate share_args
  | CShareEdit share_args
  | CShareDelete "string" risk_flags

datatype docker_call =
    CDockerAutostartSet autostart_args
  | CDockerContainerAction container_args
  | CDockerContainerList response_format "string option"
  | CDockerContainerLogs container_logs_input
  | CDockerContainerRemove remove_args
  | CDockerContainerUpdate update_args
  | CDockerNetworkList response_format
  | CDockerPortConflicts response_format
  | CDockerStats response_format

datatype vm_call =
    CVmList response_format "string option"
  | CVmAction vm_args
  | CVmSnapshotList response_format "string"
  | CVmSnapshotCreate vm_snapshot_args

datatype notification_call =
    CNotificationOverview response_format
  | CNotificationList notification_list_args
  | CNotificationAlerts response_format
  | CNotificationArchive archive_args
  | CNotificationUnread "string"
  | CNotificationDelete notification_delete_args
  | CNotificationCreate notification_create_args
  | CNotificationRecalculate response_format

datatype plugin_call =
    CPluginList response_format
  | CPluginAdd plugin_names_input
  | CPluginRemove plugin_names_input
  | CPluginInstallPlg plugin_install_plg_args

datatype access_call =
    CApiKeyList response_format
  | CApiKeyManage api_key_manage_args
  | CUpsStatus response_format
  | CMoverStatus response_format
  | CMoverAction mover_args

datatype script_call =
    CUserScriptList response_format
  | CUserScriptRun script_args
  | CFlashBackup flash_backup_args
  | CFileRead file_read_input
  | CShellExec shell_exec_input
  | CGraphqlQuery graphql_query_input
  | CGraphqlMutation graphql_mutation_input

datatype zfs_call =
    CZfsStatus response_format
  | CZfsDatasetList response_format "string option"
  | CZfsSnapshotList response_format "string option"
  | CZfsSnapshotAction snapshot_args

datatype host_call =
    CServiceList response_format
  | CServiceAction service_args
  | CUnassignedList response_format
  | CUnassignedAction unassigned_args

datatype tool_call =
    SystemCall system_call
  | LogCall log_call
  | ArrayCall array_call
  | DiskCall disk_call
  | ShareCall share_call
  | DockerCall docker_call
  | VmCall vm_call
  | NotificationCall notification_call
  | PluginCall plugin_call
  | AccessCall access_call
  | ScriptCall script_call
  | ZfsCall zfs_call
  | HostCall host_call

section \<open>What a registration holds\<close>

text \<open>
  The options of the registry. The clients are not values here: the GraphQL executor is reached
  through requests, and of the shell executor only its presence matters to the handlers.
  \<open>ro_liveDocker\<close> is what the live store answers for the container statistics.
\<close>

record registry_options =
  ro_readOnly :: bool
  ro_shell :: bool
  ro_schemaApiVersion :: "string option"
  ro_history :: "recorder option"
  ro_liveDocker :: "(docker_aggregate option \<times> int) option"

text \<open>
  What a call finds in its surroundings: the elicitation channel of the client, the request
  context with its progress token, the clock (as milliseconds and as a date), the duration of
  the doctor's query, the number of heartbeats of each long command, and the library functions
  that are parameters of the model.
\<close>

record ambient =
  am_channel :: channel
  am_extra :: handler_extra
  am_nowMs :: nat
  am_date :: utc_date
  am_latencyMs :: int
  am_beats :: "nat \<Rightarrow> nat"
  am_cacheAgeMs :: "jsval \<Rightarrow> int option"
  am_localeCompare :: "string \<Rightarrow> string \<Rightarrow> int"
  am_lib :: graphql_lib

definition doctor_deps_of :: "registry_options \<Rightarrow> doctor_deps" where
  "doctor_deps_of opt =
     \<lparr>dd_shell = ro_shell opt, dd_readOnly = ro_readOnly opt, dd_schemaApiVersion = ro_schemaApiVersion opt\<rparr>"

record tool_annotations =
  readOnlyHint :: bool
  destructiveHint :: bool
  idempotentHint :: bool
  openWorldHint :: bool

definition hints :: "bool \<Rightarrow> bool \<Rightarrow> bool \<Rightarrow> bool \<Rightarrow> tool_annotations" where
  "hints r d i w = \<lparr>readOnlyHint = r, destructiveHint = d, idempotentHint = i, openWorldHint = w\<rparr>"

lemma hints_simps [simp]:
  "readOnlyHint (hints r d i w) = r" "destructiveHint (hints r d i w) = d"
  "idempotentHint (hints r d i w) = i" "openWorldHint (hints r d i w) = w"
  by (simp_all add: hints_def)

text \<open>
  A tool as the SDK keeps it. \<open>rt_run\<close> is the handler behind the tool's schema: \<open>None\<close> for
  arguments that are not this tool's (the SDK answers those itself).
\<close>

record registered_tool =
  rt_name :: string
  rt_title :: string
  rt_annotations :: tool_annotations
  rt_run :: "tool_call \<Rightarrow> tool_result prog option"

section \<open>The registrations\<close>


definition registerSystemInfo :: "registry_options \<Rightarrow> ambient \<Rightarrow> registered_tool" where
  "registerSystemInfo opt am =
     \<lparr>rt_name = ''system_info'', rt_title = ''Get Unraid System Info'', rt_annotations = hints True False True False,
      rt_run = (\<lambda>call. case call of SystemCall (CSystemInfo a) \<Rightarrow> Some (systemInfoHandler a) | _ \<Rightarrow> None)\<rparr>"

definition registerSystemMetrics :: "registry_options \<Rightarrow> ambient \<Rightarrow> registered_tool" where
  "registerSystemMetrics opt am =
     \<lparr>rt_name = ''system_metrics'', rt_title = ''Get System Metrics'', rt_annotations = hints True False True False,
      rt_run = (\<lambda>call. case call of SystemCall (CSystemMetrics a b) \<Rightarrow> Some (systemMetricsHandler (am_cacheAgeMs am) a b) | _ \<Rightarrow> None)\<rparr>"

definition registerMetricsHistory :: "registry_options \<Rightarrow> ambient \<Rightarrow> registered_tool" where
  "registerMetricsHistory opt am =
     \<lparr>rt_name = ''metrics_history'', rt_title = ''Metric History'', rt_annotations = hints True False True False,
      rt_run = (\<lambda>call. case call of SystemCall (CMetricsHistory a) \<Rightarrow> metricsHistoryHandler (am_nowMs am) (ro_history opt) a | _ \<Rightarrow> None)\<rparr>"

definition registerLogList :: "registry_options \<Rightarrow> ambient \<Rightarrow> registered_tool" where
  "registerLogList opt am =
     \<lparr>rt_name = ''log_list'', rt_title = ''List Log Files'', rt_annotations = hints True False True False,
      rt_run = (\<lambda>call. case call of LogCall (CLogList a) \<Rightarrow> Some (logListHandler (am_localeCompare am) a) | _ \<Rightarrow> None)\<rparr>"

definition registerLogRead :: "registry_options \<Rightarrow> ambient \<Rightarrow> registered_tool" where
  "registerLogRead opt am =
     \<lparr>rt_name = ''log_read'', rt_title = ''Read Log File'', rt_annotations = hints True False True False,
      rt_run = (\<lambda>call. case call of LogCall (CLogRead a) \<Rightarrow> Some (logReadHandler a) | _ \<Rightarrow> None)\<rparr>"

definition registerArrayStatus :: "registry_options \<Rightarrow> ambient \<Rightarrow> registered_tool" where
  "registerArrayStatus opt am =
     \<lparr>rt_name = ''array_status'', rt_title = ''Get Unraid Array Status'', rt_annotations = hints True False True False,
      rt_run = (\<lambda>call. case call of ArrayCall (CArrayStatus a) \<Rightarrow> Some (arrayStatusHandler (am_cacheAgeMs am) a) | _ \<Rightarrow> None)\<rparr>"

definition registerArrayAction :: "registry_options \<Rightarrow> ambient \<Rightarrow> registered_tool" where
  "registerArrayAction opt am =
     \<lparr>rt_name = ''array_action'', rt_title = ''Start or Stop the Unraid Array'', rt_annotations = hints False True False False,
      rt_run = (\<lambda>call. case call of ArrayCall (CArrayAction a) \<Rightarrow> Some (arrayActionHandler (am_channel am) a) | _ \<Rightarrow> None)\<rparr>"

definition registerArrayDiskAction :: "registry_options \<Rightarrow> ambient \<Rightarrow> registered_tool" where
  "registerArrayDiskAction opt am =
     \<lparr>rt_name = ''array_disk_action'', rt_title = ''Array Disk Operations'', rt_annotations = hints False True False False,
      rt_run = (\<lambda>call. case call of ArrayCall (CArrayDiskAction a b) \<Rightarrow> Some (arrayDiskActionHandler (am_channel am) a b) | _ \<Rightarrow> None)\<rparr>"

definition registerParityHistory :: "registry_options \<Rightarrow> ambient \<Rightarrow> registered_tool" where
  "registerParityHistory opt am =
     \<lparr>rt_name = ''parity_history'', rt_title = ''Get Unraid Parity Check History'', rt_annotations = hints True False True False,
      rt_run = (\<lambda>call. case call of ArrayCall (CParityHistory a b) \<Rightarrow> Some (parityHistoryHandler (am_localeCompare am) a b) | _ \<Rightarrow> None)\<rparr>"

definition registerParityCheck :: "registry_options \<Rightarrow> ambient \<Rightarrow> registered_tool" where
  "registerParityCheck opt am =
     \<lparr>rt_name = ''parity_check'', rt_title = ''Control the Parity Check'', rt_annotations = hints False True False False,
      rt_run = (\<lambda>call. case call of ArrayCall (CParityCheck a) \<Rightarrow> Some (parityCheckHandler (am_channel am) a) | _ \<Rightarrow> None)\<rparr>"

definition registerDiskList :: "registry_options \<Rightarrow> ambient \<Rightarrow> registered_tool" where
  "registerDiskList opt am =
     \<lparr>rt_name = ''disk_list'', rt_title = ''List Unraid Physical Disks'', rt_annotations = hints True False True False,
      rt_run = (\<lambda>call. case call of DiskCall (CDiskList a) \<Rightarrow> Some (diskListHandler a) | _ \<Rightarrow> None)\<rparr>"

definition registerShareList :: "registry_options \<Rightarrow> ambient \<Rightarrow> registered_tool" where
  "registerShareList opt am =
     \<lparr>rt_name = ''share_list'', rt_title = ''List Unraid Shares'', rt_annotations = hints True False True False,
      rt_run = (\<lambda>call. case call of ShareCall (CShareList a b) \<Rightarrow> Some (shareListHandler a b) | _ \<Rightarrow> None)\<rparr>"

definition registerDockerAutostartSet :: "registry_options \<Rightarrow> ambient \<Rightarrow> registered_tool" where
  "registerDockerAutostartSet opt am =
     \<lparr>rt_name = ''docker_autostart_set'', rt_title = ''Set Docker Container Autostart'', rt_annotations = hints False True True False,
      rt_run = (\<lambda>call. case call of DockerCall (CDockerAutostartSet a) \<Rightarrow> Some (dockerAutostartSetHandler (am_channel am) a) | _ \<Rightarrow> None)\<rparr>"

definition registerDockerContainerAction :: "registry_options \<Rightarrow> ambient \<Rightarrow> registered_tool" where
  "registerDockerContainerAction opt am =
     \<lparr>rt_name = ''docker_container_action'', rt_title = ''Start/Stop/Pause Docker Container'', rt_annotations = hints False True False False,
      rt_run = (\<lambda>call. case call of DockerCall (CDockerContainerAction a) \<Rightarrow> Some (dockerContainerActionHandler (am_channel am) a) | _ \<Rightarrow> None)\<rparr>"

definition registerDockerContainerList :: "registry_options \<Rightarrow> ambient \<Rightarrow> registered_tool" where
  "registerDockerContainerList opt am =
     \<lparr>rt_name = ''docker_container_list'', rt_title = ''List Docker Containers'', rt_annotations = hints True False True False,
      rt_run = (\<lambda>call. case call of DockerCall (CDockerContainerList a b) \<Rightarrow> Some (dockerContainerListHandler (am_cacheAgeMs am) a b) | _ \<Rightarrow> None)\<rparr>"

definition registerDockerContainerLogs :: "registry_options \<Rightarrow> ambient \<Rightarrow> registered_tool" where
  "registerDockerContainerLogs opt am =
     \<lparr>rt_name = ''docker_container_logs'', rt_title = ''Get Docker Container Logs'', rt_annotations = hints True False True False,
      rt_run = (\<lambda>call. case call of DockerCall (CDockerContainerLogs a) \<Rightarrow> Some (dockerContainerLogsHandler (ro_shell opt) a) | _ \<Rightarrow> None)\<rparr>"

definition registerDockerContainerRemove :: "registry_options \<Rightarrow> ambient \<Rightarrow> registered_tool" where
  "registerDockerContainerRemove opt am =
     \<lparr>rt_name = ''docker_container_remove'', rt_title = ''Remove Docker Container'', rt_annotations = hints False True False False,
      rt_run = (\<lambda>call. case call of DockerCall (CDockerContainerRemove a) \<Rightarrow> Some (dockerContainerRemoveHandler (am_channel am) a) | _ \<Rightarrow> None)\<rparr>"

definition registerDockerContainerUpdate :: "registry_options \<Rightarrow> ambient \<Rightarrow> registered_tool" where
  "registerDockerContainerUpdate opt am =
     \<lparr>rt_name = ''docker_container_update'', rt_title = ''Update Docker Container(s)'', rt_annotations = hints False True False False,
      rt_run = (\<lambda>call. case call of DockerCall (CDockerContainerUpdate a) \<Rightarrow> Some (dockerContainerUpdateHandler (am_channel am) (am_extra am) a) | _ \<Rightarrow> None)\<rparr>"

definition registerDockerNetworkList :: "registry_options \<Rightarrow> ambient \<Rightarrow> registered_tool" where
  "registerDockerNetworkList opt am =
     \<lparr>rt_name = ''docker_network_list'', rt_title = ''List Docker Networks'', rt_annotations = hints True False True False,
      rt_run = (\<lambda>call. case call of DockerCall (CDockerNetworkList a) \<Rightarrow> Some (dockerNetworkListHandler a) | _ \<Rightarrow> None)\<rparr>"

definition registerDockerPortConflicts :: "registry_options \<Rightarrow> ambient \<Rightarrow> registered_tool" where
  "registerDockerPortConflicts opt am =
     \<lparr>rt_name = ''docker_port_conflicts'', rt_title = ''List Docker Port Conflicts'', rt_annotations = hints True False True False,
      rt_run = (\<lambda>call. case call of DockerCall (CDockerPortConflicts a) \<Rightarrow> Some (dockerPortConflictsHandler a) | _ \<Rightarrow> None)\<rparr>"

definition registerVmList :: "registry_options \<Rightarrow> ambient \<Rightarrow> registered_tool" where
  "registerVmList opt am =
     \<lparr>rt_name = ''vm_list'', rt_title = ''List Virtual Machines'', rt_annotations = hints True False True False,
      rt_run = (\<lambda>call. case call of VmCall (CVmList a b) \<Rightarrow> Some (vmListHandler a b) | _ \<Rightarrow> None)\<rparr>"

definition registerVmAction :: "registry_options \<Rightarrow> ambient \<Rightarrow> registered_tool" where
  "registerVmAction opt am =
     \<lparr>rt_name = ''vm_action'', rt_title = ''Control a Virtual Machine'', rt_annotations = hints False True False False,
      rt_run = (\<lambda>call. case call of VmCall (CVmAction a) \<Rightarrow> Some (vmActionHandler (am_channel am) a) | _ \<Rightarrow> None)\<rparr>"

definition registerNotificationOverview :: "registry_options \<Rightarrow> ambient \<Rightarrow> registered_tool" where
  "registerNotificationOverview opt am =
     \<lparr>rt_name = ''notification_overview'', rt_title = ''Notification Overview'', rt_annotations = hints True False True False,
      rt_run = (\<lambda>call. case call of NotificationCall (CNotificationOverview a) \<Rightarrow> Some (notificationOverviewHandler a) | _ \<Rightarrow> None)\<rparr>"

definition registerNotificationList :: "registry_options \<Rightarrow> ambient \<Rightarrow> registered_tool" where
  "registerNotificationList opt am =
     \<lparr>rt_name = ''notification_list'', rt_title = ''List Notifications'', rt_annotations = hints True False True False,
      rt_run = (\<lambda>call. case call of NotificationCall (CNotificationList a) \<Rightarrow> Some (notificationListHandler a) | _ \<Rightarrow> None)\<rparr>"

definition registerNotificationAlerts :: "registry_options \<Rightarrow> ambient \<Rightarrow> registered_tool" where
  "registerNotificationAlerts opt am =
     \<lparr>rt_name = ''notification_alerts'', rt_title = ''Notification Alerts'', rt_annotations = hints True False True False,
      rt_run = (\<lambda>call. case call of NotificationCall (CNotificationAlerts a) \<Rightarrow> Some (notificationAlertsHandler a) | _ \<Rightarrow> None)\<rparr>"

definition registerNotificationArchive :: "registry_options \<Rightarrow> ambient \<Rightarrow> registered_tool" where
  "registerNotificationArchive opt am =
     \<lparr>rt_name = ''notification_archive'', rt_title = ''Archive or Unarchive Notifications'', rt_annotations = hints False False True False,
      rt_run = (\<lambda>call. case call of NotificationCall (CNotificationArchive a) \<Rightarrow> Some (notificationArchiveHandler a) | _ \<Rightarrow> None)\<rparr>"

definition registerNotificationUnread :: "registry_options \<Rightarrow> ambient \<Rightarrow> registered_tool" where
  "registerNotificationUnread opt am =
     \<lparr>rt_name = ''notification_unread'', rt_title = ''Mark Notification Unread'', rt_annotations = hints False False True False,
      rt_run = (\<lambda>call. case call of NotificationCall (CNotificationUnread a) \<Rightarrow> Some (notificationUnreadHandler a) | _ \<Rightarrow> None)\<rparr>"

definition registerNotificationDelete :: "registry_options \<Rightarrow> ambient \<Rightarrow> registered_tool" where
  "registerNotificationDelete opt am =
     \<lparr>rt_name = ''notification_delete'', rt_title = ''Delete Notifications'', rt_annotations = hints False True False False,
      rt_run = (\<lambda>call. case call of NotificationCall (CNotificationDelete a) \<Rightarrow> Some (notificationDeleteHandler (am_channel am) a) | _ \<Rightarrow> None)\<rparr>"

definition registerNotificationCreate :: "registry_options \<Rightarrow> ambient \<Rightarrow> registered_tool" where
  "registerNotificationCreate opt am =
     \<lparr>rt_name = ''notification_create'', rt_title = ''Create Notification'', rt_annotations = hints False False False False,
      rt_run = (\<lambda>call. case call of NotificationCall (CNotificationCreate a) \<Rightarrow> Some (notificationCreateHandler a) | _ \<Rightarrow> None)\<rparr>"

definition registerNotificationRecalculate :: "registry_options \<Rightarrow> ambient \<Rightarrow> registered_tool" where
  "registerNotificationRecalculate opt am =
     \<lparr>rt_name = ''notification_recalculate'', rt_title = ''Recalculate Notification Overview'', rt_annotations = hints False False True False,
      rt_run = (\<lambda>call. case call of NotificationCall (CNotificationRecalculate a) \<Rightarrow> Some (notificationRecalculateHandler a) | _ \<Rightarrow> None)\<rparr>"

definition registerPluginList :: "registry_options \<Rightarrow> ambient \<Rightarrow> registered_tool" where
  "registerPluginList opt am =
     \<lparr>rt_name = ''plugin_list'', rt_title = ''List Plugins'', rt_annotations = hints True False True False,
      rt_run = (\<lambda>call. case call of PluginCall (CPluginList a) \<Rightarrow> Some (pluginListHandler a) | _ \<Rightarrow> None)\<rparr>"

definition registerPluginAdd :: "registry_options \<Rightarrow> ambient \<Rightarrow> registered_tool" where
  "registerPluginAdd opt am =
     \<lparr>rt_name = ''plugin_add'', rt_title = ''Add API Plugins'', rt_annotations = hints False True False True,
      rt_run = (\<lambda>call. case call of PluginCall (CPluginAdd a) \<Rightarrow> Some (pluginAddHandler (am_channel am) a) | _ \<Rightarrow> None)\<rparr>"

definition registerPluginRemove :: "registry_options \<Rightarrow> ambient \<Rightarrow> registered_tool" where
  "registerPluginRemove opt am =
     \<lparr>rt_name = ''plugin_remove'', rt_title = ''Remove API Plugins'', rt_annotations = hints False True False False,
      rt_run = (\<lambda>call. case call of PluginCall (CPluginRemove a) \<Rightarrow> Some (pluginRemoveHandler (am_channel am) a) | _ \<Rightarrow> None)\<rparr>"

definition registerPluginInstallPlg :: "registry_options \<Rightarrow> ambient \<Rightarrow> registered_tool" where
  "registerPluginInstallPlg opt am =
     \<lparr>rt_name = ''plugin_install_plg'', rt_title = ''Install Native Unraid Plugin (.plg)'', rt_annotations = hints False True False True,
      rt_run = (\<lambda>call. case call of PluginCall (CPluginInstallPlg a) \<Rightarrow> Some (pluginInstallPlgHandler (am_channel am) a) | _ \<Rightarrow> None)\<rparr>"

definition registerApiKeyList :: "registry_options \<Rightarrow> ambient \<Rightarrow> registered_tool" where
  "registerApiKeyList opt am =
     \<lparr>rt_name = ''apikey_list'', rt_title = ''List API Keys'', rt_annotations = hints True False True False,
      rt_run = (\<lambda>call. case call of AccessCall (CApiKeyList a) \<Rightarrow> Some (apiKeyListHandler a) | _ \<Rightarrow> None)\<rparr>"

definition registerApiKeyManage :: "registry_options \<Rightarrow> ambient \<Rightarrow> registered_tool" where
  "registerApiKeyManage opt am =
     \<lparr>rt_name = ''apikey_manage'', rt_title = ''Manage API Keys'', rt_annotations = hints False True False False,
      rt_run = (\<lambda>call. case call of AccessCall (CApiKeyManage a) \<Rightarrow> Some (apiKeyManageHandler (am_channel am) a) | _ \<Rightarrow> None)\<rparr>"

definition registerUpsStatus :: "registry_options \<Rightarrow> ambient \<Rightarrow> registered_tool" where
  "registerUpsStatus opt am =
     \<lparr>rt_name = ''ups_status'', rt_title = ''Get UPS Status'', rt_annotations = hints True False True False,
      rt_run = (\<lambda>call. case call of AccessCall (CUpsStatus a) \<Rightarrow> Some (upsStatusHandler a) | _ \<Rightarrow> None)\<rparr>"

definition registerMoverStatus :: "registry_options \<Rightarrow> ambient \<Rightarrow> registered_tool" where
  "registerMoverStatus opt am =
     \<lparr>rt_name = ''mover_status'', rt_title = ''Mover Status'', rt_annotations = hints True False True False,
      rt_run = (\<lambda>call. case call of AccessCall (CMoverStatus a) \<Rightarrow> Some (moverStatusHandler a) | _ \<Rightarrow> None)\<rparr>"

definition registerMoverAction :: "registry_options \<Rightarrow> ambient \<Rightarrow> registered_tool" where
  "registerMoverAction opt am =
     \<lparr>rt_name = ''mover_action'', rt_title = ''Start or Stop the Mover'', rt_annotations = hints False True False False,
      rt_run = (\<lambda>call. case call of AccessCall (CMoverAction a) \<Rightarrow> Some (moverActionHandler (ro_shell opt) (am_channel am) a) | _ \<Rightarrow> None)\<rparr>"

definition registerSystemPower :: "registry_options \<Rightarrow> ambient \<Rightarrow> registered_tool" where
  "registerSystemPower opt am =
     \<lparr>rt_name = ''system_power'', rt_title = ''Reboot or Shut Down the Server'', rt_annotations = hints False True False False,
      rt_run = (\<lambda>call. case call of SystemCall (CSystemPower a) \<Rightarrow> Some (systemPowerHandler (ro_shell opt) (am_channel am) a) | _ \<Rightarrow> None)\<rparr>"

definition registerSystemHealth :: "registry_options \<Rightarrow> ambient \<Rightarrow> registered_tool" where
  "registerSystemHealth opt am =
     \<lparr>rt_name = ''system_health'', rt_title = ''System Health Rollup'', rt_annotations = hints True False True False,
      rt_run = (\<lambda>call. case call of SystemCall (CSystemHealth a) \<Rightarrow> Some (systemHealthHandler a) | _ \<Rightarrow> None)\<rparr>"

definition registerDiskSpin :: "registry_options \<Rightarrow> ambient \<Rightarrow> registered_tool" where
  "registerDiskSpin opt am =
     \<lparr>rt_name = ''disk_spin'', rt_title = ''Spin Disk Up/Down'', rt_annotations = hints False False True False,
      rt_run = (\<lambda>call. case call of DiskCall (CDiskSpin a) \<Rightarrow> Some (diskSpinHandler (ro_shell opt) (am_channel am) a) | _ \<Rightarrow> None)\<rparr>"

definition registerDiskSmartReport :: "registry_options \<Rightarrow> ambient \<Rightarrow> registered_tool" where
  "registerDiskSmartReport opt am =
     \<lparr>rt_name = ''disk_smart_report'', rt_title = ''Deep SMART Report'', rt_annotations = hints True False True False,
      rt_run = (\<lambda>call. case call of DiskCall (CDiskSmartReport a) \<Rightarrow> Some (diskSmartReportHandler (ro_shell opt) a) | _ \<Rightarrow> None)\<rparr>"

definition registerVmSnapshotList :: "registry_options \<Rightarrow> ambient \<Rightarrow> registered_tool" where
  "registerVmSnapshotList opt am =
     \<lparr>rt_name = ''vm_snapshot_list'', rt_title = ''List VM Snapshots'', rt_annotations = hints True False True False,
      rt_run = (\<lambda>call. case call of VmCall (CVmSnapshotList a b) \<Rightarrow> Some (vmSnapshotListHandler (ro_shell opt) a b) | _ \<Rightarrow> None)\<rparr>"

definition registerVmSnapshotCreate :: "registry_options \<Rightarrow> ambient \<Rightarrow> registered_tool" where
  "registerVmSnapshotCreate opt am =
     \<lparr>rt_name = ''vm_snapshot_create'', rt_title = ''Create VM Snapshot'', rt_annotations = hints False True False False,
      rt_run = (\<lambda>call. case call of VmCall (CVmSnapshotCreate a) \<Rightarrow> Some (vmSnapshotCreateHandler (ro_shell opt) (am_channel am) a) | _ \<Rightarrow> None)\<rparr>"

definition registerUserScriptList :: "registry_options \<Rightarrow> ambient \<Rightarrow> registered_tool" where
  "registerUserScriptList opt am =
     \<lparr>rt_name = ''user_script_list'', rt_title = ''List User Scripts'', rt_annotations = hints True False True False,
      rt_run = (\<lambda>call. case call of ScriptCall (CUserScriptList a) \<Rightarrow> Some (userScriptListHandler (ro_shell opt) a) | _ \<Rightarrow> None)\<rparr>"

definition registerUserScriptRun :: "registry_options \<Rightarrow> ambient \<Rightarrow> registered_tool" where
  "registerUserScriptRun opt am =
     \<lparr>rt_name = ''user_script_run'', rt_title = ''Run a User Script'', rt_annotations = hints False True False True,
      rt_run = (\<lambda>call. case call of ScriptCall (CUserScriptRun a) \<Rightarrow> Some (userScriptRunHandler (ro_shell opt) (am_channel am) a) | _ \<Rightarrow> None)\<rparr>"

definition registerGpuMetrics :: "registry_options \<Rightarrow> ambient \<Rightarrow> registered_tool" where
  "registerGpuMetrics opt am =
     \<lparr>rt_name = ''gpu_metrics'', rt_title = ''GPU Metrics'', rt_annotations = hints True False True False,
      rt_run = (\<lambda>call. case call of SystemCall (CGpuMetrics a) \<Rightarrow> Some (gpuMetricsHandler (ro_shell opt) a) | _ \<Rightarrow> None)\<rparr>"

definition registerProcessList :: "registry_options \<Rightarrow> ambient \<Rightarrow> registered_tool" where
  "registerProcessList opt am =
     \<lparr>rt_name = ''process_list'', rt_title = ''Top Processes'', rt_annotations = hints True False True False,
      rt_run = (\<lambda>call. case call of SystemCall (CProcessList a b c) \<Rightarrow> Some (processListHandler (ro_shell opt) a b c) | _ \<Rightarrow> None)\<rparr>"

definition registerZfsStatus :: "registry_options \<Rightarrow> ambient \<Rightarrow> registered_tool" where
  "registerZfsStatus opt am =
     \<lparr>rt_name = ''zfs_status'', rt_title = ''ZFS Pool Status'', rt_annotations = hints True False True False,
      rt_run = (\<lambda>call. case call of ZfsCall (CZfsStatus a) \<Rightarrow> Some (zfsStatusHandler (ro_shell opt) a) | _ \<Rightarrow> None)\<rparr>"

definition registerZfsDatasetList :: "registry_options \<Rightarrow> ambient \<Rightarrow> registered_tool" where
  "registerZfsDatasetList opt am =
     \<lparr>rt_name = ''zfs_dataset_list'', rt_title = ''List ZFS Datasets'', rt_annotations = hints True False True False,
      rt_run = (\<lambda>call. case call of ZfsCall (CZfsDatasetList a b) \<Rightarrow> Some (zfsDatasetListHandler (ro_shell opt) a b) | _ \<Rightarrow> None)\<rparr>"

definition registerZfsSnapshotList :: "registry_options \<Rightarrow> ambient \<Rightarrow> registered_tool" where
  "registerZfsSnapshotList opt am =
     \<lparr>rt_name = ''zfs_snapshot_list'', rt_title = ''List ZFS Snapshots'', rt_annotations = hints True False True False,
      rt_run = (\<lambda>call. case call of ZfsCall (CZfsSnapshotList a b) \<Rightarrow> Some (zfsSnapshotListHandler (ro_shell opt) a b) | _ \<Rightarrow> None)\<rparr>"

definition registerZfsSnapshotAction :: "registry_options \<Rightarrow> ambient \<Rightarrow> registered_tool" where
  "registerZfsSnapshotAction opt am =
     \<lparr>rt_name = ''zfs_snapshot_action'', rt_title = ''ZFS Snapshot Actions'', rt_annotations = hints False True False False,
      rt_run = (\<lambda>call. case call of ZfsCall (CZfsSnapshotAction a) \<Rightarrow> Some (zfsSnapshotActionHandler (ro_shell opt) (am_channel am) a) | _ \<Rightarrow> None)\<rparr>"

definition registerFlashBackup :: "registry_options \<Rightarrow> ambient \<Rightarrow> registered_tool" where
  "registerFlashBackup opt am =
     \<lparr>rt_name = ''flash_backup'', rt_title = ''Back Up Flash Device'', rt_annotations = hints False True False False,
      rt_run = (\<lambda>call. case call of ScriptCall (CFlashBackup a) \<Rightarrow> Some (flashBackupHandler (ro_shell opt) (am_channel am) a (am_extra am) (am_beats am) (am_date am)) | _ \<Rightarrow> None)\<rparr>"

definition registerServiceList :: "registry_options \<Rightarrow> ambient \<Rightarrow> registered_tool" where
  "registerServiceList opt am =
     \<lparr>rt_name = ''service_list'', rt_title = ''List Host Services'', rt_annotations = hints True False True False,
      rt_run = (\<lambda>call. case call of HostCall (CServiceList a) \<Rightarrow> Some (serviceListHandler (ro_shell opt) a) | _ \<Rightarrow> None)\<rparr>"

definition registerServiceAction :: "registry_options \<Rightarrow> ambient \<Rightarrow> registered_tool" where
  "registerServiceAction opt am =
     \<lparr>rt_name = ''service_action'', rt_title = ''Restart / Start / Stop a Host Service'', rt_annotations = hints False True False False,
      rt_run = (\<lambda>call. case call of HostCall (CServiceAction a) \<Rightarrow> Some (serviceActionHandler (ro_shell opt) (am_channel am) a) | _ \<Rightarrow> None)\<rparr>"

definition registerUnassignedList :: "registry_options \<Rightarrow> ambient \<Rightarrow> registered_tool" where
  "registerUnassignedList opt am =
     \<lparr>rt_name = ''unassigned_list'', rt_title = ''List Unassigned Disks'', rt_annotations = hints True False True False,
      rt_run = (\<lambda>call. case call of HostCall (CUnassignedList a) \<Rightarrow> Some (unassignedListHandler (ro_shell opt) a) | _ \<Rightarrow> None)\<rparr>"

definition registerUnassignedAction :: "registry_options \<Rightarrow> ambient \<Rightarrow> registered_tool" where
  "registerUnassignedAction opt am =
     \<lparr>rt_name = ''unassigned_action'', rt_title = ''Mount / Unmount an Unassigned Partition'', rt_annotations = hints False True True False,
      rt_run = (\<lambda>call. case call of HostCall (CUnassignedAction a) \<Rightarrow> Some (unassignedActionHandler (ro_shell opt) (am_channel am) a) | _ \<Rightarrow> None)\<rparr>"

definition registerShareCreate :: "registry_options \<Rightarrow> ambient \<Rightarrow> registered_tool" where
  "registerShareCreate opt am =
     \<lparr>rt_name = ''share_create'', rt_title = ''Create User Share'', rt_annotations = hints False True False False,
      rt_run = (\<lambda>call. case call of ShareCall (CShareCreate a) \<Rightarrow> Some (shareCreateHandler (ro_shell opt) (am_channel am) a) | _ \<Rightarrow> None)\<rparr>"

definition registerShareEdit :: "registry_options \<Rightarrow> ambient \<Rightarrow> registered_tool" where
  "registerShareEdit opt am =
     \<lparr>rt_name = ''share_edit'', rt_title = ''Edit User Share'', rt_annotations = hints False True True False,
      rt_run = (\<lambda>call. case call of ShareCall (CShareEdit a) \<Rightarrow> Some (shareEditHandler (ro_shell opt) (am_channel am) a) | _ \<Rightarrow> None)\<rparr>"

definition registerShareDelete :: "registry_options \<Rightarrow> ambient \<Rightarrow> registered_tool" where
  "registerShareDelete opt am =
     \<lparr>rt_name = ''share_delete'', rt_title = ''Delete User Share (config only)'', rt_annotations = hints False True False False,
      rt_run = (\<lambda>call. case call of ShareCall (CShareDelete a b) \<Rightarrow> Some (shareDeleteHandler (ro_shell opt) (am_channel am) a b) | _ \<Rightarrow> None)\<rparr>"

definition registerDockerStats :: "registry_options \<Rightarrow> ambient \<Rightarrow> registered_tool" where
  "registerDockerStats opt am =
     \<lparr>rt_name = ''docker_stats'', rt_title = ''Docker Container Stats'', rt_annotations = hints True False True False,
      rt_run = (\<lambda>call. case call of DockerCall (CDockerStats a) \<Rightarrow> Some (dockerStatsHandler (ro_liveDocker opt) (ro_shell opt) a) | _ \<Rightarrow> None)\<rparr>"

definition registerFileRead :: "registry_options \<Rightarrow> ambient \<Rightarrow> registered_tool" where
  "registerFileRead opt am =
     \<lparr>rt_name = ''file_read'', rt_title = ''Read Host File'', rt_annotations = hints True False True False,
      rt_run = (\<lambda>call. case call of ScriptCall (CFileRead a) \<Rightarrow> Some (fileReadHandler (ro_shell opt) a) | _ \<Rightarrow> None)\<rparr>"

definition registerShellExec :: "registry_options \<Rightarrow> ambient \<Rightarrow> registered_tool" where
  "registerShellExec opt am =
     \<lparr>rt_name = ''shell_exec'', rt_title = ''Run Shell Command'', rt_annotations = hints False True False True,
      rt_run = (\<lambda>call. case call of ScriptCall (CShellExec a) \<Rightarrow> Some (shellExecHandler (ro_shell opt) (am_channel am) (am_extra am) (am_beats am 0) a) | _ \<Rightarrow> None)\<rparr>"

definition registerGraphqlQuery :: "registry_options \<Rightarrow> ambient \<Rightarrow> registered_tool" where
  "registerGraphqlQuery opt am =
     \<lparr>rt_name = ''graphql_query'', rt_title = ''Raw GraphQL Query'', rt_annotations = hints True False True False,
      rt_run = (\<lambda>call. case call of ScriptCall (CGraphqlQuery a) \<Rightarrow> Some (graphqlQueryHandler (am_lib am) a) | _ \<Rightarrow> None)\<rparr>"

definition registerGraphqlMutation :: "registry_options \<Rightarrow> ambient \<Rightarrow> registered_tool" where
  "registerGraphqlMutation opt am =
     \<lparr>rt_name = ''graphql_mutation'', rt_title = ''Raw GraphQL Mutation'', rt_annotations = hints False True False False,
      rt_run = (\<lambda>call. case call of ScriptCall (CGraphqlMutation a) \<Rightarrow> Some (graphqlMutationHandler (am_lib am) (am_channel am) a) | _ \<Rightarrow> None)\<rparr>"

definition registerConnectionDoctor :: "registry_options \<Rightarrow> ambient \<Rightarrow> registered_tool" where
  "registerConnectionDoctor opt am =
     \<lparr>rt_name = ''connection_doctor'', rt_title = ''Connection Doctor'', rt_annotations = hints True False True False,
      rt_run = (\<lambda>call. case call of SystemCall (CConnectionDoctor a) \<Rightarrow> Some (connectionDoctorHandler (am_latencyMs am) (doctor_deps_of opt) a) | _ \<Rightarrow> None)\<rparr>"

section \<open>The registry\<close>

text \<open>The list of \<open>tools/registry.ts\<close> in its order, each entry with its \<open>isMutating\<close> flag.\<close>

definition TOOL_REGISTRATIONS :: "registry_options \<Rightarrow> ambient \<Rightarrow> (bool \<times> registered_tool) list" where
  "TOOL_REGISTRATIONS opt am =
     [(False, registerSystemInfo opt am),
      (False, registerSystemMetrics opt am),
      (False, registerMetricsHistory opt am),
      (False, registerLogList opt am),
      (False, registerLogRead opt am),
      (False, registerArrayStatus opt am),
      (True, registerArrayAction opt am),
      (True, registerArrayDiskAction opt am),
      (False, registerParityHistory opt am),
      (True, registerParityCheck opt am),
      (False, registerDiskList opt am),
      (False, registerShareList opt am),
      (True, registerDockerAutostartSet opt am),
      (True, registerDockerContainerAction opt am),
      (False, registerDockerContainerList opt am),
      (False, registerDockerContainerLogs opt am),
      (True, registerDockerContainerRemove opt am),
      (True, registerDockerContainerUpdate opt am),
      (False, registerDockerNetworkList opt am),
      (False, registerDockerPortConflicts opt am),
      (False, registerVmList opt am),
      (True, registerVmAction opt am),
      (False, registerNotificationOverview opt am),
      (False, registerNotificationList opt am),
      (False, registerNotificationAlerts opt am),
      (True, registerNotificationArchive opt am),
      (True, registerNotificationUnread opt am),
      (True, registerNotificationDelete opt am),
      (True, registerNotificationCreate opt am),
      (True, registerNotificationRecalculate opt am),
      (False, registerPluginList opt am),
      (True, registerPluginAdd opt am),
      (True, registerPluginRemove opt am),
      (True, registerPluginInstallPlg opt am),
      (False, registerApiKeyList opt am),
      (True, registerApiKeyManage opt am),
      (False, registerUpsStatus opt am),
      (False, registerMoverStatus opt am),
      (True, registerMoverAction opt am),
      (True, registerSystemPower opt am),
      (False, registerSystemHealth opt am),
      (True, registerDiskSpin opt am),
      (False, registerDiskSmartReport opt am),
      (False, registerVmSnapshotList opt am),
      (True, registerVmSnapshotCreate opt am),
      (False, registerUserScriptList opt am),
      (True, registerUserScriptRun opt am),
      (False, registerGpuMetrics opt am),
      (False, registerProcessList opt am),
      (False, registerZfsStatus opt am),
      (False, registerZfsDatasetList opt am),
      (False, registerZfsSnapshotList opt am),
      (True, registerZfsSnapshotAction opt am),
      (True, registerFlashBackup opt am),
      (False, registerServiceList opt am),
      (True, registerServiceAction opt am),
      (False, registerUnassignedList opt am),
      (True, registerUnassignedAction opt am),
      (True, registerShareCreate opt am),
      (True, registerShareEdit opt am),
      (True, registerShareDelete opt am),
      (False, registerDockerStats opt am),
      (False, registerFileRead opt am),
      (True, registerShellExec opt am),
      (False, registerGraphqlQuery opt am),
      (True, registerGraphqlMutation opt am),
      (False, registerConnectionDoctor opt am)]"

text \<open>Read-only mode skips the mutating entries.\<close>

definition registerAllTools :: "registry_options \<Rightarrow> ambient \<Rightarrow> registered_tool list" where
  "registerAllTools opt am =
     concat (map (\<lambda>(isMutating, tool). if ro_readOnly opt \<and> isMutating then [] else [tool]) (TOOL_REGISTRATIONS opt am))"

text \<open>A call: \<open>None\<close> when the listing has no tool of that name or the arguments are not the tool's.\<close>

definition callTool :: "registry_options \<Rightarrow> ambient \<Rightarrow> string \<Rightarrow> tool_call \<Rightarrow> tool_result prog option" where
  "callTool opt am name call =
     (case find (\<lambda>t. rt_name t = name) (registerAllTools opt am) of None \<Rightarrow> None | Some t \<Rightarrow> rt_run t call)"

section \<open>What reading tools may run\<close>

definition read_commands :: "tool_call \<Rightarrow> string set" where
  "read_commands call =
     (case call of
        DockerCall (CDockerContainerLogs a) \<Rightarrow> {buildFallbackCommand a}
      | DockerCall (CDockerStats f) \<Rightarrow> {STATS_COMMAND}
      | SystemCall (CGpuMetrics f) \<Rightarrow> {probe_command ''nvidia-smi'', probe_command ''intel_gpu_top'', NVIDIA_QUERY, INTEL_SAMPLE}
      | SystemCall (CProcessList f s n) \<Rightarrow> {process_command s n}
      | SystemCall (CConnectionDoctor f) \<Rightarrow> {SSH_PROBE_COMMAND}
      | DiskCall (CDiskSmartReport d) \<Rightarrow> {smart_probe_command, smart_command d}
      | VmCall (CVmSnapshotList f v) \<Rightarrow> {''command -v virsh'', vm_snapshot_list_command v}
      | ScriptCall (CUserScriptList f) \<Rightarrow> {SCRIPT_LIST_COMMAND}
      | ScriptCall (CFileRead a) \<Rightarrow> {buildReadCommand a}
      | ZfsCall (CZfsStatus f) \<Rightarrow> {''command -v zpool'', POOL_LIST_COMMAND, ARCSTATS_COMMAND}
      | ZfsCall (CZfsDatasetList f p) \<Rightarrow> {''command -v zpool'', dataset_list_command p}
      | ZfsCall (CZfsSnapshotList f d) \<Rightarrow> {''command -v zpool'', snapshot_list_command d}
      | HostCall (CServiceList f) \<Rightarrow> {buildListCommand}
      | HostCall (CUnassignedList f) \<Rightarrow> {disks_ini_command, LSBLK_COMMAND}
      | _ \<Rightarrow> {})"

definition only_reads :: "string set \<Rightarrow> event \<Rightarrow> bool" where
  "only_reads cs e = (case e of EGql d v \<Rightarrow> \<not> has_mutation d | EShell c t \<Rightarrow> c \<in> cs | _ \<Rightarrow> True)"

lemma only_reads_simps [simp]:
  "only_reads cs (EGql d v) \<longleftrightarrow> \<not> has_mutation d" "only_reads cs (EShell c t) \<longleftrightarrow> c \<in> cs"
  "only_reads cs (EElicit m b)" "only_reads cs (ENotify n)"
  by (simp_all add: only_reads_def)

lemma runs_only_reads: "emits (runs_only ok) p \<Longrightarrow> (\<And>c. ok c \<Longrightarrow> c \<in> cs) \<Longrightarrow> emits (only_reads cs) p"
  by (erule emits_mono) (auto simp: runs_only_def only_reads_def split: event.splits)

lemma reads_only_reads: "emits reads_only p \<Longrightarrow> emits (only_reads cs) p"
  by (erule emits_mono) (auto simp: reads_only_def only_reads_def split: event.splits)

lemma runs_command_reads: "emits (runs_command c) p \<Longrightarrow> c \<in> cs \<Longrightarrow> emits (only_reads cs) p"
  by (erule emits_mono) (auto simp: runs_command_def only_reads_def split: event.splits)

text \<open>The handlers of the tools that are registered as not mutating, one group per directory.\<close>

definition reading :: "string set \<Rightarrow> tool_result prog \<Rightarrow> bool" where
  "reading cs p = (\<forall>w. \<forall>e \<in> set (events_of w p). only_reads cs e)"

lemma reading_emits: "emits (only_reads cs) p \<Longrightarrow> reading cs p"
  unfolding reading_def by (blast intro: events_emits)

lemmas reading_reads_only = reading_emits [OF reads_only_reads]
lemmas reading_runs_only = reading_emits [OF runs_only_reads]
lemmas reading_runs_command = reading_emits [OF runs_command_reads]

lemma query_documents [simp]:
  "\<not> has_mutation LogReadAllowlistDocument" "\<not> has_mutation LogReadContentDocument"
  "\<not> has_mutation DockerContainerLogsDocument" "\<not> has_mutation ApiKeyListDocument" "\<not> has_mutation PluginListDocument"
  by simp_all

lemma reading_log_read: "reading cs (logReadHandler inp)"
  unfolding reading_def using log_read_allowed by fastforce

lemma reading_container_logs: "reading {buildFallbackCommand inp} (dockerContainerLogsHandler shell inp)"
  unfolding reading_def using container_logs_events by fastforce

lemma reading_apikey_list: "reading cs (apiKeyListHandler f)"
  unfolding reading_def using apikey_list_events by fastforce

lemma reading_plugin_list: "reading cs (pluginListHandler f)"
  unfolding reading_def using plugin_list_events by fastforce

lemma reading_graphql_query: "reading cs (graphqlQueryHandler lib inp)"
  unfolding reading_def using graphql_query_events single_operation_kind by fastforce

lemma reading_smart: "reading {smart_probe_command, smart_command d} (diskSmartReportHandler shell d)"
  by (rule reading_emits, rule emits_mono [OF smart_events])
    (auto simp: runs_command_def only_reads_def split: event.splits)

lemma reading_metrics_history: "metricsHistoryHandler n h inp = Some p \<Longrightarrow> reading cs p"
  by (rule reading_emits)
    (auto simp: metricsHistoryHandler_def Let_def toolText_def split: option.splits if_splits intro!: emits_intros)

lemmas reading_handlers =
  reading_reads_only [OF list_tools_read(1)] reading_reads_only [OF list_tools_read(2)]
  reading_reads_only [OF list_tools_read(3)] reading_reads_only [OF list_tools_read(4)]
  reading_reads_only [OF list_tools_read(5)] reading_reads_only [OF list_tools_read(6)]
  reading_reads_only [OF list_tools_read(7)] reading_reads_only [OF list_tools_read(8)]
  reading_reads_only [OF notification_reads(1)] reading_reads_only [OF notification_reads(2)]
  reading_reads_only [OF notification_reads(3)] reading_reads_only [OF log_list_reads]
  reading_reads_only [OF arrayStatus_reads] reading_reads_only [OF system_reads(1)]
  reading_reads_only [OF system_reads(2)] reading_reads_only [OF health_reads] reading_reads_only [OF ups_status_reads]
  reading_log_read reading_container_logs reading_apikey_list reading_plugin_list reading_graphql_query
  reading_smart reading_runs_command [OF script_list_events] reading_runs_command [OF file_read_events]

definition tool_reads :: "registered_tool \<Rightarrow> bool" where
  "tool_reads t = (\<forall>call p. rt_run t call = Some p \<longrightarrow> reading (read_commands call) p)"

lemmas registration_defs =
  registerSystemInfo_def registerSystemMetrics_def registerMetricsHistory_def registerLogList_def
  registerLogRead_def registerArrayStatus_def registerArrayAction_def registerArrayDiskAction_def
  registerParityHistory_def registerParityCheck_def registerDiskList_def registerShareList_def
  registerDockerAutostartSet_def registerDockerContainerAction_def registerDockerContainerList_def
  registerDockerContainerLogs_def registerDockerContainerRemove_def registerDockerContainerUpdate_def
  registerDockerNetworkList_def registerDockerPortConflicts_def registerVmList_def registerVmAction_def
  registerNotificationOverview_def registerNotificationList_def registerNotificationAlerts_def
  registerNotificationArchive_def registerNotificationUnread_def registerNotificationDelete_def
  registerNotificationCreate_def registerNotificationRecalculate_def registerPluginList_def registerPluginAdd_def
  registerPluginRemove_def registerPluginInstallPlg_def registerApiKeyList_def registerApiKeyManage_def
  registerUpsStatus_def registerMoverStatus_def registerMoverAction_def registerSystemPower_def
  registerSystemHealth_def registerDiskSpin_def registerDiskSmartReport_def registerVmSnapshotList_def
  registerVmSnapshotCreate_def registerUserScriptList_def registerUserScriptRun_def registerGpuMetrics_def
  registerProcessList_def registerZfsStatus_def registerZfsDatasetList_def registerZfsSnapshotList_def
  registerZfsSnapshotAction_def registerFlashBackup_def registerServiceList_def registerServiceAction_def
  registerUnassignedList_def registerUnassignedAction_def registerShareCreate_def registerShareEdit_def
  registerShareDelete_def registerDockerStats_def registerFileRead_def registerShellExec_def
  registerGraphqlQuery_def registerGraphqlMutation_def registerConnectionDoctor_def

lemma system_tools_read:
  "tool_reads (registerSystemInfo opt am)"
  "tool_reads (registerSystemMetrics opt am)"
  "tool_reads (registerMetricsHistory opt am)"
  "tool_reads (registerSystemHealth opt am)"
  "tool_reads (registerGpuMetrics opt am)"
  "tool_reads (registerProcessList opt am)"
  "tool_reads (registerConnectionDoctor opt am)"
  by (auto simp: tool_reads_def read_commands_def registerSystemInfo_def registerSystemMetrics_def registerMetricsHistory_def registerSystemHealth_def registerGpuMetrics_def registerProcessList_def registerConnectionDoctor_def split: tool_call.splits system_call.splits
      intro: reading_handlers reading_metrics_history reading_runs_only [OF gpu_events] reading_runs_only [OF system_reads(3)] reading_runs_only [OF doctor_events])

lemma log_tools_read:
  "tool_reads (registerLogList opt am)"
  "tool_reads (registerLogRead opt am)"
  by (auto simp: tool_reads_def read_commands_def registerLogList_def registerLogRead_def split: tool_call.splits log_call.splits
      intro: reading_handlers)

lemma array_tools_read:
  "tool_reads (registerArrayStatus opt am)"
  "tool_reads (registerParityHistory opt am)"
  by (auto simp: tool_reads_def read_commands_def registerArrayStatus_def registerParityHistory_def split: tool_call.splits array_call.splits
      intro: reading_handlers)

lemma disk_tools_read:
  "tool_reads (registerDiskList opt am)"
  "tool_reads (registerDiskSmartReport opt am)"
  by (auto simp: tool_reads_def read_commands_def registerDiskList_def registerDiskSmartReport_def split: tool_call.splits disk_call.splits
      intro: reading_handlers reading_smart)

lemma share_tools_read:
  "tool_reads (registerShareList opt am)"
  by (auto simp: tool_reads_def read_commands_def registerShareList_def split: tool_call.splits share_call.splits
      intro: reading_handlers)

lemma docker_tools_read:
  "tool_reads (registerDockerContainerList opt am)"
  "tool_reads (registerDockerContainerLogs opt am)"
  "tool_reads (registerDockerNetworkList opt am)"
  "tool_reads (registerDockerPortConflicts opt am)"
  "tool_reads (registerDockerStats opt am)"
  by (auto simp: tool_reads_def read_commands_def registerDockerContainerList_def registerDockerContainerLogs_def registerDockerNetworkList_def registerDockerPortConflicts_def registerDockerStats_def split: tool_call.splits docker_call.splits
      intro: reading_handlers reading_runs_only [OF docker_stats_events])

lemma vm_tools_read:
  "tool_reads (registerVmList opt am)"
  "tool_reads (registerVmSnapshotList opt am)"
  by (auto simp: tool_reads_def read_commands_def registerVmList_def registerVmSnapshotList_def split: tool_call.splits vm_call.splits
      intro: reading_handlers reading_runs_only [OF vm_snapshot_list_events])

lemma notification_tools_read:
  "tool_reads (registerNotificationOverview opt am)"
  "tool_reads (registerNotificationList opt am)"
  "tool_reads (registerNotificationAlerts opt am)"
  by (auto simp: tool_reads_def read_commands_def registerNotificationOverview_def registerNotificationList_def registerNotificationAlerts_def split: tool_call.splits notification_call.splits
      intro: reading_handlers)

lemma plugin_tools_read:
  "tool_reads (registerPluginList opt am)"
  by (auto simp: tool_reads_def read_commands_def registerPluginList_def split: tool_call.splits plugin_call.splits
      intro: reading_handlers)

lemma access_tools_read:
  "tool_reads (registerApiKeyList opt am)"
  "tool_reads (registerUpsStatus opt am)"
  "tool_reads (registerMoverStatus opt am)"
  by (auto simp: tool_reads_def read_commands_def registerApiKeyList_def registerUpsStatus_def registerMoverStatus_def split: tool_call.splits access_call.splits
      intro: reading_handlers)

lemma script_tools_read:
  "tool_reads (registerUserScriptList opt am)"
  "tool_reads (registerFileRead opt am)"
  "tool_reads (registerGraphqlQuery opt am)"
  by (auto simp: tool_reads_def read_commands_def registerUserScriptList_def registerFileRead_def registerGraphqlQuery_def split: tool_call.splits script_call.splits
      intro: reading_handlers)

lemma zfs_tools_read:
  "tool_reads (registerZfsStatus opt am)"
  "tool_reads (registerZfsDatasetList opt am)"
  "tool_reads (registerZfsSnapshotList opt am)"
  by (auto simp: tool_reads_def read_commands_def registerZfsStatus_def registerZfsDatasetList_def registerZfsSnapshotList_def split: tool_call.splits zfs_call.splits
      intro: reading_handlers reading_runs_only [OF zfs_status_events] reading_runs_only [OF zfs_list_events(1)] reading_runs_only [OF zfs_list_events(2)])

lemma host_tools_read:
  "tool_reads (registerServiceList opt am)"
  "tool_reads (registerUnassignedList opt am)"
  by (auto simp: tool_reads_def read_commands_def registerServiceList_def registerUnassignedList_def split: tool_call.splits host_call.splits
      intro: reading_handlers reading_runs_only [OF service_list_events] reading_runs_only [OF unassigned_list_events])

lemmas tools_read = system_tools_read log_tools_read array_tools_read disk_tools_read share_tools_read docker_tools_read vm_tools_read notification_tools_read plugin_tools_read access_tools_read script_tools_read zfs_tools_read host_tools_read

section \<open>The listing\<close>

definition TOOL_NAMES :: "string list" where
  "TOOL_NAMES =
    [''system_info'', ''system_metrics'', ''metrics_history'', ''log_list'', ''log_read'', ''array_status'',
     ''array_action'', ''array_disk_action'', ''parity_history'', ''parity_check'', ''disk_list'',
     ''share_list'', ''docker_autostart_set'', ''docker_container_action'', ''docker_container_list'',
     ''docker_container_logs'', ''docker_container_remove'', ''docker_container_update'',
     ''docker_network_list'', ''docker_port_conflicts'', ''vm_list'', ''vm_action'',
     ''notification_overview'', ''notification_list'', ''notification_alerts'', ''notification_archive'',
     ''notification_unread'', ''notification_delete'', ''notification_create'', ''notification_recalculate'',
     ''plugin_list'', ''plugin_add'', ''plugin_remove'', ''plugin_install_plg'', ''apikey_list'',
     ''apikey_manage'', ''ups_status'', ''mover_status'', ''mover_action'', ''system_power'',
     ''system_health'', ''disk_spin'', ''disk_smart_report'', ''vm_snapshot_list'', ''vm_snapshot_create'',
     ''user_script_list'', ''user_script_run'', ''gpu_metrics'', ''process_list'', ''zfs_status'',
     ''zfs_dataset_list'', ''zfs_snapshot_list'', ''zfs_snapshot_action'', ''flash_backup'',
     ''service_list'', ''service_action'', ''unassigned_list'', ''unassigned_action'', ''share_create'',
     ''share_edit'', ''share_delete'', ''docker_stats'', ''file_read'', ''shell_exec'', ''graphql_query'',
     ''graphql_mutation'', ''connection_doctor'']"

lemma registration_names: "map (rt_name \<circ> snd) (TOOL_REGISTRATIONS opt am) = TOOL_NAMES"
  by (simp add: TOOL_REGISTRATIONS_def registration_defs TOOL_NAMES_def)

lemma tool_names_distinct: "distinct TOOL_NAMES"
  by code_simp

text \<open>\<open>isMutating\<close> mirrors \<open>readOnlyHint\<close>.\<close>

lemma registration_hints:
  "list_all (\<lambda>(m, t). m \<longleftrightarrow> \<not> readOnlyHint (rt_annotations t)) (TOOL_REGISTRATIONS opt am)"
  by (simp add: TOOL_REGISTRATIONS_def registration_defs)

lemma registration_reads: "list_all (\<lambda>(m, t). m \<or> tool_reads t) (TOOL_REGISTRATIONS opt am)"
  by (simp add: TOOL_REGISTRATIONS_def tools_read)

lemma kept_iff:
  "t \<in> set (concat (map (\<lambda>(m, t). if r \<and> m then [] else [t]) es)) \<longleftrightarrow> (\<exists>m. (m, t) \<in> set es \<and> \<not> (r \<and> m))"
  by (induction es) auto

lemma registered_iff:
  "t \<in> set (registerAllTools opt am) \<longleftrightarrow> (\<exists>m. (m, t) \<in> set (TOOL_REGISTRATIONS opt am) \<and> \<not> (ro_readOnly opt \<and> m))"
  unfolding registerAllTools_def by (rule kept_iff)

lemma called_tool:
  assumes "callTool opt am name call = Some p"
  shows "\<exists>t \<in> set (registerAllTools opt am). rt_name t = name \<and> rt_run t call = Some p"
proof -
  from assms obtain t where t: "find (\<lambda>t. rt_name t = name) (registerAllTools opt am) = Some t" "rt_run t call = Some p"
    by (auto simp: callTool_def split: option.splits)
  from t(1) obtain i where "i < length (registerAllTools opt am)" "registerAllTools opt am ! i = t" "rt_name t = name"
    by (auto simp: find_Some_iff)
  with t(2) show ?thesis by (blast dest: nth_mem)
qed

lemma listed_reads:
  assumes "t \<in> set (registerAllTools opt am)" "ro_readOnly opt \<or> readOnlyHint (rt_annotations t)" "rt_run t call = Some p"
  shows "reading (read_commands call) p"
proof -
  from assms(1) obtain m where m: "(m, t) \<in> set (TOOL_REGISTRATIONS opt am)" "\<not> (ro_readOnly opt \<and> m)"
    by (auto simp: registered_iff)
  have "m \<longleftrightarrow> \<not> readOnlyHint (rt_annotations t)" "m \<or> tool_reads t"
    using registration_hints [of opt am] registration_reads [of opt am] m(1) by (auto simp: list_all_iff)
  with m(2) assms(2,3) show ?thesis by (auto simp: tool_reads_def)
qed

lemma listed_read_only:
  assumes "t \<in> set (registerAllTools opt am)" "ro_readOnly opt"
  shows "readOnlyHint (rt_annotations t)"
  using assms registration_hints [of opt am] by (auto simp: registered_iff list_all_iff)

end
