(* ===== verification/Approvals.thy ===== *)
theory Approvals
  imports Registry
begin

text \<open>
  What the approval gates of \<open>tools/_shared/confirm.ts\<close> promise for the whole registry: a tool
  that is registered with \<open>destructiveHint\<close> sends nothing to the server as long as the call does
  not carry \<open>confirm: true\<close> and no human accepts a prompt.

  The locale \<open>consenting_gate\<close> extends the contract of a gate by the only two ways to be let
  through, the flag of the call and the human; every gate of the tools is an instance.
\<close>

section \<open>Consent\<close>

text \<open>Whatever is asked, whenever it is asked, the human does not accept.\<close>

definition nobody_accepts :: "world \<Rightarrow> bool" where
  "nobody_accepts w = (\<forall>tr m b. channel_outcome b (w_elicit w tr m b) \<noteq> Accepted)"

lemma nobody_accepts_human: "nobody_accepts w \<Longrightarrow> \<not> human_accepts w tr ch m b"
  by (simp add: nobody_accepts_def human_accepts_def)

definition untouched :: "world \<Rightarrow> tool_result prog \<Rightarrow> bool" where
  "untouched w p = (\<forall>e \<in> set (events_of w p). \<not> touches_host e)"

lemma untouched_toolError [simp]: "untouched w (toolError m)"
  by (simp add: untouched_def events_of_def run_toolError)

lemma untouched_with_shell [simp]: "untouched w work \<Longrightarrow> untouched w (with_shell shell work)"
  using with_shell_off [of w "[]" work] by (cases shell) (auto simp: untouched_def events_of_def with_shell_def)

locale consenting_gate = gate guard approved
  for guard :: "'a \<Rightarrow> tool_result option prog" and approved :: "world \<Rightarrow> event list \<Rightarrow> 'a \<Rightarrow> bool" +
  fixes flag :: "'a \<Rightarrow> bool option"
  assumes approved_consent: "approved w tr a \<Longrightarrow> nobody_accepts w \<Longrightarrow> is_true (flag a)"
begin

lemma untouched_gated: "nobody_accepts w \<Longrightarrow> \<not> is_true (flag a) \<Longrightarrow> untouched w (gated (guard a) body)"
  unfolding untouched_def using gated_events approved_consent by blast

end

interpretation tier1: consenting_gate "\<lambda>(ch, cf, d). requireConfirmationInteractive ch cf d" confirm_approved "\<lambda>(ch, cf, d). cf"
  by unfold_locales (auto simp: confirm_approved_def nobody_accepts_human)

interpretation tier2: consenting_gate "\<lambda>(ch, flags, m). requireRiskAcknowledgementInteractive ch flags m" risk_approved
  "\<lambda>(ch, flags, m). confirm flags"
  by unfold_locales (auto simp: risk_approved_def both_flags_def nobody_accepts_human)

interpretation array_gate: consenting_gate "\<lambda>(ch, args). array_gateRefusal ch args" array_action_approved
  "\<lambda>(ch, args). confirm (aa_flags args)"
  by unfold_locales
    (auto simp: array_action_approved_def confirm_approved_def risk_approved_def both_flags_def nobody_accepts_human split: if_splits)

interpretation vm_gate: consenting_gate "\<lambda>(ch, args). vm_gateRefusal ch args" vm_approved
  "\<lambda>(ch, args). confirm (va_flags args)"
  by unfold_locales
    (auto simp: vm_approved_def confirm_approved_def risk_approved_def both_flags_def nobody_accepts_human split: if_splits)

interpretation parity_gate: consenting_gate "\<lambda>(ch, args). parity_gateRefusal ch args" parity_approved
  "\<lambda>(ch, args). pc_confirm args"
  by unfold_locales (auto simp: parity_approved_def confirm_approved_def nobody_accepts_human)

lemma untouched_tiers [simp]:
  "nobody_accepts w \<Longrightarrow> \<not> is_true cf \<Longrightarrow> untouched w (gated (requireConfirmationInteractive ch cf d) body)"
  "nobody_accepts w \<Longrightarrow> \<not> is_true (confirm flags) \<Longrightarrow>
   untouched w (gated (requireRiskAcknowledgementInteractive ch flags m) body)"
  using tier1.untouched_gated [of w "(ch, cf, d)" body] tier2.untouched_gated [of w "(ch, flags, m)" body] by simp_all

section \<open>The flag of a call\<close>

text \<open>The \<open>confirm\<close> argument of a call, for the tools that have one.\<close>

definition call_confirm :: "tool_call \<Rightarrow> bool option" where
  "call_confirm call = (case call of
     SystemCall c \<Rightarrow> (case c of CSystemPower a \<Rightarrow> confirm (pw_flags a) | _ \<Rightarrow> None)
   | ArrayCall c \<Rightarrow> (case c of CArrayAction a \<Rightarrow> confirm (aa_flags a) | CArrayDiskAction d a \<Rightarrow> confirm (ad_flags a)
       | CParityCheck a \<Rightarrow> pc_confirm a | _ \<Rightarrow> None)
   | DiskCall c \<Rightarrow> (case c of CDiskSpin a \<Rightarrow> sp_confirm a | _ \<Rightarrow> None)
   | ShareCall c \<Rightarrow> (case c of CShareCreate a \<Rightarrow> confirm (sh_flags a) | CShareEdit a \<Rightarrow> confirm (sh_flags a)
       | CShareDelete n flags \<Rightarrow> confirm flags | _ \<Rightarrow> None)
   | DockerCall c \<Rightarrow> (case c of CDockerAutostartSet a \<Rightarrow> as_confirm a | CDockerContainerAction a \<Rightarrow> ca_confirm a
       | CDockerContainerRemove a \<Rightarrow> rm_confirm a | CDockerContainerUpdate a \<Rightarrow> up_confirm a | _ \<Rightarrow> None)
   | VmCall c \<Rightarrow> (case c of CVmAction a \<Rightarrow> confirm (va_flags a) | CVmSnapshotCreate a \<Rightarrow> confirm (vs_flags a) | _ \<Rightarrow> None)
   | NotificationCall c \<Rightarrow> (case c of CNotificationDelete a \<Rightarrow> nd_confirm a | _ \<Rightarrow> None)
   | PluginCall c \<Rightarrow> (case c of CPluginAdd a \<Rightarrow> pn_confirm a | CPluginRemove a \<Rightarrow> pn_confirm a
       | CPluginInstallPlg a \<Rightarrow> confirm (pi_flags a) | _ \<Rightarrow> None)
   | AccessCall c \<Rightarrow> (case c of CApiKeyManage a \<Rightarrow> confirm (ak_flags a) | CMoverAction a \<Rightarrow> mv_confirm a | _ \<Rightarrow> None)
   | ScriptCall c \<Rightarrow> (case c of CUserScriptRun a \<Rightarrow> confirm (us_flags a) | CFlashBackup a \<Rightarrow> confirm (fb_flags a)
       | CShellExec a \<Rightarrow> se_confirm a | CGraphqlMutation a \<Rightarrow> confirm (gm_flags a) | _ \<Rightarrow> None)
   | ZfsCall c \<Rightarrow> (case c of CZfsSnapshotAction a \<Rightarrow> confirm (zs_flags a) | _ \<Rightarrow> None)
   | HostCall c \<Rightarrow> (case c of CServiceAction a \<Rightarrow> confirm (sa_flags a) | CUnassignedAction a \<Rightarrow> confirm (ua_flags a) | _ \<Rightarrow> None)
   | LogCall c \<Rightarrow> None)"

section \<open>The handlers without consent\<close>

lemma untouched_array_tools:
  assumes "nobody_accepts w"
  shows "\<not> is_true (confirm (aa_flags a)) \<Longrightarrow> untouched w (arrayActionHandler ch a)"
    and "\<not> is_true (confirm (ad_flags b)) \<Longrightarrow> untouched w (arrayDiskActionHandler ch d b)"
    and "\<not> is_true (pc_confirm c) \<Longrightarrow> untouched w (parityCheckHandler ch c)"
  using assms array_gate.untouched_gated [of w "(ch, a)" "array_action_work a"] parity_gate.untouched_gated [of w "(ch, c)" "parity_work c"]
  by (auto simp: arrayActionHandler_def arrayDiskActionHandler_def parityCheckHandler_def split: disk_action_arg.splits)

lemma untouched_docker_tools:
  assumes "nobody_accepts w"
  shows "\<not> is_true (as_confirm a) \<Longrightarrow> untouched w (dockerAutostartSetHandler ch a)"
    and "\<not> is_true (ca_confirm b) \<Longrightarrow> untouched w (dockerContainerActionHandler ch b)"
    and "\<not> is_true (rm_confirm c) \<Longrightarrow> untouched w (dockerContainerRemoveHandler ch c)"
    and "\<not> is_true (up_confirm d) \<Longrightarrow> untouched w (dockerContainerUpdateHandler ch extra d)"
  using assms
  by (simp_all add: dockerAutostartSetHandler_def dockerContainerActionHandler_def dockerContainerRemoveHandler_def
      dockerContainerUpdateHandler_def)

lemma untouched_vm_tools:
  assumes "nobody_accepts w"
  shows "\<not> is_true (confirm (va_flags a)) \<Longrightarrow> untouched w (vmActionHandler ch a)"
    and "\<not> is_true (confirm (vs_flags b)) \<Longrightarrow> untouched w (vmSnapshotCreateHandler shell ch b)"
  using assms vm_gate.untouched_gated [of w "(ch, a)" "vm_work a"]
  by (simp_all add: vmActionHandler_def vmSnapshotCreateHandler_def)

lemma untouched_api_tools:
  assumes "nobody_accepts w"
  shows "\<not> is_true (nd_confirm a) \<Longrightarrow> untouched w (notificationDeleteHandler ch a)"
    and "\<not> is_true (pn_confirm b) \<Longrightarrow> untouched w (pluginAddHandler ch b)"
    and "\<not> is_true (pn_confirm b) \<Longrightarrow> untouched w (pluginRemoveHandler ch b)"
    and "\<not> is_true (confirm (pi_flags c)) \<Longrightarrow> untouched w (pluginInstallPlgHandler ch c)"
    and "\<not> is_true (confirm (ak_flags d)) \<Longrightarrow> untouched w (apiKeyManageHandler ch d)"
  using assms
  by (simp_all add: notificationDeleteHandler_def pluginAddHandler_def pluginRemoveHandler_def pluginInstallPlgHandler_def
      apiKeyManageHandler_def split: option.splits)

lemma untouched_share_tools:
  assumes "nobody_accepts w"
  shows "\<not> is_true (confirm (sh_flags a)) \<Longrightarrow> untouched w (shareCreateHandler shell ch a)"
    and "\<not> is_true (confirm (sh_flags a)) \<Longrightarrow> untouched w (shareEditHandler shell ch a)"
    and "\<not> is_true (confirm flags) \<Longrightarrow> untouched w (shareDeleteHandler shell ch name flags)"
  using assms by (simp_all add: shareCreateHandler_def shareEditHandler_def shareDeleteHandler_def split: option.splits)

lemma untouched_host_tools:
  assumes "nobody_accepts w"
  shows "\<not> is_true (mv_confirm a) \<Longrightarrow> untouched w (moverActionHandler shell ch a)"
    and "\<not> is_true (confirm (pw_flags b)) \<Longrightarrow> untouched w (systemPowerHandler shell ch b)"
    and "\<not> is_true (confirm (us_flags c)) \<Longrightarrow> untouched w (userScriptRunHandler shell ch c)"
    and "\<not> is_true (confirm (zs_flags d)) \<Longrightarrow> untouched w (zfsSnapshotActionHandler shell ch d)"
    and "\<not> is_true (confirm (fb_flags e)) \<Longrightarrow> untouched w (flashBackupHandler shell ch e extra beats now)"
    and "\<not> is_true (confirm (sa_flags f)) \<Longrightarrow> untouched w (serviceActionHandler shell ch f)"
    and "\<not> is_true (confirm (ua_flags g)) \<Longrightarrow> untouched w (unassignedActionHandler shell ch g)"
    and "\<not> is_true (se_confirm h) \<Longrightarrow> untouched w (shellExecHandler shell ch extra n h)"
  using assms
  by (simp_all add: moverActionHandler_def systemPowerHandler_def userScriptRunHandler_def zfsSnapshotActionHandler_def
      flashBackupHandler_def serviceActionHandler_def unassignedActionHandler_def shellExecHandler_def split: option.splits)

lemma untouched_raw_mutation:
  assumes "nobody_accepts w" "\<not> is_true (confirm (gm_flags a))"
  shows "untouched w (graphqlMutationHandler lib ch a)"
  unfolding untouched_def
  using graphql_mutation_events [of _ w lib ch a] assms by (auto simp: confirm_approved_def nobody_accepts_human)

lemmas untouched_handlers = untouched_array_tools untouched_docker_tools untouched_vm_tools untouched_api_tools
  untouched_share_tools untouched_host_tools untouched_raw_mutation

section \<open>The registry\<close>

definition tool_waits :: "registered_tool \<Rightarrow> bool" where
  "tool_waits t = (\<forall>call p w. rt_run t call = Some p \<longrightarrow> call_confirm call \<noteq> Some True \<longrightarrow> nobody_accepts w \<longrightarrow> untouched w p)"

lemma tool_waitsD:
  "tool_waits t \<Longrightarrow> rt_run t call = Some p \<Longrightarrow> call_confirm call \<noteq> Some True \<Longrightarrow> nobody_accepts w \<Longrightarrow> untouched w p"
  by (simp add: tool_waits_def)

lemma array_tools_wait:
  "tool_waits (registerArrayAction opt am)"
  "tool_waits (registerArrayDiskAction opt am)"
  "tool_waits (registerParityCheck opt am)"
  by (auto simp: tool_waits_def call_confirm_def registerArrayAction_def registerArrayDiskAction_def registerParityCheck_def
      intro: untouched_handlers split: tool_call.splits array_call.splits)

lemma docker_tools_wait:
  "tool_waits (registerDockerAutostartSet opt am)"
  "tool_waits (registerDockerContainerAction opt am)"
  "tool_waits (registerDockerContainerRemove opt am)"
  "tool_waits (registerDockerContainerUpdate opt am)"
  by (auto simp: tool_waits_def call_confirm_def registerDockerAutostartSet_def registerDockerContainerAction_def
      registerDockerContainerRemove_def registerDockerContainerUpdate_def
      intro: untouched_handlers split: tool_call.splits docker_call.splits)

lemma vm_tools_wait:
  "tool_waits (registerVmAction opt am)"
  "tool_waits (registerVmSnapshotCreate opt am)"
  by (auto simp: tool_waits_def call_confirm_def registerVmAction_def registerVmSnapshotCreate_def
      intro: untouched_handlers split: tool_call.splits vm_call.splits)

lemma api_tools_wait:
  "tool_waits (registerNotificationDelete opt am)"
  "tool_waits (registerPluginAdd opt am)"
  "tool_waits (registerPluginRemove opt am)"
  "tool_waits (registerPluginInstallPlg opt am)"
  "tool_waits (registerApiKeyManage opt am)"
  "tool_waits (registerMoverAction opt am)"
  by (auto simp: tool_waits_def call_confirm_def registerNotificationDelete_def registerPluginAdd_def registerPluginRemove_def
      registerPluginInstallPlg_def registerApiKeyManage_def registerMoverAction_def
      intro: untouched_handlers split: tool_call.splits notification_call.splits plugin_call.splits access_call.splits)

lemma share_tools_wait:
  "tool_waits (registerShareCreate opt am)"
  "tool_waits (registerShareEdit opt am)"
  "tool_waits (registerShareDelete opt am)"
  by (auto simp: tool_waits_def call_confirm_def registerShareCreate_def registerShareEdit_def registerShareDelete_def
      intro: untouched_handlers split: tool_call.splits share_call.splits)

lemma script_tools_wait:
  "tool_waits (registerUserScriptRun opt am)"
  "tool_waits (registerFlashBackup opt am)"
  "tool_waits (registerShellExec opt am)"
  "tool_waits (registerGraphqlMutation opt am)"
  by (auto simp: tool_waits_def call_confirm_def registerUserScriptRun_def registerFlashBackup_def registerShellExec_def
      registerGraphqlMutation_def intro: untouched_handlers split: tool_call.splits script_call.splits)

lemma host_tools_wait:
  "tool_waits (registerSystemPower opt am)"
  "tool_waits (registerZfsSnapshotAction opt am)"
  "tool_waits (registerServiceAction opt am)"
  "tool_waits (registerUnassignedAction opt am)"
  by (auto simp: tool_waits_def call_confirm_def registerSystemPower_def registerZfsSnapshotAction_def
      registerServiceAction_def registerUnassignedAction_def
      intro: untouched_handlers split: tool_call.splits system_call.splits zfs_call.splits host_call.splits)

lemmas tools_wait = array_tools_wait docker_tools_wait vm_tools_wait api_tools_wait share_tools_wait script_tools_wait
  host_tools_wait

text \<open>The registrations annotated as destructive are exactly the ones of the lemmas above.\<close>

lemma destructive_registrations_wait:
  "list_all (\<lambda>(m, t). destructiveHint (rt_annotations t) \<longrightarrow> tool_waits t) (TOOL_REGISTRATIONS opt am)"
  by (simp add: TOOL_REGISTRATIONS_def tools_wait) (simp add: registration_defs)

lemma destructive_tool_waits:
  assumes "t \<in> set (registerAllTools opt am)" "destructiveHint (rt_annotations t)"
  shows "tool_waits t"
  using assms destructive_registrations_wait [of opt am] by (auto simp: registered_iff list_all_iff)

end
