(* ===== verification/Schemas.thy ===== *)
theory Schemas
  imports Approvals "HOL-Library.Monad_Syntax"
begin

text \<open>
  The argument schemas of the tools (\<open>inputSchema\<close> of every tool file): which JSON arguments of a
  call the server lets through to the handler, and with which defaults. A schema is a reader of a
  JSON value; \<open>None\<close> means that the SDK answers with a validation error and no handler runs.

  The readers of the first part are the constructs of the schema language that the tools use;
  the two formats that the library decides (URL and date) are parameters.
\<close>

section \<open>The schema language\<close>

record schema_lib =
  sl_url :: "string \<Rightarrow> bool"
  sl_datetime :: "string \<Rightarrow> bool"

type_synonym 'a schema = "jsval \<Rightarrow> 'a option"

definition z_string :: "string schema" where
  "z_string v = (case v of JStr s \<Rightarrow> Some s | _ \<Rightarrow> None)"

definition z_boolean :: "bool schema" where
  "z_boolean v = (case v of JBool b \<Rightarrow> Some b | _ \<Rightarrow> None)"

text \<open>\<open>z.number().int()\<close> admits the safe integers.\<close>

definition MAX_SAFE_INTEGER :: int where "MAX_SAFE_INTEGER = 9007199254740991"

definition z_int :: "int schema" where
  "z_int v =
     (case v of
        JNum q \<Rightarrow> if of_int \<lfloor>q\<rfloor> = q \<and> \<bar>\<lfloor>q\<rfloor>\<bar> \<le> MAX_SAFE_INTEGER then Some \<lfloor>q\<rfloor> else None
      | _ \<Rightarrow> None)"

definition z_enum :: "(string \<times> 'a) list \<Rightarrow> 'a schema" where
  "z_enum cases v = (case v of JStr s \<Rightarrow> map_of cases s | _ \<Rightarrow> None)"

text \<open>A check after a reader: \<open>min\<close>, \<open>max\<close>, \<open>positive\<close>, \<open>nonempty\<close>, \<open>url\<close> and the like.\<close>

definition z_check :: "('a \<Rightarrow> bool) \<Rightarrow> 'a schema \<Rightarrow> 'a schema" where
  "z_check ok s v = (case s v of Some a \<Rightarrow> if ok a then Some a else None | None \<Rightarrow> None)"

definition z_optional :: "'a schema \<Rightarrow> 'a option schema" where
  "z_optional s v = (if v = JUndef then Some None else map_option Some (s v))"

definition z_default :: "'a \<Rightarrow> 'a schema \<Rightarrow> 'a schema" where
  "z_default d s v = (if v = JUndef then Some d else s v)"

definition z_array :: "'a schema \<Rightarrow> 'a list schema" where
  "z_array s v = (case v of JArr xs \<Rightarrow> those (map s xs) | _ \<Rightarrow> None)"

text \<open>\<open>z.record(z.string(), z.unknown())\<close>: any object, kept as it is.\<close>

definition z_record :: "jsval schema" where
  "z_record v = (case v of JObj ms \<Rightarrow> Some v | _ \<Rightarrow> None)"

text \<open>\<open>z.object\<close>: the reader gets the members; others are ignored.\<close>

definition z_object :: "((string \<Rightarrow> jsval) \<Rightarrow> 'a option) \<Rightarrow> 'a schema" where
  "z_object s v = (case v of JObj ms \<Rightarrow> s (getp v) | _ \<Rightarrow> None)"

definition z_text :: "string schema" where
  "z_text = z_check (\<lambda>s. 1 \<le> length s) z_string"

definition z_count :: "int \<Rightarrow> int \<Rightarrow> nat schema" where
  "z_count most d v = map_option nat (z_default d (z_check (\<lambda>n. 0 < n \<and> n \<le> most) z_int) v)"

definition z_format :: "response_format schema" where
  "z_format = z_default Concise (z_enum [(''concise'', Concise), (''detailed'', Detailed)])"

definition z_flags :: "(string \<Rightarrow> jsval) \<Rightarrow> risk_flags option" where
  "z_flags f = do {
     c \<leftarrow> z_optional z_boolean (f ''confirm'');
     a \<leftarrow> z_optional z_boolean (f ''acknowledge_risk'');
     Some \<lparr>confirm = c, acknowledge_risk = a\<rparr> }"

definition z_confirm :: "(string \<Rightarrow> jsval) \<Rightarrow> bool option option" where
  "z_confirm f = z_optional z_boolean (f ''confirm'')"

text \<open>The tools whose only argument is the response format, and those with one filter beside it.\<close>

definition formatSchema :: "response_format schema" where
  "formatSchema = z_object (\<lambda>f. z_format (f ''response_format''))"

definition filterSchema :: "string \<Rightarrow> (response_format \<times> string option) schema" where
  "filterSchema k = z_object (\<lambda>f. do {
     fm \<leftarrow> z_format (f ''response_format'');
     x \<leftarrow> z_optional z_string (f k);
     Some (fm, x) })"

section \<open>System, logs and metrics\<close>

definition systemMetricsSchema :: "(response_format \<times> bool) schema" where
  "systemMetricsSchema = z_object (\<lambda>f. do {
     fm \<leftarrow> z_format (f ''response_format'');
     t \<leftarrow> z_default False z_boolean (f ''include_temperature'');
     Some (fm, t) })"

definition metricsHistorySchema :: "metrics_input schema" where
  "metricsHistorySchema = z_object (\<lambda>f. do {
     t \<leftarrow> z_enum [(''cpu'', Cpu), (''memory'', Memory), (''network'', Network)] (f ''topic'');
     w \<leftarrow> z_count (int MAX_WINDOW_MINUTES) (int DEFAULT_WINDOW_MINUTES) (f ''window_minutes'');
     fm \<leftarrow> z_format (f ''response_format'');
     Some \<lparr>m_topic = t, m_window_minutes = w, m_format = fm\<rparr> })"

definition systemPowerSchema :: "power_args schema" where
  "systemPowerSchema = z_object (\<lambda>f. do {
     fm \<leftarrow> z_format (f ''response_format'');
     a \<leftarrow> z_enum [(''reboot'', Reboot), (''shutdown'', Shutdown)] (f ''action'');
     flags \<leftarrow> z_flags f;
     Some \<lparr>pw_action = a, pw_flags = flags\<rparr> })"

definition PROCESS_DEFAULT_COUNT :: int where "PROCESS_DEFAULT_COUNT = 15"
definition PROCESS_MAX_COUNT :: int where "PROCESS_MAX_COUNT = 50"

definition processListSchema :: "(response_format \<times> process_sort \<times> nat) schema" where
  "processListSchema = z_object (\<lambda>f. do {
     fm \<leftarrow> z_format (f ''response_format'');
     s \<leftarrow> z_default SortCpu (z_enum [(''cpu'', SortCpu), (''memory'', SortMemory)]) (f ''sort_by'');
     n \<leftarrow> z_count PROCESS_MAX_COUNT PROCESS_DEFAULT_COUNT (f ''count'');
     Some (fm, s, n) })"

definition linesSchema :: "nat schema" where
  "linesSchema = z_count (int MAX_LINES) (int DEFAULT_LINES)"

definition startLineSchema :: "int option schema" where
  "startLineSchema = z_optional (z_check (\<lambda>n. 0 < n) z_int)"

definition logReadSchema :: "log_read_input schema" where
  "logReadSchema = z_object (\<lambda>f. do {
     fm \<leftarrow> z_format (f ''response_format'');
     p \<leftarrow> z_text (f ''path'');
     n \<leftarrow> linesSchema (f ''lines'');
     l \<leftarrow> startLineSchema (f ''start_line'');
     Some \<lparr>lr_format = fm, lr_path = p, lr_lines = int n, lr_start_line = l\<rparr> })"

section \<open>Array and disks\<close>

definition arrayActionSchema :: "array_action_args schema" where
  "arrayActionSchema = z_object (\<lambda>f. do {
     fm \<leftarrow> z_format (f ''response_format'');
     a \<leftarrow> z_enum [(''start'', ArrayStart), (''stop'', ArrayStop)] (f ''action'');
     flags \<leftarrow> z_flags f;
     Some \<lparr>aa_format = fm, aa_action = a, aa_flags = flags\<rparr> })"

definition arrayDiskActionSchema :: "(disk_action_arg \<times> array_disk_args) schema" where
  "arrayDiskActionSchema = z_object (\<lambda>f. do {
     fm \<leftarrow> z_format (f ''response_format'');
     a \<leftarrow> z_enum [(''add'', DiskAdd), (''mount'', DiskMount), (''unmount'', DiskUnmount),
                (''clear_statistics'', DiskClearStatistics)] (f ''action'');
     i \<leftarrow> z_text (f ''id'');
     s \<leftarrow> z_optional z_int (f ''slot'');
     flags \<leftarrow> z_flags f;
     Some (Known a, \<lparr>ad_format = fm, ad_id = i, ad_slot = s, ad_flags = flags\<rparr>) })"

definition PARITY_DEFAULT_LIMIT :: int where "PARITY_DEFAULT_LIMIT = 5"
definition PARITY_MAX_LIMIT :: int where "PARITY_MAX_LIMIT = 50"

definition parityHistorySchema :: "(response_format \<times> nat) schema" where
  "parityHistorySchema = z_object (\<lambda>f. do {
     fm \<leftarrow> z_format (f ''response_format'');
     n \<leftarrow> z_count PARITY_MAX_LIMIT PARITY_DEFAULT_LIMIT (f ''limit'');
     Some (fm, n) })"

definition parityCheckSchema :: "parity_args schema" where
  "parityCheckSchema = z_object (\<lambda>f. do {
     fm \<leftarrow> z_format (f ''response_format'');
     a \<leftarrow> z_enum [(''start'', ParityStart), (''pause'', ParityPause), (''resume'', ParityResume), (''cancel'', ParityCancel)] (f ''action'');
     b \<leftarrow> z_optional z_boolean (f ''correct'');
     c \<leftarrow> z_confirm f;
     Some \<lparr>pc_format = fm, pc_action = a, pc_correct = b, pc_confirm = c\<rparr> })"

definition diskSpinSchema :: "spin_args schema" where
  "diskSpinSchema = z_object (\<lambda>f. do {
     a \<leftarrow> z_enum [(''up'', Up), (''down'', Down)] (f ''action'');
     d \<leftarrow> z_optional z_string (f ''disk'');
     p \<leftarrow> z_optional z_string (f ''device'');
     c \<leftarrow> z_confirm f;
     Some \<lparr>sp_action = a, sp_disk = d, sp_device = p, sp_confirm = c\<rparr> })"

definition diskSmartReportSchema :: "string schema" where
  "diskSmartReportSchema = z_object (\<lambda>f. z_text (f ''device''))"

section \<open>Shares\<close>

definition z_one_of :: "string list \<Rightarrow> string option schema" where
  "z_one_of xs = z_optional (z_enum (map (\<lambda>x. (x, x)) xs))"

definition shareSettingsSchema :: "(string \<Rightarrow> jsval) \<Rightarrow> share_settings option" where
  "shareSettingsSchema f = do {
     c \<leftarrow> z_optional (z_check (\<lambda>s. length s \<le> 200) z_string) (f ''comment'');
     a \<leftarrow> z_one_of [''highwater'', ''fillup'', ''mostfree''] (f ''allocator'');
     u \<leftarrow> z_one_of [''no'', ''yes'', ''only'', ''prefer''] (f ''useCache'');
     p \<leftarrow> z_optional z_text (f ''cachePool'');
     e \<leftarrow> z_one_of [''-'', ''e'', ''eh''] (f ''smbExport'');
     s \<leftarrow> z_one_of [''public'', ''secure'', ''private''] (f ''smbSecurity'');
     Some \<lparr>s_comment = c, s_allocator = a, s_useCache = u, s_cachePool = p, s_smbExport = e, s_smbSecurity = s\<rparr> }"

definition shareWriteSchema :: "share_args schema" where
  "shareWriteSchema = z_object (\<lambda>f. do {
     n \<leftarrow> z_text (f ''name'');
     s \<leftarrow> shareSettingsSchema f;
     flags \<leftarrow> z_flags f;
     Some \<lparr>sh_name = n, sh_settings = s, sh_flags = flags\<rparr> })"

definition shareDeleteSchema :: "(string \<times> risk_flags) schema" where
  "shareDeleteSchema = z_object (\<lambda>f. do {
     n \<leftarrow> z_text (f ''name'');
     flags \<leftarrow> z_flags f;
     Some (n, flags) })"

section \<open>Docker\<close>

definition changeSchema :: "change schema" where
  "changeSchema = z_object (\<lambda>f. do {
     i \<leftarrow> z_string (f ''id'');
     b \<leftarrow> z_boolean (f ''auto_start'');
     w \<leftarrow> z_optional (z_check (\<lambda>n. 0 \<le> n) z_int) (f ''wait'');
     Some \<lparr>ch_id = i, auto_start = b, ch_wait = w\<rparr> })"

definition dockerAutostartSetSchema :: "autostart_args schema" where
  "dockerAutostartSetSchema = z_object (\<lambda>f. do {
     fm \<leftarrow> z_format (f ''response_format'');
     cs \<leftarrow> z_check (\<lambda>xs. xs \<noteq> []) (z_array changeSchema) (f ''changes'');
     p \<leftarrow> z_default False z_boolean (f ''persist'');
     c \<leftarrow> z_confirm f;
     Some \<lparr>as_format = fm, as_changes = cs, as_persist = p, as_confirm = c\<rparr> })"

definition dockerContainerActionSchema :: "container_args schema" where
  "dockerContainerActionSchema = z_object (\<lambda>f. do {
     fm \<leftarrow> z_format (f ''response_format'');
     i \<leftarrow> z_string (f ''id'');
     a \<leftarrow> z_enum [(''start'', CStart), (''stop'', CStop), (''pause'', CPause), (''unpause'', CUnpause), (''restart'', CRestart)] (f ''action'');
     c \<leftarrow> z_confirm f;
     Some \<lparr>ca_format = fm, ca_id = i, ca_action = a, ca_confirm = c\<rparr> })"

definition sinceSchema :: "schema_lib \<Rightarrow> string option schema" where
  "sinceSchema lib = z_optional (z_check (sl_datetime lib) z_string)"

definition dockerContainerLogsSchema :: "schema_lib \<Rightarrow> container_logs_input schema" where
  "dockerContainerLogsSchema lib = z_object (\<lambda>f. do {
     fm \<leftarrow> z_format (f ''response_format'');
     i \<leftarrow> z_string (f ''id'');
     s \<leftarrow> sinceSchema lib (f ''since'');
     t \<leftarrow> z_count (int MAX_TAIL) (int DEFAULT_TAIL) (f ''tail'');
     Some \<lparr>cl_format = fm, cl_id = i, cl_since = s, cl_tail = t\<rparr> })"

definition dockerContainerRemoveSchema :: "remove_args schema" where
  "dockerContainerRemoveSchema = z_object (\<lambda>f. do {
     fm \<leftarrow> z_format (f ''response_format'');
     i \<leftarrow> z_string (f ''id'');
     w \<leftarrow> z_optional z_boolean (f ''with_image'');
     c \<leftarrow> z_confirm f;
     Some \<lparr>rm_format = fm, rm_id = i, rm_with_image = w, rm_confirm = c\<rparr> })"

definition z_ids :: "string list option schema" where
  "z_ids = z_optional (z_check (\<lambda>xs. xs \<noteq> []) (z_array z_string))"

definition dockerContainerUpdateSchema :: "update_args schema" where
  "dockerContainerUpdateSchema = z_object (\<lambda>f. do {
     fm \<leftarrow> z_format (f ''response_format'');
     i \<leftarrow> z_ids (f ''ids'');
     a \<leftarrow> z_optional z_boolean (f ''all'');
     c \<leftarrow> z_confirm f;
     Some \<lparr>up_format = fm, up_ids = i, up_all = a, up_confirm = c\<rparr> })"

section \<open>Virtual machines\<close>

definition vmActionSchema :: "vm_args schema" where
  "vmActionSchema = z_object (\<lambda>f. do {
     fm \<leftarrow> z_format (f ''response_format'');
     m \<leftarrow> z_string (f ''vm'');
     a \<leftarrow> z_enum [(''start'', VStart), (''stop'', VStop), (''pause'', VPause), (''resume'', VResume),
                (''forceStop'', VForceStop), (''reboot'', VReboot), (''reset'', VReset)] (f ''action'');
     flags \<leftarrow> z_flags f;
     Some \<lparr>va_format = fm, va_vm = m, va_action = a, va_flags = flags\<rparr> })"

definition vmSnapshotListSchema :: "(response_format \<times> string) schema" where
  "vmSnapshotListSchema = z_object (\<lambda>f. do {
     fm \<leftarrow> z_format (f ''response_format'');
     m \<leftarrow> z_text (f ''vm'');
     Some (fm, m) })"

definition vmSnapshotCreateSchema :: "vm_snapshot_args schema" where
  "vmSnapshotCreateSchema = z_object (\<lambda>f. do {
     m \<leftarrow> z_text (f ''vm'');
     n \<leftarrow> z_text (f ''name'');
     flags \<leftarrow> z_flags f;
     Some \<lparr>vs_vm = m, vs_name = n, vs_flags = flags\<rparr> })"

section \<open>Notifications\<close>

definition importanceSchema :: "importance_input schema" where
  "importanceSchema = z_enum [(''alert'', IAlert), (''warning'', IWarning), (''info'', IInfo)]"

definition typeSchema :: "type_input schema" where
  "typeSchema = z_enum [(''unread'', TUnread), (''archive'', TArchive)]"

definition notificationListSchema :: "notification_list_args schema" where
  "notificationListSchema = z_object (\<lambda>f. do {
     fm \<leftarrow> z_format (f ''response_format'');
     t \<leftarrow> typeSchema (f ''type'');
     i \<leftarrow> z_optional importanceSchema (f ''importance'');
     b \<leftarrow> z_default 0 (z_check (\<lambda>n. 0 \<le> n) z_int) (f ''offset'');
     n \<leftarrow> z_default DEFAULT_LIMIT (z_check (\<lambda>n. 0 < n) z_int) (f ''limit'');
     Some \<lparr>nl_format = fm, nl_type = t, nl_importance = i, nl_offset = Some b, nl_limit = Some n\<rparr> })"

definition notificationArchiveSchema :: "archive_args schema" where
  "notificationArchiveSchema = z_object (\<lambda>f. do {
     fm \<leftarrow> z_format (f ''response_format'');
     d \<leftarrow> z_enum [(''archive'', DArchive), (''unarchive'', DUnarchive)] (f ''direction'');
     i \<leftarrow> z_ids (f ''ids'');
     a \<leftarrow> z_optional z_boolean (f ''all'');
     m \<leftarrow> z_optional importanceSchema (f ''importance'');
     Some \<lparr>na_format = fm, na_direction = d, na_ids = i, na_all = a, na_importance = m\<rparr> })"

definition notificationUnreadSchema :: "string schema" where
  "notificationUnreadSchema = z_object (\<lambda>f. z_text (f ''id''))"

definition notificationDeleteSchema :: "notification_delete_args schema" where
  "notificationDeleteSchema = z_object (\<lambda>f. do {
     fm \<leftarrow> z_format (f ''response_format'');
     s \<leftarrow> z_enum [(''one'', ScopeOne), (''all_archived'', ScopeAllArchived)] (f ''scope'');
     i \<leftarrow> z_optional z_string (f ''id'');
     t \<leftarrow> z_optional typeSchema (f ''type'');
     c \<leftarrow> z_confirm f;
     Some \<lparr>nd_format = fm, nd_scope = s, nd_id = i, nd_type = t, nd_confirm = c\<rparr> })"

definition notificationCreateSchema :: "notification_create_args schema" where
  "notificationCreateSchema = z_object (\<lambda>f. do {
     fm \<leftarrow> z_format (f ''response_format'');
     m \<leftarrow> z_enum [(''always'', Always), (''if_unique'', IfUnique)] (f ''mode'');
     t \<leftarrow> z_text (f ''title'');
     s \<leftarrow> z_text (f ''subject'');
     d \<leftarrow> z_text (f ''description'');
     i \<leftarrow> importanceSchema (f ''importance'');
     l \<leftarrow> z_optional z_string (f ''link'');
     Some \<lparr>nc_format = fm, nc_mode = m, nc_title = t, nc_subject = s, nc_description = d, nc_importance = i, nc_link = l\<rparr> })"

section \<open>Plugins, keys and the mover\<close>

definition pluginNamesSchema :: "plugin_names_input schema" where
  "pluginNamesSchema = z_object (\<lambda>f. do {
     fm \<leftarrow> z_format (f ''response_format'');
     ns \<leftarrow> z_check (\<lambda>xs. 1 \<le> length xs) (z_array z_string) (f ''names'');
     c \<leftarrow> z_confirm f;
     Some \<lparr>pn_format = fm, pn_names = ns, pn_confirm = c\<rparr> })"

definition pluginInstallPlgSchema :: "schema_lib \<Rightarrow> plugin_install_plg_args schema" where
  "pluginInstallPlgSchema lib = z_object (\<lambda>f. do {
     u \<leftarrow> z_check (sl_url lib) z_string (f ''url'');
     n \<leftarrow> z_optional z_text (f ''name'');
     b \<leftarrow> z_optional z_boolean (f ''forced'');
     flags \<leftarrow> z_flags f;
     Some \<lparr>pi_url = u, pi_name = n, pi_forced = b, pi_flags = flags\<rparr> })"

definition ROLES :: "(string \<times> api_role) list" where
  "ROLES = [(''ADMIN'', ADMIN), (''CONNECT'', CONNECT), (''GUEST'', GUEST), (''VIEWER'', VIEWER)]"

definition apiKeyManageSchema :: "api_key_manage_args schema" where
  "apiKeyManageSchema = z_object (\<lambda>f. do {
     a \<leftarrow> z_enum [(''create'', KeyCreate), (''update'', KeyUpdate), (''add_role'', KeyAddRole),
                (''remove_role'', KeyRemoveRole), (''delete'', KeyDelete)] (f ''action'');
     n \<leftarrow> z_optional z_text (f ''name'');
     d \<leftarrow> z_optional z_string (f ''description'');
     r \<leftarrow> z_optional (z_array (z_enum ROLES)) (f ''roles'');
     i \<leftarrow> z_optional z_text (f ''id'');
     js \<leftarrow> z_optional (z_array z_text) (f ''ids'');
     flags \<leftarrow> z_flags f;
     Some \<lparr>ak_action = a, ak_name = n, ak_description = d, ak_roles = r, ak_id = i, ak_ids = js, ak_flags = flags\<rparr> })"

definition moverActionSchema :: "mover_args schema" where
  "moverActionSchema = z_object (\<lambda>f. do {
     fm \<leftarrow> z_format (f ''response_format'');
     a \<leftarrow> z_enum [(''start'', MoverStart), (''stop'', MoverStop)] (f ''action'');
     c \<leftarrow> z_confirm f;
     Some \<lparr>mv_format = fm, mv_action = a, mv_confirm = c\<rparr> })"

section \<open>Scripts, files and raw GraphQL\<close>

definition userScriptRunSchema :: "script_args schema" where
  "userScriptRunSchema = z_object (\<lambda>f. do {
     fm \<leftarrow> z_format (f ''response_format'');
     n \<leftarrow> z_text (f ''name'');
     t \<leftarrow> z_count 300 60 (f ''timeout_seconds'');
     flags \<leftarrow> z_flags f;
     Some \<lparr>us_format = fm, us_name = n, us_timeout_seconds = int t, us_flags = flags\<rparr> })"

definition flashBackupSchema :: "flash_backup_args schema" where
  "flashBackupSchema = z_object (\<lambda>f. do {
     fm \<leftarrow> z_format (f ''response_format'');
     s \<leftarrow> z_text (f ''share'');
     b \<leftarrow> z_optional z_boolean (f ''full'');
     k \<leftarrow> z_optional (z_check (\<lambda>n. 0 < n) z_int) (f ''keep'');
     flags \<leftarrow> z_flags f;
     Some \<lparr>fb_format = fm, fb_share = s, fb_full = b, fb_keep = k, fb_flags = flags\<rparr> })"

definition fileReadSchema :: "file_read_input schema" where
  "fileReadSchema = z_object (\<lambda>f. do {
     fm \<leftarrow> z_format (f ''response_format'');
     p \<leftarrow> z_text (f ''path'');
     n \<leftarrow> z_count 2000 200 (f ''lines'');
     x \<leftarrow> z_optional z_text (f ''pattern'');
     Some \<lparr>fr_format = fm, fr_path = p, fr_lines = n, fr_pattern = x\<rparr> })"

definition shellExecSchema :: "shell_exec_input schema" where
  "shellExecSchema = z_object (\<lambda>f. do {
     fm \<leftarrow> z_format (f ''response_format'');
     k \<leftarrow> z_text (f ''command'');
     t \<leftarrow> z_count 120 30 (f ''timeout_seconds'');
     c \<leftarrow> z_confirm f;
     Some \<lparr>se_format = fm, se_command = k, se_timeout_seconds = int t, se_confirm = c\<rparr> })"

text \<open>Absent variables stay undefined.\<close>

definition variablesSchema :: "jsval schema" where
  "variablesSchema = z_default JUndef z_record"

definition graphqlQuerySchema :: "graphql_query_input schema" where
  "graphqlQuerySchema = z_object (\<lambda>f. do {
     q \<leftarrow> z_text (f ''query'');
     v \<leftarrow> variablesSchema (f ''variables'');
     d \<leftarrow> z_optional z_boolean (f ''dry_run'');
     Some \<lparr>gq_query = q, gq_variables = v, gq_dry_run = d\<rparr> })"

definition graphqlMutationSchema :: "graphql_mutation_input schema" where
  "graphqlMutationSchema = z_object (\<lambda>f. do {
     m \<leftarrow> z_text (f ''mutation'');
     v \<leftarrow> variablesSchema (f ''variables'');
     flags \<leftarrow> z_flags f;
     d \<leftarrow> z_optional z_boolean (f ''dry_run'');
     Some \<lparr>gm_mutation = m, gm_variables = v, gm_flags = flags, gm_dry_run = d\<rparr> })"

section \<open>ZFS and the host\<close>

definition zfsSnapshotActionSchema :: "snapshot_args schema" where
  "zfsSnapshotActionSchema = z_object (\<lambda>f. do {
     a \<leftarrow> z_enum [(''create'', SnapCreate), (''destroy'', SnapDestroy), (''rollback'', SnapRollback)] (f ''action'');
     d \<leftarrow> z_text (f ''dataset'');
     s \<leftarrow> z_text (f ''snapshot'');
     flags \<leftarrow> z_flags f;
     Some \<lparr>zs_action = a, zs_dataset = d, zs_snapshot = s, zs_flags = flags\<rparr> })"

definition serviceActionSchema :: "service_args schema" where
  "serviceActionSchema = z_object (\<lambda>f. do {
     fm \<leftarrow> z_format (f ''response_format'');
     s \<leftarrow> z_enum [(''samba'', Samba), (''nfs'', Nfs), (''sshd'', Sshd), (''docker'', Docker), (''libvirt'', Libvirt),
                (''tailscale'', Tailscale)] (f ''service'');
     a \<leftarrow> z_enum [(''restart'', SRestart), (''start'', SStart), (''stop'', SStop)] (f ''action'');
     b \<leftarrow> z_optional z_boolean (f ''allow_stop'');
     flags \<leftarrow> z_flags f;
     Some \<lparr>sa_format = Some fm, sa_service = s, sa_action = a, sa_allow_stop = b, sa_flags = flags\<rparr> })"

definition unassignedActionSchema :: "unassigned_args schema" where
  "unassignedActionSchema = z_object (\<lambda>f. do {
     fm \<leftarrow> z_format (f ''response_format'');
     a \<leftarrow> z_enum [(''mount'', Mount), (''unmount'', Unmount)] (f ''action'');
     d \<leftarrow> z_text (f ''device'');
     flags \<leftarrow> z_flags f;
     Some \<lparr>ua_format = Some fm, ua_action = a, ua_device = d, ua_flags = flags\<rparr> })"

end
