(* ===== verification/Calls.thy ===== *)
theory Calls
  imports Schemas
begin

text \<open>
  A call as it comes from the client: the name of a tool and JSON arguments. \<open>TOOL_SCHEMAS\<close> pairs
  every tool with its schema (the \<open>inputSchema\<close> that its registration hands to the SDK), \<open>call_of\<close>
  reads the arguments, \<open>serve\<close> runs the handler. \<open>None\<close> is an answer of the SDK itself: the tool is
  not listed or the arguments do not fit.

  The lemmas say that the schemas and the handlers fit together, that the numbers that reach a
  handler are within the limits of the schemas, and where the flag of an approved call comes from.
\<close>

section \<open>Calls with JSON arguments\<close>

definition TOOL_SCHEMAS :: "schema_lib \<Rightarrow> (string \<times> tool_call schema) list" where
  "TOOL_SCHEMAS lib =
     [(''system_info'', map_option (SystemCall \<circ> CSystemInfo) \<circ> formatSchema),
      (''system_metrics'', map_option (\<lambda>(a, b). SystemCall (CSystemMetrics a b)) \<circ> systemMetricsSchema),
      (''metrics_history'', map_option (SystemCall \<circ> CMetricsHistory) \<circ> metricsHistorySchema),
      (''log_list'', map_option (LogCall \<circ> CLogList) \<circ> formatSchema),
      (''log_read'', map_option (LogCall \<circ> CLogRead) \<circ> logReadSchema),
      (''array_status'', map_option (ArrayCall \<circ> CArrayStatus) \<circ> formatSchema),
      (''array_action'', map_option (ArrayCall \<circ> CArrayAction) \<circ> arrayActionSchema),
      (''array_disk_action'', map_option (\<lambda>(a, b). ArrayCall (CArrayDiskAction a b)) \<circ> arrayDiskActionSchema),
      (''parity_history'', map_option (\<lambda>(a, b). ArrayCall (CParityHistory a b)) \<circ> parityHistorySchema),
      (''parity_check'', map_option (ArrayCall \<circ> CParityCheck) \<circ> parityCheckSchema),
      (''disk_list'', map_option (DiskCall \<circ> CDiskList) \<circ> formatSchema),
      (''share_list'', map_option (\<lambda>(a, b). ShareCall (CShareList a b)) \<circ> filterSchema ''name''),
      (''docker_autostart_set'', map_option (DockerCall \<circ> CDockerAutostartSet) \<circ> dockerAutostartSetSchema),
      (''docker_container_action'', map_option (DockerCall \<circ> CDockerContainerAction) \<circ> dockerContainerActionSchema),
      (''docker_container_list'', map_option (\<lambda>(a, b). DockerCall (CDockerContainerList a b)) \<circ> filterSchema ''name''),
      (''docker_container_logs'', map_option (DockerCall \<circ> CDockerContainerLogs) \<circ> dockerContainerLogsSchema lib),
      (''docker_container_remove'', map_option (DockerCall \<circ> CDockerContainerRemove) \<circ> dockerContainerRemoveSchema),
      (''docker_container_update'', map_option (DockerCall \<circ> CDockerContainerUpdate) \<circ> dockerContainerUpdateSchema),
      (''docker_network_list'', map_option (DockerCall \<circ> CDockerNetworkList) \<circ> formatSchema),
      (''docker_port_conflicts'', map_option (DockerCall \<circ> CDockerPortConflicts) \<circ> formatSchema),
      (''vm_list'', map_option (\<lambda>(a, b). VmCall (CVmList a b)) \<circ> filterSchema ''name''),
      (''vm_action'', map_option (VmCall \<circ> CVmAction) \<circ> vmActionSchema),
      (''notification_overview'', map_option (NotificationCall \<circ> CNotificationOverview) \<circ> formatSchema),
      (''notification_list'', map_option (NotificationCall \<circ> CNotificationList) \<circ> notificationListSchema),
      (''notification_alerts'', map_option (NotificationCall \<circ> CNotificationAlerts) \<circ> formatSchema),
      (''notification_archive'', map_option (NotificationCall \<circ> CNotificationArchive) \<circ> notificationArchiveSchema),
      (''notification_unread'', map_option (NotificationCall \<circ> CNotificationUnread) \<circ> notificationUnreadSchema),
      (''notification_delete'', map_option (NotificationCall \<circ> CNotificationDelete) \<circ> notificationDeleteSchema),
      (''notification_create'', map_option (NotificationCall \<circ> CNotificationCreate) \<circ> notificationCreateSchema),
      (''notification_recalculate'', map_option (NotificationCall \<circ> CNotificationRecalculate) \<circ> formatSchema),
      (''plugin_list'', map_option (PluginCall \<circ> CPluginList) \<circ> formatSchema),
      (''plugin_add'', map_option (PluginCall \<circ> CPluginAdd) \<circ> pluginNamesSchema),
      (''plugin_remove'', map_option (PluginCall \<circ> CPluginRemove) \<circ> pluginNamesSchema),
      (''plugin_install_plg'', map_option (PluginCall \<circ> CPluginInstallPlg) \<circ> pluginInstallPlgSchema lib),
      (''apikey_list'', map_option (AccessCall \<circ> CApiKeyList) \<circ> formatSchema),
      (''apikey_manage'', map_option (AccessCall \<circ> CApiKeyManage) \<circ> apiKeyManageSchema),
      (''ups_status'', map_option (AccessCall \<circ> CUpsStatus) \<circ> formatSchema),
      (''mover_status'', map_option (AccessCall \<circ> CMoverStatus) \<circ> formatSchema),
      (''mover_action'', map_option (AccessCall \<circ> CMoverAction) \<circ> moverActionSchema),
      (''system_power'', map_option (SystemCall \<circ> CSystemPower) \<circ> systemPowerSchema),
      (''system_health'', map_option (SystemCall \<circ> CSystemHealth) \<circ> formatSchema),
      (''disk_spin'', map_option (DiskCall \<circ> CDiskSpin) \<circ> diskSpinSchema),
      (''disk_smart_report'', map_option (DiskCall \<circ> CDiskSmartReport) \<circ> diskSmartReportSchema),
      (''vm_snapshot_list'', map_option (\<lambda>(a, b). VmCall (CVmSnapshotList a b)) \<circ> vmSnapshotListSchema),
      (''vm_snapshot_create'', map_option (VmCall \<circ> CVmSnapshotCreate) \<circ> vmSnapshotCreateSchema),
      (''user_script_list'', map_option (ScriptCall \<circ> CUserScriptList) \<circ> formatSchema),
      (''user_script_run'', map_option (ScriptCall \<circ> CUserScriptRun) \<circ> userScriptRunSchema),
      (''gpu_metrics'', map_option (SystemCall \<circ> CGpuMetrics) \<circ> formatSchema),
      (''process_list'', map_option (\<lambda>(a, b, c). SystemCall (CProcessList a b c)) \<circ> processListSchema),
      (''zfs_status'', map_option (ZfsCall \<circ> CZfsStatus) \<circ> formatSchema),
      (''zfs_dataset_list'', map_option (\<lambda>(a, b). ZfsCall (CZfsDatasetList a b)) \<circ> filterSchema ''pool''),
      (''zfs_snapshot_list'', map_option (\<lambda>(a, b). ZfsCall (CZfsSnapshotList a b)) \<circ> filterSchema ''dataset''),
      (''zfs_snapshot_action'', map_option (ZfsCall \<circ> CZfsSnapshotAction) \<circ> zfsSnapshotActionSchema),
      (''flash_backup'', map_option (ScriptCall \<circ> CFlashBackup) \<circ> flashBackupSchema),
      (''service_list'', map_option (HostCall \<circ> CServiceList) \<circ> formatSchema),
      (''service_action'', map_option (HostCall \<circ> CServiceAction) \<circ> serviceActionSchema),
      (''unassigned_list'', map_option (HostCall \<circ> CUnassignedList) \<circ> formatSchema),
      (''unassigned_action'', map_option (HostCall \<circ> CUnassignedAction) \<circ> unassignedActionSchema),
      (''share_create'', map_option (ShareCall \<circ> CShareCreate) \<circ> shareWriteSchema),
      (''share_edit'', map_option (ShareCall \<circ> CShareEdit) \<circ> shareWriteSchema),
      (''share_delete'', map_option (\<lambda>(a, b). ShareCall (CShareDelete a b)) \<circ> shareDeleteSchema),
      (''docker_stats'', map_option (DockerCall \<circ> CDockerStats) \<circ> formatSchema),
      (''file_read'', map_option (ScriptCall \<circ> CFileRead) \<circ> fileReadSchema),
      (''shell_exec'', map_option (ScriptCall \<circ> CShellExec) \<circ> shellExecSchema),
      (''graphql_query'', map_option (ScriptCall \<circ> CGraphqlQuery) \<circ> graphqlQuerySchema),
      (''graphql_mutation'', map_option (ScriptCall \<circ> CGraphqlMutation) \<circ> graphqlMutationSchema),
      (''connection_doctor'', map_option (SystemCall \<circ> CConnectionDoctor) \<circ> formatSchema)]"

definition call_of :: "schema_lib \<Rightarrow> string \<Rightarrow> jsval \<Rightarrow> tool_call option" where
  "call_of lib name args = (case map_of (TOOL_SCHEMAS lib) name of None \<Rightarrow> None | Some s \<Rightarrow> s args)"

definition serve :: "schema_lib \<Rightarrow> registry_options \<Rightarrow> ambient \<Rightarrow> string \<Rightarrow> jsval \<Rightarrow> tool_result prog option" where
  "serve lib opt am name args = Option.bind (call_of lib name args) (callTool opt am name)"

lemma schema_names: "map fst (TOOL_SCHEMAS lib) = TOOL_NAMES"
  by (simp add: TOOL_SCHEMAS_def TOOL_NAMES_def)

lemma served_call:
  "serve lib opt am name args = Some p \<Longrightarrow> \<exists>call. call_of lib name args = Some call \<and> callTool opt am name call = Some p"
  by (auto simp: serve_def bind_eq_Some_conv)

section \<open>What the schemas admit\<close>

text \<open>Every call that a schema admits has a property.\<close>

definition fits :: "(tool_call \<Rightarrow> bool) \<Rightarrow> tool_call schema \<Rightarrow> bool" where
  "fits P s = (\<forall>v call. s v = Some call \<longrightarrow> P call)"

lemma fits_map: "(\<And>v a. s v = Some a \<Longrightarrow> P (h a)) \<Longrightarrow> fits P (map_option h \<circ> s)"
  by (auto simp: fits_def)

lemma fits_call_of:
  "list_all (\<lambda>(n, s). fits P s) (TOOL_SCHEMAS lib) \<Longrightarrow> call_of lib name args = Some call \<Longrightarrow> P call"
  by (auto simp: call_of_def list_all_iff fits_def split: option.splits dest!: map_of_SomeD)

lemma z_object_Some: "z_object s v = Some a \<Longrightarrow> s (getp v) = Some a"
  by (auto simp: z_object_def split: jsval.splits)

lemma z_default_Some: "z_default d s v = Some a \<Longrightarrow> a = d \<or> s v = Some a"
  by (auto simp: z_default_def split: if_splits)

lemma z_check_Some: "z_check ok s v = Some a \<longleftrightarrow> s v = Some a \<and> ok a"
  by (auto simp: z_check_def split: option.splits)

lemma z_count_Some:
  "z_count most d v = Some n \<Longrightarrow> 0 < d \<Longrightarrow> d \<le> most \<Longrightarrow> 0 < n \<and> int n \<le> most"
  by (auto simp: z_count_def z_check_Some dest!: z_default_Some)

section \<open>The flag\<close>

lemma z_boolean_True: "z_boolean v = Some True \<Longrightarrow> v = JBool True"
  by (cases v) (auto simp: z_boolean_def)

lemma z_confirm_True: "z_confirm f = Some (Some True) \<Longrightarrow> f ''confirm'' = JBool True"
  by (auto simp: z_confirm_def z_optional_def z_boolean_True split: if_splits)

lemma z_flags_True: "z_flags f = Some flags \<Longrightarrow> confirm flags = Some True \<Longrightarrow> f ''confirm'' = JBool True"
  by (auto simp: z_flags_def z_confirm_def [symmetric] bind_eq_Some_conv z_confirm_True)

lemmas reader_rules = bind_eq_Some_conv z_flags_True z_confirm_True

lemma system_flags:
  "systemPowerSchema v = Some a \<Longrightarrow> confirm (pw_flags a) = Some True \<Longrightarrow> getp v ''confirm'' = JBool True"
  "arrayActionSchema v = Some b \<Longrightarrow> confirm (aa_flags b) = Some True \<Longrightarrow> getp v ''confirm'' = JBool True"
  "arrayDiskActionSchema v = Some (d, c) \<Longrightarrow> confirm (ad_flags c) = Some True \<Longrightarrow> getp v ''confirm'' = JBool True"
  "parityCheckSchema v = Some e \<Longrightarrow> pc_confirm e = Some True \<Longrightarrow> getp v ''confirm'' = JBool True"
  "diskSpinSchema v = Some g \<Longrightarrow> sp_confirm g = Some True \<Longrightarrow> getp v ''confirm'' = JBool True"
  unfolding systemPowerSchema_def arrayActionSchema_def arrayDiskActionSchema_def parityCheckSchema_def diskSpinSchema_def
  by (auto simp: reader_rules dest!: z_object_Some)

lemma share_flags:
  "shareWriteSchema v = Some a \<Longrightarrow> confirm (sh_flags a) = Some True \<Longrightarrow> getp v ''confirm'' = JBool True"
  "shareDeleteSchema v = Some (n, flags) \<Longrightarrow> confirm flags = Some True \<Longrightarrow> getp v ''confirm'' = JBool True"
  unfolding shareWriteSchema_def shareDeleteSchema_def
  by (auto simp: reader_rules dest!: z_object_Some)

lemma docker_flags:
  "dockerAutostartSetSchema v = Some a \<Longrightarrow> as_confirm a = Some True \<Longrightarrow> getp v ''confirm'' = JBool True"
  "dockerContainerActionSchema v = Some b \<Longrightarrow> ca_confirm b = Some True \<Longrightarrow> getp v ''confirm'' = JBool True"
  "dockerContainerRemoveSchema v = Some c \<Longrightarrow> rm_confirm c = Some True \<Longrightarrow> getp v ''confirm'' = JBool True"
  "dockerContainerUpdateSchema v = Some d \<Longrightarrow> up_confirm d = Some True \<Longrightarrow> getp v ''confirm'' = JBool True"
  unfolding dockerAutostartSetSchema_def dockerContainerActionSchema_def dockerContainerRemoveSchema_def dockerContainerUpdateSchema_def
  by (auto simp: reader_rules dest!: z_object_Some)

lemma vm_flags:
  "vmActionSchema v = Some a \<Longrightarrow> confirm (va_flags a) = Some True \<Longrightarrow> getp v ''confirm'' = JBool True"
  "vmSnapshotCreateSchema v = Some b \<Longrightarrow> confirm (vs_flags b) = Some True \<Longrightarrow> getp v ''confirm'' = JBool True"
  unfolding vmActionSchema_def vmSnapshotCreateSchema_def
  by (auto simp: reader_rules dest!: z_object_Some)

lemma api_flags:
  "notificationDeleteSchema v = Some a \<Longrightarrow> nd_confirm a = Some True \<Longrightarrow> getp v ''confirm'' = JBool True"
  "pluginNamesSchema v = Some b \<Longrightarrow> pn_confirm b = Some True \<Longrightarrow> getp v ''confirm'' = JBool True"
  "pluginInstallPlgSchema lib v = Some c \<Longrightarrow> confirm (pi_flags c) = Some True \<Longrightarrow> getp v ''confirm'' = JBool True"
  "apiKeyManageSchema v = Some d \<Longrightarrow> confirm (ak_flags d) = Some True \<Longrightarrow> getp v ''confirm'' = JBool True"
  "moverActionSchema v = Some e \<Longrightarrow> mv_confirm e = Some True \<Longrightarrow> getp v ''confirm'' = JBool True"
  unfolding notificationDeleteSchema_def pluginNamesSchema_def pluginInstallPlgSchema_def apiKeyManageSchema_def moverActionSchema_def
  by (auto simp: reader_rules dest!: z_object_Some)

lemma host_flags:
  "userScriptRunSchema v = Some a \<Longrightarrow> confirm (us_flags a) = Some True \<Longrightarrow> getp v ''confirm'' = JBool True"
  "flashBackupSchema v = Some b \<Longrightarrow> confirm (fb_flags b) = Some True \<Longrightarrow> getp v ''confirm'' = JBool True"
  "shellExecSchema v = Some c \<Longrightarrow> se_confirm c = Some True \<Longrightarrow> getp v ''confirm'' = JBool True"
  "graphqlMutationSchema v = Some d \<Longrightarrow> confirm (gm_flags d) = Some True \<Longrightarrow> getp v ''confirm'' = JBool True"
  "zfsSnapshotActionSchema v = Some e \<Longrightarrow> confirm (zs_flags e) = Some True \<Longrightarrow> getp v ''confirm'' = JBool True"
  "serviceActionSchema v = Some g \<Longrightarrow> confirm (sa_flags g) = Some True \<Longrightarrow> getp v ''confirm'' = JBool True"
  "unassignedActionSchema v = Some i \<Longrightarrow> confirm (ua_flags i) = Some True \<Longrightarrow> getp v ''confirm'' = JBool True"
  unfolding userScriptRunSchema_def flashBackupSchema_def shellExecSchema_def graphqlMutationSchema_def zfsSnapshotActionSchema_def
    serviceActionSchema_def unassignedActionSchema_def
  by (auto simp: reader_rules dest!: z_object_Some)

lemmas schema_flags = system_flags share_flags docker_flags vm_flags api_flags host_flags

text \<open>The flag of a typed call is the \<open>confirm\<close> member of the arguments.\<close>

definition honest :: "tool_call schema \<Rightarrow> bool" where
  "honest s = (\<forall>v call. s v = Some call \<longrightarrow> call_confirm call = Some True \<longrightarrow> getp v ''confirm'' = JBool True)"

lemma honest_map:
  "(\<And>v a. s v = Some a \<Longrightarrow> call_confirm (h a) = Some True \<Longrightarrow> getp v ''confirm'' = JBool True) \<Longrightarrow> honest (map_option h \<circ> s)"
  by (auto simp: honest_def)

lemma schemas_honest: "list_all (\<lambda>(n, s). honest s) (TOOL_SCHEMAS lib)"
  unfolding TOOL_SCHEMAS_def list.pred_inject prod.case
  by (intro conjI TrueI honest_map; auto simp: call_confirm_def dest: schema_flags)

lemma call_confirm_given:
  assumes "call_of lib name args = Some call" "call_confirm call = Some True"
  shows "getp args ''confirm'' = JBool True"
  using assms schemas_honest [of lib]
  by (auto simp: call_of_def list_all_iff honest_def split: option.splits dest!: map_of_SomeD)

section \<open>Schemas and handlers fit together\<close>

text \<open>A call that its tool's schema admits is one that the tool's handler takes.\<close>

lemma history_answers: "metricsHistoryHandler nowMs h inp \<noteq> None"
  by (simp add: metricsHistoryHandler_def renderConcise_def foldRows_blocks Let_def split: option.splits)

lemma wiring:
  "list_all2 (\<lambda>(n, s) (m, t). rt_name t = n \<and> fits (\<lambda>call. rt_run t call \<noteq> None) s) (TOOL_SCHEMAS lib) (TOOL_REGISTRATIONS opt am)"
  unfolding TOOL_SCHEMAS_def TOOL_REGISTRATIONS_def list_all2_Cons list_all2_Nil prod.case
  by (intro conjI TrueI fits_map; simp add: registration_defs history_answers split: prod.splits)

lemma schema_of_registered:
  assumes "(m, t) \<in> set (TOOL_REGISTRATIONS opt am)"
  shows "\<exists>s. map_of (TOOL_SCHEMAS lib) (rt_name t) = Some s \<and> fits (\<lambda>call. rt_run t call \<noteq> None) s"
proof -
  obtain i where i: "i < length (TOOL_REGISTRATIONS opt am)" "TOOL_REGISTRATIONS opt am ! i = (m, t)"
    using assms by (auto simp: in_set_conv_nth)
  obtain n s where ns: "TOOL_SCHEMAS lib ! i = (n, s)" by (cases "TOOL_SCHEMAS lib ! i")
  have l: "i < length (TOOL_SCHEMAS lib)" using i(1) list_all2_lengthD [OF wiring [of lib opt am]] by simp
  have w: "rt_name t = n" "fits (\<lambda>call. rt_run t call \<noteq> None) s"
    using list_all2_nthD [OF wiring [of lib opt am] l] i(2) ns by simp_all
  have "(n, s) \<in> set (TOOL_SCHEMAS lib)" using nth_mem [OF l] ns by simp
  then have "map_of (TOOL_SCHEMAS lib) n = Some s"
    using tool_names_distinct by (simp add: schema_names)
  with w show ?thesis by blast
qed

lemma admitted_runs:
  assumes "call_of lib name args = Some call" "t \<in> set (registerAllTools opt am)" "rt_name t = name"
  shows "\<exists>p. serve lib opt am name args = Some p"
proof -
  obtain t' where f: "find (\<lambda>t. rt_name t = name) (registerAllTools opt am) = Some t'"
    using assms(2,3) by (cases "find (\<lambda>t. rt_name t = name) (registerAllTools opt am)") (auto simp: find_None_iff)
  then have t': "t' \<in> set (registerAllTools opt am)" "rt_name t' = name"
    by (auto simp: find_Some_iff)
  obtain m where "(m, t') \<in> set (TOOL_REGISTRATIONS opt am)" using t'(1) by (auto simp: registered_iff)
  from schema_of_registered [OF this] obtain s where
    s: "map_of (TOOL_SCHEMAS lib) name = Some s" "fits (\<lambda>call. rt_run t' call \<noteq> None) s" using t'(2) by blast
  with assms(1) have "rt_run t' call \<noteq> None" by (auto simp: call_of_def fits_def)
  with f assms(1) show ?thesis by (auto simp: serve_def callTool_def)
qed

section \<open>Limits\<close>

text \<open>The numbers a call carries to its handler.\<close>

definition within_limits :: "tool_call \<Rightarrow> bool" where
  "within_limits call = (case call of
     SystemCall c \<Rightarrow> (case c of CMetricsHistory a \<Rightarrow> 0 < m_window_minutes a \<and> m_window_minutes a \<le> MAX_WINDOW_MINUTES
       | CProcessList f s n \<Rightarrow> 0 < n \<and> int n \<le> PROCESS_MAX_COUNT | _ \<Rightarrow> True)
   | LogCall c \<Rightarrow> (case c of CLogRead a \<Rightarrow> 0 < lr_lines a \<and> lr_lines a \<le> int MAX_LINES | _ \<Rightarrow> True)
   | ArrayCall c \<Rightarrow> (case c of CParityHistory f n \<Rightarrow> 0 < n \<and> int n \<le> PARITY_MAX_LIMIT | _ \<Rightarrow> True)
   | DockerCall c \<Rightarrow> (case c of CDockerContainerLogs a \<Rightarrow> 0 < cl_tail a \<and> cl_tail a \<le> MAX_TAIL
       | CDockerAutostartSet a \<Rightarrow> as_changes a \<noteq> [] | _ \<Rightarrow> True)
   | ScriptCall c \<Rightarrow> (case c of CUserScriptRun a \<Rightarrow> 0 < us_timeout_seconds a \<and> us_timeout_seconds a \<le> 300
       | CShellExec a \<Rightarrow> 0 < se_timeout_seconds a \<and> se_timeout_seconds a \<le> 120 \<and> se_command a \<noteq> []
       | CFileRead a \<Rightarrow> 0 < fr_lines a \<and> fr_lines a \<le> 2000 \<and> fr_path a \<noteq> [] | _ \<Rightarrow> True)
   | _ \<Rightarrow> True)"

lemma schema_limits:
  "metricsHistorySchema v = Some a \<Longrightarrow> within_limits (SystemCall (CMetricsHistory a))"
  "processListSchema v = Some (f, s, n) \<Longrightarrow> within_limits (SystemCall (CProcessList f s n))"
  "logReadSchema v = Some b \<Longrightarrow> within_limits (LogCall (CLogRead b))"
  "parityHistorySchema v = Some (f, k) \<Longrightarrow> within_limits (ArrayCall (CParityHistory f k))"
  "dockerContainerLogsSchema lib v = Some c \<Longrightarrow> within_limits (DockerCall (CDockerContainerLogs c))"
  "dockerAutostartSetSchema v = Some d \<Longrightarrow> within_limits (DockerCall (CDockerAutostartSet d))"
  unfolding metricsHistorySchema_def processListSchema_def logReadSchema_def parityHistorySchema_def
    dockerContainerLogsSchema_def dockerAutostartSetSchema_def linesSchema_def
  by (auto simp: bind_eq_Some_conv within_limits_def z_check_Some PROCESS_MAX_COUNT_def PROCESS_DEFAULT_COUNT_def
      PARITY_MAX_LIMIT_def PARITY_DEFAULT_LIMIT_def MAX_WINDOW_MINUTES_def DEFAULT_WINDOW_MINUTES_def MAX_LINES_def DEFAULT_LINES_def
      MAX_TAIL_def DEFAULT_TAIL_def dest!: z_object_Some z_count_Some)

lemma script_limits:
  "userScriptRunSchema v = Some a \<Longrightarrow> within_limits (ScriptCall (CUserScriptRun a))"
  "shellExecSchema v = Some b \<Longrightarrow> within_limits (ScriptCall (CShellExec b))"
  "fileReadSchema v = Some c \<Longrightarrow> within_limits (ScriptCall (CFileRead c))"
  unfolding userScriptRunSchema_def shellExecSchema_def fileReadSchema_def z_text_def
  by (auto simp: bind_eq_Some_conv within_limits_def z_check_Some dest!: z_object_Some z_count_Some)

lemma schemas_within_limits: "list_all (\<lambda>(n, s). fits within_limits s) (TOOL_SCHEMAS lib)"
  unfolding TOOL_SCHEMAS_def list.pred_inject prod.case
  by (intro conjI TrueI fits_map; auto simp: schema_limits script_limits; simp add: within_limits_def)

section \<open>The retired disk action\<close>

text \<open>
  The handler of \<open>array_disk_action\<close> has a message for the retired action, but its schema does not
  admit the action: no arguments lead to that branch.
\<close>

lemma retired_remove_rejected: "getp args ''action'' = JStr ''remove'' \<Longrightarrow> call_of lib ''array_disk_action'' args = None"
  by (auto simp: call_of_def TOOL_SCHEMAS_def arrayDiskActionSchema_def z_object_def z_enum_def bind_eq_None_conv
      split: jsval.splits)

end
