(* ===== verification/Variables.thy ===== *)
theory Variables
  imports Documents
begin

text \<open>
  The types that \<open>src/types/unraid/graphql.ts\<close> declares for the variables of each operation, as data,
  and what it means that a value has such a type. The aliases exist only at compile time, and the
  compiler does not check that variables are passed at all (\<open>execute(document, variables?)\<close>) or that
  they were not cast; \<open>TypedRequests\<close> shows what the tools really send.
\<close>

section \<open>Types\<close>

text \<open>\<open>k: T\<close>, \<open>k?: T\<close> and \<open>k?: T | null | undefined\<close>.\<close>

datatype presence = Required | Optional | Nullable

datatype var_type =
    TString
  | TBoolean
  | TNumber
  | TEnum "string list"
  | TList var_type
  | TListOrOne var_type
  | TObject "(string \<times> presence \<times> var_type) list"

definition present :: "presence \<Rightarrow> (jsval \<Rightarrow> bool) \<Rightarrow> jsval \<Rightarrow> bool" where
  "present p ok v = (case p of Required \<Rightarrow> ok v | Optional \<Rightarrow> v = JUndef \<or> ok v | Nullable \<Rightarrow> nullish v \<or> ok v)"

definition items_conform :: "(jsval \<Rightarrow> bool) \<Rightarrow> jsval \<Rightarrow> bool" where
  "items_conform ok v = (case v of JArr xs \<Rightarrow> list_all ok xs | _ \<Rightarrow> False)"

text \<open>An object has the fields of its type and no others.\<close>

definition members_conform :: "(string \<times> presence \<times> (jsval \<Rightarrow> bool)) list \<Rightarrow> jsval \<Rightarrow> bool" where
  "members_conform fs v =
     (case v of
        JObj ms \<Rightarrow> list_all (\<lambda>(k, x). k \<in> set (map fst fs)) ms \<and> list_all (\<lambda>(k, p, ok). present p ok (getp v k)) fs
      | _ \<Rightarrow> False)"

primrec conforms :: "var_type \<Rightarrow> jsval \<Rightarrow> bool" where
  "conforms TString = (\<lambda>v. case v of JStr s \<Rightarrow> True | _ \<Rightarrow> False)"
| "conforms TBoolean = (\<lambda>v. case v of JBool b \<Rightarrow> True | _ \<Rightarrow> False)"
| "conforms TNumber = (\<lambda>v. case v of JNum q \<Rightarrow> True | _ \<Rightarrow> False)"
| "conforms (TEnum vs) = (\<lambda>v. case v of JStr s \<Rightarrow> s \<in> set vs | _ \<Rightarrow> False)"
| "conforms (TList t) = items_conform (conforms t)"
| "conforms (TListOrOne t) = (\<lambda>v. conforms t v \<or> items_conform (conforms t) v)"
| "conforms (TObject fs) = members_conform (map (map_prod id (map_prod id conforms)) fs)"

definition NoVariables :: var_type where "NoVariables = TObject []"

section \<open>Enumerations\<close>

definition AuthAction :: var_type where
  "AuthAction =
     TEnum [''CREATE_ANY'', ''CREATE_OWN'', ''DELETE_ANY'', ''DELETE_OWN'', ''READ_ANY'', ''READ_OWN'', ''UPDATE_ANY'',
            ''UPDATE_OWN'']"

definition Resource :: var_type where
  "Resource =
     TEnum [''ACTIVATION_CODE'', ''API_KEY'', ''ARRAY'', ''CLOUD'', ''CONFIG'', ''CONNECT'', ''CONNECT__REMOTE_ACCESS'',
            ''CUSTOMIZATIONS'', ''DASHBOARD'', ''DISK'', ''DISPLAY'', ''DOCKER'', ''FLASH'', ''INFO'', ''LOGS'', ''ME'',
            ''NETWORK'', ''NOTIFICATIONS'', ''ONLINE'', ''OS'', ''OWNER'', ''PERMISSION'', ''REGISTRATION'', ''SERVERS'',
            ''SERVICES'', ''SHARE'', ''VARS'', ''VMS'', ''WELCOME'']"

definition Role :: var_type where
  "Role =
     TEnum [''ADMIN'', ''CONNECT'', ''GUEST'', ''VIEWER'']"

definition ArrayStateInputState :: var_type where
  "ArrayStateInputState =
     TEnum [''START'', ''STOP'']"

definition NotificationImportance :: var_type where
  "NotificationImportance =
     TEnum [''ALERT'', ''INFO'', ''WARNING'']"

definition NotificationType :: var_type where
  "NotificationType =
     TEnum [''ARCHIVE'', ''UNREAD'']"

section \<open>Input objects\<close>

definition AddPermissionInput :: var_type where
  "AddPermissionInput =
     TObject [(''actions'', Required, TList AuthAction), (''resource'', Required, Resource)]"

definition CreateApiKeyInput :: var_type where
  "CreateApiKeyInput =
     TObject [(''description'', Nullable, TString), (''name'', Required, TString), (''overwrite'', Nullable, TBoolean),
              (''permissions'', Nullable, TList AddPermissionInput), (''roles'', Nullable, TList Role)]"

definition UpdateApiKeyInput :: var_type where
  "UpdateApiKeyInput =
     TObject [(''description'', Nullable, TString), (''id'', Required, TString), (''name'', Nullable, TString),
              (''permissions'', Nullable, TList AddPermissionInput), (''roles'', Nullable, TList Role)]"

definition AddRoleForApiKeyInput :: var_type where
  "AddRoleForApiKeyInput =
     TObject [(''apiKeyId'', Required, TString), (''role'', Required, Role)]"

definition RemoveRoleFromApiKeyInput :: var_type where
  "RemoveRoleFromApiKeyInput =
     TObject [(''apiKeyId'', Required, TString), (''role'', Required, Role)]"

definition DeleteApiKeyInput :: var_type where
  "DeleteApiKeyInput =
     TObject [(''ids'', Required, TList TString)]"

definition ArrayStateInput :: var_type where
  "ArrayStateInput =
     TObject [(''decryptionKeyfile'', Nullable, TString), (''decryptionPassword'', Nullable, TString),
              (''desiredState'', Required, ArrayStateInputState)]"

definition ArrayDiskInput :: var_type where
  "ArrayDiskInput =
     TObject [(''id'', Required, TString), (''slot'', Nullable, TNumber)]"

definition DockerAutostartEntryInput :: var_type where
  "DockerAutostartEntryInput =
     TObject [(''autoStart'', Required, TBoolean), (''id'', Required, TString), (''wait'', Nullable, TNumber)]"

definition NotificationData :: var_type where
  "NotificationData =
     TObject [(''description'', Required, TString), (''importance'', Required, NotificationImportance),
              (''link'', Nullable, TString), (''subject'', Required, TString), (''title'', Required, TString)]"

definition NotificationFilter :: var_type where
  "NotificationFilter =
     TObject [(''importance'', Nullable, NotificationImportance), (''limit'', Required, TNumber),
              (''offset'', Required, TNumber), (''type'', Required, NotificationType)]"

definition PluginManagementInput :: var_type where
  "PluginManagementInput =
     TObject [(''bundled'', Optional, TBoolean), (''names'', Required, TList TString), (''restart'', Optional, TBoolean)]"

definition InstallPluginInput :: var_type where
  "InstallPluginInput =
     TObject [(''forced'', Nullable, TBoolean), (''name'', Nullable, TString), (''url'', Required, TString)]"

section \<open>The variables of each operation\<close>

definition ApiKeyCreateMutationVariables :: var_type where
  "ApiKeyCreateMutationVariables =
     TObject [(''input'', Required, CreateApiKeyInput)]"

definition ApiKeyUpdateMutationVariables :: var_type where
  "ApiKeyUpdateMutationVariables =
     TObject [(''input'', Required, UpdateApiKeyInput)]"

definition ApiKeyAddRoleMutationVariables :: var_type where
  "ApiKeyAddRoleMutationVariables =
     TObject [(''input'', Required, AddRoleForApiKeyInput)]"

definition ApiKeyRemoveRoleMutationVariables :: var_type where
  "ApiKeyRemoveRoleMutationVariables =
     TObject [(''input'', Required, RemoveRoleFromApiKeyInput)]"

definition ApiKeyDeleteMutationVariables :: var_type where
  "ApiKeyDeleteMutationVariables =
     TObject [(''input'', Required, DeleteApiKeyInput)]"

definition ArraySetStateMutationVariables :: var_type where
  "ArraySetStateMutationVariables =
     TObject [(''input'', Required, ArrayStateInput)]"

definition ArrayDiskAddMutationVariables :: var_type where
  "ArrayDiskAddMutationVariables =
     TObject [(''input'', Required, ArrayDiskInput)]"

definition ArrayDiskMountMutationVariables :: var_type where
  "ArrayDiskMountMutationVariables =
     TObject [(''id'', Required, TString)]"

definition ArrayDiskUnmountMutationVariables :: var_type where
  "ArrayDiskUnmountMutationVariables =
     TObject [(''id'', Required, TString)]"

definition ArrayDiskClearStatsMutationVariables :: var_type where
  "ArrayDiskClearStatsMutationVariables =
     TObject [(''id'', Required, TString)]"

definition ParityCheckStartMutationVariables :: var_type where
  "ParityCheckStartMutationVariables =
     TObject [(''correct'', Required, TBoolean)]"

definition DockerSetAutostartMutationVariables :: var_type where
  "DockerSetAutostartMutationVariables =
     TObject [(''entries'', Required, TListOrOne DockerAutostartEntryInput), (''persist'', Nullable, TBoolean)]"

definition DockerStartMutationVariables :: var_type where
  "DockerStartMutationVariables =
     TObject [(''id'', Required, TString)]"

definition DockerStopMutationVariables :: var_type where
  "DockerStopMutationVariables =
     TObject [(''id'', Required, TString)]"

definition DockerPauseMutationVariables :: var_type where
  "DockerPauseMutationVariables =
     TObject [(''id'', Required, TString)]"

definition DockerUnpauseMutationVariables :: var_type where
  "DockerUnpauseMutationVariables =
     TObject [(''id'', Required, TString)]"

definition DockerRestartMutationVariables :: var_type where
  "DockerRestartMutationVariables =
     TObject [(''id'', Required, TString)]"

definition DockerContainerLogsQueryVariables :: var_type where
  "DockerContainerLogsQueryVariables =
     TObject [(''id'', Required, TString), (''since'', Nullable, TString), (''tail'', Nullable, TNumber)]"

definition DockerRemoveContainerMutationVariables :: var_type where
  "DockerRemoveContainerMutationVariables =
     TObject [(''id'', Required, TString), (''withImage'', Nullable, TBoolean)]"

definition DockerUpdateContainersMutationVariables :: var_type where
  "DockerUpdateContainersMutationVariables =
     TObject [(''ids'', Required, TListOrOne TString)]"

definition LogReadContentQueryVariables :: var_type where
  "LogReadContentQueryVariables =
     TObject [(''path'', Required, TString), (''lines'', Nullable, TNumber), (''startLine'', Nullable, TNumber)]"

definition ArchiveNotificationsMutationVariables :: var_type where
  "ArchiveNotificationsMutationVariables =
     TObject [(''ids'', Required, TListOrOne TString)]"

definition UnarchiveNotificationsMutationVariables :: var_type where
  "UnarchiveNotificationsMutationVariables =
     TObject [(''ids'', Required, TListOrOne TString)]"

definition ArchiveAllMutationVariables :: var_type where
  "ArchiveAllMutationVariables =
     TObject [(''importance'', Nullable, NotificationImportance)]"

definition UnarchiveAllMutationVariables :: var_type where
  "UnarchiveAllMutationVariables =
     TObject [(''importance'', Nullable, NotificationImportance)]"

definition CreateNotificationMutationVariables :: var_type where
  "CreateNotificationMutationVariables =
     TObject [(''input'', Required, NotificationData)]"

definition NotifyIfUniqueMutationVariables :: var_type where
  "NotifyIfUniqueMutationVariables =
     TObject [(''input'', Required, NotificationData)]"

definition DeleteNotificationMutationVariables :: var_type where
  "DeleteNotificationMutationVariables =
     TObject [(''id'', Required, TString), (''type'', Required, NotificationType)]"

definition NotificationListQueryVariables :: var_type where
  "NotificationListQueryVariables =
     TObject [(''filter'', Required, NotificationFilter)]"

definition NotificationUnreadMutationVariables :: var_type where
  "NotificationUnreadMutationVariables =
     TObject [(''id'', Required, TString)]"

definition PluginAddMutationVariables :: var_type where
  "PluginAddMutationVariables =
     TObject [(''input'', Required, PluginManagementInput)]"

definition PluginInstallPlgMutationVariables :: var_type where
  "PluginInstallPlgMutationVariables =
     TObject [(''input'', Required, InstallPluginInput)]"

definition PluginRemoveMutationVariables :: var_type where
  "PluginRemoveMutationVariables =
     TObject [(''input'', Required, PluginManagementInput)]"

definition SystemMetricsQueryVariables :: var_type where
  "SystemMetricsQueryVariables =
     TObject [(''includeTemperature'', Required, TBoolean)]"

definition VmStartMutationVariables :: var_type where
  "VmStartMutationVariables =
     TObject [(''id'', Required, TString)]"

definition VmStopMutationVariables :: var_type where
  "VmStopMutationVariables =
     TObject [(''id'', Required, TString)]"

definition VmPauseMutationVariables :: var_type where
  "VmPauseMutationVariables =
     TObject [(''id'', Required, TString)]"

definition VmResumeMutationVariables :: var_type where
  "VmResumeMutationVariables =
     TObject [(''id'', Required, TString)]"

definition VmForceStopMutationVariables :: var_type where
  "VmForceStopMutationVariables =
     TObject [(''id'', Required, TString)]"

definition VmRebootMutationVariables :: var_type where
  "VmRebootMutationVariables =
     TObject [(''id'', Required, TString)]"

definition VmResetMutationVariables :: var_type where
  "VmResetMutationVariables =
     TObject [(''id'', Required, TString)]"

definition VARIABLE_TYPES :: "(gql_document \<times> var_type) list" where
  "VARIABLE_TYPES =
     [(ApiKeyListDocument, NoVariables),
      (ApiKeyCreateDocument, ApiKeyCreateMutationVariables),
      (ApiKeyUpdateDocument, ApiKeyUpdateMutationVariables),
      (ApiKeyAddRoleDocument, ApiKeyAddRoleMutationVariables),
      (ApiKeyRemoveRoleDocument, ApiKeyRemoveRoleMutationVariables),
      (ApiKeyDeleteDocument, ApiKeyDeleteMutationVariables),
      (ArraySetStateDocument, ArraySetStateMutationVariables),
      (ArrayStateProbeDocument, NoVariables),
      (ArrayDiskAddDocument, ArrayDiskAddMutationVariables),
      (ArrayDiskMountDocument, ArrayDiskMountMutationVariables),
      (ArrayDiskUnmountDocument, ArrayDiskUnmountMutationVariables),
      (ArrayDiskClearStatsDocument, ArrayDiskClearStatsMutationVariables),
      (ArrayStatusDocument, NoVariables),
      (ParityCheckStartDocument, ParityCheckStartMutationVariables),
      (ParityCheckPauseDocument, NoVariables),
      (ParityCheckResumeDocument, NoVariables),
      (ParityCheckCancelDocument, NoVariables),
      (ParityHistoryDocument, NoVariables),
      (DiskListDocument, NoVariables),
      (DockerAutostartStateDocument, NoVariables),
      (DockerSetAutostartDocument, DockerSetAutostartMutationVariables),
      (DockerStartDocument, DockerStartMutationVariables),
      (DockerStopDocument, DockerStopMutationVariables),
      (DockerPauseDocument, DockerPauseMutationVariables),
      (DockerUnpauseDocument, DockerUnpauseMutationVariables),
      (DockerRestartDocument, DockerRestartMutationVariables),
      (DockerContainerListDocument, NoVariables),
      (DockerContainerLogsDocument, DockerContainerLogsQueryVariables),
      (DockerRemoveContainerDocument, DockerRemoveContainerMutationVariables),
      (DockerUpdateContainersDocument, DockerUpdateContainersMutationVariables),
      (DockerUpdateAllDocument, NoVariables),
      (DockerNetworkListDocument, NoVariables),
      (DockerPortConflictsDocument, NoVariables),
      (LogListDocument, NoVariables),
      (LogReadAllowlistDocument, NoVariables),
      (LogReadContentDocument, LogReadContentQueryVariables),
      (MoverStatusDocument, NoVariables),
      (NotificationAlertsDocument, NoVariables),
      (ArchiveNotificationsDocument, ArchiveNotificationsMutationVariables),
      (UnarchiveNotificationsDocument, UnarchiveNotificationsMutationVariables),
      (ArchiveAllDocument, ArchiveAllMutationVariables),
      (UnarchiveAllDocument, UnarchiveAllMutationVariables),
      (CreateNotificationDocument, CreateNotificationMutationVariables),
      (NotifyIfUniqueDocument, NotifyIfUniqueMutationVariables),
      (DeleteNotificationDocument, DeleteNotificationMutationVariables),
      (DeleteArchivedNotificationsDocument, NoVariables),
      (NotificationListDocument, NotificationListQueryVariables),
      (NotificationOverviewDocument, NoVariables),
      (RecalculateOverviewDocument, NoVariables),
      (NotificationUnreadDocument, NotificationUnreadMutationVariables),
      (PluginAddDocument, PluginAddMutationVariables),
      (PluginInstallPlgDocument, PluginInstallPlgMutationVariables),
      (PluginListDocument, NoVariables),
      (PluginRemoveDocument, PluginRemoveMutationVariables),
      (ShareListDocument, NoVariables),
      (ConnectionDoctorDocument, NoVariables),
      (SystemHealthDocument, NoVariables),
      (SystemInfoDocument, NoVariables),
      (SystemMetricsDocument, SystemMetricsQueryVariables),
      (UpsStatusDocument, NoVariables),
      (VmResolveDocument, NoVariables),
      (VmStartDocument, VmStartMutationVariables),
      (VmStopDocument, VmStopMutationVariables),
      (VmPauseDocument, VmPauseMutationVariables),
      (VmResumeDocument, VmResumeMutationVariables),
      (VmForceStopDocument, VmForceStopMutationVariables),
      (VmRebootDocument, VmRebootMutationVariables),
      (VmResetDocument, VmResetMutationVariables),
      (VmListDocument, NoVariables)]"

definition variables_type :: "gql_document \<Rightarrow> var_type option" where
  "variables_type d = map_of VARIABLE_TYPES d"

text \<open>Calls of operations without variables leave them out.\<close>

definition well_typed :: "gql_document \<Rightarrow> jsval \<Rightarrow> bool" where
  "well_typed d v =
     (case variables_type d of
        None \<Rightarrow> False
      | Some t \<Rightarrow> (if t = NoVariables then v = JUndef \<or> conforms t v else conforms t v))"

section \<open>Computing with the types\<close>

lemma declared_once: "distinct (map (doc_name \<circ> fst) VARIABLE_TYPES)"
  by code_simp

lemma declared_types: "list_all (\<lambda>(d, t). variables_type d = Some t) VARIABLE_TYPES"
proof -
  have "distinct (map fst VARIABLE_TYPES)" using declared_once by (metis distinct_map map_map)
  then show ?thesis by (auto simp: list_all_iff variables_type_def)
qed

lemma present_simps [simp]:
  "present Required ok v = ok v" "present Optional ok v \<longleftrightarrow> v = JUndef \<or> ok v" "present Nullable ok v \<longleftrightarrow> nullish v \<or> ok v"
  by (simp_all add: present_def)

lemma items_conform_JArr [simp]: "items_conform ok (JArr xs) = list_all ok xs"
  by (simp add: items_conform_def)

lemma members_conform_JObj [simp]:
  "members_conform fs (JObj ms) \<longleftrightarrow>
     list_all (\<lambda>(k, x). k \<in> set (map fst fs)) ms \<and> list_all (\<lambda>(k, p, ok). present p ok (getp (JObj ms) k)) fs"
  by (simp add: members_conform_def)

lemmas input_types =
  AuthAction_def Resource_def Role_def ArrayStateInputState_def NotificationImportance_def NotificationType_def
  AddPermissionInput_def CreateApiKeyInput_def UpdateApiKeyInput_def AddRoleForApiKeyInput_def
  RemoveRoleFromApiKeyInput_def DeleteApiKeyInput_def ArrayStateInput_def ArrayDiskInput_def
  DockerAutostartEntryInput_def NotificationData_def NotificationFilter_def PluginManagementInput_def
  InstallPluginInput_def ApiKeyCreateMutationVariables_def ApiKeyUpdateMutationVariables_def
  ApiKeyAddRoleMutationVariables_def ApiKeyRemoveRoleMutationVariables_def ApiKeyDeleteMutationVariables_def
  ArraySetStateMutationVariables_def ArrayDiskAddMutationVariables_def ArrayDiskMountMutationVariables_def
  ArrayDiskUnmountMutationVariables_def ArrayDiskClearStatsMutationVariables_def ParityCheckStartMutationVariables_def
  DockerSetAutostartMutationVariables_def DockerStartMutationVariables_def DockerStopMutationVariables_def
  DockerPauseMutationVariables_def DockerUnpauseMutationVariables_def DockerRestartMutationVariables_def
  DockerContainerLogsQueryVariables_def DockerRemoveContainerMutationVariables_def
  DockerUpdateContainersMutationVariables_def LogReadContentQueryVariables_def
  ArchiveNotificationsMutationVariables_def UnarchiveNotificationsMutationVariables_def
  ArchiveAllMutationVariables_def UnarchiveAllMutationVariables_def CreateNotificationMutationVariables_def
  NotifyIfUniqueMutationVariables_def DeleteNotificationMutationVariables_def NotificationListQueryVariables_def
  NotificationUnreadMutationVariables_def PluginAddMutationVariables_def PluginInstallPlgMutationVariables_def
  PluginRemoveMutationVariables_def SystemMetricsQueryVariables_def VmStartMutationVariables_def
  VmStopMutationVariables_def VmPauseMutationVariables_def VmResumeMutationVariables_def
  VmForceStopMutationVariables_def VmRebootMutationVariables_def VmResetMutationVariables_def

lemma declared_each:
  "variables_type ApiKeyListDocument = Some NoVariables"
  "variables_type ApiKeyCreateDocument = Some ApiKeyCreateMutationVariables"
  "variables_type ApiKeyUpdateDocument = Some ApiKeyUpdateMutationVariables"
  "variables_type ApiKeyAddRoleDocument = Some ApiKeyAddRoleMutationVariables"
  "variables_type ApiKeyRemoveRoleDocument = Some ApiKeyRemoveRoleMutationVariables"
  "variables_type ApiKeyDeleteDocument = Some ApiKeyDeleteMutationVariables"
  "variables_type ArraySetStateDocument = Some ArraySetStateMutationVariables"
  "variables_type ArrayStateProbeDocument = Some NoVariables"
  "variables_type ArrayDiskAddDocument = Some ArrayDiskAddMutationVariables"
  "variables_type ArrayDiskMountDocument = Some ArrayDiskMountMutationVariables"
  "variables_type ArrayDiskUnmountDocument = Some ArrayDiskUnmountMutationVariables"
  "variables_type ArrayDiskClearStatsDocument = Some ArrayDiskClearStatsMutationVariables"
  "variables_type ArrayStatusDocument = Some NoVariables"
  "variables_type ParityCheckStartDocument = Some ParityCheckStartMutationVariables"
  "variables_type ParityCheckPauseDocument = Some NoVariables"
  "variables_type ParityCheckResumeDocument = Some NoVariables"
  "variables_type ParityCheckCancelDocument = Some NoVariables"
  "variables_type ParityHistoryDocument = Some NoVariables"
  "variables_type DiskListDocument = Some NoVariables"
  "variables_type DockerAutostartStateDocument = Some NoVariables"
  "variables_type DockerSetAutostartDocument = Some DockerSetAutostartMutationVariables"
  "variables_type DockerStartDocument = Some DockerStartMutationVariables"
  "variables_type DockerStopDocument = Some DockerStopMutationVariables"
  "variables_type DockerPauseDocument = Some DockerPauseMutationVariables"
  "variables_type DockerUnpauseDocument = Some DockerUnpauseMutationVariables"
  "variables_type DockerRestartDocument = Some DockerRestartMutationVariables"
  "variables_type DockerContainerListDocument = Some NoVariables"
  "variables_type DockerContainerLogsDocument = Some DockerContainerLogsQueryVariables"
  "variables_type DockerRemoveContainerDocument = Some DockerRemoveContainerMutationVariables"
  "variables_type DockerUpdateContainersDocument = Some DockerUpdateContainersMutationVariables"
  "variables_type DockerUpdateAllDocument = Some NoVariables"
  "variables_type DockerNetworkListDocument = Some NoVariables"
  "variables_type DockerPortConflictsDocument = Some NoVariables"
  "variables_type LogListDocument = Some NoVariables"
  "variables_type LogReadAllowlistDocument = Some NoVariables"
  "variables_type LogReadContentDocument = Some LogReadContentQueryVariables"
  "variables_type MoverStatusDocument = Some NoVariables"
  "variables_type NotificationAlertsDocument = Some NoVariables"
  "variables_type ArchiveNotificationsDocument = Some ArchiveNotificationsMutationVariables"
  "variables_type UnarchiveNotificationsDocument = Some UnarchiveNotificationsMutationVariables"
  "variables_type ArchiveAllDocument = Some ArchiveAllMutationVariables"
  "variables_type UnarchiveAllDocument = Some UnarchiveAllMutationVariables"
  "variables_type CreateNotificationDocument = Some CreateNotificationMutationVariables"
  "variables_type NotifyIfUniqueDocument = Some NotifyIfUniqueMutationVariables"
  "variables_type DeleteNotificationDocument = Some DeleteNotificationMutationVariables"
  "variables_type DeleteArchivedNotificationsDocument = Some NoVariables"
  "variables_type NotificationListDocument = Some NotificationListQueryVariables"
  "variables_type NotificationOverviewDocument = Some NoVariables"
  "variables_type RecalculateOverviewDocument = Some NoVariables"
  "variables_type NotificationUnreadDocument = Some NotificationUnreadMutationVariables"
  "variables_type PluginAddDocument = Some PluginAddMutationVariables"
  "variables_type PluginInstallPlgDocument = Some PluginInstallPlgMutationVariables"
  "variables_type PluginListDocument = Some NoVariables"
  "variables_type PluginRemoveDocument = Some PluginRemoveMutationVariables"
  "variables_type ShareListDocument = Some NoVariables"
  "variables_type ConnectionDoctorDocument = Some NoVariables"
  "variables_type SystemHealthDocument = Some NoVariables"
  "variables_type SystemInfoDocument = Some NoVariables"
  "variables_type SystemMetricsDocument = Some SystemMetricsQueryVariables"
  "variables_type UpsStatusDocument = Some NoVariables"
  "variables_type VmResolveDocument = Some NoVariables"
  "variables_type VmStartDocument = Some VmStartMutationVariables"
  "variables_type VmStopDocument = Some VmStopMutationVariables"
  "variables_type VmPauseDocument = Some VmPauseMutationVariables"
  "variables_type VmResumeDocument = Some VmResumeMutationVariables"
  "variables_type VmForceStopDocument = Some VmForceStopMutationVariables"
  "variables_type VmRebootDocument = Some VmRebootMutationVariables"
  "variables_type VmResetDocument = Some VmResetMutationVariables"
  "variables_type VmListDocument = Some NoVariables"
  using declared_types by (simp_all only: VARIABLE_TYPES_def list.pred_inject prod.case)

lemma sent_without_variables [simp]:
  "well_typed ApiKeyListDocument JUndef"
  "well_typed ArrayStateProbeDocument JUndef"
  "well_typed ArrayStatusDocument JUndef"
  "well_typed ParityCheckPauseDocument JUndef"
  "well_typed ParityCheckResumeDocument JUndef"
  "well_typed ParityCheckCancelDocument JUndef"
  "well_typed ParityHistoryDocument JUndef"
  "well_typed DiskListDocument JUndef"
  "well_typed DockerAutostartStateDocument JUndef"
  "well_typed DockerContainerListDocument JUndef"
  "well_typed DockerUpdateAllDocument JUndef"
  "well_typed DockerNetworkListDocument JUndef"
  "well_typed DockerPortConflictsDocument JUndef"
  "well_typed LogListDocument JUndef"
  "well_typed LogReadAllowlistDocument JUndef"
  "well_typed MoverStatusDocument JUndef"
  "well_typed NotificationAlertsDocument JUndef"
  "well_typed DeleteArchivedNotificationsDocument JUndef"
  "well_typed NotificationOverviewDocument JUndef"
  "well_typed RecalculateOverviewDocument JUndef"
  "well_typed PluginListDocument JUndef"
  "well_typed ShareListDocument JUndef"
  "well_typed ConnectionDoctorDocument JUndef"
  "well_typed SystemHealthDocument JUndef"
  "well_typed SystemInfoDocument JUndef"
  "well_typed UpsStatusDocument JUndef"
  "well_typed VmResolveDocument JUndef"
  "well_typed VmListDocument JUndef"
  by (simp_all add: well_typed_def declared_each)

lemma some_variables:
  "ApiKeyAddRoleMutationVariables \<noteq> NoVariables"
  "ApiKeyCreateMutationVariables \<noteq> NoVariables"
  "ApiKeyDeleteMutationVariables \<noteq> NoVariables"
  "ApiKeyRemoveRoleMutationVariables \<noteq> NoVariables"
  "ApiKeyUpdateMutationVariables \<noteq> NoVariables"
  "ArchiveAllMutationVariables \<noteq> NoVariables"
  "ArchiveNotificationsMutationVariables \<noteq> NoVariables"
  "ArrayDiskAddMutationVariables \<noteq> NoVariables"
  "ArrayDiskClearStatsMutationVariables \<noteq> NoVariables"
  "ArrayDiskMountMutationVariables \<noteq> NoVariables"
  "ArrayDiskUnmountMutationVariables \<noteq> NoVariables"
  "ArraySetStateMutationVariables \<noteq> NoVariables"
  "CreateNotificationMutationVariables \<noteq> NoVariables"
  "DeleteNotificationMutationVariables \<noteq> NoVariables"
  "DockerContainerLogsQueryVariables \<noteq> NoVariables"
  "DockerPauseMutationVariables \<noteq> NoVariables"
  "DockerRemoveContainerMutationVariables \<noteq> NoVariables"
  "DockerRestartMutationVariables \<noteq> NoVariables"
  "DockerSetAutostartMutationVariables \<noteq> NoVariables"
  "DockerStartMutationVariables \<noteq> NoVariables"
  "DockerStopMutationVariables \<noteq> NoVariables"
  "DockerUnpauseMutationVariables \<noteq> NoVariables"
  "DockerUpdateContainersMutationVariables \<noteq> NoVariables"
  "LogReadContentQueryVariables \<noteq> NoVariables"
  "NotificationListQueryVariables \<noteq> NoVariables"
  "NotificationUnreadMutationVariables \<noteq> NoVariables"
  "NotifyIfUniqueMutationVariables \<noteq> NoVariables"
  "ParityCheckStartMutationVariables \<noteq> NoVariables"
  "PluginAddMutationVariables \<noteq> NoVariables"
  "PluginInstallPlgMutationVariables \<noteq> NoVariables"
  "PluginRemoveMutationVariables \<noteq> NoVariables"
  "SystemMetricsQueryVariables \<noteq> NoVariables"
  "UnarchiveAllMutationVariables \<noteq> NoVariables"
  "UnarchiveNotificationsMutationVariables \<noteq> NoVariables"
  "VmForceStopMutationVariables \<noteq> NoVariables"
  "VmPauseMutationVariables \<noteq> NoVariables"
  "VmRebootMutationVariables \<noteq> NoVariables"
  "VmResetMutationVariables \<noteq> NoVariables"
  "VmResumeMutationVariables \<noteq> NoVariables"
  "VmStartMutationVariables \<noteq> NoVariables"
  "VmStopMutationVariables \<noteq> NoVariables"
  by (simp_all add: input_types NoVariables_def)

lemma sent_with_variables:
  "well_typed ApiKeyCreateDocument v \<longleftrightarrow> conforms ApiKeyCreateMutationVariables v"
  "well_typed ApiKeyUpdateDocument v \<longleftrightarrow> conforms ApiKeyUpdateMutationVariables v"
  "well_typed ApiKeyAddRoleDocument v \<longleftrightarrow> conforms ApiKeyAddRoleMutationVariables v"
  "well_typed ApiKeyRemoveRoleDocument v \<longleftrightarrow> conforms ApiKeyRemoveRoleMutationVariables v"
  "well_typed ApiKeyDeleteDocument v \<longleftrightarrow> conforms ApiKeyDeleteMutationVariables v"
  "well_typed ArraySetStateDocument v \<longleftrightarrow> conforms ArraySetStateMutationVariables v"
  "well_typed ArrayDiskAddDocument v \<longleftrightarrow> conforms ArrayDiskAddMutationVariables v"
  "well_typed ArrayDiskMountDocument v \<longleftrightarrow> conforms ArrayDiskMountMutationVariables v"
  "well_typed ArrayDiskUnmountDocument v \<longleftrightarrow> conforms ArrayDiskUnmountMutationVariables v"
  "well_typed ArrayDiskClearStatsDocument v \<longleftrightarrow> conforms ArrayDiskClearStatsMutationVariables v"
  "well_typed ParityCheckStartDocument v \<longleftrightarrow> conforms ParityCheckStartMutationVariables v"
  "well_typed DockerSetAutostartDocument v \<longleftrightarrow> conforms DockerSetAutostartMutationVariables v"
  "well_typed DockerStartDocument v \<longleftrightarrow> conforms DockerStartMutationVariables v"
  "well_typed DockerStopDocument v \<longleftrightarrow> conforms DockerStopMutationVariables v"
  "well_typed DockerPauseDocument v \<longleftrightarrow> conforms DockerPauseMutationVariables v"
  "well_typed DockerUnpauseDocument v \<longleftrightarrow> conforms DockerUnpauseMutationVariables v"
  "well_typed DockerRestartDocument v \<longleftrightarrow> conforms DockerRestartMutationVariables v"
  "well_typed DockerContainerLogsDocument v \<longleftrightarrow> conforms DockerContainerLogsQueryVariables v"
  "well_typed DockerRemoveContainerDocument v \<longleftrightarrow> conforms DockerRemoveContainerMutationVariables v"
  "well_typed DockerUpdateContainersDocument v \<longleftrightarrow> conforms DockerUpdateContainersMutationVariables v"
  "well_typed LogReadContentDocument v \<longleftrightarrow> conforms LogReadContentQueryVariables v"
  "well_typed ArchiveNotificationsDocument v \<longleftrightarrow> conforms ArchiveNotificationsMutationVariables v"
  "well_typed UnarchiveNotificationsDocument v \<longleftrightarrow> conforms UnarchiveNotificationsMutationVariables v"
  "well_typed ArchiveAllDocument v \<longleftrightarrow> conforms ArchiveAllMutationVariables v"
  "well_typed UnarchiveAllDocument v \<longleftrightarrow> conforms UnarchiveAllMutationVariables v"
  "well_typed CreateNotificationDocument v \<longleftrightarrow> conforms CreateNotificationMutationVariables v"
  "well_typed NotifyIfUniqueDocument v \<longleftrightarrow> conforms NotifyIfUniqueMutationVariables v"
  "well_typed DeleteNotificationDocument v \<longleftrightarrow> conforms DeleteNotificationMutationVariables v"
  "well_typed NotificationListDocument v \<longleftrightarrow> conforms NotificationListQueryVariables v"
  "well_typed NotificationUnreadDocument v \<longleftrightarrow> conforms NotificationUnreadMutationVariables v"
  "well_typed PluginAddDocument v \<longleftrightarrow> conforms PluginAddMutationVariables v"
  "well_typed PluginInstallPlgDocument v \<longleftrightarrow> conforms PluginInstallPlgMutationVariables v"
  "well_typed PluginRemoveDocument v \<longleftrightarrow> conforms PluginRemoveMutationVariables v"
  "well_typed SystemMetricsDocument v \<longleftrightarrow> conforms SystemMetricsQueryVariables v"
  "well_typed VmStartDocument v \<longleftrightarrow> conforms VmStartMutationVariables v"
  "well_typed VmStopDocument v \<longleftrightarrow> conforms VmStopMutationVariables v"
  "well_typed VmPauseDocument v \<longleftrightarrow> conforms VmPauseMutationVariables v"
  "well_typed VmResumeDocument v \<longleftrightarrow> conforms VmResumeMutationVariables v"
  "well_typed VmForceStopDocument v \<longleftrightarrow> conforms VmForceStopMutationVariables v"
  "well_typed VmRebootDocument v \<longleftrightarrow> conforms VmRebootMutationVariables v"
  "well_typed VmResetDocument v \<longleftrightarrow> conforms VmResetMutationVariables v"
  by (simp_all add: well_typed_def declared_each some_variables)

end
