(* ===== verification/TypedRequests.thy ===== *)
theory TypedRequests
  imports Registry Variables
begin

text \<open>
  The variables that the tools send have the types that \<open>src/types/unraid/graphql.ts\<close> declares for
  them: handler by handler, and then for every tool of the registry but the two that pass a
  document of the caller on (those validate it against the schema instead).
\<close>

section \<open>Typed requests\<close>

definition typed_request :: "event \<Rightarrow> bool" where
  "typed_request e = (case e of EGql d v \<Rightarrow> well_typed d v | _ \<Rightarrow> True)"

lemma typed_request_simps [simp]:
  "typed_request (EGql d v) = well_typed d v" "typed_request (EShell c t)" "typed_request (EElicit m b)"
  "typed_request (ENotify n)"
  by (simp_all add: typed_request_def)

definition typed :: "tool_result prog \<Rightarrow> bool" where
  "typed p = (\<forall>w. \<forall>e \<in> set (events_of w p). typed_request e)"

lemma typed_emits: "emits typed_request p \<Longrightarrow> typed p"
  unfolding typed_def by (blast intro: events_emits)

lemma typed_touching: "(\<And>w e. e \<in> set (events_of w p) \<Longrightarrow> touches_host e \<Longrightarrow> typed_request e) \<Longrightarrow> typed p"
  unfolding typed_def by (metis touches_host.simps(3,4) typed_request_simps(3,4) event.exhaust touches_host.simps(1,2))

text \<open>A handler that only runs commands has no variables to get wrong.\<close>

lemma typed_shell: "emits P p \<Longrightarrow> (\<And>d v. \<not> P (EGql d v)) \<Longrightarrow> typed p"
  by (rule typed_emits, erule emits_mono) (auto simp: typed_request_def split: event.splits)

lemma typed_elicits [emits_intros]:
  "emits typed_request (requireConfirmationInteractive ch cf d)"
  "emits typed_request (requireRiskAcknowledgementInteractive ch flags m)"
  by (simp_all add: emits_confirm_gate emits_risk_gate)

section \<open>Handlers\<close>

lemmas value_simps = sent_with_variables input_types js_opt_int_def js_string_opt_def js_bool_opt_def slot_value_def
  nullish_def list_all_iff

lemma role_conforms: "role_text r \<in> set [''ADMIN'', ''CONNECT'', ''GUEST'', ''VIEWER'']"
  by (cases r) (simp_all add: role_text_def)

lemma roles_conform: "nullish (js_roles rs) \<or> items_conform (conforms Role) (js_roles rs)"
  using role_conforms by (auto simp: js_roles_def nullish_def Role_def list_all_iff split: option.splits)

lemma typed_api_keys: "typed (apiKeyManageHandler ch args)"
proof (rule typed_touching)
  fix w e assume "e \<in> set (events_of w (apiKeyManageHandler ch args))" "touches_host e"
  note ev = apikey_manage_events [OF this]
  show "typed_request e"
  proof (cases "ak_action args")
    case KeyCreate
    with ev roles_conform show ?thesis
      by (auto simp: manage_document_def manage_input_def value_simps Role_def split: option.splits)
  next
    case KeyUpdate
    with ev roles_conform show ?thesis
      by (auto simp: manage_document_def manage_input_def value_simps Role_def split: option.splits)
  next
    case KeyAddRole
    with ev validated_roles [of args] role_conforms show ?thesis
      by (auto simp: manage_document_def manage_input_def first_role_def is_role_action_def value_simps)
  next
    case KeyRemoveRole
    with ev validated_roles [of args] role_conforms show ?thesis
      by (auto simp: manage_document_def manage_input_def first_role_def is_role_action_def value_simps)
  next
    case KeyDelete
    with ev show ?thesis by (auto simp: manage_document_def manage_input_def value_simps split: option.splits)
  qed
qed

lemma typed_array_tools:
  "typed (arrayActionHandler ch a)" "typed (arrayDiskActionHandler ch d b)" "typed (parityCheckHandler ch c)"
  "typed (arrayStatusHandler age f)"
proof -
  show "typed (arrayActionHandler ch a)"
    unfolding arrayActionHandler_def array_gateRefusal_def Let_def
    by (rule typed_emits, intro emits_intros emits_array_action_work)
       (auto simp: DESIRED_STATE_def value_simps split: array_action.splits)
  show "typed (arrayDiskActionHandler ch d b)"
    unfolding arrayDiskActionHandler_def array_disk_work_def statePrecondition_def runDiskAction_def disk_mutation_def
    by (rule typed_emits, cases d, simp add: emits_toolError, rename_tac x, case_tac x)
       (auto simp: value_simps intro!: emits_intros split: option.splits)
  show "typed (parityCheckHandler ch c)"
    unfolding parityCheckHandler_def parity_gateRefusal_def parity_work_def parity_runAction_def parity_mapKnownError_def Let_def
    by (rule typed_emits, cases "pc_action c")
       (auto simp: value_simps intro!: emits_intros)
  show "typed (arrayStatusHandler age f)"
    unfolding arrayStatusHandler_def array_summarize_def by (rule typed_emits, intro emits_intros) simp_all
qed

lemma typed_docker_tools:
  "typed (dockerAutostartSetHandler ch a)" "typed (dockerContainerActionHandler ch b)"
  "typed (dockerContainerRemoveHandler ch c)" "typed (dockerContainerUpdateHandler ch extra d)"
  "typed (dockerContainerLogsHandler shell i)" "typed (dockerContainerListHandler age f name)"
  "typed (dockerNetworkListHandler f)" "typed (dockerPortConflictsHandler f)" "typed (dockerStatsHandler live shell f)"
proof -
  show "typed (dockerAutostartSetHandler ch a)"
    unfolding dockerAutostartSetHandler_def autostart_work_def
    by (rule typed_emits, intro emits_intros)
       (auto simp: value_simps buildEntries_def entry_json_def split: option.splits)
  show "typed (dockerContainerActionHandler ch b)"
    unfolding dockerContainerActionHandler_def container_action_work_def container_runAction_def Let_def
    by (rule typed_emits, cases "ca_action b") (auto simp: container_document_def value_simps intro!: emits_intros)
  show "typed (dockerContainerRemoveHandler ch c)"
    unfolding dockerContainerRemoveHandler_def container_remove_work_def
    by (rule typed_emits, intro emits_intros) (auto simp: value_simps split: option.splits)
  show "typed (dockerContainerUpdateHandler ch extra d)"
    unfolding dockerContainerUpdateHandler_def container_update_work_def runUpdate_def Let_def
    by (rule typed_emits, cases "resolveTarget (up_ids d) (up_all d)") (auto simp: value_simps intro!: emits_intros)
  show "typed (dockerContainerLogsHandler shell i)"
    by (rule typed_touching, drule container_logs_events) (auto simp: logs_variables_def value_simps split: option.splits)
  show "typed (dockerContainerListHandler age f name)" "typed (dockerNetworkListHandler f)" "typed (dockerPortConflictsHandler f)"
    unfolding dockerContainerListHandler_def dockerNetworkListHandler_def dockerPortConflictsHandler_def
      conflicts_summarize_def formatContainerPort_def formatLanPort_def Let_def
    by (rule typed_emits, intro emits_intros; simp)+
  show "typed (dockerStatsHandler live shell f)"
    unfolding dockerStatsHandler_def docker_stats_ssh_def
    by (rule typed_emits, cases "fresh_live live") (auto intro!: emits_intros)
qed

lemma typed_vm_tools: "typed (vmActionHandler ch a)" "typed (vmListHandler f name)"
proof -
  show "typed (vmActionHandler ch a)"
    unfolding vmActionHandler_def vm_gateRefusal_def vm_work_def vm_runAction_def Let_def
    by (rule typed_emits, cases "va_action a") (auto simp: vm_document_def value_simps intro!: emits_intros)
  show "typed (vmListHandler f name)"
    unfolding vmListHandler_def Let_def by (rule typed_emits, intro emits_intros; simp)
qed

lemma typed_notification_tools:
  "typed (notificationAlertsHandler f)" "typed (notificationOverviewHandler f)" "typed (notificationListHandler l)"
  "typed (notificationArchiveHandler a)" "typed (notificationCreateHandler n)" "typed (notificationDeleteHandler ch d)"
  "typed (notificationRecalculateHandler f)" "typed (notificationUnreadHandler i)"
proof -
  have importance: "IMPORTANCE_TO_API x \<in> {''ALERT'', ''INFO'', ''WARNING''}" for x
    by (simp add: IMPORTANCE_TO_API_def split: importance_input.splits)
  have bucket: "TYPE_TO_API x \<in> {''ARCHIVE'', ''UNREAD''}" for x by (simp add: TYPE_TO_API_def split: type_input.splits)
  show "typed (notificationAlertsHandler f)" "typed (notificationOverviewHandler f)"
    unfolding notificationAlertsHandler_def notificationOverviewHandler_def summarizeOverview_def bucket_of_def
    by (rule typed_emits, intro emits_intros; simp)+
  show "typed (notificationListHandler l)"
    unfolding notificationListHandler_def
    by (rule typed_emits, intro emits_intros)
       (use importance bucket in \<open>auto simp: notification_filter_def opt_prop_def value_simps split: option.splits\<close>)
  show "typed (notificationArchiveHandler a)"
    by (rule typed_touching, drule archive_events)
       (use importance in \<open>auto simp: archive_event_def all_variables_def value_simps split: option.splits\<close>)
  show "typed (notificationCreateHandler n)"
    by (rule typed_touching, drule create_events)
       (use importance in \<open>auto simp: create_variables_def value_simps split: option.splits\<close>)
  show "typed (notificationDeleteHandler ch d)"
  proof (rule typed_touching)
    fix w e assume "e \<in> set (events_of w (notificationDeleteHandler ch d))" "touches_host e"
    from delete_events [OF this] validateScope_one [of d] bucket show "typed_request e"
      by (cases "nd_scope d") (auto simp: delete_event_def delete_one_variables_def value_simps)
  qed
  show "typed (notificationRecalculateHandler f)" "typed (notificationUnreadHandler i)"
    unfolding notificationRecalculateHandler_def notificationUnreadHandler_def
    by (rule typed_emits, intro emits_intros; simp add: value_simps)+
qed

lemma typed_plugin_tools:
  "typed (pluginAddHandler ch a)" "typed (pluginRemoveHandler ch a)" "typed (pluginInstallPlgHandler ch b)"
  "typed (pluginListHandler f)" "typed (apiKeyListHandler f)"
proof -
  show "typed (pluginAddHandler ch a)" "typed (pluginRemoveHandler ch a)"
    by (rule typed_touching, drule (1) plugin_add_events plugin_remove_events, simp add: names_variables_def value_simps)+
  show "typed (pluginInstallPlgHandler ch b)"
    by (rule typed_touching, drule (1) plg_events) (auto simp: plg_variables_def value_simps split: option.splits)
  show "typed (pluginListHandler f)" "typed (apiKeyListHandler f)"
    by (rule typed_touching, drule plugin_list_events apikey_list_events, simp)+
qed

lemma typed_log_tools: "typed (logListHandler lc f)" "typed (logReadHandler r)"
proof -
  show "typed (logListHandler lc f)"
    unfolding logListHandler_def Let_def by (rule typed_emits, intro emits_intros) simp
  show "typed (logReadHandler r)"
    unfolding logReadHandler_def read_allowed_def
    by (rule typed_emits, intro emits_intros) (auto simp: content_variables_def value_simps split: option.splits)
qed

lemma typed_system_tools:
  "typed (systemInfoHandler f)" "typed (systemMetricsHandler age f t)" "typed (systemHealthHandler f)"
  "typed (upsStatusHandler f)" "typed (connectionDoctorHandler latencyMs deps f)"
  "typed (parityHistoryHandler lc f n)" "typed (diskListHandler f)" "typed (shareListHandler f name)" "typed (moverStatusHandler f)"
  unfolding systemInfoHandler_def systemMetricsHandler_def systemHealthHandler_def runSystemHealth_def readUps_def case_prod_beta
    upsStatusHandler_def ups_renderStatus_def renderApcaccessEmpty_def connectionDoctorHandler_def runConnectionDoctor_def
    parityHistoryHandler_def diskListHandler_def shareListHandler_def moverStatusHandler_def Let_def
  by (rule typed_emits, intro emits_intros; simp add: metrics_variables_def value_simps)+

text \<open>Handlers that only run commands.\<close>

lemma typed_host_reads:
  "typed (unassignedListHandler shell f)" "typed (zfsStatusHandler shell f)" "typed (zfsDatasetListHandler shell f p)"
  "typed (zfsSnapshotListHandler shell f p)" "typed (vmSnapshotListHandler shell f vm)" "typed (serviceListHandler shell f)"
  "typed (gpuMetricsHandler shell f)" "typed (processListHandler shell f s n)"
  unfolding unassignedListHandler_def zfsStatusHandler_def zfsDatasetListHandler_def zfsSnapshotListHandler_def
    vmSnapshotListHandler_def serviceListHandler_def gpuMetricsHandler_def hasCommand_def readNvidia_def readIntel_def
    intel_result_def processListHandler_def Let_def
  by (rule typed_emits, intro emits_intros; simp)+

lemma typed_host_tools:
  "typed (shellExecHandler shell ch extra k a)" "typed (fileReadHandler shell b)" "typed (userScriptRunHandler shell ch c)"
  "typed (userScriptListHandler shell f)" "typed (moverActionHandler shell ch d)" "typed (diskSpinHandler shell ch g)"
  "typed (diskSmartReportHandler shell dev)" "typed (systemPowerHandler shell ch h)"
  "typed (serviceActionHandler shell ch i)" "typed (zfsSnapshotActionHandler shell ch j)"
  "typed (unassignedActionHandler shell ch l)" "typed (shareCreateHandler shell ch m)" "typed (shareEditHandler shell ch m)"
  "typed (shareDeleteHandler shell ch name flags)"
  by (rule typed_shell [OF shell_exec_events] typed_shell [OF file_read_events] typed_shell [OF script_run_events]
      typed_shell [OF script_list_events] typed_shell [OF mover_events] typed_shell [OF spin_events] typed_shell [OF smart_events]
      typed_shell [OF power_events] typed_shell [OF service_events] typed_shell [OF zfs_snapshot_events] typed_shell [OF ud_events]
      typed_shell [OF share_create_events] typed_shell [OF share_edit_events] typed_shell [OF share_delete_events];
      simp add: service_event_ok_def zfs_event_ok_def ud_event_ok_def share_event_ok_def)+

lemma typed_guarded_host_tools:
  "typed (vmSnapshotCreateHandler shell ch a)" "typed (flashBackupHandler shell ch b extra beats now)"
  by (rule typed_touching; drule (1) vm_snapshot_create_events flash_backup_events;
      auto simp: vs_event_def backup_event_ok_def Let_def split: event.splits)+

lemma typed_metrics_history: "metricsHistoryHandler n h inp = Some p \<Longrightarrow> typed p"
  by (rule typed_emits)
    (auto simp: metricsHistoryHandler_def Let_def toolText_def split: option.splits if_splits intro!: emits_intros)

lemmas typed_handlers = typed_api_keys typed_array_tools typed_docker_tools typed_vm_tools typed_notification_tools
  typed_plugin_tools typed_log_tools typed_system_tools typed_host_reads typed_host_tools typed_guarded_host_tools
  typed_metrics_history

section \<open>The registry\<close>

text \<open>The tools that send the document and the variables of the caller.\<close>

definition RAW_TOOLS :: "string list" where "RAW_TOOLS = [''graphql_query'', ''graphql_mutation'']"

definition tool_typed :: "registered_tool \<Rightarrow> bool" where
  "tool_typed t = (\<forall>call p. rt_run t call = Some p \<longrightarrow> typed p)"

lemmas tool_splits = tool_call.splits system_call.splits array_call.splits disk_call.splits share_call.splits docker_call.splits
  vm_call.splits notification_call.splits plugin_call.splits access_call.splits script_call.splits zfs_call.splits host_call.splits
  log_call.splits

lemma registrations_typed:
  "list_all (\<lambda>(m, t). rt_name t \<in> set RAW_TOOLS \<or> tool_typed t) (TOOL_REGISTRATIONS opt am)"
  unfolding TOOL_REGISTRATIONS_def list.pred_inject prod.case
  by (intro conjI TrueI; simp add: registration_defs RAW_TOOLS_def tool_typed_def typed_handlers split: tool_splits)

lemma called_typed:
  assumes "callTool opt am name call = Some p" "name \<notin> set RAW_TOOLS"
  shows "typed p"
proof -
  from called_tool [OF assms(1)] obtain t where
    t: "t \<in> set (registerAllTools opt am)" "rt_name t = name" "rt_run t call = Some p" by blast
  with registrations_typed [of opt am] assms(2) have "tool_typed t" by (auto simp: registered_iff list_all_iff)
  with t(3) show ?thesis by (auto simp: tool_typed_def)
qed

end
