(* ===== verification/Server.thy ===== *)
theory Server
  imports Registry Resources LiveResources HttpSessions EnvConfig
begin

text \<open>
  How the parts are put together: the server object with its tools, resources and prompts
  (\<open>src/server.ts\<close>), the options that \<open>src/index.ts\<close> derives from the environment, and the HTTP
  service (\<open>src/transport/http.ts\<close>) as a transition system whose state is what is behind the
  routes: the session store, or the number of servers built for single requests.

  The lemmas show that what a caller without the token sends leaves no trace in that state.
\<close>

section \<open>The server object\<close>

definition SERVER_VERSION :: string where "SERVER_VERSION = ''0.1.0''"

text \<open>A registered resource: its name and its URI, or the URI template of the log resource.\<close>

definition readable_name :: "string \<Rightarrow> string" where
  "readable_name uri = replace_text ''/'' ''-'' (replace_text ''unraid://'' ''unraid-'' uri)"

definition registerReadables :: "(string \<times> string) list" where
  "registerReadables =
     map (\<lambda>(uri, specs). (readable_name uri, uri)) LIVE_TOPICS @ [(''unraid-logs'', ''unraid://logs/{path}'')]"

definition registerAllResources :: "(string \<times> string) list" where
  "registerAllResources =
     [(''unraid-schema'', SCHEMA_URI), (''unraid-health'', HEALTH_URI), (''unraid-doctor'', DOCTOR_URI),
      (''unraid-live-history'', HISTORY_URI)]"

record mcp_server =
  ms_name :: string
  ms_version :: string
  ms_tools :: "registered_tool list"
  ms_resources :: "(string \<times> string) list"
  ms_prompts :: "prompt_entry list"
  ms_subscribes :: bool

text \<open>\<open>live\<close>: whether the options have a feed and a live store.\<close>

definition buildServer :: "registry_options \<Rightarrow> ambient \<Rightarrow> bool \<Rightarrow> mcp_server" where
  "buildServer opt am live =
     \<lparr>ms_name = ''better-unraid-mcp'', ms_version = SERVER_VERSION,
      ms_tools = registerAllTools opt am,
      ms_resources = registerAllResources @ (if live then registerReadables else []),
      ms_prompts = registerAllPrompts,
      ms_subscribes = live\<rparr>"

text \<open>What a read of a static resource answers.\<close>

definition liveResource :: "int \<Rightarrow> live_data live_store \<Rightarrow> string \<times> live_spec list \<Rightarrow> resource_content prog" where
  "liveResource nowMs store entry =
     Ret \<lparr>rc_uri = fst entry, rc_mimeType = ''application/json'',
          rc_text = renderResource nowMs store (map ls_topic (snd entry))\<rparr>"

section \<open>From the environment\<close>

text \<open>
  The options are built once; the recorder and the live samples behind them change, so their
  current states are arguments.
\<close>

definition options_of ::
  "env \<Rightarrow> (string \<Rightarrow> string option) \<Rightarrow> recorder \<Rightarrow> (docker_aggregate option \<times> int) option \<Rightarrow> registry_options" where
  "options_of e readFile history live =
     \<lparr>ro_readOnly = plan_readOnly (main_plan e False),
      ro_shell = (plan_shell (main_plan e False) \<noteq> None),
      ro_schemaApiVersion = loadSchemaVersion readFile,
      ro_history = (if plan_history (main_plan e False) then Some history else None),
      ro_liveDocker = live\<rparr>"

text \<open>The doctor sub-command: what is written and the exit code.\<close>

definition runDoctorCommand :: "world \<Rightarrow> int \<Rightarrow> registry_options \<Rightarrow> string list \<times> nat" where
  "runDoctorCommand w latencyMs opt =
     runDoctorCli (result_of w (runConnectionDoctor latencyMs (doctor_deps_of opt)))"

definition fatalHint :: "string list \<Rightarrow> string" where
  "fatalHint argv =
     (if isDoctorInvocation argv
      then nl @ ''Hint: `doctor` needs UNRAID_API_URL and UNRAID_API_KEY in the environment (plus UNRAID_SSH_* to check SSH).'' @ nl
      else [])"

section \<open>The HTTP service\<close>

text \<open>The options of the SDK transport: one per request without sessions, one per session with them.\<close>

record transport_options =
  to_sessionIds :: bool
  to_jsonResponse :: bool
  to_rebindingProtection :: bool
  to_allowedHosts :: "string list option"

definition buildTransport :: "string list option \<Rightarrow> transport_options" where
  "buildTransport allowedHosts =
     \<lparr>to_sessionIds = False, to_jsonResponse = True, to_rebindingProtection = (allowedHosts \<noteq> None),
      to_allowedHosts = allowedHosts\<rparr>"

definition realTransport :: "string list option \<Rightarrow> transport_options" where
  "realTransport allowedHosts =
     \<lparr>to_sessionIds = True, to_jsonResponse = False, to_rebindingProtection = (allowedHosts \<noteq> None),
      to_allowedHosts = allowedHosts\<rparr>"

text \<open>
  The state: \<open>sv_store\<close> is used with sessions, \<open>sv_built\<close> counts the servers built for single
  requests and \<open>sv_open\<close> lists those whose response is not closed yet, with that response.
\<close>

record http_service =
  sv_store :: session_store
  sv_built :: nat
  sv_open :: "(nat \<times> nat) list"

definition http_start :: http_service where
  "http_start = \<lparr>sv_store = newSessionStore, sv_built = 0, sv_open = []\<rparr>"

text \<open>
  A request arrives with the clock, the identity of its response, what the SDK transport does with
  it, and, if that throws, whether with a syntax error and whether the headers were sent.
\<close>

record arrival =
  ar_nowMs :: int
  ar_response :: nat
  ar_request :: HttpTransport.http_request
  ar_reply :: transport_reply
  ar_syntax :: bool
  ar_headersSent :: bool

definition thrown :: "arrival \<Rightarrow> handler_end" where
  "thrown a = HandlerThrew (ar_syntax a) (ar_headersSent a)"

definition handleMcpRequest :: "arrival \<Rightarrow> http_service \<Rightarrow> handler_end \<times> http_service" where
  "handleMcpRequest a s =
     (if threw (ar_reply a) then thrown a else HandlerDone,
      s\<lparr>sv_built := sv_built s + 1, sv_open := sv_open s @ [(ar_response a, sv_built s)]\<rparr>)"

definition dispatchMcpRequest :: "http_options \<Rightarrow> arrival \<Rightarrow> jsval \<Rightarrow> http_service \<Rightarrow> handler_end \<times> http_service" where
  "dispatchMcpRequest options a b s =
     (if sessionStore options
      then (case session_handle (ar_nowMs a) (ar_response a) (ar_request a) b (ar_reply a) (sv_store s) of
              (TransportThrew t, st) \<Rightarrow> (thrown a, s\<lparr>sv_store := st\<rparr>)
            | (_, st) \<Rightarrow> (HandlerDone, s\<lparr>sv_store := st\<rparr>))
      else handleMcpRequest a s)"

datatype http_event =
    Arrives arrival
  | Closes int nat  \<comment> \<open>the clock and the response that closes\<close>
  | SweepTimer int

definition http_arrives :: "(string \<Rightarrow> string) \<Rightarrow> http_options \<Rightarrow> arrival \<Rightarrow> http_service \<Rightarrow> http_outcome \<times> http_service" where
  "http_arrives digest options a s =
     (let (out, dispatched) = routeRequest digest (\<lambda>q b. fst (dispatchMcpRequest options a b s)) options (ar_request a)
      in (out, case dispatched of None \<Rightarrow> s | Some b \<Rightarrow> snd (dispatchMcpRequest options a b s)))"

definition http_closes :: "int \<Rightarrow> nat \<Rightarrow> http_service \<Rightarrow> http_service" where
  "http_closes nowMs response s =
     s\<lparr>sv_store := streamClosed nowMs response (sv_store s),
       sv_open := filter (\<lambda>(q, t). q \<noteq> response) (sv_open s)\<rparr>"

text \<open>The server of \<open>startHttp\<close>; the sweep timer exists only with a session store.\<close>

definition startHttp :: "(string \<Rightarrow> string) \<Rightarrow> http_options \<Rightarrow> http_event \<Rightarrow> http_service \<Rightarrow> http_outcome option \<times> http_service" where
  "startHttp digest options x s =
     (case x of
        Arrives a \<Rightarrow> (let (out, s') = http_arrives digest options a s in (Some out, s'))
      | Closes nowMs response \<Rightarrow> (None, http_closes nowMs response s)
      | SweepTimer nowMs \<Rightarrow>
          (None, if sessionStore options then s\<lparr>sv_store := session_sweep nowMs (sv_store s)\<rparr> else s))"

definition http_state :: "(string \<Rightarrow> string) \<Rightarrow> http_options \<Rightarrow> http_event list \<Rightarrow> http_service \<Rightarrow> http_service" where
  "http_state digest options xs s = foldl (\<lambda>s x. snd (startHttp digest options x s)) s xs"

definition http_options_of :: "http_settings \<Rightarrow> http_options" where
  "http_options_of settings = \<lparr>bearerToken = http_bearerToken settings, sessionStore = http_sessions settings\<rparr>"

section \<open>Callers without the token\<close>

definition presents :: "string \<Rightarrow> http_event \<Rightarrow> bool" where
  "presents token x =
     (case x of Arrives a \<Rightarrow> req_authorization (ar_request a) = Some (BEARER_PREFIX @ token) | _ \<Rightarrow> True)"

definition presented_token :: "http_event \<Rightarrow> string option" where
  "presented_token x = (case x of Arrives a \<Rightarrow> extractBearerToken (ar_request a) | _ \<Rightarrow> None)"

text \<open>No presented token collides with the configured one under the digest.\<close>

definition no_collision :: "(string \<Rightarrow> string) \<Rightarrow> string \<Rightarrow> http_event \<Rightarrow> bool" where
  "no_collision digest token x = (\<forall>p. presented_token x = Some p \<longrightarrow> digest p = digest token \<longrightarrow> p = token)"

lemma extractBearerToken_Some: "extractBearerToken q = Some p \<longleftrightarrow> req_authorization q = Some (BEARER_PREFIX @ p)"
  by (auto simp: extractBearerToken_def starts_with_def prefix_def split: option.splits)

lemma isAuthorized_presented:
  assumes "no_collision digest token (Arrives a)"
  shows "isAuthorized digest (ar_request a) (Some token) \<longleftrightarrow> presents token (Arrives a)"
  using assms
  by (auto simp: isAuthorized_def no_collision_def presented_token_def presents_def tokensMatch_def
      extractBearerToken_Some [symmetric] split: option.splits)

lemma unauthorised_route:
  assumes "\<not> isAuthorized digest request (bearerToken options)"
  shows "routeRequest digest h options request \<in> {(Wrote writeNotFound, None), (Wrote writeUnauthorized, None), (Fatal, None)}"
  using assms by (auto simp: routeRequest_def split: option.splits)

lemma stranger_refused:
  assumes "\<not> presents token x" "no_collision digest token x" "bearerToken options = Some token"
  shows "snd (startHttp digest options x s) = s"
    "fst (startHttp digest options x s) \<in> {Some (Wrote writeNotFound), Some (Wrote writeUnauthorized), Some Fatal}"
proof -
  obtain a where x: "x = Arrives a" using assms(1) by (cases x) (auto simp: presents_def)
  have "\<not> isAuthorized digest (ar_request a) (bearerToken options)"
    using assms isAuthorized_presented x by simp
  from unauthorised_route [OF this, of "\<lambda>q b. fst (dispatchMcpRequest options a b s)"]
  show "snd (startHttp digest options x s) = s"
    "fst (startHttp digest options x s) \<in> {Some (Wrote writeNotFound), Some (Wrote writeUnauthorized), Some Fatal}"
    by (auto simp: x startHttp_def http_arrives_def)
qed

lemma strangers_ignored:
  assumes "bearerToken options = Some token" "\<forall>x \<in> set xs. no_collision digest token x"
  shows "http_state digest options xs s = http_state digest options (filter (presents token) xs) s"
  using assms by (induction xs arbitrary: s) (simp_all add: http_state_def stranger_refused(1))

section \<open>What the environment decides\<close>

lemma http_has_token:
  assumes "loadEnv vu zm src = Inr e" "MCP_TRANSPORT e = ''http''" "\<not> MCP_HTTP_ALLOW_UNAUTHENTICATED e"
  shows "\<exists>token. MCP_HTTP_BEARER_TOKEN e = Some token \<and> token \<noteq> []"
  using loadEnv_refined [OF assms(1)] assms(2,3) by (auto simp: env_refinements_def bad_def falsy_def split: if_splits)

lemma read_only_options:
  assumes "loadEnv vu zm src = Inr e" "src ''MCP_READ_ONLY'' = Some ''true''"
  shows "ro_readOnly (options_of e readFile history live)"
proof -
  have "flag_field src ''MCP_READ_ONLY'' = ([], True)" using assms(2) by (simp add: flag_field_def enum_default_def)
  with loadEnv_base [OF assms(1)] show ?thesis
    by (auto simp: options_of_def main_plan_def base_env_def Let_def split: prod.splits)
qed

section \<open>Names\<close>

lemma resource_names_distinct: "distinct (map fst (registerAllResources @ registerReadables))"
  by code_simp

end
