(* ===== verification/SessionCalls.thy ===== *)
theory SessionCalls
  imports HttpSessions "HOL-Library.Multiset"
begin

text \<open>
  The session store of \<open>src/transport/http-sessions.ts\<close> with requests that overlap. \<open>HttpSessions\<close>
  has one request as a whole; here it is cut where the code awaits the SDK: a request arrives
  (\<open>begin_call\<close>), a new transport is connected (\<open>connect_call\<close>), the SDK reports the session
  (\<open>onInitialized\<close>), and \<open>handleRequest\<close> settles (\<open>settle_call\<close>). Between the steps of one
  request anything may happen to the others, to open streams and by the sweep.

  The lemmas account for every transport: it belongs to one session, is on its way to one, was
  closed, or was lost because its first request threw.
\<close>

section \<open>Requests in flight\<close>

text \<open>
  A request to a session (with whether it is a DELETE), or one that makes a session: its transport,
  whether that is connected, and whether the session was reported.
\<close>

datatype session_call = OnSession string bool | Creating nat bool bool

text \<open>\<open>sc_lost\<close> has the transports of first requests that threw: nothing refers to them any more.\<close>

record sessions_state =
  sc_store :: session_store
  sc_pending :: "(nat \<times> session_call) list"
  sc_calls :: nat
  sc_lost :: "nat list"

definition sessions_start :: sessions_state where
  "sessions_start = \<lparr>sc_store = newSessionStore, sc_pending = [], sc_calls = 0, sc_lost = []\<rparr>"

text \<open>What a step does at once: an error is written, \<open>handleRequest\<close> is called on a transport, or neither.\<close>

datatype call_effect = WritesError nat string | HandleRequest nat | NoCall

definition begin_existing :: "int \<Rightarrow> string \<Rightarrow> http_request \<Rightarrow> sessions_state \<Rightarrow> call_effect \<times> sessions_state" where
  "begin_existing nowMs i request st =
     (case map_of (sessions (sc_store st)) i of
        None \<Rightarrow> (WritesError 404 ''Session not found or expired'', st)
      | Some r0 \<Rightarrow>
          (let r = r0\<lparr>lastSeenAt := nowMs\<rparr>; n = sc_calls st;
               st1 = (sc_store st)\<lparr>sessions := upsert i r (sessions (sc_store st))\<rparr>
           in (HandleRequest (transport r),
               st\<lparr>sc_store := if req_method request = ''GET'' then trackStream n i r st1 else st1,
                  sc_pending := sc_pending st @ [(n, OnSession i (req_method request = ''DELETE''))],
                  sc_calls := n + 1\<rparr>)))"

definition begin_call :: "int \<Rightarrow> http_request \<Rightarrow> jsval \<Rightarrow> sessions_state \<Rightarrow> call_effect \<times> sessions_state" where
  "begin_call nowMs request b st =
     (case readSessionId request of
        Some i \<Rightarrow> begin_existing nowMs i request st
      | None \<Rightarrow>
          if \<not> isInitializeRequest b
          then (WritesError 400 ''Missing mcp-session-id header; initialize a session first'', st)
          else (let n = sc_calls st; t = built (sc_store st)
                in (NoCall, st\<lparr>sc_store := (sc_store st)\<lparr>built := t + 1\<rparr>,
                                sc_pending := sc_pending st @ [(n, Creating t False False)], sc_calls := n + 1\<rparr>)))"

text \<open>\<open>await server.connect(transport)\<close> is done; now \<open>handleRequest\<close> is called.\<close>

definition connect_call :: "nat \<Rightarrow> sessions_state \<Rightarrow> call_effect \<times> sessions_state" where
  "connect_call n st =
     (case map_of (sc_pending st) n of
        Some (Creating t False False) \<Rightarrow>
          (HandleRequest t, st\<lparr>sc_pending := upsert n (Creating t True False) (sc_pending st)\<rparr>)
      | _ \<Rightarrow> (NoCall, st))"

definition onInitialized :: "int \<Rightarrow> nat \<Rightarrow> string \<Rightarrow> sessions_state \<Rightarrow> sessions_state" where
  "onInitialized nowMs n sessionId st =
     (case map_of (sc_pending st) n of
        Some (Creating t True False) \<Rightarrow>
          st\<lparr>sc_store := (sc_store st)\<lparr>sessions :=
               upsert sessionId \<lparr>transport = t, lastSeenAt = nowMs, streaming = False\<rparr> (sessions (sc_store st))\<rparr>,
             sc_pending := upsert n (Creating t True True) (sc_pending st)\<rparr>
      | _ \<Rightarrow> st)"

text \<open>The ends of the two kinds of requests; a request leaves the ones in flight when it ends.\<close>

definition end_existing :: "string \<Rightarrow> bool \<Rightarrow> bool \<Rightarrow> sessions_state \<Rightarrow> sessions_state" where
  "end_existing i delete rejected st =
     (if \<not> rejected \<and> delete then st\<lparr>sc_store := drop_session i (sc_store st)\<rparr> else st)"

definition end_creation :: "nat \<Rightarrow> bool \<Rightarrow> bool \<Rightarrow> sessions_state \<Rightarrow> sessions_state" where
  "end_creation t initialized rejected st =
     (if initialized then st
      else if rejected then st\<lparr>sc_lost := sc_lost st @ [t]\<rparr>
      else st\<lparr>sc_store := (sc_store st)\<lparr>closedPairs := closedPairs (sc_store st) @ [t]\<rparr>\<rparr>)"

definition settle_call :: "nat \<Rightarrow> bool \<Rightarrow> sessions_state \<Rightarrow> sessions_state" where
  "settle_call n rejected st =
     (let st1 = st\<lparr>sc_pending := filter (\<lambda>(m, c). m \<noteq> n) (sc_pending st)\<rparr>
      in case map_of (sc_pending st) n of
           None \<Rightarrow> st
         | Some (OnSession i delete) \<Rightarrow> end_existing i delete rejected st1
         | Some (Creating t isConnected initialized) \<Rightarrow>
             (if isConnected \<or> rejected then end_creation t initialized rejected st1 else st))"

section \<open>Runs\<close>

datatype sessions_event =
    Begins int http_request jsval
  | Connects nat
  | Initializes int nat string
  | HandlingEnds nat bool
  | StreamCloses int nat
  | Sweeps int

definition sessions_step :: "sessions_event \<Rightarrow> sessions_state \<Rightarrow> call_effect \<times> sessions_state" where
  "sessions_step e st =
     (case e of
        Begins nowMs request b \<Rightarrow> begin_call nowMs request b st
      | Connects n \<Rightarrow> connect_call n st
      | Initializes nowMs n i \<Rightarrow> (NoCall, onInitialized nowMs n i st)
      | HandlingEnds n rejected \<Rightarrow> (NoCall, settle_call n rejected st)
      | StreamCloses nowMs n \<Rightarrow> (NoCall, st\<lparr>sc_store := streamClosed nowMs n (sc_store st)\<rparr>)
      | Sweeps nowMs \<Rightarrow> (NoCall, st\<lparr>sc_store := session_sweep nowMs (sc_store st)\<rparr>))"

text \<open>The session ids that the SDK generates are random UUIDs: none is in use already.\<close>

definition unused_id :: "sessions_event \<Rightarrow> sessions_state \<Rightarrow> bool" where
  "unused_id e st = (case e of Initializes nowMs n i \<Rightarrow> i \<notin> fst ` set (sessions (sc_store st)) | _ \<Rightarrow> True)"

inductive sessions_reach :: "sessions_state \<Rightarrow> bool" where
  sessions_begin: "sessions_reach sessions_start"
| sessions_next: "sessions_reach st \<Longrightarrow> unused_id e st \<Longrightarrow> sessions_reach (snd (sessions_step e st))"

section \<open>Every transport is accounted for\<close>

fun transports :: "(string \<times> session_record) list \<Rightarrow> nat list" where
  "transports [] = []"
| "transports ((i, r) # ms) = transport r # transports ms"

lemma transports_append [simp]: "transports (ms @ ns) = transports ms @ transports ns"
  by (induction ms rule: transports.induct) simp_all

definition store_pairs :: "session_store \<Rightarrow> nat multiset" where
  "store_pairs st = mset (transports (sessions st)) + mset (closedPairs st)"

fun unborn_of :: "session_call \<Rightarrow> nat multiset" where
  "unborn_of (Creating t c False) = {#t#}"
| "unborn_of _ = {#}"

definition unborn :: "(nat \<times> session_call) list \<Rightarrow> nat multiset" where
  "unborn p = sum_list (map (unborn_of \<circ> snd) p)"

lemma unborn_simps [simp]: "unborn [] = {#}" "unborn (x # p) = unborn_of (snd x) + unborn p" "unborn (p @ q) = unborn p + unborn q"
  by (simp_all add: unborn_def)

definition accounted :: "sessions_state \<Rightarrow> bool" where
  "accounted st \<longleftrightarrow>
     distinct (map fst (sessions (sc_store st))) \<and> distinct (map fst (sc_pending st))
     \<and> (\<forall>n \<in> fst ` set (sc_pending st). n < sc_calls st)
     \<and> store_pairs (sc_store st) + unborn (sc_pending st) + mset (sc_lost st) = mset [0..<built (sc_store st)]"

lemma unborn_upsert: "map_of p n = Some c \<Longrightarrow> unborn (upsert n d p) + unborn_of c = unborn p + unborn_of d"
  by (induction p) (auto simp: ac_simps split: if_splits)

lemma filter_absent: "n \<notin> fst ` set p \<Longrightarrow> filter (\<lambda>(m, c). m \<noteq> n) p = p"
  by (induction p) auto

lemma unborn_filter:
  "map_of p n = Some c \<Longrightarrow> distinct (map fst p) \<Longrightarrow> unborn (filter (\<lambda>(m, c). m \<noteq> n) p) + unborn_of c = unborn p"
  by (induction p) (auto simp: filter_absent ac_simps split: if_splits)

text \<open>An update of a session keeps its transport.\<close>

lemma upsert_transport:
  "map_of ms i = Some r \<Longrightarrow> transport r' = transport r \<Longrightarrow>
   map fst (upsert i r' ms) = map fst ms \<and> transports (upsert i r' ms) = transports ms"
  by (induction ms) (auto split: if_splits)

lemma drop_session_pairs:
  "distinct (map fst (sessions st)) \<Longrightarrow>
   store_pairs (drop_session i st) = store_pairs st \<and> distinct (map fst (sessions (drop_session i st)))
   \<and> built (drop_session i st) = built st"
proof (cases "map_of (sessions st) i")
  case (Some r)
  assume d: "distinct (map fst (sessions st))"
  have "mset (transports (filter (\<lambda>(j, q). j \<noteq> i) ms)) + {#transport r#} = mset (transports ms)"
    if "map_of ms i = Some r" "distinct (map fst ms)" for ms
    using that by (induction ms) (auto simp: filter_absent split: if_splits)
  from this [OF Some d] d Some show ?thesis
    by (auto simp: drop_session_def store_pairs_def ac_simps intro: distinct_map_filter)
qed (simp add: drop_session_def)

lemma sweep_pairs:
  "distinct (map fst (sessions st)) \<Longrightarrow>
   store_pairs (session_sweep nowMs st) = store_pairs st \<and> distinct (map fst (sessions (session_sweep nowMs st)))
   \<and> built (session_sweep nowMs st) = built st"
proof -
  have "store_pairs (foldl (\<lambda>s (i, r). if expired nowMs r then drop_session i s else s) s rs) = store_pairs s
      \<and> distinct (map fst (sessions (foldl (\<lambda>s (i, r). if expired nowMs r then drop_session i s else s) s rs)))
      \<and> built (foldl (\<lambda>s (i, r). if expired nowMs r then drop_session i s else s) s rs) = built s"
    if "distinct (map fst (sessions s))" for s rs
    using that by (induction rs arbitrary: s) (auto simp: drop_session_pairs)
  then show "distinct (map fst (sessions st)) \<Longrightarrow> ?thesis" by (simp add: session_sweep_def)
qed

lemma streamClosed_pairs:
  "store_pairs (streamClosed nowMs n st) = store_pairs st \<and> map fst (sessions (streamClosed nowMs n st)) = map fst (sessions st)
   \<and> built (streamClosed nowMs n st) = built st"
proof (cases "map_of (streams st) n")
  case (Some t)
  let ?g = "\<lambda>(i, r). if transport r = t then (i, r\<lparr>streaming := False, lastSeenAt := nowMs\<rparr>) else (i, r)"
  have "map fst (map ?g ms) = map fst ms" "transports (map ?g ms) = transports ms"
    for ms :: "(string \<times> session_record) list" by (induction ms) auto
  with Some show ?thesis by (simp add: streamClosed_def store_pairs_def)
qed (simp add: streamClosed_def)

lemma begin_accounted:
  assumes "accounted st"
  shows "accounted (snd (begin_call nowMs request b st))"
proof (cases "readSessionId request")
  case None
  with assms show ?thesis
    by (auto simp: begin_call_def accounted_def store_pairs_def Let_def ac_simps simp del: mset_upt intro: less_SucI)
next
  case id: (Some i)
  show ?thesis
  proof (cases "map_of (sessions (sc_store st)) i")
    case None
    with id assms show ?thesis by (simp add: begin_call_def begin_existing_def)
  next
    case (Some r)
    note u = upsert_transport [OF Some, of "r\<lparr>lastSeenAt := nowMs\<rparr>"]
    have u2: "map fst (upsert i (r\<lparr>lastSeenAt := nowMs, streaming := True\<rparr>) (upsert i (r\<lparr>lastSeenAt := nowMs\<rparr>) (sessions (sc_store st))))
        = map fst (sessions (sc_store st))"
      "transports (upsert i (r\<lparr>lastSeenAt := nowMs, streaming := True\<rparr>) (upsert i (r\<lparr>lastSeenAt := nowMs\<rparr>) (sessions (sc_store st))))
        = transports (sessions (sc_store st))"
      using upsert_transport [of "upsert i (r\<lparr>lastSeenAt := nowMs\<rparr>) (sessions (sc_store st))" i "r\<lparr>lastSeenAt := nowMs\<rparr>"
          "r\<lparr>lastSeenAt := nowMs, streaming := True\<rparr>"] u by simp_all
    from assms id Some u u2 show ?thesis
      by (fastforce simp: begin_call_def begin_existing_def accounted_def store_pairs_def trackStream_def Let_def)
  qed
qed

text \<open>The other steps.\<close>

lemma accounted_upsert:
  assumes "accounted st" "map_of (sc_pending st) n = Some c" "unborn_of d = unborn_of c"
  shows "accounted (st\<lparr>sc_pending := upsert n d (sc_pending st)\<rparr>)"
proof -
  have "(n, c) \<in> set (sc_pending st)" using assms(2) by (rule map_of_SomeD)
  then have "n \<in> fst ` set (sc_pending st)" by force
  moreover have "unborn (upsert n d (sc_pending st)) = unborn (sc_pending st)"
    using unborn_upsert [OF assms(2), of d] assms(3) by simp
  ultimately show ?thesis using assms(1) by (simp add: accounted_def distinct_upsert keys_upsert insert_absorb)
qed

lemma connect_accounted: "accounted st \<Longrightarrow> accounted (snd (connect_call n st))"
  by (auto simp: connect_call_def intro: accounted_upsert split: option.splits session_call.splits bool.splits)

lemma initialized_accounted:
  assumes "accounted st" "i \<notin> fst ` set (sessions (sc_store st))"
  shows "accounted (onInitialized nowMs n i st)"
proof (cases "\<exists>t. map_of (sc_pending st) n = Some (Creating t True False)")
  case True
  then obtain t where t: "map_of (sc_pending st) n = Some (Creating t True False)" by blast
  have "(n, Creating t True False) \<in> set (sc_pending st)" using t by (rule map_of_SomeD)
  then have n: "n \<in> fst ` set (sc_pending st)" by force
  have u: "unborn (sc_pending st) = unborn (upsert n (Creating t True True) (sc_pending st)) + {#t#}"
    using unborn_upsert [OF t, of "Creating t True True"] by simp
  from assms n t show ?thesis
    by (simp add: onInitialized_def accounted_def upsert_fresh distinct_upsert keys_upsert insert_absorb store_pairs_def u ac_simps)
next
  case False
  then have "onInitialized nowMs n i st = st"
    by (auto simp: onInitialized_def split: option.splits session_call.splits bool.splits)
  with assms(1) show ?thesis by simp
qed

lemma settle_accounted:
  assumes "accounted st"
  shows "accounted (settle_call n rejected st)"
proof (cases "map_of (sc_pending st) n")
  case None
  with assms show ?thesis by (simp add: settle_call_def)
next
  case (Some c)
  have d: "distinct (map fst (sc_pending st))" using assms by (simp add: accounted_def)
  let ?p = "filter (\<lambda>(m, c). m \<noteq> n) (sc_pending st)"
  have p: "distinct (map fst ?p)" "\<forall>m \<in> fst ` set ?p. m < sc_calls st"
    using assms by (auto simp: accounted_def intro: distinct_map_filter)
  have u: "unborn (sc_pending st) = unborn ?p + unborn_of c" using unborn_filter [OF Some d] by simp
  show ?thesis
  proof (cases c)
    case (OnSession i delete)
    with assms Some p u drop_session_pairs [of "sc_store st" i] show ?thesis
      by (auto simp: settle_call_def end_existing_def accounted_def Let_def)
  next
    case (Creating t con ini)
    with assms Some p u show ?thesis
      by (auto simp: settle_call_def end_creation_def accounted_def store_pairs_def Let_def ac_simps)
  qed
qed

lemma step_accounted: "accounted st \<Longrightarrow> unused_id e st \<Longrightarrow> accounted (snd (sessions_step e st))"
proof (cases e)
  case (StreamCloses nowMs n)
  then show "accounted st \<Longrightarrow> ?thesis" by (simp add: sessions_step_def accounted_def streamClosed_pairs)
next
  case (Sweeps nowMs)
  then show "accounted st \<Longrightarrow> ?thesis" by (simp add: sessions_step_def accounted_def sweep_pairs)
qed (simp_all add: sessions_step_def begin_accounted connect_accounted initialized_accounted settle_accounted unused_id_def)

lemma reach_accounted: "sessions_reach st \<Longrightarrow> accounted st"
proof (induction rule: sessions_reach.induct)
  case sessions_begin
  show ?case by (simp add: accounted_def sessions_start_def newSessionStore_def store_pairs_def)
qed (rule step_accounted)

text \<open>No transport is in two places, and none is called once it is closed or lost.\<close>

lemma accounted_once:
  assumes "accounted st"
  shows "\<exists>us. mset us = unborn (sc_pending st)
           \<and> distinct (transports (sessions (sc_store st)) @ closedPairs (sc_store st) @ sc_lost st @ us)"
proof -
  obtain us where us: "mset us = unborn (sc_pending st)" using ex_mset by blast
  have "mset (transports (sessions (sc_store st)) @ closedPairs (sc_store st) @ sc_lost st @ us) = mset [0..<built (sc_store st)]"
    using assms us by (simp add: accounted_def store_pairs_def ac_simps del: mset_upt)
  then have "distinct (transports (sessions (sc_store st)) @ closedPairs (sc_store st) @ sc_lost st @ us)"
    by (metis distinct_upt mset_eq_imp_distinct_iff)
  with us show ?thesis by blast
qed

lemma transport_listed: "map_of ms i = Some r \<Longrightarrow> transport r \<in> set (transports ms)"
  by (induction ms) (auto split: if_splits)

lemma unborn_listed: "map_of p n = Some (Creating t c False) \<Longrightarrow> t \<in># unborn p"
  by (induction p) (auto split: if_splits)

lemma called_not_closed:
  assumes "accounted st" "sessions_step e st = (HandleRequest t, st')"
  shows "t \<notin> set (closedPairs (sc_store st)) \<and> t \<notin> set (sc_lost st)"
proof -
  from accounted_once [OF assms(1)] obtain us where us: "mset us = unborn (sc_pending st)"
    "distinct (transports (sessions (sc_store st)) @ closedPairs (sc_store st) @ sc_lost st @ us)" by blast
  from assms(2) consider i r where "map_of (sessions (sc_store st)) i = Some r" "t = transport r"
    | n where "map_of (sc_pending st) n = Some (Creating t False False)"
    by (auto simp: sessions_step_def begin_call_def begin_existing_def connect_call_def Let_def
        split: sessions_event.splits option.splits if_splits session_call.splits bool.splits)
  then have "t \<in> set (transports (sessions (sc_store st))) \<or> t \<in> set us"
    by cases (auto dest: transport_listed unborn_listed simp flip: us(1))
  with us(2) show ?thesis by auto
qed

section \<open>Two ways to lose track\<close>

text \<open>
  A first request that throws leaves a connected pair behind, in no session and never closed; and
  when the second of two streams of a session closes, the sweep may close the session although the
  first stream is open.
\<close>

definition sessions_run :: "sessions_event list \<Rightarrow> sessions_state" where
  "sessions_run es = foldl (\<lambda>st e. snd (sessions_step e st)) sessions_start es"

definition plain_request :: "string \<Rightarrow> string option \<Rightarrow> http_request" where
  "plain_request m i = \<lparr>req_method = m, req_url = Some ''/mcp'', req_authorization = None, req_session = i, req_chunks = []\<rparr>"

definition first_request :: "sessions_event list" where
  "first_request = [Begins 0 (plain_request ''POST'' None) (JObj [(''method'', JStr ''initialize'')]), Connects 0]"

lemma throwing_initialize_loses_pair:
  "let st = sessions_run (first_request @ [HandlingEnds 0 True])
   in sc_lost st = [0] \<and> sessions (sc_store st) = [] \<and> closedPairs (sc_store st) = [] \<and> sc_pending st = []"
  by code_simp

lemma sweep_closes_streaming_session:
  "let st = sessions_run (first_request @ [Initializes 1 0 ''a'', HandlingEnds 0 False, Begins 2 (plain_request ''GET'' (Some ''a'')) JUndef,
               Begins 3 (plain_request ''GET'' (Some ''a'')) JUndef, StreamCloses 4 2, Sweeps 300005])
   in streams (sc_store st) = [(1, 0)] \<and> sessions (sc_store st) = [] \<and> closedPairs (sc_store st) = [0]"
  by code_simp

end
