(* ===== verification/StartUp.thy ===== *)
theory StartUp
  imports Server
begin

text \<open>
  The process: what \<open>main\<close> of \<open>src/index.ts\<close> does from the environment to a running server or an
  exit, with the logger (\<open>src/logging.ts\<close>), the two transports (\<open>src/transport/stdio.ts\<close>, \<open>startHttp\<close>
  of \<open>src/transport/http.ts\<close>) and the process guards.

  The lemmas show what reaches the standard output, which the stdio transport needs for the
  protocol, and that a process that serves was started from a validated configuration.
\<close>

section \<open>The logger\<close>

definition STDOUT_FD :: nat where "STDOUT_FD = 1"
definition STDERR_FD :: nat where "STDERR_FD = 2"

record logger =
  lg_level :: string
  lg_destination :: nat

definition createLogger :: "string \<Rightarrow> logger" where
  "createLogger level = \<lparr>lg_level = level, lg_destination = STDERR_FD\<rparr>"

text \<open>What the program puts out: a text, or a record for a logger with its level and message.\<close>

datatype process_output =
    WritesTo nat string
  | LogsTo logger string string

definition output_fd :: "process_output \<Rightarrow> nat" where
  "output_fd x = (case x of WritesTo fd t \<Rightarrow> fd | LogsTo l level m \<Rightarrow> lg_destination l)"

lemma output_fd_simps [simp]: "output_fd (WritesTo fd t) = fd" "output_fd (LogsTo (createLogger level) l m) = STDERR_FD"
  by (simp_all add: output_fd_def createLogger_def)

section \<open>What \<open>main\<close> finds\<close>

text \<open>
  The arguments and environment of the process, its files (the private key, the schema version),
  the texts that the runtime and the schema library make for errors, the world of the doctor, and
  whether connecting the SDK transport or listening fails (with which error).
\<close>

record surroundings =
  su_argv :: "string list"
  su_env :: env_source
  su_validUrl :: "string \<Rightarrow> bool"
  su_zodMessage :: "string \<Rightarrow> issue_kind \<Rightarrow> string"
  su_readFile :: "string \<Rightarrow> string option"
  su_readError :: "string \<Rightarrow> string"
  su_stack :: "string \<Rightarrow> string"
  su_world :: world
  su_ambient :: ambient
  su_connectError :: "string option"
  su_listenError :: "string option"

datatype process_end =
    Exits nat
  | ServesHttp http_settings
  | ServesStdio mcp_server

section \<open>Starting\<close>

text \<open>The executor of the configured host, or the error of reading its key.\<close>

definition start_shell :: "surroundings \<Rightarrow> env \<Rightarrow> string + (connect_config \<times> int) option" where
  "start_shell su e =
     (case buildShellExecutor e of
        None \<Rightarrow> Inr None
      | Some settings \<Rightarrow>
          (case newSshShellExecutor (su_readFile su) settings of
             None \<Rightarrow> Inl (su_readError su (case privateKeyPath settings of None \<Rightarrow> [] | Some p \<Rightarrow> p))
           | Some x \<Rightarrow> Inr (Some x)))"

definition start_history :: "surroundings \<Rightarrow> env \<Rightarrow> recorder" where
  "start_history su e =
     (if MCP_METRICS_HISTORY e then recorder_start (am_nowMs (su_ambient su)) newRecorder else newRecorder)"

definition startStdio :: "mcp_server \<Rightarrow> logger \<Rightarrow> string option \<Rightarrow> process_output list \<times> (string + process_end)" where
  "startStdio server logger connectError =
     (case connectError of
        Some m \<Rightarrow> ([], Inl m)
      | None \<Rightarrow> ([LogsTo logger ''info'' ''better-unraid-mcp ready (stdio transport)''], Inr (ServesStdio server)))"

definition listen_http :: "http_settings \<Rightarrow> logger \<Rightarrow> string option \<Rightarrow> process_output list \<times> (string + process_end)" where
  "listen_http settings logger listenError =
     (case listenError of
        Some m \<Rightarrow> ([LogsTo logger ''error'' ''HTTP server error''], Inl m)
      | None \<Rightarrow> ([LogsTo logger ''info''
                   (''better-unraid-mcp ready (http transport on '' @ http_host settings @ '':'' @ show_int (http_port settings) @ MCP_PATH @ '')'')],
                 Inr (ServesHttp settings)))"

definition start_http_transport :: "http_settings \<Rightarrow> logger \<Rightarrow> string option \<Rightarrow> process_output list \<times> (string + process_end)" where
  "start_http_transport settings logger listenError =
     (let (out, r) = listen_http settings logger listenError
      in ((if http_warns_open settings
           then [LogsTo logger ''warn'' ''HTTP transport is running WITHOUT authentication (MCP_HTTP_ALLOW_UNAUTHENTICATED=true)'']
           else []) @ out, r))"

definition main :: "surroundings \<Rightarrow> process_output list \<times> (string + process_end)" where
  "main su =
     (case loadEnv (su_validUrl su) (su_zodMessage su) (su_env su) of
        Inl m \<Rightarrow> ([], Inl m)
      | Inr e \<Rightarrow>
          (let logger = createLogger (LOG_LEVEL e)
           in case start_shell su e of
                Inl m \<Rightarrow> ([], Inl m)
              | Inr shell \<Rightarrow>
                  (let options = options_of e (su_readFile su) (start_history su e) None
                   in case plan_launch (main_plan e (isDoctorInvocation (su_argv su))) of
                        RunDoctor \<Rightarrow>
                          (let (ls, code) = runDoctorCommand (su_world su) (am_latencyMs (su_ambient su)) options
                           in (map (\<lambda>line. WritesTo STDOUT_FD (line @ nl)) ls, Inr (Exits code)))
                      | ServeHttp settings \<Rightarrow> start_http_transport settings logger (su_listenError su)
                      | ServeStdio \<Rightarrow> startStdio (buildServer options (su_ambient su) True) logger (su_connectError su))))"

text \<open>The module: \<open>main\<close>, and what is done with its rejection.\<close>

definition start_process :: "surroundings \<Rightarrow> process_output list \<times> process_end" where
  "start_process su =
     (case main su of
        (out, Inr x) \<Rightarrow> (out, x)
      | (out, Inl m) \<Rightarrow>
          (out @ [WritesTo STDERR_FD (''Fatal: '' @ su_stack su m @ nl @ fatalHint (su_argv su))], Exits 1))"

section \<open>The process guards\<close>

datatype stray_failure = UnhandledRejection | UncaughtException

definition installProcessGuards :: "logger \<Rightarrow> stray_failure \<Rightarrow> process_output list \<times> process_end option" where
  "installProcessGuards logger f =
     (case f of
        UnhandledRejection \<Rightarrow> ([LogsTo logger ''error'' ''Unhandled promise rejection''], None)
      | UncaughtException \<Rightarrow> ([LogsTo logger ''error'' ''Uncaught exception''], Some (Exits 1)))"

fun process_runs :: "logger \<Rightarrow> stray_failure list \<Rightarrow> process_output list \<times> process_end option" where
  "process_runs logger [] = ([], None)"
| "process_runs logger (f # fs) =
     (case installProcessGuards logger f of
        (out, Some x) \<Rightarrow> (out, Some x)
      | (out, None) \<Rightarrow> (let (out', x) = process_runs logger fs in (out @ out', x)))"

lemma guards_log_to_stderr: "x \<in> set (fst (process_runs (createLogger level) fs)) \<Longrightarrow> output_fd x = STDERR_FD"
proof (induction fs)
  case (Cons f fs)
  then show ?case by (cases f) (auto simp: installProcessGuards_def split: prod.splits)
qed simp

lemma only_uncaught_ends: "snd (process_runs logger fs) = (if UncaughtException \<in> set fs then Some (Exits 1) else None)"
proof (induction fs)
  case (Cons f fs)
  then show ?case by (cases f) (auto simp: installProcessGuards_def split: prod.splits)
qed simp

section \<open>How a start can end\<close>

lemma doctor_code: "snd (runDoctorCommand w n opt) \<in> {0, 1}"
  by (auto simp: runDoctorCommand_def runDoctorCli_def Let_def EXIT_SUCCESS_def EXIT_FAILURE_def split: sum.splits)

text \<open>Every start is one of five.\<close>

lemma start_cases [consumes 1, case_names unconfigured no_key doctor http stdio]:
  assumes "start_process su = (out, x)"
  obtains (unconfigured) m where "loadEnv (su_validUrl su) (su_zodMessage su) (su_env su) = Inl m" "x = Exits 1"
      "out = [WritesTo STDERR_FD (''Fatal: '' @ su_stack su m @ nl @ fatalHint (su_argv su))]"
  | (no_key) e m where "loadEnv (su_validUrl su) (su_zodMessage su) (su_env su) = Inr e" "start_shell su e = Inl m" "x = Exits 1"
      "out = [WritesTo STDERR_FD (''Fatal: '' @ su_stack su m @ nl @ fatalHint (su_argv su))]"
  | (doctor) e s ls code where "loadEnv (su_validUrl su) (su_zodMessage su) (su_env su) = Inr e" "start_shell su e = Inr s"
      "isDoctorInvocation (su_argv su)" "x = Exits code" "out = map (\<lambda>line. WritesTo STDOUT_FD (line @ nl)) ls"
      "runDoctorCommand (su_world su) (am_latencyMs (su_ambient su)) (options_of e (su_readFile su) (start_history su e) None) = (ls, code)"
  | (http) e s where "loadEnv (su_validUrl su) (su_zodMessage su) (su_env su) = Inr e" "start_shell su e = Inr s"
      "\<not> isDoctorInvocation (su_argv su)" "MCP_TRANSPORT e = ''http''"
      "start_process su = (case start_http_transport (startHttpTransport e) (createLogger (LOG_LEVEL e)) (su_listenError su) of
        (out, Inr x) \<Rightarrow> (out, x)
      | (out, Inl m) \<Rightarrow> (out @ [WritesTo STDERR_FD (''Fatal: '' @ su_stack su m @ nl @ fatalHint (su_argv su))], Exits 1))"
  | (stdio) e s where "loadEnv (su_validUrl su) (su_zodMessage su) (su_env su) = Inr e" "start_shell su e = Inr s"
      "\<not> isDoctorInvocation (su_argv su)" "MCP_TRANSPORT e \<noteq> ''http''"
      "start_process su = (case startStdio (buildServer (options_of e (su_readFile su) (start_history su e) None) (su_ambient su) True)
            (createLogger (LOG_LEVEL e)) (su_connectError su) of
        (out, Inr x) \<Rightarrow> (out, x)
      | (out, Inl m) \<Rightarrow> (out @ [WritesTo STDERR_FD (''Fatal: '' @ su_stack su m @ nl @ fatalHint (su_argv su))], Exits 1))"
proof (cases "loadEnv (su_validUrl su) (su_zodMessage su) (su_env su)")
  case (Inl m)
  with assms show ?thesis by (intro unconfigured) (auto simp: start_process_def main_def)
next
  case e: (Inr e)
  show ?thesis
  proof (cases "start_shell su e")
    case (Inl m)
    with e assms show ?thesis by (intro no_key) (auto simp: start_process_def main_def Let_def)
  next
    case s: (Inr s)
    obtain ls code where d: "runDoctorCommand (su_world su) (am_latencyMs (su_ambient su))
        (options_of e (su_readFile su) (start_history su e) None) = (ls, code)" by force
    consider "isDoctorInvocation (su_argv su)" | "\<not> isDoctorInvocation (su_argv su)" "MCP_TRANSPORT e = ''http''"
      | "\<not> isDoctorInvocation (su_argv su)" "MCP_TRANSPORT e \<noteq> ''http''" by blast
    then show ?thesis
    proof cases
      case 1
      with e s d assms show ?thesis by (intro doctor) (auto simp: start_process_def main_def main_plan_def Let_def)
    next
      case 2
      with e s show ?thesis by (intro http) (auto simp: start_process_def main_def main_plan_def Let_def)
    next
      case 3
      with e s show ?thesis by (intro stdio) (auto simp: start_process_def main_def main_plan_def Let_def)
    qed
  qed
qed

text \<open>What each end says of the start.\<close>

lemma start_stdout:
  assumes "start_process su = (out, x)" "\<not> isDoctorInvocation (su_argv su)" "y \<in> set out"
  shows "output_fd y = STDERR_FD"
  using assms(1)
proof (cases rule: start_cases)
  case (http e s)
  with assms show ?thesis by (auto simp: start_http_transport_def listen_http_def Let_def split: option.splits if_splits)
next
  case (stdio e s)
  with assms show ?thesis by (auto simp: startStdio_def split: option.splits)
qed (use assms in auto)

lemma start_failure_told:
  assumes "start_process su = (out, Exits n)" "\<not> isDoctorInvocation (su_argv su)"
  shows "n = 1 \<and> (\<exists>m. last out = WritesTo STDERR_FD (''Fatal: '' @ su_stack su m @ nl))"
  using assms(1)
proof (cases rule: start_cases)
  case (http e s)
  with assms show ?thesis by (auto simp: start_http_transport_def listen_http_def Let_def fatalHint_def split: option.splits)
next
  case (stdio e s)
  with assms show ?thesis by (auto simp: startStdio_def fatalHint_def split: option.splits)
qed (use assms in \<open>auto simp: fatalHint_def\<close>)

lemma start_exit_0:
  assumes "start_process su = (out, Exits 0)"
  shows "isDoctorInvocation (su_argv su) \<and> last out = WritesTo STDOUT_FD (''doctor: OK'' @ nl)"
  using assms
proof (cases rule: start_cases)
  case (doctor e s ls code)
  then have "last ls = ''doctor: OK'' \<and> ls \<noteq> []"
    by (auto simp: runDoctorCommand_def runDoctorCli_def Let_def EXIT_SUCCESS_def EXIT_FAILURE_def verdictLine_def
        split: sum.splits if_splits)
  with doctor show ?thesis by (simp add: last_map)
next
  case (http e s)
  with assms show ?thesis by (auto simp: start_http_transport_def listen_http_def Let_def split: option.splits)
next
  case (stdio e s)
  with assms show ?thesis by (auto simp: startStdio_def split: option.splits)
qed auto

lemma start_serves:
  assumes "start_process su = (out, x)" "\<forall>n. x \<noteq> Exits n"
  shows "\<exists>e s. loadEnv (su_validUrl su) (su_zodMessage su) (su_env su) = Inr e \<and> start_shell su e = Inr s
           \<and> x = (if MCP_TRANSPORT e = ''http'' then ServesHttp (startHttpTransport e)
                  else ServesStdio (buildServer (options_of e (su_readFile su) (start_history su e) None) (su_ambient su) True))
           \<and> (MCP_TRANSPORT e = ''http'' \<longrightarrow> falsy (MCP_HTTP_BEARER_TOKEN e) \<longrightarrow>
                (\<exists>m. LogsTo (createLogger (LOG_LEVEL e)) ''warn'' m \<in> set out))"
  using assms(1)
proof (cases rule: start_cases)
  case (http e s)
  with assms show ?thesis
    by (auto simp: start_http_transport_def listen_http_def Let_def startHttpTransport_def split: option.splits)
next
  case (stdio e s)
  with assms show ?thesis by (auto simp: startStdio_def split: option.splits)
qed (use assms in auto)

end
