(* ===== verification/Spec2Isabelle.thy ===== *)
theory Spec2Isabelle
  imports HttpSessions EnvConfig CachingExecutor LiveStore MetricsHistory SubscriptionFeed SshExecutor
    ArrayTools DockerTools VmTools ServiceTools ZfsTools UnassignedTools ShareTools ShellTools
    GraphqlTools ApiKeyTools PluginTools NotificationTools LogTools BackupTools ListTools MetricsTools
    VmSnapshotTools HostReads UpsTools HealthTools SystemTools GpuTools LiveResources Resources
    Registry Approvals Schemas Calls TypedRequests Server SessionCalls StartUp
begin

text \<open>
A verification development for the MCP server of this repository: an Unraid host is
  managed through its GraphQL API and through shell commands over SSH, and the server offers
  both as tools to a language model. The theories follow the directories of
  \<open>src/src/\<close>; a definition has the name of the function, type or constant it models,
  with a short prefix where two files use one name.

  How the program is put together, and where each part is modelled:
    - \<open>index.ts\<close> and \<open>config/env.ts\<close> validate the environment and decide what is started
      (\<open>EnvConfig\<close>: \<open>loadEnv\<close>, \<open>main_plan\<close>); \<open>StartUp\<close> has \<open>main\<close> itself up to a server or an exit,
      with what it writes, the logger of \<open>logging.ts\<close>, \<open>transport/stdio.ts\<close> and the process guards.
    - \<open>transport/http.ts\<close> routes and authorises a request (\<open>HttpTransport\<close>: \<open>routeRequest\<close>,
      \<open>readJsonBody\<close>), \<open>transport/http-sessions.ts\<close> keeps one transport per session
      (\<open>HttpSessions\<close>: \<open>session_store\<close> and its operations, with the clock as an argument;
      \<open>SessionCalls\<close>: the same with requests cut at their awaits).
    - A tool handler (\<open>tools/\<close>) is a tree of requests to the outside (\<open>Effects\<close>: \<open>prog\<close>). A
      node is one \<open>await\<close> of the GraphQL executor, the shell executor, the human or the
      notifier; the replies, and the errors that a rejected promise carries, come from a
      \<open>world\<close> that sees all earlier requests. \<open>run w tr p\<close> is the result of \<open>p\<close> after the
      requests \<open>tr\<close> together with the requests it made, so statements about order and about
      what is never sent are statements about that list.
    - Shared handler code (\<open>tools/_shared/\<close>): \<open>Confirm\<close> (approval), \<open>ShellQuote\<close> (quoting, with
      a model of how a POSIX shell reads the result), \<open>Redact\<close> on \<open>Regex\<close> (backtracking
      regular expressions), \<open>Truncate\<close>, \<open>Respond\<close>, \<open>JsNumber\<close>, \<open>Progress\<close>, \<open>ToolSupport\<close>,
      \<open>Payload\<close> (typed reading of payloads, the stable sort) and \<open>Patterns\<close>.
    - The tools that change the server: \<open>ArrayTools\<close>, \<open>DockerTools\<close>, \<open>VmTools\<close>, \<open>VmSnapshotTools\<close>,
      \<open>ServiceTools\<close>, \<open>ZfsTools\<close>, \<open>UnassignedTools\<close>, \<open>ShareTools\<close>, \<open>ShellTools\<close>, \<open>GraphqlTools\<close>,
      \<open>ApiKeyTools\<close>, \<open>PluginTools\<close>, \<open>NotificationTools\<close> and \<open>BackupTools\<close>; the tools that read it:
      \<open>ListTools\<close>, \<open>HostReads\<close>, \<open>LogTools\<close>, \<open>MetricsTools\<close>, \<open>UpsTools\<close>, \<open>HealthTools\<close>, \<open>SystemTools\<close>,
      \<open>GpuTools\<close> and \<open>DoctorTools\<close> (with the command line of \<open>cli/doctor.ts\<close>). \<open>Reading\<close> has what they
      share for payloads read member by member; \<open>Documents\<close> holds the GraphQL documents, \<open>Variables\<close>
      the declared types of their variables, and \<open>TypedRequests\<close> shows that every tool sends such
      variables.
    - \<open>Registry\<close> (\<open>tools/registry.ts\<close>) registers all 67 tools, each with its annotations and the
      handler wired to the options; \<open>callTool\<close> is a call by name on the listing of the mode.
      \<open>Approvals\<close> shows for the whole registry that a destructive tool waits for consent. \<open>Schemas\<close>
      has the argument schema of every tool, and \<open>Calls\<close> composes them: a call with JSON arguments is
      read by the schema and served by the handler (\<open>serve\<close>). \<open>Resources\<close>
      and \<open>LiveResources\<close> are the resources and prompts of \<open>resources/\<close> and \<open>prompts/\<close>; the table of
      live subscriptions is a transition system on the shared feed.
    - \<open>Server\<close> puts them together: the server object of \<open>server.ts\<close>, the options that \<open>index.ts\<close>
      derives from the environment (\<open>options_of\<close>), and the HTTP service with or without sessions
      (\<open>startHttp\<close>) as a transition system over requests, closing responses and the sweep timer.
    - The GraphQL side: \<open>GraphqlClient\<close> (one HTTP call, the retry policy) behind \<open>RateLimit\<close>
      (token bucket) and \<open>SnapshotCache\<close>, with \<open>CachingExecutor\<close> for calls that overlap; live data through \<open>SubscriptionFeed\<close>, \<open>LiveStore\<close>
      and \<open>MetricsHistory\<close>.
    - The shell side: \<open>SshExecutor\<close>, the shared connection with its channel limit, waiters and
      idle timer as a transition system over SSH events; \<open>line_step\<close> is its specification, one
      line of calls.
    - \<open>Prelude\<close>, \<open>Json\<close>, \<open>JsonRoundtrip\<close>: the strings, values, \<open>JSON.stringify\<close> and
      \<open>JSON.parse\<close> of the language.

  Interfaces are locales, interpreted where the provider is modelled: \<open>gate\<close> (Confirm; both
  tiers of approval and the gates of single tools), \<open>gql_executor\<close> (SnapshotCache; the client),
  \<open>sample_store\<close> (LiveStore), \<open>comparator\<close> (Payload; the orders of autostart entries and of container
  statistics).

  What the groups of lemmas show: no request reaches the host before approval and which
  requests can follow it; success is reported only after verification; hostile arguments stay
  one argument of the command; secrets do not survive in results; caps and units are exact;
  the stateful parts keep their invariants under every sequence of operations.

  Bounds and fuel: recursion is structural or has a measure. The matcher of \<open>Regex\<close> runs on
  fuel that \<open>Redact\<close> shows sufficient for its own patterns; \<open>shrink_head\<close> decreases the head
  length. The row loop of \<open>MetricsTools\<close> is a \<open>while\<close> that may not end; \<open>foldRows_blocks\<close> shows that
  it does.

  Conventions. A JavaScript string is a list of 8-bit code units (the texts handled are ASCII
  or UTF-8 seen as units), an integral number is an \<open>int\<close>, another one is a rational or kept
  symbolic. Time is an argument. Single-threaded execution means that the steps between two
  awaits are atomic, which is the granularity of the transition systems.

  Not modelled: the MCP SDK, \<open>ssh2\<close>, \<open>graphql-ws\<close>, the internals of \<open>zod\<close> and of graphql-js, and
  Node's HTTP server with the binding of its port (their documented answers are inputs of the
  model); the descriptions of tools and resources and the output schemas, which are data of a
  registration (the URL and date formats of the argument schemas are parameters); the fakes of the
  unit tests (\<open>tools/_shared/test-support.ts\<close>) and the type aliases of the generated
  \<open>types/unraid/graphql.ts\<close> that describe payloads (a payload is read as any JSON value).
\<close>

section \<open>Sample worlds for the witnesses\<close>

text \<open>A world that answers every call of a kind in the same way.\<close>

definition constant_world :: "string + jsval \<Rightarrow> string + shell_result \<Rightarrow> elicit_reply \<Rightarrow> string list \<Rightarrow> world" where
  "constant_world g s h secrets =
     \<lparr>w_gql = (\<lambda>tr d v. g), w_shell = (\<lambda>tr c t. s), w_elicit = (\<lambda>tr m b. h), w_notify = (\<lambda>tr n. True), w_secrets = secrets\<rparr>"

definition exit_zero :: "string \<Rightarrow> shell_result" where
  "exit_zero out = \<lparr>stdout = out, stderr = [], exitCode = 0\<rparr>"

definition both_set :: risk_flags where
  "both_set = \<lparr>confirm = Some True, acknowledge_risk = Some True\<rparr>"

lemma constant_world_simps [simp]:
  "w_gql (constant_world g s h k) tr d v = g" "w_shell (constant_world g s h k) tr c t = s"
  "w_elicit (constant_world g s h k) tr m b = h" "w_secrets (constant_world g s h k) = k"
  "w_notify (constant_world g s h k) tr n = True"
  by (simp_all add: constant_world_def)

lemma both_set_flags [simp]: "both_flags both_set" "confirm both_set = Some True" "acknowledge_risk both_set = Some True"
  by (simp_all add: both_set_def both_flags_def)

definition silent_server :: world where
  "silent_server = constant_world (Inl []) (Inl []) ElicitFailed []"

section \<open>The registry\<close>


text \<open>C1. Read-only mode cannot change the server: started with \<open>MCP_READ_ONLY=true\<close>, whichever tool is called by name, with whatever
  arguments and whatever the server answers, the tool is one annotated as read-only, it sends no document with a
  mutation, and the only shell commands it runs are the fixed reading commands of that call.\<close>

theorem read_only_mode_reads:
  assumes "loadEnv vu zm src = Inr e" "src ''MCP_READ_ONLY'' = Some ''true''"
    and "callTool (options_of e readFile history live) am name call = Some p" "x \<in> set (events_of w p)"
  shows "only_reads (read_commands call) x \<and>
    (\<exists>t \<in> set (ms_tools (buildServer (options_of e readFile history live) am served_live)).
      rt_name t = name \<and> readOnlyHint (rt_annotations t))"
proof -
  have ro: "ro_readOnly (options_of e readFile history live)" by (rule read_only_options [OF assms(1,2)])
  from called_tool [OF assms(3)] obtain t where
    t: "t \<in> set (registerAllTools (options_of e readFile history live) am)" "rt_name t = name" "rt_run t call = Some p"
    by blast
  from listed_read_only [OF t(1) ro] listed_reads [OF t(1) _ t(3)] t(1,2) assms(4) show ?thesis
    by (auto simp: reading_def buildServer_def)
qed

definition read_only_env :: "string \<Rightarrow> string option" where
  "read_only_env k = map_of [(''UNRAID_API_URL'', ''http://tower''), (''UNRAID_API_KEY'', ''key''), (''MCP_READ_ONLY'', ''true''),
     (''UNRAID_SSH_HOST'', ''tower''), (''UNRAID_SSH_PASSWORD'', ''pw'')] k"

definition read_syslog :: file_read_input where
  "read_syslog = \<lparr>fr_format = Concise, fr_path = ''/var/log/syslog'', fr_lines = 5, fr_pattern = None\<rparr>"

theorem read_only_mode_reads_witness:
  "only_reads {buildReadCommand read_syslog} (EShell (buildReadCommand read_syslog) READ_TIMEOUT_MS)"
proof -
  have "case loadEnv (\<lambda>u. True) (\<lambda>f k. []) read_only_env of Inl m \<Rightarrow> False | Inr e \<Rightarrow> buildShellExecutor e \<noteq> None" by code_simp
  then obtain e where e: "loadEnv (\<lambda>u. True) (\<lambda>f k. []) read_only_env = Inr e" "buildShellExecutor e \<noteq> None"
    by (auto split: sum.splits)
  have m: "read_only_env ''MCP_READ_ONLY'' = Some ''true''" by code_simp
  have ro: "ro_readOnly (options_of e f h l)" "ro_shell (options_of e f h l)" for f h l
    using read_only_options [OF e(1) m] e(2) by (simp_all add: options_of_def main_plan_def)
  have call: "callTool (options_of e f h l) am ''file_read'' (ScriptCall (CFileRead read_syslog)) = Some (fileReadHandler True read_syslog)" for f h l am
    by (simp add: callTool_def registerAllTools_def TOOL_REGISTRATIONS_def registration_defs ro)
  have "EShell (buildReadCommand read_syslog) READ_TIMEOUT_MS
      \<in> set (events_of (constant_world (Inl []) (Inl []) ElicitFailed []) (fileReadHandler True read_syslog))"
    by (simp add: events_of_def fileReadHandler_def with_shell_def run_failing_with run_bind run_execute_shell)
      (simp add: read_syslog_def starts_with_def)
  from read_only_mode_reads [OF e(1) m call this] show ?thesis by (simp add: read_commands_def)
qed

section \<open>Approval\<close>


text \<open>C2. No destructive tool acts unasked: whichever tool annotated with \<open>destructiveHint\<close> is called by name, with whatever
  JSON arguments, as long as their member \<open>confirm\<close> is not \<open>true\<close> and no human accepts a prompt, nothing is sent to the
  server, neither a GraphQL document nor a shell command.\<close>

theorem destructive_tools_wait:
  assumes "serve lib opt am name args = Some p" "getp args ''confirm'' \<noteq> JBool True" "nobody_accepts w"
    and "\<And>t. t \<in> set (registerAllTools opt am) \<Longrightarrow> rt_name t = name \<Longrightarrow> destructiveHint (rt_annotations t)"
  shows "\<forall>x \<in> set (events_of w p). \<not> touches_host x"
proof -
  from served_call [OF assms(1)] obtain call where
    call: "call_of lib name args = Some call" "callTool opt am name call = Some p" by blast
  from called_tool [OF call(2)] obtain t where t: "t \<in> set (registerAllTools opt am)" "rt_name t = name" "rt_run t call = Some p"
    by blast
  have "call_confirm call \<noteq> Some True" using call_confirm_given [OF call(1)] assms(2) by blast
  from tool_waitsD [OF destructive_tool_waits [OF t(1) assms(4) [OF t(1,2)]] t(3) this assms(3)] show ?thesis
    by (simp add: untouched_def)
qed

definition ssh_options :: registry_options where
  "ssh_options = \<lparr>ro_readOnly = False, ro_shell = True, ro_schemaApiVersion = None, ro_history = None, ro_liveDocker = None\<rparr>"

text \<open>A shutdown with the risk acknowledged but not confirmed; the human dismisses the prompt.\<close>

definition unconfirmed_shutdown :: jsval where
  "unconfirmed_shutdown = JObj [(''action'', JStr ''shutdown''), (''acknowledge_risk'', JBool True)]"

definition shutdown_args :: power_args where
  "shutdown_args = \<lparr>pw_action = Shutdown, pw_flags = \<lparr>confirm = None, acknowledge_risk = Some True\<rparr>\<rparr>"

definition no_formats :: schema_lib where
  "no_formats = \<lparr>sl_url = (\<lambda>s. False), sl_datetime = (\<lambda>s. False)\<rparr>"

definition dismissing_world :: world where
  "dismissing_world = constant_world (Inl []) (Inr (exit_zero [])) (ElicitAnswered ''cancel'' JUndef) []"

theorem destructive_tools_wait_witness:
  "events_of dismissing_world (systemPowerHandler True (Some True) shutdown_args) = [EElicit (power_refusalMessage Shutdown) True]
   \<and> \<not> touches_host (EElicit (power_refusalMessage Shutdown) True)"
proof -
  let ?p = "systemPowerHandler True (Some True) shutdown_args"
  have read: "call_of no_formats ''system_power'' unconfirmed_shutdown = Some (SystemCall (CSystemPower shutdown_args))" by code_simp
  have call: "serve no_formats ssh_options (am\<lparr>am_channel := Some True\<rparr>) ''system_power'' unconfirmed_shutdown = Some ?p" for am
    by (simp add: serve_def read callTool_def registerAllTools_def TOOL_REGISTRATIONS_def registration_defs ssh_options_def)
  have flag: "getp unconfirmed_shutdown ''confirm'' \<noteq> JBool True" by code_simp
  have nobody: "nobody_accepts dismissing_world"
    by (simp add: nobody_accepts_def dismissing_world_def channel_outcome_def)
  have only: "destructiveHint (rt_annotations t)"
    if "t \<in> set (registerAllTools ssh_options am)" "rt_name t = ''system_power''" for am t
  proof -
    have "list_all (\<lambda>(m, t). rt_name t = ''system_power'' \<longrightarrow> destructiveHint (rt_annotations t)) (TOOL_REGISTRATIONS ssh_options am)"
      by (simp add: TOOL_REGISTRATIONS_def registration_defs)
    with that show ?thesis by (auto simp: registered_iff list_all_iff)
  qed
  have ev: "events_of dismissing_world ?p = [EElicit (power_refusalMessage Shutdown) True]"
    by (simp add: systemPowerHandler_def with_shell_def gated_def events_of_def run_bind run_risk_gate human_accepts_def
        asked_events_def shutdown_args_def both_flags_def dismissing_world_def channel_outcome_def)
  from destructive_tools_wait [OF call flag nobody only] have "\<forall>x \<in> set (events_of dismissing_world ?p). \<not> touches_host x" .
  with ev show ?thesis by simp
qed


text \<open>C3. Schemas and handlers fit together: JSON arguments that the schema of a registered tool admits always reach that
  tool's handler, and the numbers they carry are within the limits of the handlers (at most 2000 lines of a log or file,
  120 seconds for a command, 300 for a script, 1440 minutes of history, 50 rows, never zero or negative).\<close>

theorem admitted_calls_served:
  assumes "call_of lib name args = Some call" "t \<in> set (registerAllTools opt am)" "rt_name t = name"
  shows "(\<exists>p. serve lib opt am name args = Some p) \<and> within_limits call"
  using admitted_runs [OF assms] fits_call_of [OF schemas_within_limits assms(1)] by blast

definition hosts_request :: jsval where
  "hosts_request = JObj [(''path'', JStr ''/etc/hosts''), (''lines'', JInt 2000)]"

definition hosts_call :: tool_call where
  "hosts_call = ScriptCall (CFileRead \<lparr>fr_format = Concise, fr_path = ''/etc/hosts'', fr_lines = 2000, fr_pattern = None\<rparr>)"

theorem admitted_calls_served_witness: "within_limits hosts_call"
proof -
  have c: "call_of no_formats ''file_read'' hosts_request = Some hosts_call" by code_simp
  have "registerFileRead ssh_options am \<in> set (registerAllTools ssh_options am)" for am
    by (auto simp: registered_iff TOOL_REGISTRATIONS_def ssh_options_def)
  from admitted_calls_served [OF c this] show ?thesis by (simp add: registerFileRead_def)
qed


text \<open>C4. Requests are well typed where the compiler cannot see it: whichever tool is called with whatever JSON arguments
  and whatever the server answers, every GraphQL document sent (except by the two tools that forward the caller's own)
  is one of the declared operations, and its variables are exactly those the operation declares: every required one is
  there, no other is, enumerations have a declared value, and the nested input objects are of their types.\<close>

theorem requests_well_typed:
  assumes "serve lib opt am name args = Some p" "name \<notin> set RAW_TOOLS" "EGql d v \<in> set (events_of w p)"
  shows "\<exists>t. variables_type d = Some t \<and> (if t = NoVariables then v = JUndef \<or> conforms t v else conforms t v)"
proof -
  from served_call [OF assms(1)] obtain call where "callTool opt am name call = Some p" by blast
  from called_typed [OF this assms(2)] assms(3) have "typed_request (EGql d v)" unfolding typed_def by blast
  then have "well_typed d v" by (simp only: typed_request_simps)
  then show ?thesis unfolding well_typed_def by (cases "variables_type d") simp_all
qed

text \<open>A role is given to a key.\<close>

definition role_request :: jsval where
  "role_request = JObj [(''action'', JStr ''add_role''), (''id'', JStr ''k1''), (''roles'', JArr [JStr ''GUEST'']),
     (''confirm'', JBool True), (''acknowledge_risk'', JBool True)]"

definition role_args :: api_key_manage_args where
  "role_args = \<lparr>ak_action = KeyAddRole, ak_name = None, ak_description = None, ak_roles = Some [GUEST],
     ak_id = Some ''k1'', ak_ids = None, ak_flags = both_set\<rparr>"

theorem requests_well_typed_witness:
  "conforms ApiKeyAddRoleMutationVariables (JObj [(''input'', JObj [(''apiKeyId'', JStr ''k1''), (''role'', JStr ''GUEST'')])])"
proof -
  have read: "call_of no_formats ''apikey_manage'' role_request = Some (AccessCall (CApiKeyManage role_args))" by code_simp
  have call: "serve no_formats ssh_options am ''apikey_manage'' role_request = Some (apiKeyManageHandler (am_channel am) role_args)" for am
    by (simp add: serve_def read callTool_def registerAllTools_def TOOL_REGISTRATIONS_def registration_defs ssh_options_def)
  have raw: "''apikey_manage'' \<notin> set RAW_TOOLS" by code_simp
  have sent: "EGql ApiKeyAddRoleDocument (JObj [(''input'', JObj [(''apiKeyId'', JStr ''k1''), (''role'', JStr ''GUEST'')])])
      \<in> set (events_of silent_server (apiKeyManageHandler ch role_args))" for ch
    by code_simp
  from requests_well_typed [OF call raw sent] show ?thesis by (simp add: declared_each some_variables)
qed


text \<open>C5. Disk changes wait for the array state: \<open>array_disk_action\<close> sends a disk mutation only for a call
  approved with both flags (or by the human), and only after its own probe reported the array state
  that the action needs (stopped for \<open>add\<close>, started for the others).\<close>

theorem disk_mutation_after_probe:
  assumes "EGql d v \<in> set (events_of w (arrayDiskActionHandler ch (Known action) args))" "has_mutation d"
  shows "risk_approved w [] (ch, ad_flags args, disk_refusalMessage action (ad_id args))
    \<and> (\<exists>es. (\<forall>e \<in> set es. is_elicit e) \<and> probed_state w es = Some (JStr (required_state action)))"
proof -
  let ?g = "requireRiskAcknowledgementInteractive ch (ad_flags args) (disk_refusalMessage action (ad_id args))"
  have ev: "EGql d v \<in> set (events_of w (gated ?g (array_disk_work action args)))"
    using assms(1) by (auto simp: arrayDiskActionHandler_def events_of_def run_toolError split: if_splits)
  have ap: "risk_approved w [] (ch, ad_flags args, disk_refusalMessage action (ad_id args))"
    using tier2.gated_events [of "EGql d v" w "(ch, ad_flags args, disk_refusalMessage action (ad_id args))"] ev by simp
  obtain es where es: "\<forall>e \<in> set es. is_elicit e"
    "run w [] (gated ?g (array_disk_work action args)) = run w es (array_disk_work action args)"
    using tier2.gated_pass [OF ap, of "array_disk_work action args"] by auto
  have "EGql d v \<notin> set es" using es(1) by auto
  with ev es(2) have "EGql d v \<in> set (snd (run w es (array_disk_work action args))) - set es" by (simp add: events_of_def)
  from array_disk_work_probes [OF this assms(2)] ap es(1) show ?thesis by blast
qed

definition stopped_array :: world where
  "stopped_array = constant_world (Inr (JObj [(''array'', JObj [(''state'', JStr ''STOPPED'')])])) (Inl []) ElicitFailed []"

definition add_disk1 :: array_disk_args where
  "add_disk1 = \<lparr>ad_format = Concise, ad_id = ''disk1'', ad_slot = None, ad_flags = both_set\<rparr>"

theorem disk_mutation_after_probe_witness:
  "risk_approved stopped_array [] (None, both_set, disk_refusalMessage DiskAdd ''disk1'')"
proof -
  have "\<exists>v. EGql ArrayDiskAddDocument v \<in> set (events_of stopped_array (arrayDiskActionHandler None (Known DiskAdd) add_disk1))"
    by (simp add: add_disk1_def stopped_array_def events_of_def arrayDiskActionHandler_def gated_def run_bind run_risk_gate
        array_disk_work_def run_failing_with statePrecondition_def run_execute_gql run_path runDiskAction_def
        disk_mutation_def run_formatResponse NEEDS_STOPPED_ARRAY_def NEEDS_STARTED_ARRAY_def nullish_def del: path.simps) blast
  then obtain v where "EGql ArrayDiskAddDocument v \<in> set (events_of stopped_array (arrayDiskActionHandler None (Known DiskAdd) add_disk1))" ..
  from disk_mutation_after_probe [OF this] show ?thesis by (simp add: add_disk1_def)
qed


text \<open>C6. A VM action acts on the VM it was asked for: an approved call reads the list of VMs once and then, when
  the reference resolves, sends exactly one mutation, the action's, with the id of the resolved VM; when it does not
  resolve, nothing follows the read.\<close>

theorem vm_action_trace:
  assumes "vm_approved w [] (ch, args)"
  shows "\<exists>es. (\<forall>e \<in> set es. is_elicit e) \<and>
    events_of w (vmActionHandler ch args) =
      es @ [EGql VmResolveDocument JUndef] @
        (case listed_domains w es of
           None \<Rightarrow> []
         | Some ds \<Rightarrow> (case resolveVm ds (va_vm args) of Inl err \<Rightarrow> [] | Inr d \<Rightarrow> [vm_mutation args d]))"
  using vm_gate.gated_pass [OF assms, of "vm_work args"]
  by (auto simp: vmActionHandler_def events_of_def vm_work_trace)

definition stop_web :: vm_args where
  "stop_web = \<lparr>va_format = Concise, va_vm = ''web'', va_action = VStop, va_flags = both_set\<rparr>"

theorem vm_action_trace_witness:
  "EGql VmResolveDocument JUndef \<in> set (events_of silent_server (vmActionHandler None stop_web))"
proof -
  have "vm_approved silent_server [] (None, stop_web)"
    by (simp add: stop_web_def vm_approved_def confirm_approved_def UNGRACEFUL_def)
  from vm_action_trace [OF this] show ?thesis by auto
qed


text \<open>C7. A VM reference never resolves by accident: the VM that is returned is one of the listed ones, and either
  its id matches the reference, or no id matches and it is the only VM with that name.\<close>

theorem vm_resolution_unambiguous:
  assumes "resolveVm domains vm = Inr d"
  shows "d \<in> set domains \<and>
    (matchesId d vm \<or> (\<forall>x \<in> set domains. \<not> matchesId x vm) \<and> filter (\<lambda>x. name_matches x vm) domains = [d])"
  using resolveVm_Inr [OF assms] .

theorem vm_resolution_unambiguous_witness:
  "\<exists>d. d \<in> set [\<lparr>vm_id = ''srv:7'', vm_name = Some ''web''\<rparr>] \<and> name_matches d ''web''"
  using vm_resolution_unambiguous [of "[\<lparr>vm_id = ''srv:7'', vm_name = Some ''web''\<rparr>]" "''web''" "\<lparr>vm_id = ''srv:7'', vm_name = Some ''web''\<rparr>"]
  by (simp add: resolveVm_def name_matches_def matchesId_def stripServerPrefix_def)







text \<open>C9. Raw mutations are gated by what they select: what \<open>graphql_mutation\<close> sends is the one operation that was
  parsed from its input, a mutation that validated against the schema, not a dry run, confirmed; and if a risky field
  is selected anywhere in the document, also below fragments, the risk was acknowledged as well.\<close>

theorem raw_mutation_guarded:
  assumes "e \<in> set (events_of w (graphqlMutationHandler lib ch input))" "touches_host e"
  shows "\<exists>d. parseSingleOperation lib (gm_mutation input) = Inr (d, Mutation) \<and> e = EGql d (gm_variables input) \<and>
    lib_validate lib (definitions d) = Inr [] \<and> gm_dry_run input \<noteq> Some True \<and>
    (\<exists>es. (\<forall>x \<in> set es. is_elicit x) \<and> confirm_approved w es (ch, confirm (gm_flags input), RAW_DESCRIPTION)) \<and>
    ((\<exists>n \<in> set RISKY_MUTATION_FIELDS. \<exists>x \<in> set (definitions d). \<exists>s \<in> set (selections_of x). selects n s) \<longrightarrow>
      risk_approved w [] (ch, gm_flags input, riskyRefusalMessage (findRiskyFields d)))"
proof -
  from graphql_mutation_events [OF assms] obtain d where
    d: "parseSingleOperation lib (gm_mutation input) = Inr (d, Mutation)" "lib_validate lib (definitions d) = Inr []"
      "gm_dry_run input \<noteq> Some True" "e = EGql d (gm_variables input)"
      "findRiskyFields d = [] \<or> risk_approved w [] (ch, gm_flags input, riskyRefusalMessage (findRiskyFields d))"
      "\<exists>es. (\<forall>x \<in> set es. is_elicit x) \<and> confirm_approved w es (ch, confirm (gm_flags input), RAW_DESCRIPTION)"
    by blast
  have "n \<in> set (findRiskyFields d)"
    if "n \<in> set RISKY_MUTATION_FIELDS" "x \<in> set (definitions d)" "s \<in> set (selections_of x)" "selects n s" for n x s
    using that document_fields_iff [of n d] by (auto simp: findRiskyFields_def)
  then have "findRiskyFields d \<noteq> []"
    if "\<exists>n \<in> set RISKY_MUTATION_FIELDS. \<exists>x \<in> set (definitions d). \<exists>s \<in> set (selections_of x). selects n s"
    using that by fastforce
  with d show ?thesis by blast
qed

definition stop_array_lib :: graphql_lib where
  "stop_array_lib =
     \<lparr>lib_parse = (\<lambda>source. Inr [OperationDefinition Mutation [Field ''array'' [Field ''setState'' []]]]),
      lib_validate = (\<lambda>ds. Inr [])\<rparr>"

definition stop_array_input :: graphql_mutation_input where
  "stop_array_input = \<lparr>gm_mutation = ''mutation { array { setState } }'', gm_variables = JUndef, gm_flags = both_set, gm_dry_run = None\<rparr>"

theorem raw_mutation_guarded_witness:
  "\<exists>d. parseSingleOperation stop_array_lib (gm_mutation stop_array_input) = Inr (d, Mutation)"
proof -
  have "\<exists>d. EGql d JUndef \<in> set (events_of silent_server (graphqlMutationHandler stop_array_lib None stop_array_input))"
    by (simp add: silent_server_def events_of_def graphqlMutationHandler_def stop_array_lib_def stop_array_input_def
        parseSingleOperation_def run_failing_with run_bind validateAgainstSchema_def of_sum_def raw_gates_def gated_def
        run_risk_gate run_confirm_gate run_execute_gql Let_def renderJsonResult_def run_toolError)
  then obtain d where "EGql d JUndef \<in> set (events_of silent_server (graphqlMutationHandler stop_array_lib None stop_array_input))" ..
  from raw_mutation_guarded [OF this] show ?thesis by auto
qed

section \<open>Host commands\<close>


text \<open>C10. \<open>service_action\<close> runs only three commands of the named service (the presence test, the requested verb and
  \<open>status\<close>), only for an approved call, and never for a stop of Docker or libvirt.\<close>

theorem service_commands_only:
  assumes "EShell c t \<in> set (events_of w (serviceActionHandler shell ch args))"
  shows "c \<in> set (service_commands args) \<and> \<not> (sa_action args = SStop \<and> sa_service args \<in> NEVER_STOP) \<and>
    risk_approved w [] (ch, sa_flags args, service_refusalMessage args)"
proof (intro conjI)
  have ok: "c \<in> set (service_commands args)" "service_validate args = None"
    using events_emits [OF service_events assms] by (auto simp: service_event_ok_def)
  from ok show "c \<in> set (service_commands args)" "\<not> (sa_action args = SStop \<and> sa_service args \<in> NEVER_STOP)"
    by (auto simp: service_validate_def split: if_splits)
  let ?work = "failing_with (''Failed to '' @ service_verb_text (sa_action args) @ '' '' @ service_name (sa_service args) @ '' over SSH: '')
                (runVerb args)"
  have "EShell c t \<in> set (events_of w (gated (requireRiskAcknowledgementInteractive ch (sa_flags args) (service_refusalMessage args)) ?work))"
    using assms ok(2) by (auto simp: serviceActionHandler_def with_shell_def sshUnavailableError_def events_of_def run_toolError split: if_splits)
  from tier2.gated_events [of "EShell c t" w "(ch, sa_flags args, service_refusalMessage args)" ?work] this
  show "risk_approved w [] (ch, sa_flags args, service_refusalMessage args)" by simp
qed

definition restart_docker :: service_args where
  "restart_docker = \<lparr>sa_format = None, sa_service = Docker, sa_action = SRestart, sa_allow_stop = None, sa_flags = both_set\<rparr>"

definition running_host :: world where
  "running_host = constant_world (Inl []) (Inr (exit_zero ''currently running'')) ElicitFailed []"

theorem service_commands_only_witness:
  "rcCommand Docker ''status'' \<in> set (service_commands restart_docker)"
proof -
  have "EShell (rcCommand Docker ''status'') service_PROBE_TIMEOUT_MS
      \<in> set (events_of running_host (serviceActionHandler True None restart_docker))"
    by (simp add: restart_docker_def running_host_def exit_zero_def events_of_def serviceActionHandler_def with_shell_def
        service_validate_def gated_def run_bind run_risk_gate run_failing_with runVerb_def run_execute_shell Let_def
        service_verb_text_def service_renderOutcome_def run_formatResponse run_toolError)
  from service_commands_only [OF this] show ?thesis by blast
qed


text \<open>C11. \<open>service_action\<close> reports success only when it is verified: the verb's command exited with 0 and the
  \<open>status\<close> command that was run last showed the state the verb is to produce.\<close>

theorem service_success_verified:
  assumes "run w tr (serviceActionHandler shell ch args) = (Inr r, tr')" "\<not> isError r"
  shows "\<exists>tr1 act tr2 st.
     w_shell w tr1 (rcCommand (sa_service args) (service_verb_text (sa_action args))) SERVICE_TIMEOUT_MS = Inr act \<and> exitCode act = 0 \<and>
     w_shell w tr2 (rcCommand (sa_service args) ''status'') service_PROBE_TIMEOUT_MS = Inr st \<and>
     parseStatusOutput (stdout st) = EXPECTED_STATE (sa_action args) \<and>
     tr' = tr2 @ [EShell (rcCommand (sa_service args) ''status'') service_PROBE_TIMEOUT_MS]"
proof -
  have "service_validate args = None"
    using assms by (cases "service_validate args")
      (auto simp: serviceActionHandler_def with_shell_def sshUnavailableError_def run_toolError split: if_splits)
  then obtain tr1 where "run w tr1 (runVerb args) = (Inr r, tr')"
    using gated_work_success [OF _ assms(2) risk_gate_stops] assms(1) unfolding serviceActionHandler_def by fastforce
  from runVerb_success [OF this assms(2)] show ?thesis by blast
qed

theorem service_success_verified_witness: "parseStatusOutput ''currently running'' = EXPECTED_STATE SRestart"
proof -
  obtain r tr' where r: "run running_host [] (serviceActionHandler True None restart_docker) = (Inr r, tr')" "\<not> isError r"
    by (simp add: restart_docker_def running_host_def exit_zero_def serviceActionHandler_def with_shell_def
        service_validate_def gated_def run_bind run_risk_gate run_failing_with runVerb_def run_execute_shell Let_def
        service_verb_text_def service_renderOutcome_def run_formatResponse run_toolError parseStatusOutput_def
        EXPECTED_STATE_def NOT_INSTALLED_MARKER_def js_includes.simps to_lower_def lower_char_def is_upper_def trim_def
        trim_start_def trim_end_def is_space_def)
  from service_success_verified [OF r] show ?thesis
    by (auto simp: restart_docker_def running_host_def exit_zero_def)
qed


text \<open>C12. \<open>zfs_snapshot_action\<close> runs, besides its probe, one command, which the shell reads as exactly three words:
  \<open>zfs\<close>, the subcommand of the action, and the snapshot; the snapshot has only characters of the two name patterns.\<close>

theorem zfs_runs_one_snapshot_command:
  assumes "EShell c t \<in> set (events_of w (zfsSnapshotActionHandler shell ch args))"
  shows "c = ''command -v zpool'' \<or>
    sh_tokens c = Some [ShWord ''zfs'', ShWord (snapshot_subcommand (zs_action args)), ShWord (snapshotTarget args)] \<and>
    (\<forall>x \<in> set (snapshotTarget args). zfs_char x \<or> x = CHR ''/'' \<or> x = CHR ''@'')"
  using events_emits [OF zfs_snapshot_events assms] names_ok_chars [of args] zfs_command_words [of args]
  by (auto simp: zfs_event_ok_def)

definition snap_tank :: snapshot_args where
  "snap_tank = \<lparr>zs_action = SnapCreate, zs_dataset = ''tank/data'', zs_snapshot = ''daily'', zs_flags = both_set\<rparr>"

theorem zfs_runs_one_snapshot_command_witness:
  "sh_tokens (zfs_buildCommand snap_tank) = Some [ShWord ''zfs'', ShWord ''snapshot'', ShWord ''tank/data@daily'']"
proof -
  have "EShell (zfs_buildCommand snap_tank) ZFS_COMMAND_TIMEOUT_MS
      \<in> set (events_of running_host (zfsSnapshotActionHandler True None snap_tank))"
  proof -
    have "names_ok snap_tank" by code_simp
    then show ?thesis
      by (simp add: running_host_def exit_zero_def events_of_def zfsSnapshotActionHandler_def with_shell_def
          gated_def run_bind run_risk_gate snapshot_work_def run_failing_with after_probe_def probeZfs_def
          run_execute_shell run_toolText)
        (simp add: snap_tank_def)
  qed
  from zfs_runs_one_snapshot_command [OF this] show ?thesis
    by (auto simp: snap_tank_def snapshot_subcommand_def snapshotTarget_def zfs_buildCommand_def)
qed


text \<open>C13. \<open>unassigned_action\<close> mounts or unmounts only an approved partition path, and only when the device map it
  read from the host does not list the partition's parent disk as assigned.\<close>

theorem unassigned_spares_assigned_disks:
  assumes "EShell (ud_command args) t \<in> set (events_of w (unassignedActionHandler shell ch args))"
  shows "re_test PARTITION_PATTERN (ua_device args) \<and>
    risk_approved w [] (ch, ua_flags args, ud_refusalMessage args) \<and>
    (\<exists>tr out. w_shell w tr disks_ini_command ud_PROBE_TIMEOUT_MS = Inr out \<and>
      parentDiskOf (ua_device args) \<notin> set (parseAssignedDevices (stdout out)))"
proof -
  have pat: "re_test PARTITION_PATTERN (ua_device args)"
    using events_emits [OF ud_events assms] by (auto simp: ud_event_ok_def)
  let ?t = "''Failed to '' @ mount_action_text (ua_action args) @ '' '' @ ua_device args @ '' over SSH: ''"
  let ?g = "requireRiskAcknowledgementInteractive ch (ua_flags args) (ud_refusalMessage args)"
  have ev: "EShell (ud_command args) t \<in> set (events_of w (gated ?g (failing_with ?t (ud_runAction args))))"
    using assms pat by (auto simp: unassignedActionHandler_def with_shell_def sshUnavailableError_def events_of_def run_toolError split: if_splits)
  have ap: "risk_approved w [] (ch, ua_flags args, ud_refusalMessage args)"
    using tier2.gated_events [of "EShell (ud_command args) t" w "(ch, ua_flags args, ud_refusalMessage args)"] ev by simp
  obtain es where es: "\<forall>e \<in> set es. is_elicit e"
    "run w [] (gated ?g (failing_with ?t (ud_runAction args))) = run w es (failing_with ?t (ud_runAction args))"
    using tier2.gated_pass [OF ap, of "failing_with ?t (ud_runAction args)"] by auto
  have "EShell (ud_command args) t \<notin> set es" using es(1) by auto
  moreover have "snd (run w es (failing_with ?t (ud_runAction args))) = snd (run w es (ud_runAction args))"
    by (auto simp: run_failing_with split: prod.splits sum.splits)
  ultimately have "EShell (ud_command args) t \<in> set (snd (run w es (ud_runAction args))) - set es"
    using ev es(2) by (simp add: events_of_def)
  from ud_runAction_assigned [OF this] pat ap show ?thesis by blast
qed

definition quiet_host :: world where
  "quiet_host = constant_world (Inl []) (Inr (exit_zero [])) ElicitFailed []"

definition mount_sdx1 :: unassigned_args where
  "mount_sdx1 = \<lparr>ua_format = None, ua_action = Mount, ua_device = ''/dev/sdx1'', ua_flags = both_set\<rparr>"

theorem unassigned_spares_assigned_disks_witness:
  "risk_approved quiet_host [] (None, both_set, ud_refusalMessage mount_sdx1)"
proof -
  have p: "re_test PARTITION_PATTERN ''/dev/sdx1''" and a: "parseAssignedDevices [] = []" and j: "json_parse [] = None"
    by code_simp+
  have "EShell (ud_command mount_sdx1) MOUNT_TIMEOUT_MS \<in> set (events_of quiet_host (unassignedActionHandler True None mount_sdx1))"
    using p a j
    by (simp add: quiet_host_def exit_zero_def events_of_def mount_sdx1_def unassignedActionHandler_def with_shell_def
        gated_def run_bind run_risk_gate run_failing_with ud_runAction_def ud_precondition_def run_execute_shell
        readMountpoint_def mountpoint_of_def ud_renderOutcome_def Let_def run_toolError)
  from unassigned_spares_assigned_disks [OF this] show ?thesis by (simp add: mount_sdx1_def)
qed


text \<open>C14. The form body of a share edit decodes to the intended settings: undoing the form encoding gives every
  field of the form, the requested settings with their new values and every other field with the value that the
  share's config file had.\<close>

theorem share_form_decodes:
  assumes "f \<in> set EDIT_FIELDS"
  shows "map_of (decode_form (buildEditQuery inp)) f =
    Some (case map_of (changedFields (e_changes inp)) f of
            Some v \<Rightarrow> v
          | None \<Rightarrow> (case map_of (e_current inp) f of
                       Some v \<Rightarrow> v
                     | None \<Rightarrow> (case map_of CREATE_DEFAULTS f of Some v \<Rightarrow> v | None \<Rightarrow> [])))"
  unfolding decode_edit map_of_edit_pairs [OF assms] merged_field_def ..

definition comment_edit :: edit_input where
  "comment_edit =
     \<lparr>e_name = ''media'', e_nameOrig = ''media'', e_current = [(''shareFloor'', ''50'')],
      e_changes = no_changes\<lparr>s_comment := Some ''R&D = 100%''\<rparr>, e_command = Apply\<rparr>"

theorem share_form_decodes_witness:
  "map_of (decode_form (buildEditQuery comment_edit)) ''shareComment'' = Some ''R&D = 100%'' \<and>
   map_of (decode_form (buildEditQuery comment_edit)) ''shareFloor'' = Some ''50''"
  using share_form_decodes [of "''shareComment''" comment_edit] share_form_decodes [of "''shareFloor''" comment_edit]
  by (simp add: comment_edit_def EDIT_FIELDS_def changedFields_def setting_pairs_def no_changes_def)







text \<open>C16. \<open>share_delete\<close> cannot delete files: it runs only a read of the share's config, a search for the first entry
  of the share, and one submission to emhttpd whose form carries the share's name twice and the word Delete, nothing
  else; the name is a single path segment that does not start with a dot.\<close>

theorem share_delete_only_config:
  assumes "EShell c t \<in> set (events_of w (shareDeleteHandler shell ch name flags))"
  shows "(c = cfg_command name \<or> c = find_command name \<or> c = emcmdCommand (delete_query name)) \<and>
    decode_form (delete_query name) = [(''shareName'', name), (''shareNameOrig'', name), (''cmdEditShare'', ''Delete'')] \<and>
    CHR ''/'' \<notin> set name \<and> name \<noteq> [] \<and> hd name \<noteq> CHR ''.''"
proof -
  have ok: "validateShareName name = None" "c = cfg_command name \<or> delete_ok name c"
    using events_emits [OF share_delete_events assms] by (auto simp: share_event_ok_def)
  have "decode_form (delete_query name) = [(''shareName'', name), (''shareNameOrig'', name), (''cmdEditShare'', ''Delete'')]"
    unfolding delete_query_pairs by (rule decode_encodePairs) (simp_all add: plain_key_def)
  moreover have "CHR ''/'' \<notin> set name" using validateShareName_chars(3) [OF ok(1)] share_char_no_slash by blast
  ultimately show ?thesis
    using ok validateShareName_chars(1,4) [OF ok(1)] by (auto simp: delete_ok_def)
qed

theorem share_delete_only_config_witness:
  "decode_form (delete_query ''media'') = [(''shareName'', ''media''), (''shareNameOrig'', ''media''), (''cmdEditShare'', ''Delete'')]"
proof -
  have "validateShareName ''media'' = None" by code_simp
  then have "EShell (cfg_command ''media'') CFG_TIMEOUT_MS
      \<in> set (events_of silent_server (shareDeleteHandler True None ''media'' both_set))"
    by (simp add: silent_server_def events_of_def shareDeleteHandler_def with_shell_def gated_def run_bind run_risk_gate
        run_failing_with runDelete_def run_readShareCfg)
  from share_delete_only_config [OF this] show ?thesis by blast
qed





text \<open>C18. Shell quoting is exact: a POSIX shell reads a line of quoted values, separated by blanks, as exactly those
  values, whatever characters they contain.\<close>

theorem quoted_line_roundtrip: "sh_tokens (join '' '' (map quoteForShell vs)) = Some (map ShWord vs)"
  using sh_tokens_args [of "map Quoted vs"] by (simp add: command_line_def comp_def)

section \<open>Output\<close>


text \<open>C19. Registered secrets never reach a tool result: no text built by \<open>toolText\<close> or \<open>toolError\<close> contains a
  registered secret, for secrets that have no quote or bracket and are no part of the marker's word.\<close>

theorem results_hide_secrets:
  assumes "separable s" "s \<in> set (w_secrets w)"
    and "run w tr (toolText t) = (Inr r, tr') \<or> run w tr (toolError t) = (Inr r, tr')"
  shows "\<not> js_includes (content r) s"
  using redactSecrets_removes [OF assms(1,2), of t] assms(3)
  by (auto simp: run_toolText run_toolError mk_text_def mk_error_def)

theorem results_hide_secrets_witness:
  "\<not> js_includes (content (mk_text [''hunter2!'', ''k''] ''ssh pass hunter2! (root)'')) ''hunter2!''"
  by (rule results_hide_secrets [where w = "constant_world (Inl []) (Inl []) ElicitFailed [''hunter2!'', ''k'']" and tr = "[]"
        and tr' = "[]" and t = "''ssh pass hunter2! (root)''"])
     (simp_all add: run_toolText separable_def sublist_code)





text \<open>C21. A detailed payload is bounded and stays JSON: whatever the size of the printed payload, what
  \<open>truncateJsonPayload\<close> returns is at most 30000 characters and parses; a payload that is too long becomes an
  envelope that holds a prefix of it and the exact number of characters that were dropped.\<close>

theorem truncated_payload_bounded:
  assumes "json_parse s \<noteq> None" "length s < 10 ^ 20"
  shows "length (truncateJsonPayload s) \<le> 30000 \<and> json_parse (truncateJsonPayload s) \<noteq> None \<and>
    (length s > 30000 \<longrightarrow>
      (\<exists>n v. json_parse (truncateJsonPayload s) = Some v \<and> getp v ''partial_json_head'' = JStr (take n s) \<and>
             getp v ''dropped_chars'' = JInt (int (length s - n))))"
proof (intro conjI impI)
  show "length (truncateJsonPayload s) \<le> 30000"
    using truncateJsonPayload_length [OF assms(2)] by (simp add: MAX_OUTPUT_CHARS_def)
  show "json_parse (truncateJsonPayload s) \<noteq> None" by (rule truncateJsonPayload_parse [OF assms(1)])
  assume "length s > 30000"
  then show "\<exists>n v. json_parse (truncateJsonPayload s) = Some v \<and> getp v ''partial_json_head'' = JStr (take n s) \<and>
      getp v ''dropped_chars'' = JInt (int (length s - n))"
    using truncateJsonPayload_head [of s] by (metis MAX_OUTPUT_CHARS_def)
qed

theorem truncated_payload_bounded_witness: "length (truncateJsonPayload ''{}'') \<le> 30000"
  using truncated_payload_bounded [of "''{}''"] by (simp add: json_parse_empty_object)

section \<open>The GraphQL client behind its limiter and its cache\<close>











text \<open>C24. A mutation is never sent again after the server may have taken it: a second send happens only when the
  answer to the first one was 429 (too many requests).\<close>

theorem mutation_not_resent:
  assumes "\<not> isQueryOperation d" "env_limiter ce 0 = None" "sends (snd (client_execute p c ce d v)) \<ge> 2"
  shows "\<exists>m. executeOnce c (env_reply ce 0) = Inl (HttpStatusError 429 m)"
  using mutation_resend [OF assms] by (simp add: HTTP_TOO_MANY_REQUESTS_def)

definition throttled_once :: client_env where
  "throttled_once = \<lparr>env_limiter = (\<lambda>n. None),
     env_reply = (\<lambda>n. if n = 0 then Response 429 [] None else Response 200 [] (Some (JObj [(''data'', JObj [])]))),
     env_random = (\<lambda>n. 0)\<rparr>"

definition local_api :: execute_options where
  "local_api = \<lparr>endpoint = ''http://tower/graphql'', apiKey = ''key'', allowSelfSigned = False, timeoutMs = None\<rparr>"

theorem mutation_not_resent_witness:
  "\<exists>m. executeOnce local_api (env_reply throttled_once 0) = Inl (HttpStatusError 429 m)"
proof -
  have "sends (snd (client_execute (\<lambda>d. ''m'') local_api throttled_once ParityCheckStartDocument JUndef)) \<ge> 2"
    by code_simp
  moreover have "\<not> isQueryOperation ParityCheckStartDocument" by code_simp
  ultimately show ?thesis
    using mutation_not_resent [of ParityCheckStartDocument throttled_once] by (simp add: throttled_once_def)
qed


text \<open>C25. Passing trouble does not fail a query: when the first two attempts fail with retryable errors and the third
  is answered, the caller gets that answer.\<close>

theorem query_outlasts_two_failures:
  assumes "\<forall>n. env_limiter ce n = None" "isQueryOperation d"
    "\<forall>n < 2. \<exists>e. executeOnce c (env_reply ce n) = Inl e \<and> isRetryable e (retryPolicyFor d)"
    "executeOnce c (env_reply ce 2) = Inr x"
  shows "fst (client_execute p c ce d v) = Inr x"
  using execute_succeeds_at_last [of ce d c x p v] assms by blast

definition starting_up :: client_env where
  "starting_up = \<lparr>env_limiter = (\<lambda>n. None),
     env_reply = (\<lambda>n. if n < 2 then Response 503 [] None else Response 200 [] (Some (JObj [(''data'', JObj [])]))),
     env_random = (\<lambda>n. 0)\<rparr>"

theorem query_outlasts_two_failures_witness:
  "fst (client_execute (\<lambda>d. ''q'') local_api starting_up VmResolveDocument JUndef) = Inr (JObj [])"
proof (rule query_outlasts_two_failures)
  show q: "isQueryOperation VmResolveDocument" by code_simp
  show "executeOnce local_api (env_reply starting_up 2) = Inr (JObj [])" by code_simp
  show "\<forall>n. env_limiter starting_up n = None" by (simp add: starting_up_def)
  show "\<forall>n < 2. \<exists>e. executeOnce local_api (env_reply starting_up n) = Inl e \<and> isRetryable e (retryPolicyFor VmResolveDocument)"
    using q by (simp add: starting_up_def executeOnce_def executeGraphQL_def postWithDeadline_def isRetryable_def
        retryPolicyFor_def isTooManyRequests_def HTTP_TOO_MANY_REQUESTS_def HTTP_SERVER_ERROR_FLOOR_def)
qed





section \<open>Live data\<close>


text \<open>C27. The container aggregate is the reference view of the event log: after any events in order of time it holds, for
  each container, exactly its last sample, unless that one is older than the eviction window when the last event
  arrived.\<close>

theorem docker_aggregate_reference:
  assumes "in_order (evs @ [(s, t)])" "k \<noteq> []"
  shows "map_of (merge_all (evs @ [(s, t)])) k =
    (case last_sample (evs @ [(s, t)]) k of
       Some (x, u) \<Rightarrow> if t - u \<le> DOCKER_CONTAINER_EVICTION_MS then Some (x, u) else None
     | None \<Rightarrow> None)"
proof -
  let ?evs = "evs @ [(s, t)]"
  have le: "\<forall>u \<in> set (map snd ?evs). u \<le> t" using assms(1) by (auto simp: in_order_def sorted_append)
  show ?thesis
  proof (cases "map_of (merge_all ?evs) k")
    case (Some e)
    with merge_all_sound [OF Some assms(2)] merge_all_fresh [OF assms(1) Some] show ?thesis by (cases e) simp
  next
    case None
    have "\<not> t - u \<le> DOCKER_CONTAINER_EVICTION_MS" if "last_sample ?evs k = Some (x, u)" for x u
    proof
      assume "t - u \<le> DOCKER_CONTAINER_EVICTION_MS"
      with le have "\<forall>w \<in> set (map snd ?evs). w - u \<le> DOCKER_CONTAINER_EVICTION_MS" by force
      with merge_all_complete [OF assms that] None show False by simp
    qed
    with None show ?thesis by (auto split: option.splits)
  qed
qed

definition web_stats :: LiveContainerStats where
  "web_stats = \<lparr>stat_id = ''web'', cpuPercent = 3, memUsage = ''1MiB'', memPercent = 1, netIO = [], blockIO = []\<rparr>"

theorem docker_aggregate_reference_witness:
  "map_of (merge_all [(Some web_stats, 100), (None, 200)]) ''web'' = Some (web_stats, 100)"
  using docker_aggregate_reference [of "[(Some web_stats, 100)]" None 200 "''web''"]
  by (simp add: in_order_def last_sample_def web_stats_def DOCKER_CONTAINER_EVICTION_MS_def)


text \<open>C28. The metrics ring forgets nothing too early: for samples in order of time, every bucket within the retention of
  the newest sample holds exactly the fold of all its samples, although the ring reuses its slots.\<close>

theorem ring_holds_reference:
  assumes "sorted (map snd samples)" "\<forall>t \<in> set (map snd samples). t div 30000 < b + 2880"
  shows "ring_bucket (ring_of samples) b = bucket_reference samples b"
  using ring_bucket_reference [of samples b] assms by (simp add: capacity_eq BUCKET_MS_def)

theorem ring_holds_reference_witness:
  "ring_bucket (ring_of [([(''cpu'', 1)], 5), ([(''cpu'', 3)], 40000)]) 1 = bucket_reference [([(''cpu'', 1)], 5), ([(''cpu'', 3)], 40000)] 1"
  by (rule ring_holds_reference) simp_all




text \<open>C30. Folding a history into rows ends for every number of points, and loses none: the loop returns at most 24 rows,
  each merged from a non-empty run of consecutive points, and the runs together are the points in their order.\<close>

theorem row_folding_ends:
  "\<exists>bs. foldRows ps = Some (map mergePoints bs) \<and> concat bs = ps \<and> [] \<notin> set bs \<and> length bs \<le> CONCISE_ROWS"
  using foldRows_blocks [of ps] concat_blocks [of "per_row (length ps)" ps] blocks_at_most_rows [of ps] blocks_nonempty by blast

section \<open>Reading the host\<close>


text \<open>C31. The health verdict hides no disk: whenever \<open>system_health\<close> returns a verdict it is the worst severity of its
  reports, and no parity, data or cache disk of the answer is in a worse state than the verdict says.\<close>

theorem verdict_covers_disks:
  assumes "run w tr runSystemHealth = (Inr (overall, rs), tr')" "w_gql w tr SystemHealthDocument JUndef = Inr data"
    and "d \<in> set (answer_disks data)"
  shows "overall = Max (insert SevOk (severity ` set rs)) \<and> diskSeverity d \<le> overall"
  using health_covers_disks [OF assms] by (auto simp: worstSeverity_Max)

definition hot_disk :: jsval where
  "hot_disk = JObj [(''name'', JStr ''disk1''), (''status'', JStr ''DISK_OK''), (''temp'', JInt 61)]"

definition hot_answer :: jsval where
  "hot_answer = JObj [(''array'', JObj [(''state'', JStr ''STARTED''),
       (''capacity'', JObj [(''kilobytes'', JObj [(''used'', JStr ''50''), (''total'', JStr ''100''), (''free'', JStr ''50'')])]),
       (''parities'', JArr []), (''disks'', JArr [hot_disk]), (''caches'', JArr []),
       (''parityCheckStatus'', JObj [(''errors'', JInt 0), (''running'', JBool False)])]),
     (''notifications'', JObj [(''overview'', JObj [(''unread'', JObj [(''alert'', JInt 0), (''warning'', JInt 0)])])]),
     (''docker'', JObj [(''containers'', JArr [])]), (''upsDevices'', JArr [])]"

definition hot_world :: world where
  "hot_world = constant_world (Inr hot_answer) (Inl []) ElicitFailed []"

theorem verdict_covers_disks_witness:
  "case fst (run hot_world [] runSystemHealth) of Inl m \<Rightarrow> False | Inr x \<Rightarrow> fst x = SevCritical \<and> diskSeverity hot_disk \<le> fst x"
proof -
  have "case fst (run hot_world [] runSystemHealth) of Inl m \<Rightarrow> False | Inr x \<Rightarrow> fst x = SevCritical" by code_simp
  then obtain rs tr' where r: "run hot_world [] runSystemHealth = (Inr (SevCritical, rs), tr')"
    by (cases "run hot_world [] runSystemHealth") (auto split: sum.splits)
  have d: "hot_disk \<in> set (answer_disks hot_answer)" by (simp add: answer_disks_def hot_answer_def)
  have "w_gql hot_world [] SystemHealthDocument JUndef = Inr hot_answer" by (simp add: hot_world_def)
  from verdict_covers_disks [OF r this d] r show ?thesis by simp
qed


text \<open>C32. The samples of a cut stream are all found: from a text that is separators and complete JSON objects followed by
  an object that was cut off anywhere, the brace scan parses exactly the complete objects, in their order (for objects
  without a backslash in a string and separators without quotes and braces).\<close>

theorem streamed_objects_parsed:
  assumes "list_all2 (\<lambda>(sep, a) v. list_all plain_char sep \<and> balanced a \<and> json_parse (object_text a) = Some v \<and> v \<noteq> JNull) parts vs"
    and "list_all plain_char sep" "\<And>a. torn = Some a \<Longrightarrow> cut_text a"
  shows "parseIntelObjects (stream_text parts @ stream_end sep torn) = vs"
proof -
  have "\<forall>(sep, a) \<in> set parts. list_all plain_char sep \<and> balanced a"
    using assms(1) by (induction parts vs rule: list_all2_induct) auto
  from stream_objects [OF this assms(2)] assms(3)
  have "parseIntelObjects (stream_text parts @ stream_end sep torn) = filter (\<lambda>v. v \<noteq> JNull) (map parseJsonOrNull (map (object_text \<circ> snd) parts))"
    by (simp add: parseIntelObjects_def)
  also have "\<dots> = vs"
    using assms(1) by (induction parts vs rule: list_all2_induct) (auto simp: parseJsonOrNull_def)
  finally show ?thesis .
qed

text \<open>The members of two objects, and of a third one that was cut inside a string.\<close>

definition busy_text :: string where "busy_text = CHR 0x22 # ''busy'' @ CHR 0x22 # '': 1''"
definition cut_off :: string where "cut_off = [] @ CHR 0x22 # ''bus''"

theorem streamed_objects_parsed_witness:
  "parseIntelObjects (stream_text [(''[ '', busy_text), (nl, busy_text)] @ stream_end nl (Some cut_off)) =
     [JObj [(''busy'', JInt 1)], JObj [(''busy'', JInt 1)]]"
proof -
  have "balanced (CHR 0x22 # ''busy'' @ CHR 0x22 # '': 1'')"
    by (rule balanced_string; (intro balanced_plain balanced_Nil)?) (simp_all add: plain_char_def string_char_def)
  then have b: "balanced busy_text" by (simp add: busy_text_def)
  have "json_parse (object_text busy_text) = Some (JObj [(''busy'', JInt 1)])" by code_simp
  with b have "list_all2 (\<lambda>(sep, a) v. list_all plain_char sep \<and> balanced a \<and> json_parse (object_text a) = Some v \<and> v \<noteq> JNull)
      [(''[ '', busy_text), (nl, busy_text)] [JObj [(''busy'', JInt 1)], JObj [(''busy'', JInt 1)]]"
    by (simp add: plain_char_def)
  moreover have "list_all plain_char nl" by (simp add: plain_char_def)
  moreover have "cut_text a" if "Some cut_off = Some a" for a
    using cut_string [OF balanced_Nil, of "''bus''"] that by (simp add: cut_off_def string_char_def)
  ultimately show ?thesis by (rule streamed_objects_parsed)
qed

section \<open>The SSH connection\<close>


text \<open>C33. Live resources leak no upstream subscription: whatever sequence of subscribe and unsubscribe requests, samples,
  errors and completions a client's server has gone through on a shared feed, every subscription that it opened and that
  is still open belongs to a URI the client is subscribed to, and closing the connection ends all of them and none of
  anybody else's.\<close>

theorem live_subscriptions_accounted:
  fixes ops :: "live_op list"
  assumes "feed_ok f"
  shows "let st = foldl live_step (live_start f store) ops in
    open_ids st \<inter> own_ids st \<subseteq> set (concat (map snd (lv_active st))) \<and>
    distinct (map fst (lv_active st)) \<and>
    open_ids (live_step st LClose) = open_ids st - own_ids st \<and> lv_active (live_step st LClose) = []"
proof -
  define st where "st = foldl live_step (live_start f store) ops"
  have ok: "live_ok st" unfolding st_def by (rule live_reach_ok [OF assms(1)])
  have "distinct (map fst (lv_active st))" "lv_active (live_step st LClose) = []"
    using ok by (simp_all add: live_ok_def live_step_def live_close_def)
  with own_open_active [OF ok] close_ends_own [OF ok] show ?thesis by (simp add: Let_def st_def)
qed

theorem live_subscriptions_accounted_witness:
  "lv_active (live_step (foldl live_step (live_start newFeed store_empty)
     [LSubscribe ''unraid://live/array'', LSubscribe ''unraid://logs/syslog'']) LClose) = []"
  using live_subscriptions_accounted [OF newFeed_ok, of store_empty "[LSubscribe ''unraid://live/array'', LSubscribe ''unraid://logs/syslog'']"]
  unfolding Let_def by blast


text \<open>C34. In every reachable state of the executor at most four commands run and the counter says how many; a call waits
  for a channel only while all four are taken; the idle timer is armed only while nothing runs; no call is in
  two places; and callers wait only for the attempt in progress, during which there is no connection.\<close>

theorem ssh_channels_bounded:
  assumes "ssh_reach s"
  shows "length (running s) = activeChannels s \<and> activeChannels s \<le> 4 \<and> (waiters s = [] \<or> activeChannels s = 4)
    \<and> (idle_armed s \<longrightarrow> running s = []) \<and> distinct (map fst (waiters s) @ map fst (awaiting s) @ map fst (running s))
    \<and> set (map (Some \<circ> snd) (awaiting s)) \<subseteq> {connecting s} \<and> (connecting s = None \<or> connection s = None)"
  using ssh_reach_ok [OF assms] by (auto simp: ssh_ok_def calls_of_def MAX_CONCURRENT_CHANNELS_def)

lemma ssh_reach_apply: "ssh_reach s \<Longrightarrow> enabled e s \<Longrightarrow> ssh_reach (ssh_apply e s)"
  by (rule reach_step) (auto intro: ssh_stepI)

theorem ssh_channels_bounded_witness:
  "length (running (ssh_apply (Connected 0) (ssh_apply (Call 7) ssh_init))) = 1"
proof -
  have "ssh_reach (ssh_apply (Connected 0) (ssh_apply (Call 7) ssh_init))"
    by (intro ssh_reach_apply reach_init) code_simp+
  from ssh_channels_bounded [OF this]
  have "length (running (ssh_apply (Connected 0) (ssh_apply (Call 7) ssh_init)))
      = activeChannels (ssh_apply (Connected 0) (ssh_apply (Call 7) ssh_init))" by simp
  also have "\<dots> = 1" by code_simp
  finally show ?thesis .
qed


text \<open>C35. The shared connection refines one line of calls: every step of the executor, with its counter, its list of
  waiters and its connect attempt, is the step of a single queue in order of arrival, from which a call leaves when its
  command ends; the running calls are exactly the first four of that queue and the waiters are the rest.\<close>

theorem executor_refines_line:
  assumes "ssh_reach s" "ssh_step s e s'"
  shows "line_of s' = line_step e (line_of s) \<and>
    running s' = take 4 (served (line_of s')) \<and> waiters s' = drop 4 (served (line_of s'))"
proof -
  have ok: "ssh_ok s" "ssh_ok s'" using ssh_reach_ok assms reach_step by blast+
  from assms(2) have "s' = ssh_apply e s" "enabled e s" by (auto elim: ssh_stepE)
  with ssh_refines_line [OF ok(1)] line_front [OF ok(2)] show ?thesis by (simp add: MAX_CONCURRENT_CHANNELS_def)
qed

theorem executor_refines_line_witness:
  "line_of (ssh_apply (Connected 0) (ssh_apply (Call 7) ssh_init)) = line_step (Connected 0) (line_of (ssh_apply (Call 7) ssh_init))"
proof -
  have "ssh_reach (ssh_apply (Call 7) ssh_init)" by (intro ssh_reach_apply reach_init) code_simp
  moreover have "ssh_step (ssh_apply (Call 7) ssh_init) (Connected 0) (ssh_apply (Connected 0) (ssh_apply (Call 7) ssh_init))"
    by (rule ssh_stepI) code_simp
  ultimately show ?thesis using executor_refines_line by blast
qed





section \<open>The HTTP endpoint\<close>


text \<open>C37. Callers without the token do not interfere: with a validated configuration that does not allow open access
  there is a token, and whatever is sent to the HTTP endpoint, in whatever order, the state behind it (sessions,
  transports, open streams) is what it would be if only the requests that present the token had been sent; every
  other request gets a 404, a 401 or the bare 500.\<close>

theorem strangers_do_not_interfere:
  assumes "loadEnv vu zm src = Inr e" "MCP_TRANSPORT e = ''http''" "\<not> MCP_HTTP_ALLOW_UNAUTHENTICATED e"
    and "\<And>token. MCP_HTTP_BEARER_TOKEN e = Some token \<Longrightarrow> \<forall>x \<in> set xs. no_collision digest token x"
  shows "\<exists>token. MCP_HTTP_BEARER_TOKEN e = Some token \<and> token \<noteq> [] \<and>
    http_state digest (http_options_of (startHttpTransport e)) xs s =
      http_state digest (http_options_of (startHttpTransport e)) (filter (presents token) xs) s \<and>
    (\<forall>x \<in> set xs. \<not> presents token x \<longrightarrow>
      fst (startHttp digest (http_options_of (startHttpTransport e)) x s)
        \<in> {Some (Wrote writeNotFound), Some (Wrote writeUnauthorized), Some Fatal})"
proof -
  obtain token where t: "MCP_HTTP_BEARER_TOKEN e = Some token" "token \<noteq> []"
    using http_has_token [OF assms(1-3)] by blast
  have opts: "bearerToken (http_options_of (startHttpTransport e)) = Some token"
    by (simp add: http_options_of_def startHttpTransport_def t)
  from strangers_ignored [OF opts assms(4) [OF t(1)]] stranger_refused(2) [OF _ _ opts] t assms(4) [OF t(1)]
  show ?thesis by blast
qed

definition http_env :: "string \<Rightarrow> string option" where
  "http_env k = map_of [(''UNRAID_API_URL'', ''http://tower''), (''UNRAID_API_KEY'', ''key''), (''MCP_TRANSPORT'', ''http''),
     (''MCP_HTTP_BEARER_TOKEN'', ''tok'')] k"

definition guess :: http_event where
  "guess = Arrives \<lparr>ar_nowMs = 0, ar_response = 0,
     ar_request = \<lparr>req_method = ''POST'', req_url = Some ''/mcp'', req_authorization = Some ''Bearer guess'', req_session = None, req_chunks = [''{}'']\<rparr>,
     ar_reply = \<lparr>initialized_as = None, threw = False\<rparr>, ar_syntax = False, ar_headersSent = False\<rparr>"

theorem strangers_do_not_interfere_witness:
  "\<exists>e. loadEnv (\<lambda>u. True) (\<lambda>f k. []) http_env = Inr e \<and>
    http_state id (http_options_of (startHttpTransport e)) [guess] http_start = http_start"
proof -
  have "case loadEnv (\<lambda>u. True) (\<lambda>f k. []) http_env of Inl m \<Rightarrow> False
      | Inr e \<Rightarrow> MCP_TRANSPORT e = ''http'' \<and> \<not> MCP_HTTP_ALLOW_UNAUTHENTICATED e \<and> MCP_HTTP_BEARER_TOKEN e = Some ''tok''" by code_simp
  then obtain e where e: "loadEnv (\<lambda>u. True) (\<lambda>f k. []) http_env = Inr e" "MCP_TRANSPORT e = ''http''"
    "\<not> MCP_HTTP_ALLOW_UNAUTHENTICATED e" "MCP_HTTP_BEARER_TOKEN e = Some ''tok''" by (auto split: sum.splits)
  have "\<forall>x \<in> set [guess]. no_collision id token x" for token by (simp add: no_collision_def)
  from strangers_do_not_interfere [OF e(1-3) this, of http_start] e(4)
  have "http_state id (http_options_of (startHttpTransport e)) [guess] http_start =
      http_state id (http_options_of (startHttpTransport e)) (filter (presents ''tok'') [guess]) http_start" by auto
  moreover have "filter (presents ''tok'') [guess] = []" by code_simp
  ultimately show ?thesis using e(1) by (auto simp: http_state_def)
qed


text \<open>C38. Sessions never share a transport and none leaks unseen: however requests, stream ends and sweeps interleave at the
  awaits (the ids that the SDK generates being fresh), every transport ever built is in exactly one place, one session, a
  first request in flight, the closed ones (once), or those whose first request threw; and no request is handed to a
  transport that was closed or lost.\<close>

theorem sessions_accounted:
  assumes "sessions_reach st"
  shows "distinct (map fst (sessions (sc_store st)))
    \<and> mset (transports (sessions (sc_store st))) + mset (closedPairs (sc_store st)) + unborn (sc_pending st) + mset (sc_lost st)
        = mset [0..<session_store.built (sc_store st)]
    \<and> (\<forall>e t st'. sessions_step e st = (HandleRequest t, st') \<longrightarrow>
          t \<notin> set (closedPairs (sc_store st)) \<and> t \<notin> set (sc_lost st))"
  using reach_accounted [OF assms] called_not_closed [OF reach_accounted [OF assms]]
  by (auto simp: accounted_def store_pairs_def)

text \<open>Two sessions are opened at the same time; one is deleted.\<close>

definition two_openings :: "sessions_event list" where
  "two_openings =
     first_request @ [Begins 1 (plain_request ''POST'' None) (JObj [(''method'', JStr ''initialize'')]), Initializes 2 0 ''a'', Connects 1,
       Initializes 3 1 ''b'', HandlingEnds 1 False, Begins 4 (plain_request ''DELETE'' (Some ''a'')) JUndef, HandlingEnds 0 False, HandlingEnds 2 False]"

lemma sessions_run_snoc: "sessions_run (es @ [e]) = snd (sessions_step e (sessions_run es))"
  by (simp add: sessions_run_def)

lemma sessions_run_reach: "sessions_reach (sessions_run es) \<Longrightarrow> unused_id e (sessions_run es) \<Longrightarrow> sessions_reach (sessions_run (es @ [e]))"
  unfolding sessions_run_snoc by (rule sessions_next)

theorem sessions_accounted_witness:
  "mset [1] + mset [0] + {#} + mset [] = mset [0..<(2::nat)] \<and> map fst (sessions (sc_store (sessions_run two_openings))) = [''b'']"
proof -
  have u: "\<forall>k < length two_openings. unused_id (two_openings ! k) (sessions_run (take k two_openings))" by code_simp
  have "sessions_reach (sessions_run (take k two_openings))" if "k \<le> length two_openings" for k
    using that
  proof (induction k)
    case 0
    show ?case by (simp add: sessions_run_def sessions_begin)
  next
    case (Suc k)
    then show ?case using sessions_run_reach [of "take k two_openings" "two_openings ! k"] u
      by (simp add: take_Suc_conv_app_nth)
  qed
  from this [OF order_refl] have "sessions_reach (sessions_run two_openings)" by simp
  note acc = sessions_accounted [OF this]
  have v: "transports (sessions (sc_store (sessions_run two_openings))) = [1] \<and> closedPairs (sc_store (sessions_run two_openings)) = [0]
      \<and> sc_pending (sessions_run two_openings) = [] \<and> sc_lost (sessions_run two_openings) = []
      \<and> session_store.built (sc_store (sessions_run two_openings)) = 2 \<and> map fst (sessions (sc_store (sessions_run two_openings))) = [''b'']"
    by code_simp
  from acc v show ?thesis by (simp del: mset_upt)
qed





text \<open>C40. A start is safe however it ends. The standard output, which the protocol needs, gets nothing except from the doctor
  command; an exit with 0 is the doctor's verdict OK, and any other exit outside the doctor has code 1 and ends with a fatal
  message on the standard error. A process that serves has a validated configuration: positive ports and idle time, an API
  key, a credential for SSH, and for HTTP a token, or else the open endpoint was asked for and a warning was logged.\<close>

theorem start_up_safe:
  assumes "start_process su = (out, x)"
  shows "(isDoctorInvocation (su_argv su) \<or> STDOUT_FD \<notin> output_fd ` set out)
    \<and> (x = Exits 0 \<longrightarrow> isDoctorInvocation (su_argv su) \<and> last out = WritesTo STDOUT_FD (''doctor: OK'' @ nl))
    \<and> (\<forall>n. x = Exits n \<longrightarrow> isDoctorInvocation (su_argv su) \<or>
          n = 1 \<and> (\<exists>m. last out = WritesTo STDERR_FD (''Fatal: '' @ su_stack su m @ nl)))
    \<and> ((\<exists>n. x = Exits n) \<or>
        (\<exists>e. loadEnv (su_validUrl su) (su_zodMessage su) (su_env su) = Inr e
           \<and> 0 < MCP_HTTP_PORT e \<and> 0 < UNRAID_SSH_PORT e \<and> 0 < UNRAID_SSH_IDLE_SECONDS e \<and> UNRAID_API_KEY e \<noteq> []
           \<and> (falsy (UNRAID_SSH_HOST e) \<or> \<not> falsy (UNRAID_SSH_PASSWORD e) \<or> \<not> falsy (UNRAID_SSH_KEY_PATH e))
           \<and> (if MCP_TRANSPORT e = ''http''
              then x = ServesHttp (startHttpTransport e)
                 \<and> (\<not> falsy (MCP_HTTP_BEARER_TOKEN e)
                    \<or> MCP_HTTP_ALLOW_UNAUTHENTICATED e \<and> (\<exists>m. LogsTo (createLogger (LOG_LEVEL e)) ''warn'' m \<in> set out))
              else MCP_TRANSPORT e = ''stdio'' \<and> (\<exists>server. x = ServesStdio server))))"
proof (intro conjI)
  show "isDoctorInvocation (su_argv su) \<or> STDOUT_FD \<notin> output_fd ` set out"
    using start_stdout [OF assms] by (auto simp: STDOUT_FD_def STDERR_FD_def)
  show "x = Exits 0 \<longrightarrow> isDoctorInvocation (su_argv su) \<and> last out = WritesTo STDOUT_FD (''doctor: OK'' @ nl)"
    using start_exit_0 assms by blast
  show "\<forall>n. x = Exits n \<longrightarrow> isDoctorInvocation (su_argv su) \<or>
          n = 1 \<and> (\<exists>m. last out = WritesTo STDERR_FD (''Fatal: '' @ su_stack su m @ nl))"
    using start_failure_told assms by blast
qed (use start_serves [OF assms] validated_env in \<open>fastforce split: if_splits\<close>)

definition small_env :: "string \<Rightarrow> string option" where
  "small_env k = (if k = ''UNRAID_API_URL'' then Some ''http://tower'' else if k = ''UNRAID_API_KEY'' then Some ''key'' else None)"

text \<open>An HTTP start without a token, where the open endpoint is asked for.\<close>

definition open_http_start :: "ambient \<Rightarrow> surroundings" where
  "open_http_start am =
     \<lparr>su_argv = [''node'', ''index.js''],
      su_env = small_env(''MCP_TRANSPORT'' \<mapsto> ''http'', ''MCP_HTTP_ALLOW_UNAUTHENTICATED'' \<mapsto> ''true''),
      su_validUrl = (\<lambda>u. True), su_zodMessage = (\<lambda>f k. []), su_readFile = (\<lambda>f. None), su_readError = id, su_stack = id,
      su_world = constant_world (Inr JNull) (Inl []) ElicitFailed [], su_ambient = am,
      su_connectError = None, su_listenError = None\<rparr>"

theorem start_up_safe_witness:
  "\<forall>am. \<exists>e. snd (start_process (open_http_start am)) = ServesHttp (startHttpTransport e) \<and> falsy (MCP_HTTP_BEARER_TOKEN e)
      \<and> MCP_HTTP_ALLOW_UNAUTHENTICATED e \<and> 0 < MCP_HTTP_PORT e"
proof
  fix am
  let ?env = "loadEnv (\<lambda>u. True) (\<lambda>f k. []) (small_env(''MCP_TRANSPORT'' \<mapsto> ''http'', ''MCP_HTTP_ALLOW_UNAUTHENTICATED'' \<mapsto> ''true''))"
  let ?su = "open_http_start am"
  have su: "loadEnv (su_validUrl ?su) (su_zodMessage ?su) (su_env ?su) = ?env" "\<not> isDoctorInvocation (su_argv ?su)"
    "su_listenError ?su = None"
    by (simp_all add: open_http_start_def isDoctorInvocation_def FIRST_ARGUMENT_INDEX_def)
  have "case ?env of Inl m \<Rightarrow> False | Inr e \<Rightarrow> MCP_TRANSPORT e = ''http'' \<and> falsy (MCP_HTTP_BEARER_TOKEN e) \<and> UNRAID_SSH_HOST e = None"
    by code_simp
  then obtain e where e: "?env = Inr e" "MCP_TRANSPORT e = ''http''" "falsy (MCP_HTTP_BEARER_TOKEN e)" "UNRAID_SSH_HOST e = None"
    by (auto split: sum.splits)
  obtain out x where r: "start_process ?su = (out, x)" by force
  from r have "\<not> (\<exists>n. x = Exits n)"
    by (auto simp: start_process_def main_def su e start_shell_def buildShellExecutor_def main_plan_def start_http_transport_def listen_http_def Let_def)
  with start_up_safe [OF r] r e su show "\<exists>e. snd (start_process ?su) = ServesHttp (startHttpTransport e) \<and> falsy (MCP_HTTP_BEARER_TOKEN e)
      \<and> MCP_HTTP_ALLOW_UNAUTHENTICATED e \<and> 0 < MCP_HTTP_PORT e" by auto
qed

end
